(* ===== verification/Prelude.thy ===== *)
theory Prelude
  imports Main "HOL-Library.Word" "HOL-Library.AList" "HOL-Library.Sublist"
begin

text \<open>
  Shared vocabulary of the development: Go's error values, the calls a component makes to
  the outside world, Go maps, and the functions of Go's packages \<^verbatim>\<open>strings\<close>,
  \<^verbatim>\<open>strconv\<close> and \<^verbatim>\<open>fmt\<close> that the sources under \<^verbatim>\<open>src/\<close> use.

  A Go string is a sequence of bytes and an Isabelle \<^typ>\<open>string\<close> is a list of 8-bit
  characters, so the two agree byte for byte and \<open>length\<close> is Go's \<open>len\<close>.
  Instants are integers (nanoseconds since Go's zero time, so \<open>0\<close> is the value for
  which \<open>IsZero\<close> holds). Counters of type int64 keep their width as \<^typ>\<open>64 word\<close>.
\<close>

named_theorems go_simps \<open>unfolding of the modelled library functions\<close>
named_theorems wf_intros \<open>preservation of well-formedness\<close>

section \<open>Errors and calls to the outside world\<close>

text \<open>
  The reason of an API error is what \<^verbatim>\<open>apierrors.IsNotFound\<close> and its siblings look at;
  they see through \<^verbatim>\<open>fmt.Errorf("...: %w", err)\<close>, so wrapping keeps it. The causes are
  the typed status causes \<^verbatim>\<open>apierrors.HasStatusCause\<close> searches.
\<close>

datatype api_reason =
  NotFound | Conflict | AlreadyExists | Forbidden | InvalidObject | OtherReason

datatype go_error = GoError (err_reason: api_reason) (err_causes: "string list") (err_msg: string)

definition wrap_error :: "string \<Rightarrow> go_error \<Rightarrow> go_error" where
  "wrap_error pre e = GoError (err_reason e) (err_causes e) (pre @ '': '' @ err_msg e)"

definition errorf :: "string \<Rightarrow> go_error" where
  "errorf msg = GoError OtherReason [] msg"

definition IsNotFound :: "go_error \<Rightarrow> bool" where
  "IsNotFound e \<longleftrightarrow> err_reason e = NotFound"

definition IsConflict :: "go_error \<Rightarrow> bool" where
  "IsConflict e \<longleftrightarrow> err_reason e = Conflict"

definition IsAlreadyExists :: "go_error \<Rightarrow> bool" where
  "IsAlreadyExists e \<longleftrightarrow> err_reason e = AlreadyExists"

lemma wrap_error_reason [simp]:
  "IsNotFound (wrap_error p e) = IsNotFound e"
  "IsConflict (wrap_error p e) = IsConflict e"
  "IsAlreadyExists (wrap_error p e) = IsAlreadyExists e"
  by (simp_all add: wrap_error_def IsNotFound_def IsConflict_def IsAlreadyExists_def)

text \<open>
  A call to something outside the sources (an API server, a file system, an HTTP peer)
  takes the state \<open>'w\<close> of the outside world and returns an error or a value and the
  world afterwards. The world is a type parameter everywhere, so a call may fail for any
  reason and may observe anything that happened before it.
\<close>

type_synonym ('w, 'a) call = "'w \<Rightarrow> (go_error + 'a) \<times> 'w"

definition ok :: "'a \<Rightarrow> ('w, 'a) call" where
  "ok x = (\<lambda>w. (Inr x, w))"

definition fail :: "go_error \<Rightarrow> ('w, 'a) call" where
  "fail e = (\<lambda>w. (Inl e, w))"

text \<open>\<open>and_then\<close> is Go's \<^verbatim>\<open>x, err := m(); if err != nil { return err }; rest\<close>.\<close>

definition and_then :: "('w, 'a) call \<Rightarrow> ('a \<Rightarrow> ('w, 'b) call) \<Rightarrow> ('w, 'b) call" where
  "and_then m f = (\<lambda>w. case m w of (Inl e, w') \<Rightarrow> (Inl e, w') | (Inr x, w') \<Rightarrow> f x w')"

text \<open>\<open>try_call\<close> hands the error to the rest of the code instead of returning it.\<close>

definition try_call :: "('w, 'a) call \<Rightarrow> (go_error + 'a \<Rightarrow> ('w, 'b) call) \<Rightarrow> ('w, 'b) call" where
  "try_call m f = (\<lambda>w. case m w of (r, w') \<Rightarrow> f r w')"

definition on_error :: "(go_error \<Rightarrow> go_error) \<Rightarrow> ('w, 'a) call \<Rightarrow> ('w, 'a) call" where
  "on_error g m = (\<lambda>w. case m w of (Inl e, w') \<Rightarrow> (Inl (g e), w') | (Inr x, w') \<Rightarrow> (Inr x, w'))"

text \<open>\<open>each xs f\<close> is a loop whose body returns on the first error.\<close>

fun each :: "'x list \<Rightarrow> ('x \<Rightarrow> ('w, unit) call) \<Rightarrow> ('w, unit) call" where
  "each [] f = ok ()"
| "each (x # xs) f = and_then (f x) (\<lambda>_. each xs f)"

lemma ok_run [simp]: "ok x w = (Inr x, w)"
  by (simp add: ok_def)

lemma fail_run [simp]: "fail e w = (Inl e, w)"
  by (simp add: fail_def)

lemma and_then_run: "and_then m f w = (case m w of (Inl e, w') \<Rightarrow> (Inl e, w') | (Inr x, w') \<Rightarrow> f x w')"
  by (simp add: and_then_def)

lemma and_then_Inr [simp]: "m w = (Inr x, w') \<Longrightarrow> and_then m f w = f x w'"
  by (simp add: and_then_def)

lemma and_then_Inl [simp]: "m w = (Inl e, w') \<Longrightarrow> and_then m f w = (Inl e, w')"
  by (simp add: and_then_def)

lemma try_call_run [simp]: "m w = (r, w') \<Longrightarrow> try_call m f w = f r w'"
  by (simp add: try_call_def)

lemma on_error_Inr [simp]: "m w = (Inr x, w') \<Longrightarrow> on_error g m w = (Inr x, w')"
  by (simp add: on_error_def)

lemma on_error_Inl [simp]: "m w = (Inl e, w') \<Longrightarrow> on_error g m w = (Inl (g e), w')"
  by (simp add: on_error_def)

lemma and_then_ok [simp]: "and_then (ok x) f = f x"
  by (rule ext) simp

lemma and_then_fail [simp]: "and_then (fail e) f = fail e"
  by (rule ext) simp

lemma and_then_assoc: "and_then (and_then m f) g = and_then m (\<lambda>x. and_then (f x) g)"
  by (auto simp: fun_eq_iff and_then_run split: prod.splits sum.splits)

lemma and_then_InrE:
  assumes "and_then m f w = (Inr y, w'')"
  obtains x w' where "m w = (Inr x, w')" and "f x w' = (Inr y, w'')"
  using assms by (auto simp: and_then_def split: prod.splits sum.splits)

lemma each_append: "each (xs @ ys) f = and_then (each xs f) (\<lambda>_. each ys f)"
  by (induction xs) (simp_all add: and_then_assoc)

text \<open>An invariant of the world that every call of a loop keeps is kept by the loop.\<close>

lemma each_invariant:
  assumes "\<And>x w. x \<in> set xs \<Longrightarrow> P w \<Longrightarrow> P (snd (f x w))" and "P w"
  shows "P (snd (each xs f w))"
  using assms
proof (induction xs arbitrary: w)
  case (Cons x xs)
  then have "P (snd (f x w))" by simp
  with Cons show ?case
    by (cases "f x w") (auto simp: and_then_run split: sum.splits)
qed simp

section \<open>Go maps\<close>

text \<open>
  A Go map is an association list with distinct keys. Ranging over a Go map visits the
  entries in an unspecified order; the order of the list is that order, and every theorem
  is about all lists. \<open>go_map\<close> is the contract the components rely on.
\<close>

type_synonym ('k, 'v) gomap = "('k \<times> 'v) list"
type_synonym smap = "(string, string) gomap"

abbreviation wf_map :: "('k, 'v) gomap \<Rightarrow> bool" where
  "wf_map m \<equiv> distinct (map fst m)"

definition gm_get :: "('k, 'v) gomap \<Rightarrow> 'k \<Rightarrow> 'v option" where
  "gm_get m k = map_of m k"

definition gm_set :: "'k \<Rightarrow> 'v \<Rightarrow> ('k, 'v) gomap \<Rightarrow> ('k, 'v) gomap" where
  "gm_set k v m = AList.update k v m"

definition gm_del :: "'k \<Rightarrow> ('k, 'v) gomap \<Rightarrow> ('k, 'v) gomap" where
  "gm_del k m = filter (\<lambda>p. fst p \<noteq> k) m"

text \<open>Reading a missing key of a \<^verbatim>\<open>map[string]string\<close> gives the empty string.\<close>

definition sm_get :: "smap \<Rightarrow> string \<Rightarrow> string" where
  "sm_get m k = (case gm_get m k of None \<Rightarrow> '''' | Some v \<Rightarrow> v)"

locale go_map =
  fixes get :: "'m \<Rightarrow> 'k \<Rightarrow> 'v option"
    and set_key :: "'k \<Rightarrow> 'v \<Rightarrow> 'm \<Rightarrow> 'm"
    and del_key :: "'k \<Rightarrow> 'm \<Rightarrow> 'm"
    and wf :: "'m \<Rightarrow> bool"
  assumes get_set: "get (set_key k v m) k' = (if k' = k then Some v else get m k')"
    and get_del: "get (del_key k m) k' = (if k' = k then None else get m k')"
    and wf_set: "wf m \<Longrightarrow> wf (set_key k v m)"
    and wf_del: "wf m \<Longrightarrow> wf (del_key k m)"
begin

text \<open>Storing a list of entries: the last entry of a key wins, other keys stay.\<close>

lemma fold_set_other:
  "k \<notin> fst ` set kvs \<Longrightarrow> get (fold (\<lambda>(k, v). set_key k v) kvs m) k = get m k"
  by (induction kvs arbitrary: m) (auto simp: get_set)

lemma fold_set_mem:
  "get (fold (\<lambda>(k, v). set_key k v) kvs m) k =
     (case map_of (rev kvs) k of None \<Rightarrow> get m k | Some v \<Rightarrow> Some v)"
proof (induction kvs arbitrary: m)
  case (Cons kv kvs)
  then show ?case
    by (cases kv) (auto simp: get_set map_add_def split: option.splits)
qed simp

lemma fold_set_wf: "wf m \<Longrightarrow> wf (fold (\<lambda>(k, v). set_key k v) kvs m)"
  by (induction kvs arbitrary: m) (auto intro: wf_set)

lemma fold_del:
  "get (fold del_key ks m) k = (if k \<in> set ks then None else get m k)"
  by (induction ks arbitrary: m) (auto simp: get_del)

end

lemma map_of_filter_key: "map_of (filter (\<lambda>p. fst p \<noteq> k) m) k' = (if k' = k then None else map_of m k')"
  by (induction m) auto

interpretation gm: go_map gm_get gm_set gm_del wf_map
  by unfold_locales
    (auto simp: gm_get_def gm_set_def gm_del_def update_conv' distinct_update
      map_of_filter_key intro: distinct_map_filter)

lemma gm_set_new: "k \<notin> fst ` set m \<Longrightarrow> gm_set k v m = m @ [(k, v)]"
  unfolding gm_set_def by (induction m) auto

lemma fold_set_distinct:
  "wf_map (m @ kvs) \<Longrightarrow> fold (\<lambda>(k, x). gm_set k x) kvs m = m @ kvs"
proof (induction kvs arbitrary: m)
  case (Cons kv kvs)
  obtain k v where kv: "kv = (k, v)" by (cases kv)
  from Cons.prems kv have "k \<notin> fst ` set m" by auto
  then have "gm_set k v m = m @ [(k, v)]" by (rule gm_set_new)
  with Cons kv show ?case by simp
qed simp

lemma fst_gm_set: "fst ` set (gm_set k v m) = insert k (fst ` set m)"
  by (simp add: gm_set_def dom_update)

lemma gm_get_None_iff: "gm_get m k = None \<longleftrightarrow> k \<notin> fst ` set m"
  by (simp add: gm_get_def map_of_eq_None_iff)

lemma gm_get_mem: "gm_get m k = Some v \<Longrightarrow> (k, v) \<in> set m"
  by (simp add: gm_get_def map_of_SomeD)

lemma gm_get_wf_iff: "wf_map m \<Longrightarrow> gm_get m k = Some v \<longleftrightarrow> (k, v) \<in> set m"
  by (simp add: gm_get_def)

end
