(* ===== verification/Go_Memory.thy ===== *)
theory Go_Memory
  imports Prelude
begin

text \<open>
  Go values that share memory: pointers, slices and maps refer to cells of a memory that only grows, so
  that copying an object and aliasing it are different things. Types are data; reading a value at its type
  gives its content as a tree and the addresses the content rests on. On top of it stands the contract of
  a deep copy.
\<close>

section \<open>Values, memory, types\<close>

datatype prim = PStr string | PInt int | PBool bool

datatype gv =
    Prim prim
  | NilV
  | Ptr nat
  | Slice nat nat nat
  | MapRef nat
  | Struct "(string \<times> gv) list"

text \<open>
  A cell holds what a pointer points to, the array behind slices or the entries of a map. A slice
  \<open>Slice a i n\<close> is the window of \<open>n\<close> elements from index \<open>i\<close> on.
\<close>

datatype cell = Box gv | Arr "gv list" | Entries "(string \<times> gv) list"

type_synonym mem = "cell list"

definition cell_at :: "mem \<Rightarrow> nat \<Rightarrow> cell option" where
  "cell_at m a = (if a < length m then Some (m ! a) else None)"

definition alloc :: "cell \<Rightarrow> mem \<Rightarrow> nat \<times> mem" where
  "alloc c m = (length m, m @ [c])"

datatype ty = TPrim | TStruct "(string \<times> ty) list" | TSlice ty | TMap ty | TPtr ty

datatype tree = TrPrim prim | TrNil | TrPtr tree | TrSlice "tree list" | TrMap "(string \<times> tree) list" | TrStruct "(string \<times> tree) list"

section \<open>Reading a value\<close>

fun collect_all :: "('x \<Rightarrow> (tree \<times> nat list) option) \<Rightarrow> 'x list \<Rightarrow> (tree list \<times> nat list) option" where
  "collect_all f [] = Some ([], [])"
| "collect_all f (x # xs) =
     (case f x of
        None \<Rightarrow> None
      | Some (t, as) \<Rightarrow> (case collect_all f xs of None \<Rightarrow> None | Some (ts, bs) \<Rightarrow> Some (t # ts, as @ bs)))"

lemma collect_all_cong [fundef_cong]:
  "xs = ys \<Longrightarrow> (\<And>x. x \<in> set ys \<Longrightarrow> f x = g x) \<Longrightarrow> collect_all f xs = collect_all g ys"
  by (induction xs arbitrary: ys) (auto split: option.splits)

definition window :: "gv list \<Rightarrow> nat \<Rightarrow> nat \<Rightarrow> gv list" where
  "window xs i n = take n (drop i xs)"

lemma field_type_size: "(ft, fv) \<in> set (zip fts fvs) \<Longrightarrow> size (snd ft) < size (TStruct fts)"
proof -
  assume "(ft, fv) \<in> set (zip fts fvs)"
  then have "ft \<in> set fts" by (rule set_zip_leftD)
  then show ?thesis by (induction fts) (auto simp: prod.size_gen split: prod.splits)
qed

text \<open>\<open>None\<close> means that the value has not the type, or refers to memory that is not there.\<close>

function read :: "mem \<Rightarrow> ty \<Rightarrow> gv \<Rightarrow> (tree \<times> nat list) option" where
  "read m TPrim v = (case v of Prim p \<Rightarrow> Some (TrPrim p, []) | _ \<Rightarrow> None)"
| "read m (TPtr t) v =
     (case v of
        NilV \<Rightarrow> Some (TrNil, [])
      | Ptr a \<Rightarrow>
          (case cell_at m a of
             Some (Box x) \<Rightarrow> map_option (\<lambda>(r, as). (TrPtr r, a # as)) (read m t x)
           | _ \<Rightarrow> None)
      | _ \<Rightarrow> None)"
| "read m (TSlice t) v =
     (case v of
        NilV \<Rightarrow> Some (TrNil, [])
      | Slice a i n \<Rightarrow>
          (case cell_at m a of
             Some (Arr xs) \<Rightarrow>
               if i + n \<le> length xs then map_option (\<lambda>(rs, as). (TrSlice rs, a # as)) (collect_all (read m t) (window xs i n)) else None
           | _ \<Rightarrow> None)
      | _ \<Rightarrow> None)"
| "read m (TMap t) v =
     (case v of
        NilV \<Rightarrow> Some (TrNil, [])
      | MapRef a \<Rightarrow>
          (case cell_at m a of
             Some (Entries kvs) \<Rightarrow>
               if distinct (map fst kvs)
               then map_option (\<lambda>(rs, as). (TrMap (zip (map fst kvs) rs), a # as)) (collect_all (read m t) (map snd kvs)) else None
           | _ \<Rightarrow> None)
      | _ \<Rightarrow> None)"
| "read m (TStruct fts) v =
     (case v of
        Struct fvs \<Rightarrow>
          if map fst fvs = map fst fts
          then map_option (\<lambda>(rs, as). (TrStruct (zip (map fst fts) rs), as)) (collect_all (\<lambda>(ft, fv). read m (snd ft) (snd fv)) (zip fts fvs))
          else None
      | _ \<Rightarrow> None)"
  by pat_completeness auto

termination
  by (relation "measure (\<lambda>(m, t, v). size t)") (use field_type_size in fastforce)+

text \<open>The cases of a successful read.\<close>

lemma read_TPrim: "read m TPrim v = Some (t, as) \<longleftrightarrow> (\<exists>p. v = Prim p \<and> t = TrPrim p \<and> as = [])"
  by (auto split: gv.splits)

lemma read_TPtr:
  "read m (TPtr ty) v = Some (t, as) \<longleftrightarrow>
     v = NilV \<and> t = TrNil \<and> as = []
     \<or> (\<exists>a x r bs. v = Ptr a \<and> cell_at m a = Some (Box x) \<and> read m ty x = Some (r, bs) \<and> t = TrPtr r \<and> as = a # bs)"
  by (auto split: gv.splits option.splits cell.splits)

lemma read_TSlice:
  "read m (TSlice ty) v = Some (t, as) \<longleftrightarrow>
     v = NilV \<and> t = TrNil \<and> as = []
     \<or> (\<exists>a i n xs rs bs. v = Slice a i n \<and> cell_at m a = Some (Arr xs) \<and> i + n \<le> length xs
          \<and> collect_all (read m ty) (window xs i n) = Some (rs, bs) \<and> t = TrSlice rs \<and> as = a # bs)"
  by (auto split: gv.splits option.splits cell.splits if_splits)

lemma read_TMap:
  "read m (TMap ty) v = Some (t, as) \<longleftrightarrow>
     v = NilV \<and> t = TrNil \<and> as = []
     \<or> (\<exists>a kvs rs bs. v = MapRef a \<and> cell_at m a = Some (Entries kvs) \<and> distinct (map fst kvs)
          \<and> collect_all (read m ty) (map snd kvs) = Some (rs, bs) \<and> t = TrMap (zip (map fst kvs) rs) \<and> as = a # bs)"
  by (auto split: gv.splits option.splits cell.splits if_splits)

lemma read_TStruct:
  "read m (TStruct fts) v = Some (t, as) \<longleftrightarrow>
     (\<exists>fvs rs. v = Struct fvs \<and> map fst fvs = map fst fts
        \<and> collect_all (\<lambda>(ft, fv). read m (snd ft) (snd fv)) (zip fts fvs) = Some (rs, as) \<and> t = TrStruct (zip (map fst fts) rs))"
  by (auto split: gv.splits)

lemmas read_iffs = read_TPrim read_TPtr read_TSlice read_TMap read_TStruct

declare read.simps [simp del]

text \<open>A value rests on allocated memory only, and reads the same wherever that memory is the same.\<close>

lemma collect_all_elem: "collect_all f xs = Some (ts, as) \<Longrightarrow> x \<in> set xs \<Longrightarrow> \<exists>t bs. f x = Some (t, bs) \<and> set bs \<subseteq> set as"
  by (induction xs arbitrary: ts as) (fastforce split: option.splits)+

lemma collect_all_set: "collect_all f xs = Some (ts, as) \<Longrightarrow> a \<in> set as \<Longrightarrow> \<exists>x \<in> set xs. \<exists>t bs. f x = Some (t, bs) \<and> a \<in> set bs"
  by (induction xs arbitrary: ts as) (fastforce split: option.splits)+

lemma collect_all_frame:
  assumes "collect_all f xs = Some (ts, as)"
    and "\<And>x t bs. x \<in> set xs \<Longrightarrow> f x = Some (t, bs) \<Longrightarrow> set bs \<subseteq> set as \<Longrightarrow> g x = Some (t, bs)"
  shows "collect_all g xs = Some (ts, as)"
proof -
  have "g x = f x" if "x \<in> set xs" for x using collect_all_elem [OF assms(1) that] assms(2) [OF that] by auto
  with assms(1) show ?thesis by (simp cong: collect_all_cong)
qed

lemma cell_at_bound: "cell_at m a = Some c \<Longrightarrow> a < length m"
  by (simp add: cell_at_def split: if_splits)

lemma read_footprint: "read m ty v = Some (t, as) \<Longrightarrow> a \<in> set as \<Longrightarrow> a < length m"
proof (induction m ty v arbitrary: t as rule: read.induct)
  case (3 m ty v)
  then show ?case by (fastforce simp: read_iffs dest!: collect_all_set dest: cell_at_bound)
next
  case (4 m ty v)
  then show ?case by (fastforce simp: read_iffs dest!: collect_all_set dest: cell_at_bound)
next
  case (5 m fts v)
  then show ?case by (fastforce simp: read_iffs dest!: collect_all_set)
qed (auto simp: read_iffs dest: cell_at_bound)

lemma read_frame:
  "read m ty v = Some (t, as) \<Longrightarrow> (\<And>a. a \<in> set as \<Longrightarrow> cell_at m' a = cell_at m a) \<Longrightarrow> read m' ty v = Some (t, as)"
proof (induction m ty v arbitrary: t as rule: read.induct)
  case (3 m ty v)
  show ?case
  proof (cases "v = NilV")
    case False
    with "3.prems"(1) obtain a i n xs rs bs where v: "v = Slice a i n" "cell_at m a = Some (Arr xs)" "i + n \<le> length xs"
        "collect_all (read m ty) (window xs i n) = Some (rs, bs)" "t = TrSlice rs" "as = a # bs"
      by (auto simp: read_iffs)
    have "collect_all (read m' ty) (window xs i n) = Some (rs, bs)"
      by (rule collect_all_frame [OF v(4)]) (rule "3.IH" [OF v(1,2) refl v(3)], use "3.prems"(2) v in auto)
    with v "3.prems"(2) [of a] show ?thesis by (simp add: read_iffs)
  qed (use "3.prems"(1) in \<open>simp add: read_iffs\<close>)
next
  case (4 m ty v)
  show ?case
  proof (cases "v = NilV")
    case False
    with "4.prems"(1) obtain a kvs rs bs where v: "v = MapRef a" "cell_at m a = Some (Entries kvs)" "distinct (map fst kvs)"
        "collect_all (read m ty) (map snd kvs) = Some (rs, bs)" "t = TrMap (zip (map fst kvs) rs)" "as = a # bs"
      by (auto simp: read_iffs)
    have "collect_all (read m' ty) (map snd kvs) = Some (rs, bs)"
      by (rule collect_all_frame [OF v(4)]) (rule "4.IH" [OF v(1,2) refl v(3)], use "4.prems"(2) v in auto)
    with v "4.prems"(2) [of a] show ?thesis by (simp add: read_iffs)
  qed (use "4.prems"(1) in \<open>simp add: read_iffs\<close>)
next
  case (5 m fts v)
  then obtain fvs rs where v: "v = Struct fvs" "map fst fvs = map fst fts" "t = TrStruct (zip (map fst fts) rs)"
      "collect_all (\<lambda>(ft, fv). read m (snd ft) (snd fv)) (zip fts fvs) = Some (rs, as)"
    by (auto simp: read_iffs)
  have "collect_all (\<lambda>(ft, fv). read m' (snd ft) (snd fv)) (zip fts fvs) = Some (rs, as)"
  proof (rule collect_all_frame [OF v(4)], clarify)
    fix f ty g x t bs
    assume f: "((f, ty), (g, x)) \<in> set (zip fts fvs)" "read m (snd (f, ty)) (snd (g, x)) = Some (t, bs)" "set bs \<subseteq> set as"
    show "read m' (snd (f, ty)) (snd (g, x)) = Some (t, bs)"
      by (rule "5.IH" [OF v(1,2) f(1) refl f(2)]) (use f(3) "5.prems"(2) in blast)
  qed
  with v show ?case by (simp add: read_iffs)
qed (fastforce simp: read_iffs)+

section \<open>The contract of a deep copy\<close>

text \<open>
  A copier gets a value and returns the copy. The contract: the copy has the same content, the memory that
  was there before is untouched, and the copy rests on new memory alone.
\<close>

type_synonym copier = "gv \<Rightarrow> mem \<Rightarrow> gv \<times> mem"

locale deep_copier =
  fixes ty :: ty and c :: copier
  assumes deep: "read m ty v = Some (t, as) \<Longrightarrow> c v m = (v', m') \<Longrightarrow>
    prefix m m' \<and> (\<exists>bs. read m' ty v' = Some (t, bs) \<and> (\<forall>b \<in> set bs. length m \<le> b))"
begin

text \<open>Whatever is written through the copy, the original does not change, and the other way round.\<close>

lemma separate:
  assumes "read m ty v = Some (t, as)" and "c v m = (v', m')"
  shows "prefix m m' \<and> (\<exists>bs. read m' ty v' = Some (t, bs)
    \<and> (\<forall>m''. (\<forall>a. a \<notin> set bs \<longrightarrow> cell_at m'' a = cell_at m' a) \<longrightarrow> read m'' ty v = Some (t, as))
    \<and> (\<forall>m''. (\<forall>a. a \<notin> set as \<longrightarrow> cell_at m'' a = cell_at m' a) \<longrightarrow> read m'' ty v' = Some (t, bs)))"
proof -
  from deep [OF assms] obtain bs where bs: "prefix m m'" "read m' ty v' = Some (t, bs)" "\<forall>b \<in> set bs. length m \<le> b" by blast
  have apart: "a \<notin> set bs" if "a \<in> set as" for a using read_footprint [OF assms(1) that] bs(3) by fastforce
  have same: "cell_at m' a = cell_at m a" if "a \<in> set as" for a
    using read_footprint [OF assms(1) that] bs(1) by (auto simp: cell_at_def prefix_def nth_append)
  have "read m'' ty v = Some (t, as)" if "\<forall>a. a \<notin> set bs \<longrightarrow> cell_at m'' a = cell_at m' a" for m''
    by (rule read_frame [OF assms(1)]) (use that apart same in simp)
  moreover have "read m'' ty v' = Some (t, bs)" if "\<forall>a. a \<notin> set as \<longrightarrow> cell_at m'' a = cell_at m' a" for m''
    by (rule read_frame [OF bs(2)]) (use that apart in blast)
  ultimately show ?thesis using bs(1,2) by blast
qed

end

section \<open>The statements a generated copy is made of\<close>

text \<open>\<^verbatim>\<open>*out = *in\<close>, alone.\<close>

definition shallow :: copier where
  "shallow v m = (v, m)"

fun copy_all :: "(copier \<times> gv) list \<Rightarrow> mem \<Rightarrow> gv list \<times> mem" where
  "copy_all [] m = ([], m)"
| "copy_all ((c, v) # cvs) m = (case c v m of (v', m1) \<Rightarrow> case copy_all cvs m1 of (vs, m2) \<Rightarrow> (v' # vs, m2))"

text \<open>
  \<^verbatim>\<open>*out = *in\<close> followed by statements for some of the fields. The generator emits the statements in the
  order of the fields.
\<close>

definition step_for :: "(string \<times> copier) list \<Rightarrow> string \<Rightarrow> copier" where
  "step_for steps f = (case map_of steps f of Some c \<Rightarrow> c | None \<Rightarrow> shallow)"

definition copy_struct :: "(string \<times> copier) list \<Rightarrow> copier" where
  "copy_struct steps v m =
     (case v of
        Struct fvs \<Rightarrow> (case copy_all (map (\<lambda>(f, x). (step_for steps f, x)) fvs) m of (vs, m') \<Rightarrow> (Struct (zip (map fst fvs) vs), m'))
      | _ \<Rightarrow> (v, m))"

text \<open>\<^verbatim>\<open>if in.F != nil { *out = make([]T, len(*in)); copy(*out, *in) }\<close>\<close>

definition copy_slice :: copier where
  "copy_slice v m =
     (case v of
        Slice a i n \<Rightarrow>
          (case cell_at m a of
             Some (Arr xs) \<Rightarrow> (case alloc (Arr (window xs i n)) m of (b, m') \<Rightarrow> (Slice b 0 n, m'))
           | _ \<Rightarrow> (v, m))
      | _ \<Rightarrow> (v, m))"

text \<open>The same with a loop that calls \<^verbatim>\<open>DeepCopyInto\<close> on every element.\<close>

definition deep_slice :: "copier \<Rightarrow> copier" where
  "deep_slice c v m =
     (case v of
        Slice a i n \<Rightarrow>
          (case cell_at m a of
             Some (Arr xs) \<Rightarrow>
               (case alloc (Arr (replicate n NilV)) m of (b, m1) \<Rightarrow>
                case copy_all (map (\<lambda>x. (c, x)) (window xs i n)) m1 of (vs, m2) \<Rightarrow>
                  (Slice b 0 n, m2[b := Arr vs]))
           | _ \<Rightarrow> (v, m))
      | _ \<Rightarrow> (v, m))"

text \<open>\<^verbatim>\<open>*out = make(map[string]string, len(*in)); for key, val := range *in { (*out)[key] = val }\<close>\<close>

definition copy_map :: copier where
  "copy_map v m =
     (case v of
        MapRef a \<Rightarrow>
          (case cell_at m a of
             Some (Entries kvs) \<Rightarrow>
               (case alloc (Entries (fold (\<lambda>(k, x). gm_set k x) kvs [])) m of (b, m') \<Rightarrow> (MapRef b, m'))
           | _ \<Rightarrow> (v, m))
      | _ \<Rightarrow> (v, m))"

text \<open>\<^verbatim>\<open>*out = new(T)\<close> followed by \<^verbatim>\<open>**out = **in\<close> or by \<^verbatim>\<open>(*in).DeepCopyInto(*out)\<close>.\<close>

definition new_deep :: "copier \<Rightarrow> copier" where
  "new_deep c v m =
     (case v of
        Ptr a \<Rightarrow>
          (case cell_at m a of
             Some (Box x) \<Rightarrow>
               (case alloc (Box NilV) m of (b, m1) \<Rightarrow>
                case c x m1 of (x', m2) \<Rightarrow> (Ptr b, m2[b := Box x']))
           | _ \<Rightarrow> (v, m))
      | _ \<Rightarrow> (v, m))"

definition new_copy :: copier where
  "new_copy = new_deep shallow"

section \<open>How deep copies are composed\<close>

fun flat :: "ty \<Rightarrow> bool" where
  "flat TPrim = True"
| "flat (TStruct fts) = list_all (\<lambda>(f, t). flat t) fts"
| "flat _ = False"

lemma flat_read: "flat ty \<Longrightarrow> read m ty v = Some (t, as) \<Longrightarrow> as = []"
proof (induction m ty v arbitrary: t as rule: read.induct)
  case (5 m fts v)
  then obtain fvs rs where v: "v = Struct fvs" "map fst fvs = map fst fts"
      "collect_all (\<lambda>(ft, fv). read m (snd ft) (snd fv)) (zip fts fvs) = Some (rs, as)"
    by (auto simp: read_iffs)
  have "a \<notin> set as" for a
  proof
    assume "a \<in> set as"
    then obtain f ty g x r bs where f: "((f, ty), (g, x)) \<in> set (zip fts fvs)" "read m ty x = Some (r, bs)" "a \<in> set bs"
      using collect_all_set [OF v(3)] by fastforce
    have "flat ty" using "5.prems"(1) f(1) by (fastforce simp: list_all_iff dest: set_zip_leftD)
    with "5.IH" [OF v(1,2) f(1) refl] f show False by simp
  qed
  then show ?case by (cases as) auto
qed (auto simp: read_iffs)

lemma read_prefix:
  assumes "read m ty v = Some (t, as)" and "prefix m m'"
  shows "read m' ty v = Some (t, as)"
  by (rule read_frame [OF assms(1)])
    (use assms read_footprint in \<open>fastforce simp: cell_at_def prefix_def nth_append\<close>)

lemma collect_all_map: "collect_all f (map g xs) = collect_all (\<lambda>x. f (g x)) xs"
  by (induction xs) (auto split: option.splits)

lemma collect_all_length: "collect_all f xs = Some (ts, as) \<Longrightarrow> length ts = length xs"
  by (induction xs arbitrary: ts as) (auto split: option.splits)

lemma deep_shallow: "flat ty \<Longrightarrow> deep_copier ty shallow"
  by unfold_locales (auto simp: shallow_def dest: flat_read)

text \<open>A list of values, each copied by a deep copier of its type, one after the other.\<close>

lemma copy_all_deep:
  assumes "\<And>t c. (t, c) \<in> set tcs \<Longrightarrow> deep_copier t c" and "length tcs = length vs"
    and "collect_all (\<lambda>(t, v). read m t v) (zip (map fst tcs) vs) = Some (rs, as)"
    and "copy_all (zip (map snd tcs) vs) m = (vs', m')"
  shows "prefix m m' \<and> length vs' = length vs
    \<and> (\<exists>bs. collect_all (\<lambda>(t, v). read m' t v) (zip (map fst tcs) vs') = Some (rs, bs) \<and> (\<forall>b \<in> set bs. length m \<le> b))"
  using assms(2,1,3,4)
proof (induction tcs vs arbitrary: m rs as vs' rule: list_induct2)
  case (Cons tc tcs v vs)
  obtain t c where tc: "tc = (t, c)" by (cases tc)
  obtain r as1 rs2 as2 where reads: "read m t v = Some (r, as1)" "rs = r # rs2"
      "collect_all (\<lambda>(t, v). read m t v) (zip (map fst tcs) vs) = Some (rs2, as2)"
    using Cons.prems(2) tc by (auto split: option.splits)
  obtain v1 m1 vs2 where runs: "c v m = (v1, m1)" "copy_all (zip (map snd tcs) vs) m1 = (vs2, m')" "vs' = v1 # vs2"
    using Cons.prems(3) tc by (auto split: prod.splits)
  have head: "prefix m m1 \<and> (\<exists>bs. read m1 t v1 = Some (r, bs) \<and> (\<forall>b \<in> set bs. length m \<le> b))"
    using deep_copier.deep [of t c, OF _ reads(1) runs(1)] Cons.prems(1) tc by simp
  then obtain bs where bs: "read m1 t v1 = Some (r, bs)" "\<forall>b \<in> set bs. length m \<le> b" by blast
  have "collect_all (\<lambda>(t, v). read m1 t v) (zip (map fst tcs) vs) = Some (rs2, as2)"
    by (rule collect_all_frame [OF reads(3)]) (clarsimp, erule read_prefix [OF _ conjunct1 [OF head]])
  from Cons.IH [OF _ this runs(2)] Cons.prems(1) obtain cs where tail: "prefix m1 m'" "length vs2 = length vs"
      "collect_all (\<lambda>(t, v). read m' t v) (zip (map fst tcs) vs2) = Some (rs2, cs)" "\<forall>b \<in> set cs. length m1 \<le> b"
    by auto
  have "read m' t v1 = Some (r, bs)" by (rule read_prefix [OF bs(1) tail(1)])
  moreover have "prefix m m'" "\<forall>b \<in> set (bs @ cs). length m \<le> b"
    using head tail(1,4) bs(2) prefix_length_le by (fastforce intro: prefix_order.trans)+
  ultimately show ?case using tail runs(3) reads(2) tc by simp
qed simp

lemma deep_struct:
  assumes "list_all (\<lambda>(f, t). deep_copier t (step_for steps f)) fts"
  shows "deep_copier (TStruct fts) (copy_struct steps)"
proof
  fix m v t as v' m'
  assume "read m (TStruct fts) v = Some (t, as)" and run: "copy_struct steps v m = (v', m')"
  then obtain fvs rs where v: "v = Struct fvs" "map fst fvs = map fst fts" "t = TrStruct (zip (map fst fts) rs)"
      "collect_all (\<lambda>(ft, fv). read m (snd ft) (snd fv)) (zip fts fvs) = Some (rs, as)"
    by (auto simp: read_iffs)
  let ?tcs = "map (\<lambda>(f, t). (t, step_for steps f)) fts"
  have types: "map fst ?tcs = map snd fts" by (simp add: comp_def case_prod_beta)
  have all: "collect_all (\<lambda>(t, v). read m t v) (zip (map fst ?tcs) (map snd xs)) =
      collect_all (\<lambda>(ft, fv). read m (snd ft) (snd fv)) (zip fts xs)" for m xs
    unfolding types zip_map_map collect_all_map by (rule collect_all_cong) auto
  have "map (\<lambda>(f, x). (step_for steps f, x)) fvs = zip (map (step_for steps) (map fst fvs)) (map snd fvs)"
    by (induction fvs) auto
  also have "map (step_for steps) (map fst fvs) = map snd ?tcs" using v(2) by (simp add: comp_def case_prod_beta)
  finally obtain vs where vs: "copy_all (zip (map snd ?tcs) (map snd fvs)) m = (vs, m')" "v' = Struct (zip (map fst fvs) vs)"
    using run v(1) by (auto simp: copy_struct_def split: prod.splits)
  have len: "length fts = length fvs" using v(2) map_eq_imp_length_eq by metis
  have "collect_all (\<lambda>(t, v). read m t v) (zip (map fst ?tcs) (map snd fvs)) = Some (rs, as)"
    using v(4) by (simp only: all)
  moreover have "deep_copier t c" if "(t, c) \<in> set ?tcs" for t c using that assms by (auto simp: list_all_iff)
  ultimately obtain bs where copy: "prefix m m'" "length vs = length fvs"
      "collect_all (\<lambda>(t, v). read m' t v) (zip (map fst ?tcs) vs) = Some (rs, bs)" "\<forall>b \<in> set bs. length m \<le> b"
    using copy_all_deep [of ?tcs "map snd fvs", OF _ _ _ vs(1)] len by auto
  have "vs = map snd (zip (map fst fvs) vs)" using copy(2) by simp
  with copy(3) have "collect_all (\<lambda>(ft, fv). read m' (snd ft) (snd fv)) (zip fts (zip (map fst fvs) vs)) = Some (rs, bs)"
    using all [of m' "zip (map fst fvs) vs"] by simp
  with copy v vs(2) len show "prefix m m' \<and> (\<exists>bs. read m' (TStruct fts) v' = Some (t, bs) \<and> (\<forall>b \<in> set bs. length m \<le> b))"
    by (auto simp: read_iffs)
qed

text \<open>Memory allocated before the parts were copied and filled in afterwards.\<close>

lemma fill_new:
  assumes "prefix (m @ [c0]) m2"
  shows "prefix m (m2[length m := c])" and "cell_at (m2[length m := c]) (length m) = Some c"
    and "a \<noteq> length m \<Longrightarrow> cell_at (m2[length m := c]) a = cell_at m2 a"
  using assms by (auto simp: prefix_def cell_at_def list_update_append)

lemma copy_elems_deep:
  assumes "deep_copier ty c" and "collect_all (read m ty) xs = Some (rs, as)" and "prefix m m1"
    and "copy_all (map (\<lambda>x. (c, x)) xs) m1 = (vs, m2)"
  shows "prefix m1 m2 \<and> length vs = length xs \<and> (\<exists>bs. collect_all (read m2 ty) vs = Some (rs, bs) \<and> (\<forall>b \<in> set bs. length m1 \<le> b))"
proof -
  let ?tcs = "replicate (length xs) (ty, c)"
  have all: "collect_all (\<lambda>(t, v). read w t v) (zip (map fst ?tcs) ys) = collect_all (read w ty) ys" if "length ys = length xs" for w ys
    using that by (simp add: zip_replicate1 collect_all_map)
  have "collect_all (read m1 ty) xs = Some (rs, as)"
    by (rule collect_all_frame [OF assms(2)]) (erule read_prefix [OF _ assms(3)])
  then have r: "collect_all (\<lambda>(t, v). read m1 t v) (zip (map fst ?tcs) xs) = Some (rs, as)" by (simp only: all)
  have "copy_all (zip (map snd ?tcs) xs) m1 = (vs, m2)" using assms(4) by (simp add: zip_replicate1)
  from copy_all_deep [OF _ _ r this] assms(1) show ?thesis using all [of vs m2] by auto
qed

lemma deep_deep_slice:
  assumes "deep_copier ty c"
  shows "deep_copier (TSlice ty) (deep_slice c)"
proof
  fix m v t as v' m'
  assume r: "read m (TSlice ty) v = Some (t, as)" and run: "deep_slice c v m = (v', m')"
  show "prefix m m' \<and> (\<exists>bs. read m' (TSlice ty) v' = Some (t, bs) \<and> (\<forall>b \<in> set bs. length m \<le> b))"
  proof (cases "v = NilV")
    case True
    with r run show ?thesis by (simp add: read_iffs deep_slice_def)
  next
    case False
    with r obtain a i n xs rs bs where v: "v = Slice a i n" "cell_at m a = Some (Arr xs)" "i + n \<le> length xs"
        "collect_all (read m ty) (window xs i n) = Some (rs, bs)" "t = TrSlice rs"
      by (auto simp: read_iffs)
    let ?m1 = "m @ [Arr (replicate n NilV)]"
    obtain vs m2 where c: "copy_all (map (\<lambda>x. (c, x)) (window xs i n)) ?m1 = (vs, m2)" "v' = Slice (length m) 0 n" "m' = m2[length m := Arr vs]"
      using run v(1,2) by (auto simp: deep_slice_def alloc_def split: prod.splits)
    from copy_elems_deep [OF assms v(4) _ c(1)] obtain cs where
      e: "prefix ?m1 m2" "length vs = n" "collect_all (read m2 ty) vs = Some (rs, cs)" "\<forall>b \<in> set cs. length ?m1 \<le> b"
      using v(3) by (auto simp: window_def)
    note new = fill_new [OF e(1)]
    have "collect_all (read m' ty) vs = Some (rs, cs)"
      by (rule collect_all_frame [OF e(3)], erule read_frame) (use e(4) new(3) c(3) in fastforce)
    moreover have "window vs 0 n = vs" using e(2) by (simp add: window_def)
    ultimately show ?thesis
      using c(2,3) new(1,2) e(2,4) v(5) by (auto simp: read_iffs)
  qed
qed

lemma deep_new_deep:
  assumes "deep_copier ty c"
  shows "deep_copier (TPtr ty) (new_deep c)"
proof
  fix m v t as v' m'
  assume r: "read m (TPtr ty) v = Some (t, as)" and run: "new_deep c v m = (v', m')"
  show "prefix m m' \<and> (\<exists>bs. read m' (TPtr ty) v' = Some (t, bs) \<and> (\<forall>b \<in> set bs. length m \<le> b))"
  proof (cases "v = NilV")
    case True
    with r run show ?thesis by (simp add: read_iffs new_deep_def)
  next
    case False
    with r obtain a x q bs where v: "v = Ptr a" "cell_at m a = Some (Box x)" "read m ty x = Some (q, bs)" "t = TrPtr q"
      by (auto simp: read_iffs)
    let ?m1 = "m @ [Box NilV]"
    obtain x' m2 where c: "c x ?m1 = (x', m2)" "v' = Ptr (length m)" "m' = m2[length m := Box x']"
      using run v(1,2) by (auto simp: new_deep_def alloc_def split: prod.splits)
    have "read ?m1 ty x = Some (q, bs)" by (rule read_prefix [OF v(3)]) simp
    from deep_copier.deep [OF assms this c(1)] obtain cs where
      e: "prefix ?m1 m2" "read m2 ty x' = Some (q, cs)" "\<forall>b \<in> set cs. length ?m1 \<le> b"
      by blast
    note new = fill_new [OF e(1)]
    have "read m' ty x' = Some (q, cs)"
      by (rule read_frame [OF e(2)]) (use e(3) new(3) c(3) in fastforce)
    then show ?thesis using c(2,3) new(1,2) e(3) v(4) by (auto simp: read_iffs)
  qed
qed

lemma deep_new_copy: "flat ty \<Longrightarrow> deep_copier (TPtr ty) new_copy"
  unfolding new_copy_def by (intro deep_new_deep deep_shallow)

text \<open>Copying the elements as they are is a deep copy where the elements hold no reference.\<close>

lemma flat_elems: "flat ty \<Longrightarrow> collect_all (read m ty) xs = Some (rs, as) \<Longrightarrow> as = [] \<and> collect_all (read m' ty) xs = Some (rs, [])"
proof -
  assume f: "flat ty" and c: "collect_all (read m ty) xs = Some (rs, as)"
  then have "as = []" using collect_all_set [OF c] flat_read [OF f] by (cases as) fastforce+
  moreover have "collect_all (read m' ty) xs = Some (rs, as)"
    by (rule collect_all_frame [OF c], erule read_frame) (use \<open>as = []\<close> in simp)
  ultimately show ?thesis by simp
qed

lemma cell_at_new: "cell_at (m @ [c]) (length m) = Some c"
  by (simp add: cell_at_def)

lemma deep_copy_slice:
  assumes "flat ty"
  shows "deep_copier (TSlice ty) copy_slice"
proof
  fix m v t as v' m'
  assume r: "read m (TSlice ty) v = Some (t, as)" and run: "copy_slice v m = (v', m')"
  show "prefix m m' \<and> (\<exists>bs. read m' (TSlice ty) v' = Some (t, bs) \<and> (\<forall>b \<in> set bs. length m \<le> b))"
  proof (cases "v = NilV")
    case True
    with r run show ?thesis by (simp add: read_iffs copy_slice_def)
  next
    case False
    with r obtain a i n xs rs bs where v: "v = Slice a i n" "cell_at m a = Some (Arr xs)" "i + n \<le> length xs"
        "collect_all (read m ty) (window xs i n) = Some (rs, bs)" "t = TrSlice rs"
      by (auto simp: read_iffs)
    have c: "v' = Slice (length m) 0 n" "m' = m @ [Arr (window xs i n)]"
      using run v(1,2) by (simp_all add: copy_slice_def alloc_def)
    have "window (window xs i n) 0 n = window xs i n" "n \<le> length (window xs i n)" using v(3) by (simp_all add: window_def)
    then have "read m' (TSlice ty) v' = Some (t, [length m])"
      using flat_elems [OF assms v(4), of m'] c v(5) by (simp add: read_iffs cell_at_new)
    with c show ?thesis by simp
  qed
qed

lemma deep_copy_map:
  assumes "flat ty"
  shows "deep_copier (TMap ty) copy_map"
proof
  fix m v t as v' m'
  assume r: "read m (TMap ty) v = Some (t, as)" and run: "copy_map v m = (v', m')"
  show "prefix m m' \<and> (\<exists>bs. read m' (TMap ty) v' = Some (t, bs) \<and> (\<forall>b \<in> set bs. length m \<le> b))"
  proof (cases "v = NilV")
    case True
    with r run show ?thesis by (simp add: read_iffs copy_map_def)
  next
    case False
    with r obtain a kvs rs bs where v: "v = MapRef a" "cell_at m a = Some (Entries kvs)" "wf_map kvs"
        "collect_all (read m ty) (map snd kvs) = Some (rs, bs)" "t = TrMap (zip (map fst kvs) rs)"
      by (auto simp: read_iffs)
    have c: "v' = MapRef (length m)" "m' = m @ [Entries kvs]"
      using run v(1,2) fold_set_distinct [of "[]" kvs] v(3) by (simp_all add: copy_map_def alloc_def)
    then have "read m' (TMap ty) v' = Some (t, [length m])"
      using flat_elems [OF assms v(4), of m'] v(3,5) by (simp add: read_iffs cell_at_new)
    with c show ?thesis by simp
  qed
qed

text \<open>The steps of a generated copy, to be chosen by the type of the field.\<close>

lemmas deep_intros = deep_shallow deep_copy_slice deep_copy_map deep_new_copy deep_new_deep deep_deep_slice

end
