(* ===== verification/Deep_Copy.thy ===== *)
theory Deep_Copy
  imports Go_Memory
begin

text \<open>
  \<^verbatim>\<open>src/api/v1alpha1/zz_generated.deepcopy.go\<close>: the deep copies of the custom resources, through which the
  client hands out objects of its cache. For every type there is its declaration (\<open>_type\<close>, the fields of
  the Go struct in their order) and the statements of its \<^verbatim>\<open>DeepCopyInto\<close>. A field the copy forgets, as when
  the file was not generated again after a field was added, would share memory with the original.
\<close>

section \<open>Types and copies\<close>

text \<open>
  The types of the Kubernetes libraries and their deep copies are parameters. \<open>third_party_ok\<close> is their
  contract: \<^verbatim>\<open>TypeMeta\<close> and \<^verbatim>\<open>LocalObjectReference\<close> hold strings only, the others are copied deeply by their
  own methods (\<^verbatim>\<open>Time\<close> by \<^verbatim>\<open>(*Time).DeepCopy\<close>, which takes and returns a pointer).
\<close>

record third_party =
  x_type :: "string \<Rightarrow> ty"
  x_copy :: "string \<Rightarrow> copier"

definition third_party_ok :: "third_party \<Rightarrow> bool" where
  "third_party_ok x \<longleftrightarrow>
     flat (x_type x ''TypeMeta'') \<and> flat (x_type x ''LocalObjectReference'')
     \<and> (\<forall>n \<in> {''ObjectMeta'', ''ListMeta'', ''ResourceRequirements'', ''Condition'', ''Quantity''}. deep_copier (x_type x n) (x_copy x n))
     \<and> deep_copier (TPtr (x_type x ''Time'')) (x_copy x ''Time'')"

definition FakeNode_type :: "ty" where
  "FakeNode_type = TStruct [
     (''Name'', TPrim), (''InternalIP'', TPrim), (''KubeletVersion'', TPrim)]"

definition FakeNode_DeepCopyInto :: "copier" where
  "FakeNode_DeepCopyInto = copy_struct []"

definition FakeContainer_type :: "ty" where
  "FakeContainer_type = TStruct [
     (''Name'', TPrim), (''Image'', TPrim)]"

definition FakeContainer_DeepCopyInto :: "copier" where
  "FakeContainer_DeepCopyInto = copy_struct []"

definition FakePod_type :: "ty" where
  "FakePod_type = TStruct [
     (''Name'', TPrim), (''Namespace'', TPrim), (''Replicas'', TPrim), (''Containers'', TSlice FakeContainer_type),
     (''NodeName'', TPrim), (''LogLines'', TSlice TPrim), (''Labels'', TMap TPrim)]"

definition FakePod_DeepCopyInto :: "copier" where
  "FakePod_DeepCopyInto = copy_struct [
     (''Containers'', copy_slice), (''LogLines'', copy_slice), (''Labels'', copy_map)]"

definition FakeSecret_type :: "ty" where
  "FakeSecret_type = TStruct [
     (''Name'', TPrim), (''Namespace'', TPrim), (''Data'', TMap TPrim)]"

definition FakeSecret_DeepCopyInto :: "copier" where
  "FakeSecret_DeepCopyInto = copy_struct [
     (''Data'', copy_map)]"

definition FakeCRD_type :: "ty" where
  "FakeCRD_type = TStruct [
     (''Group'', TPrim), (''Kind'', TPrim), (''Plural'', TPrim), (''Singular'', TPrim), (''ShortNames'', TSlice TPrim),
     (''Versions'', TSlice TPrim), (''Scope'', TPrim)]"

definition FakeCRD_DeepCopyInto :: "copier" where
  "FakeCRD_DeepCopyInto = copy_struct [
     (''ShortNames'', copy_slice), (''Versions'', copy_slice)]"

definition DecoyTarget_type :: "ty" where
  "DecoyTarget_type = TStruct [
     (''Name'', TPrim), (''Namespace'', TPrim)]"

definition DecoyTarget_DeepCopyInto :: "copier" where
  "DecoyTarget_DeepCopyInto = copy_struct []"

definition JoinedPod_type :: "ty" where
  "JoinedPod_type = TStruct [
     (''Name'', TPrim), (''Namespace'', TPrim), (''Redirected'', TPrim)]"

definition JoinedPod_DeepCopyInto :: "copier" where
  "JoinedPod_DeepCopyInto = copy_struct []"

definition PersistenceSpec_type :: "third_party \<Rightarrow> ty" where
  "PersistenceSpec_type x = TStruct [
     (''StorageClassName'', TPtr TPrim), (''Size'', x_type x ''Quantity'')]"

definition PersistenceSpec_DeepCopyInto :: "third_party \<Rightarrow> copier" where
  "PersistenceSpec_DeepCopyInto x = copy_struct [
     (''StorageClassName'', new_copy), (''Size'', x_copy x ''Quantity'')]"

definition IntrusionActivity_type :: "third_party \<Rightarrow> ty" where
  "IntrusionActivity_type x = TStruct [
     (''FirstSeen'', TPtr (x_type x ''Time'')), (''LastSeen'', TPtr (x_type x ''Time'')), (''RequestCount'', TPrim),
     (''LastSourceIP'', TPrim)]"

definition IntrusionActivity_DeepCopyInto :: "third_party \<Rightarrow> copier" where
  "IntrusionActivity_DeepCopyInto x = copy_struct [
     (''FirstSeen'', x_copy x ''Time''), (''LastSeen'', x_copy x ''Time'')]"

definition DecoySpec_type :: "third_party \<Rightarrow> ty" where
  "DecoySpec_type x = TStruct [
     (''KubeletShimImage'', TPrim), (''ExecProfile'', TPrim), (''ExecIsolation'', TPrim), (''KubernetesVersion'', TPrim),
     (''KubeAPIServerImage'', TPrim), (''KineImage'', TPrim), (''Port'', TPrim), (''SANs'', TSlice TPrim),
     (''AuditLevel'', TPrim), (''FakeNodes'', TSlice FakeNode_type), (''FakePods'', TSlice FakePod_type),
     (''FakeSecrets'', TSlice FakeSecret_type), (''Resources'', x_type x ''ResourceRequirements''),
     (''RuntimeClassName'', TPtr TPrim), (''SeedSystemComponents'', TPtr TPrim), (''FakeCRDs'', TSlice FakeCRD_type),
     (''Persistence'', TPtr (PersistenceSpec_type x))]"

definition DecoySpec_DeepCopyInto :: "third_party \<Rightarrow> copier" where
  "DecoySpec_DeepCopyInto x = copy_struct [
     (''SANs'', copy_slice), (''FakeNodes'', copy_slice), (''FakePods'', deep_slice FakePod_DeepCopyInto),
     (''FakeSecrets'', deep_slice FakeSecret_DeepCopyInto), (''Resources'', x_copy x ''ResourceRequirements''),
     (''RuntimeClassName'', new_copy), (''SeedSystemComponents'', new_copy), (''FakeCRDs'', deep_slice FakeCRD_DeepCopyInto),
     (''Persistence'', new_deep (PersistenceSpec_DeepCopyInto x))]"

definition DecoyStatus_type :: "third_party \<Rightarrow> ty" where
  "DecoyStatus_type x = TStruct [
     (''Phase'', TPrim), (''Endpoint'', TPrim), (''CredentialsSecret'', TPrim), (''ObservedGeneration'', TPrim),
     (''JoinedPods'', TSlice JoinedPod_type), (''IntrusionActivity'', TPtr (IntrusionActivity_type x)),
     (''Conditions'', TSlice (x_type x ''Condition''))]"

definition DecoyStatus_DeepCopyInto :: "third_party \<Rightarrow> copier" where
  "DecoyStatus_DeepCopyInto x = copy_struct [
     (''JoinedPods'', copy_slice), (''IntrusionActivity'', new_deep (IntrusionActivity_DeepCopyInto x)),
     (''Conditions'', deep_slice (x_copy x ''Condition''))]"

definition ProviderReference_type :: "third_party \<Rightarrow> ty" where
  "ProviderReference_type x = TStruct [
     (''Type'', TPrim), (''SecretRef'', TPtr (x_type x ''LocalObjectReference''))]"

definition ProviderReference_DeepCopyInto :: "third_party \<Rightarrow> copier" where
  "ProviderReference_DeepCopyInto x = copy_struct [
     (''SecretRef'', new_copy)]"

definition ProviderSpec_type :: "third_party \<Rightarrow> ty" where
  "ProviderSpec_type x = TStruct [
     (''Type'', TPrim), (''Address'', TPrim), (''SecretRef'', TPtr (x_type x ''LocalObjectReference''))]"

definition ProviderSpec_DeepCopyInto :: "third_party \<Rightarrow> copier" where
  "ProviderSpec_DeepCopyInto x = copy_struct [
     (''SecretRef'', new_copy)]"

definition AlertSpec_type :: "third_party \<Rightarrow> ty" where
  "AlertSpec_type x = TStruct [
     (''ProviderRef'', ProviderReference_type x), (''Targets'', TSlice DecoyTarget_type), (''EventTypes'', TSlice TPrim),
     (''IncludeAll'', TPrim), (''ExcludeVerbs'', TSlice TPrim), (''ExcludeResources'', TSlice TPrim)]"

definition AlertSpec_DeepCopyInto :: "third_party \<Rightarrow> copier" where
  "AlertSpec_DeepCopyInto x = copy_struct [
     (''ProviderRef'', ProviderReference_DeepCopyInto x), (''Targets'', copy_slice), (''EventTypes'', copy_slice),
     (''ExcludeVerbs'', copy_slice), (''ExcludeResources'', copy_slice)]"

definition AuditSinkSpec_type :: "third_party \<Rightarrow> ty" where
  "AuditSinkSpec_type x = TStruct [
     (''ProviderRef'', ProviderReference_type x), (''Targets'', TSlice DecoyTarget_type)]"

definition AuditSinkSpec_DeepCopyInto :: "third_party \<Rightarrow> copier" where
  "AuditSinkSpec_DeepCopyInto x = copy_struct [
     (''ProviderRef'', ProviderReference_DeepCopyInto x), (''Targets'', copy_slice)]"

definition Alert_type :: "third_party \<Rightarrow> ty" where
  "Alert_type x = TStruct [
     (''TypeMeta'', x_type x ''TypeMeta''), (''ObjectMeta'', x_type x ''ObjectMeta''), (''Spec'', AlertSpec_type x)]"

definition Alert_DeepCopyInto :: "third_party \<Rightarrow> copier" where
  "Alert_DeepCopyInto x = copy_struct [
     (''TypeMeta'', shallow), (''ObjectMeta'', x_copy x ''ObjectMeta''), (''Spec'', AlertSpec_DeepCopyInto x)]"

definition AlertList_type :: "third_party \<Rightarrow> ty" where
  "AlertList_type x = TStruct [
     (''TypeMeta'', x_type x ''TypeMeta''), (''ListMeta'', x_type x ''ListMeta''), (''Items'', TSlice (Alert_type x))]"

definition AlertList_DeepCopyInto :: "third_party \<Rightarrow> copier" where
  "AlertList_DeepCopyInto x = copy_struct [
     (''TypeMeta'', shallow), (''ListMeta'', x_copy x ''ListMeta''), (''Items'', deep_slice (Alert_DeepCopyInto x))]"

definition AuditSink_type :: "third_party \<Rightarrow> ty" where
  "AuditSink_type x = TStruct [
     (''TypeMeta'', x_type x ''TypeMeta''), (''ObjectMeta'', x_type x ''ObjectMeta''), (''Spec'', AuditSinkSpec_type x)]"

definition AuditSink_DeepCopyInto :: "third_party \<Rightarrow> copier" where
  "AuditSink_DeepCopyInto x = copy_struct [
     (''TypeMeta'', shallow), (''ObjectMeta'', x_copy x ''ObjectMeta''), (''Spec'', AuditSinkSpec_DeepCopyInto x)]"

definition AuditSinkList_type :: "third_party \<Rightarrow> ty" where
  "AuditSinkList_type x = TStruct [
     (''TypeMeta'', x_type x ''TypeMeta''), (''ListMeta'', x_type x ''ListMeta''), (''Items'', TSlice (AuditSink_type x))]"

definition AuditSinkList_DeepCopyInto :: "third_party \<Rightarrow> copier" where
  "AuditSinkList_DeepCopyInto x = copy_struct [
     (''TypeMeta'', shallow), (''ListMeta'', x_copy x ''ListMeta''), (''Items'', deep_slice (AuditSink_DeepCopyInto x))]"

definition Decoy_type :: "third_party \<Rightarrow> ty" where
  "Decoy_type x = TStruct [
     (''TypeMeta'', x_type x ''TypeMeta''), (''ObjectMeta'', x_type x ''ObjectMeta''), (''Spec'', DecoySpec_type x),
     (''Status'', DecoyStatus_type x)]"

definition Decoy_DeepCopyInto :: "third_party \<Rightarrow> copier" where
  "Decoy_DeepCopyInto x = copy_struct [
     (''TypeMeta'', shallow), (''ObjectMeta'', x_copy x ''ObjectMeta''), (''Spec'', DecoySpec_DeepCopyInto x),
     (''Status'', DecoyStatus_DeepCopyInto x)]"

definition DecoyList_type :: "third_party \<Rightarrow> ty" where
  "DecoyList_type x = TStruct [
     (''TypeMeta'', x_type x ''TypeMeta''), (''ListMeta'', x_type x ''ListMeta''), (''Items'', TSlice (Decoy_type x))]"

definition DecoyList_DeepCopyInto :: "third_party \<Rightarrow> copier" where
  "DecoyList_DeepCopyInto x = copy_struct [
     (''TypeMeta'', shallow), (''ListMeta'', x_copy x ''ListMeta''), (''Items'', deep_slice (Decoy_DeepCopyInto x))]"

definition Provider_type :: "third_party \<Rightarrow> ty" where
  "Provider_type x = TStruct [
     (''TypeMeta'', x_type x ''TypeMeta''), (''ObjectMeta'', x_type x ''ObjectMeta''), (''Spec'', ProviderSpec_type x)]"

definition Provider_DeepCopyInto :: "third_party \<Rightarrow> copier" where
  "Provider_DeepCopyInto x = copy_struct [
     (''TypeMeta'', shallow), (''ObjectMeta'', x_copy x ''ObjectMeta''), (''Spec'', ProviderSpec_DeepCopyInto x)]"

definition ProviderList_type :: "third_party \<Rightarrow> ty" where
  "ProviderList_type x = TStruct [
     (''TypeMeta'', x_type x ''TypeMeta''), (''ListMeta'', x_type x ''ListMeta''), (''Items'', TSlice (Provider_type x))]"

definition ProviderList_DeepCopyInto :: "third_party \<Rightarrow> copier" where
  "ProviderList_DeepCopyInto x = copy_struct [
     (''TypeMeta'', shallow), (''ListMeta'', x_copy x ''ListMeta''), (''Items'', deep_slice (Provider_DeepCopyInto x))]"

text \<open>\<^verbatim>\<open>DeepCopy\<close> returns a new object, or nil for nil; \<^verbatim>\<open>DeepCopyObject\<close> the same as an interface.\<close>

definition DeepCopy :: "copier \<Rightarrow> copier" where
  "DeepCopy DeepCopyInto v m = (if v = NilV then (NilV, m) else new_deep DeepCopyInto v m)"

definition DeepCopyObject :: "copier \<Rightarrow> copier" where
  "DeepCopyObject copy v m = (case copy v m of (c, m') \<Rightarrow> if c \<noteq> NilV then (c, m') else (NilV, m'))"

definition FakeNode_DeepCopy :: "copier" where
  "FakeNode_DeepCopy = DeepCopy FakeNode_DeepCopyInto"

definition FakeContainer_DeepCopy :: "copier" where
  "FakeContainer_DeepCopy = DeepCopy FakeContainer_DeepCopyInto"

definition FakePod_DeepCopy :: "copier" where
  "FakePod_DeepCopy = DeepCopy FakePod_DeepCopyInto"

definition FakeSecret_DeepCopy :: "copier" where
  "FakeSecret_DeepCopy = DeepCopy FakeSecret_DeepCopyInto"

definition FakeCRD_DeepCopy :: "copier" where
  "FakeCRD_DeepCopy = DeepCopy FakeCRD_DeepCopyInto"

definition DecoyTarget_DeepCopy :: "copier" where
  "DecoyTarget_DeepCopy = DeepCopy DecoyTarget_DeepCopyInto"

definition JoinedPod_DeepCopy :: "copier" where
  "JoinedPod_DeepCopy = DeepCopy JoinedPod_DeepCopyInto"

definition PersistenceSpec_DeepCopy :: "third_party \<Rightarrow> copier" where
  "PersistenceSpec_DeepCopy x = DeepCopy (PersistenceSpec_DeepCopyInto x)"

definition IntrusionActivity_DeepCopy :: "third_party \<Rightarrow> copier" where
  "IntrusionActivity_DeepCopy x = DeepCopy (IntrusionActivity_DeepCopyInto x)"

definition DecoySpec_DeepCopy :: "third_party \<Rightarrow> copier" where
  "DecoySpec_DeepCopy x = DeepCopy (DecoySpec_DeepCopyInto x)"

definition DecoyStatus_DeepCopy :: "third_party \<Rightarrow> copier" where
  "DecoyStatus_DeepCopy x = DeepCopy (DecoyStatus_DeepCopyInto x)"

definition ProviderReference_DeepCopy :: "third_party \<Rightarrow> copier" where
  "ProviderReference_DeepCopy x = DeepCopy (ProviderReference_DeepCopyInto x)"

definition ProviderSpec_DeepCopy :: "third_party \<Rightarrow> copier" where
  "ProviderSpec_DeepCopy x = DeepCopy (ProviderSpec_DeepCopyInto x)"

definition AlertSpec_DeepCopy :: "third_party \<Rightarrow> copier" where
  "AlertSpec_DeepCopy x = DeepCopy (AlertSpec_DeepCopyInto x)"

definition AuditSinkSpec_DeepCopy :: "third_party \<Rightarrow> copier" where
  "AuditSinkSpec_DeepCopy x = DeepCopy (AuditSinkSpec_DeepCopyInto x)"

definition Alert_DeepCopy :: "third_party \<Rightarrow> copier" where
  "Alert_DeepCopy x = DeepCopy (Alert_DeepCopyInto x)"

definition AlertList_DeepCopy :: "third_party \<Rightarrow> copier" where
  "AlertList_DeepCopy x = DeepCopy (AlertList_DeepCopyInto x)"

definition AuditSink_DeepCopy :: "third_party \<Rightarrow> copier" where
  "AuditSink_DeepCopy x = DeepCopy (AuditSink_DeepCopyInto x)"

definition AuditSinkList_DeepCopy :: "third_party \<Rightarrow> copier" where
  "AuditSinkList_DeepCopy x = DeepCopy (AuditSinkList_DeepCopyInto x)"

definition Decoy_DeepCopy :: "third_party \<Rightarrow> copier" where
  "Decoy_DeepCopy x = DeepCopy (Decoy_DeepCopyInto x)"

definition DecoyList_DeepCopy :: "third_party \<Rightarrow> copier" where
  "DecoyList_DeepCopy x = DeepCopy (DecoyList_DeepCopyInto x)"

definition Provider_DeepCopy :: "third_party \<Rightarrow> copier" where
  "Provider_DeepCopy x = DeepCopy (Provider_DeepCopyInto x)"

definition ProviderList_DeepCopy :: "third_party \<Rightarrow> copier" where
  "ProviderList_DeepCopy x = DeepCopy (ProviderList_DeepCopyInto x)"

definition Alert_DeepCopyObject :: "third_party \<Rightarrow> copier" where
  "Alert_DeepCopyObject x = DeepCopyObject (Alert_DeepCopy x)"

definition AlertList_DeepCopyObject :: "third_party \<Rightarrow> copier" where
  "AlertList_DeepCopyObject x = DeepCopyObject (AlertList_DeepCopy x)"

definition AuditSink_DeepCopyObject :: "third_party \<Rightarrow> copier" where
  "AuditSink_DeepCopyObject x = DeepCopyObject (AuditSink_DeepCopy x)"

definition AuditSinkList_DeepCopyObject :: "third_party \<Rightarrow> copier" where
  "AuditSinkList_DeepCopyObject x = DeepCopyObject (AuditSinkList_DeepCopy x)"

definition Decoy_DeepCopyObject :: "third_party \<Rightarrow> copier" where
  "Decoy_DeepCopyObject x = DeepCopyObject (Decoy_DeepCopy x)"

definition DecoyList_DeepCopyObject :: "third_party \<Rightarrow> copier" where
  "DecoyList_DeepCopyObject x = DeepCopyObject (DecoyList_DeepCopy x)"

definition Provider_DeepCopyObject :: "third_party \<Rightarrow> copier" where
  "Provider_DeepCopyObject x = DeepCopyObject (Provider_DeepCopy x)"

definition ProviderList_DeepCopyObject :: "third_party \<Rightarrow> copier" where
  "ProviderList_DeepCopyObject x = DeepCopyObject (ProviderList_DeepCopy x)"

text \<open>The types every file registers with the scheme when the package is initialised, and the builder that puts
  them under their group and version. Go initialises the files of a package in the order of their names.\<close>

definition GroupVersion :: "string \<times> string" where
  "GroupVersion = (''honeypod.io'', ''v1alpha1'')"

definition Decoy_init :: "third_party \<Rightarrow> (string \<times> ty \<times> copier) list" where
  "Decoy_init x = [(''Decoy'', Decoy_type x, Decoy_DeepCopyObject x), (''DecoyList'', DecoyList_type x, DecoyList_DeepCopyObject x)]"

definition Alert_init :: "third_party \<Rightarrow> (string \<times> ty \<times> copier) list" where
  "Alert_init x = [(''Alert'', Alert_type x, Alert_DeepCopyObject x), (''AlertList'', AlertList_type x, AlertList_DeepCopyObject x)]"

definition AuditSink_init :: "third_party \<Rightarrow> (string \<times> ty \<times> copier) list" where
  "AuditSink_init x = [(''AuditSink'', AuditSink_type x, AuditSink_DeepCopyObject x), (''AuditSinkList'', AuditSinkList_type x, AuditSinkList_DeepCopyObject x)]"

definition Provider_init :: "third_party \<Rightarrow> (string \<times> ty \<times> copier) list" where
  "Provider_init x = [(''Provider'', Provider_type x, Provider_DeepCopyObject x), (''ProviderList'', ProviderList_type x, ProviderList_DeepCopyObject x)]"

definition SchemeBuilder :: "third_party \<Rightarrow> ((string \<times> string) \<times> string \<times> ty \<times> copier) list" where
  "SchemeBuilder x = map (\<lambda>k. (GroupVersion, k)) (Alert_init x @ AuditSink_init x @ Decoy_init x @ Provider_init x)"

section \<open>Every copy is deep\<close>

text \<open>Types that hold no reference may be copied by assignment.\<close>

lemma flat_types [simp]:
  "flat FakeNode_type" "flat FakeContainer_type" "flat DecoyTarget_type" "flat JoinedPod_type"
  by (simp_all add: FakeNode_type_def FakeContainer_type_def DecoyTarget_type_def JoinedPod_type_def)

interpretation fakePod: deep_copier FakePod_type FakePod_DeepCopyInto
  unfolding FakePod_type_def FakePod_DeepCopyInto_def
  by (rule deep_struct) (simp add: step_for_def deep_intros)

interpretation fakeSecret: deep_copier FakeSecret_type FakeSecret_DeepCopyInto
  unfolding FakeSecret_type_def FakeSecret_DeepCopyInto_def
  by (rule deep_struct) (simp add: step_for_def deep_intros)

interpretation fakeCRD: deep_copier FakeCRD_type FakeCRD_DeepCopyInto
  unfolding FakeCRD_type_def FakeCRD_DeepCopyInto_def
  by (rule deep_struct) (simp add: step_for_def deep_intros)

lemma third_party_deep:
  assumes "third_party_ok x"
  shows "flat (x_type x ''TypeMeta'')" "flat (x_type x ''LocalObjectReference'')"
    "deep_copier (x_type x ''ObjectMeta'') (x_copy x ''ObjectMeta'')" "deep_copier (x_type x ''ListMeta'') (x_copy x ''ListMeta'')"
    "deep_copier (x_type x ''ResourceRequirements'') (x_copy x ''ResourceRequirements'')"
    "deep_copier (x_type x ''Condition'') (x_copy x ''Condition'')" "deep_copier (x_type x ''Quantity'') (x_copy x ''Quantity'')"
    "deep_copier (TPtr (x_type x ''Time'')) (x_copy x ''Time'')"
  using assms by (simp_all add: third_party_ok_def)

lemma spec_parts_deep:
  assumes "third_party_ok x"
  shows "deep_copier (PersistenceSpec_type x) (PersistenceSpec_DeepCopyInto x)"
    and "deep_copier (IntrusionActivity_type x) (IntrusionActivity_DeepCopyInto x)"
    and "deep_copier (ProviderReference_type x) (ProviderReference_DeepCopyInto x)"
  unfolding PersistenceSpec_type_def IntrusionActivity_type_def ProviderReference_type_def
    PersistenceSpec_DeepCopyInto_def IntrusionActivity_DeepCopyInto_def ProviderReference_DeepCopyInto_def
  by (rule deep_struct, simp add: step_for_def deep_intros third_party_deep [OF assms])+

lemma specs_deep:
  assumes "third_party_ok x"
  shows "deep_copier (DecoySpec_type x) (DecoySpec_DeepCopyInto x)"
    and "deep_copier (DecoyStatus_type x) (DecoyStatus_DeepCopyInto x)"
    and "deep_copier (AlertSpec_type x) (AlertSpec_DeepCopyInto x)"
    and "deep_copier (AuditSinkSpec_type x) (AuditSinkSpec_DeepCopyInto x)"
    and "deep_copier (ProviderSpec_type x) (ProviderSpec_DeepCopyInto x)"
  unfolding DecoySpec_type_def DecoyStatus_type_def AlertSpec_type_def AuditSinkSpec_type_def ProviderSpec_type_def
    DecoySpec_DeepCopyInto_def DecoyStatus_DeepCopyInto_def AlertSpec_DeepCopyInto_def AuditSinkSpec_DeepCopyInto_def
    ProviderSpec_DeepCopyInto_def
  by (rule deep_struct, simp add: step_for_def deep_intros third_party_deep [OF assms] spec_parts_deep [OF assms]
      fakePod.deep_copier_axioms fakeSecret.deep_copier_axioms fakeCRD.deep_copier_axioms)+

lemma kinds_deep:
  assumes "third_party_ok x"
  shows "deep_copier (Decoy_type x) (Decoy_DeepCopyInto x)" and "deep_copier (Alert_type x) (Alert_DeepCopyInto x)"
    and "deep_copier (AuditSink_type x) (AuditSink_DeepCopyInto x)" and "deep_copier (Provider_type x) (Provider_DeepCopyInto x)"
  unfolding Decoy_type_def Alert_type_def AuditSink_type_def Provider_type_def
    Decoy_DeepCopyInto_def Alert_DeepCopyInto_def AuditSink_DeepCopyInto_def Provider_DeepCopyInto_def
  by (rule deep_struct, simp add: step_for_def deep_intros third_party_deep [OF assms] specs_deep [OF assms])+

lemma lists_deep:
  assumes "third_party_ok x"
  shows "deep_copier (DecoyList_type x) (DecoyList_DeepCopyInto x)" and "deep_copier (AlertList_type x) (AlertList_DeepCopyInto x)"
    and "deep_copier (AuditSinkList_type x) (AuditSinkList_DeepCopyInto x)" and "deep_copier (ProviderList_type x) (ProviderList_DeepCopyInto x)"
  unfolding DecoyList_type_def AlertList_type_def AuditSinkList_type_def ProviderList_type_def
    DecoyList_DeepCopyInto_def AlertList_DeepCopyInto_def AuditSinkList_DeepCopyInto_def ProviderList_DeepCopyInto_def
  by (rule deep_struct, simp add: step_for_def deep_intros third_party_deep [OF assms] kinds_deep [OF assms])+

lemma DeepCopyObject_eq: "DeepCopyObject (DeepCopy c) = new_deep c"
  by (rule ext)+ (auto simp: DeepCopyObject_def DeepCopy_def new_deep_def split: prod.splits gv.splits cell.splits option.splits)

lemmas init_defs = Alert_init_def AuditSink_init_def Decoy_init_def Provider_init_def

lemmas object_defs = Decoy_DeepCopyObject_def DecoyList_DeepCopyObject_def Alert_DeepCopyObject_def
  AlertList_DeepCopyObject_def AuditSink_DeepCopyObject_def AuditSinkList_DeepCopyObject_def
  Provider_DeepCopyObject_def ProviderList_DeepCopyObject_def Decoy_DeepCopy_def DecoyList_DeepCopy_def Alert_DeepCopy_def
  AlertList_DeepCopy_def AuditSink_DeepCopy_def AuditSinkList_DeepCopy_def Provider_DeepCopy_def ProviderList_DeepCopy_def

lemma registered_deep:
  assumes "third_party_ok x" and "(gvn, k, ty, copy) \<in> set (SchemeBuilder x)"
  shows "deep_copier (TPtr ty) copy"
proof -
  have "deep_copier ty c \<Longrightarrow> deep_copier (TPtr ty) (DeepCopyObject (DeepCopy c))" for ty c
    unfolding DeepCopyObject_eq by (rule deep_new_deep)
  with assms(2) kinds_deep [OF assms(1)] lists_deep [OF assms(1)] show ?thesis
    by (auto simp: SchemeBuilder_def init_defs object_defs)
qed

section \<open>Properties\<close>

text \<open>
  C14 The copy of an object of any registered kind is independent of the original: it has the same content,
  copying changes nothing that was there, and from then on whatever is written to memory the copy uses
  leaves the original as it was, and whatever is written to memory the original uses leaves the copy.
\<close>

theorem deep_copies_independent:
  assumes "third_party_ok x" and "(gvn, k, ty, copy) \<in> set (SchemeBuilder x)"
    and "read m (TPtr ty) v = Some (t, as)" and "copy v m = (v', m')"
  shows "prefix m m' \<and> (\<exists>bs. read m' (TPtr ty) v' = Some (t, bs)
    \<and> (\<forall>m''. (\<forall>a. a \<notin> set bs \<longrightarrow> cell_at m'' a = cell_at m' a) \<longrightarrow> read m'' (TPtr ty) v = Some (t, as))
    \<and> (\<forall>m''. (\<forall>a. a \<notin> set as \<longrightarrow> cell_at m'' a = cell_at m' a) \<longrightarrow> read m'' (TPtr ty) v' = Some (t, bs)))"
proof -
  have "deep_copier (TPtr ty) copy"
    using assms(1,2) by (rule registered_deep)
  from deep_copier.separate [OF this assms(3,4)] show ?thesis .
qed

text \<open>A provider that refers to a Secret, with library types that hold strings only.\<close>

definition ex_third_party :: third_party where
  "ex_third_party =
     \<lparr>x_type = (\<lambda>n. TStruct [(''Name'', TPrim)]), x_copy = (\<lambda>n. if n = ''Time'' then new_copy else shallow)\<rparr>"

definition ex_meta :: gv where
  "ex_meta = Struct [(''Name'', Prim (PStr ''alerts''))]"

definition ex_provider_mem :: mem where
  "ex_provider_mem =
     [Box (Struct [(''TypeMeta'', ex_meta), (''ObjectMeta'', ex_meta),
        (''Spec'', Struct [(''Type'', Prim (PStr ''discord'')), (''Address'', Prim (PStr '''')), (''SecretRef'', Ptr 1)])]),
      Box ex_meta]"

lemma ex_third_party_ok: "third_party_ok ex_third_party"
  by (simp add: third_party_ok_def ex_third_party_def deep_intros)

lemma ex_provider_reads: "\<exists>t. read ex_provider_mem (TPtr (Provider_type ex_third_party)) (Ptr 0) = Some (t, [0, 1])"
  by (simp add: read.simps ex_provider_mem_def ex_meta_def Provider_type_def ProviderSpec_type_def ex_third_party_def cell_at_def)

theorem deep_copies_independent_witness:
  "\<exists>t v' m'. Provider_DeepCopyObject ex_third_party (Ptr 0) ex_provider_mem = (v', m')
     \<and> read m' (TPtr (Provider_type ex_third_party)) v' = Some (t, [2, 3])
     \<and> read (m'[3 := Box (Struct [(''Name'', Prim (PStr ''other''))])]) (TPtr (Provider_type ex_third_party)) (Ptr 0) = Some (t, [0, 1])"
proof -
  obtain t where t: "read ex_provider_mem (TPtr (Provider_type ex_third_party)) (Ptr 0) = Some (t, [0, 1])"
    using ex_provider_reads by blast
  obtain v' m' where c: "Provider_DeepCopyObject ex_third_party (Ptr 0) ex_provider_mem = (v', m')" by fastforce
  have "(GroupVersion, ''Provider'', Provider_type ex_third_party, Provider_DeepCopyObject ex_third_party) \<in> set (SchemeBuilder ex_third_party)"
    by (simp add: SchemeBuilder_def init_defs)
  from deep_copies_independent [OF ex_third_party_ok this t c] obtain bs where
    bs: "read m' (TPtr (Provider_type ex_third_party)) v' = Some (t, bs)"
      "\<And>m''. (\<forall>a. a \<notin> set bs \<longrightarrow> cell_at m'' a = cell_at m' a) \<Longrightarrow> read m'' (TPtr (Provider_type ex_third_party)) (Ptr 0) = Some (t, [0, 1])"
    by blast
  have "bs = [2, 3]"
    using bs(1) c by (auto simp: object_defs DeepCopyObject_eq new_deep_def alloc_def
        ex_provider_mem_def ex_meta_def cell_at_def Provider_DeepCopyInto_def ProviderSpec_DeepCopyInto_def copy_struct_def
        step_for_def shallow_def ex_third_party_def new_copy_def read.simps Provider_type_def ProviderSpec_type_def)
  with bs(1) c bs(2) [of "m'[3 := Box (Struct [(''Name'', Prim (PStr ''other''))])]"] show ?thesis
    by (auto simp: cell_at_def)
qed

end
