(* ===== verification/Go_Strings.thy ===== *)
theory Go_Strings
  imports Prelude
begin

text \<open>
  The functions of Go's \<^verbatim>\<open>strings\<close>, \<^verbatim>\<open>strconv\<close> and \<^verbatim>\<open>fmt\<close> packages that the sources
  call, on byte strings, with the facts about them the components share.
\<close>

section \<open>Searching and cutting\<close>

definition HasPrefix :: "string \<Rightarrow> string \<Rightarrow> bool" where
  "HasPrefix s p \<longleftrightarrow> take (length p) s = p"

definition HasSuffix :: "string \<Rightarrow> string \<Rightarrow> bool" where
  "HasSuffix s x \<longleftrightarrow> HasPrefix (rev s) (rev x)"

definition TrimSuffix :: "string \<Rightarrow> string \<Rightarrow> string" where
  "TrimSuffix s x = (if HasSuffix s x then take (length s - length x) s else s)"

text \<open>\<^verbatim>\<open>strings.Cut(s, sep)\<close> for a separator of one byte: before, after, found.\<close>

definition Cut :: "string \<Rightarrow> char \<Rightarrow> string \<times> string \<times> bool" where
  "Cut s c = (if c \<in> set s then (takeWhile (\<lambda>x. x \<noteq> c) s, tl (dropWhile (\<lambda>x. x \<noteq> c) s), True)
              else (s, '''', False))"

text \<open>\<^verbatim>\<open>strings.SplitN(s, sep, 2)\<close> for a separator of one byte.\<close>

definition SplitN2 :: "string \<Rightarrow> char \<Rightarrow> string list" where
  "SplitN2 s c = (case Cut s c of (a, b, found) \<Rightarrow> if found then [a, b] else [s])"

text \<open>\<^verbatim>\<open>strings.Split\<close> by a separator of one character.\<close>

fun Split :: "string \<Rightarrow> char \<Rightarrow> string list" where
  "Split [] c = [[]]"
| "Split (x # xs) c =
     (if x = c then [] # Split xs c else case Split xs c of [] \<Rightarrow> [[x]] | s # ss \<Rightarrow> (x # s) # ss)"

fun Contains :: "string \<Rightarrow> string \<Rightarrow> bool" where
  "Contains [] x = (x = [])"
| "Contains (c # s) x = (HasPrefix (c # s) x \<or> Contains s x)"

definition TrimRight :: "string \<Rightarrow> string \<Rightarrow> string" where
  "TrimRight s cutset = rev (dropWhile (\<lambda>c. c \<in> set cutset) (rev s))"

definition TrimLeft :: "string \<Rightarrow> string \<Rightarrow> string" where
  "TrimLeft s cutset = dropWhile (\<lambda>c. c \<in> set cutset) s"

definition Trim :: "string \<Rightarrow> string \<Rightarrow> string" where
  "Trim s cutset = TrimRight (TrimLeft s cutset) cutset"

fun Join :: "string list \<Rightarrow> string \<Rightarrow> string" where
  "Join [] sep = ''''"
| "Join [x] sep = x"
| "Join (x # y # xs) sep = x @ sep @ Join (y # xs) sep"

text \<open>The UTF-8 encodings of the code points with Unicode's property White\_Space.\<close>

definition white_space :: "string list" where
  "white_space =
     [[CHR 0x09], [CHR 0x0A], [CHR 0x0B], [CHR 0x0C], [CHR 0x0D], [CHR 0x20],
      [CHR 0xC2, CHR 0x85], [CHR 0xC2, CHR 0xA0], [CHR 0xE1, CHR 0x9A, CHR 0x80]]
     @ map (\<lambda>n. [CHR 0xE2, CHR 0x80, char_of (0x80 + n)]) [0::nat..<11]
     @ [[CHR 0xE2, CHR 0x80, CHR 0xA8], [CHR 0xE2, CHR 0x80, CHR 0xA9],
        [CHR 0xE2, CHR 0x80, CHR 0xAF], [CHR 0xE2, CHR 0x81, CHR 0x9F],
        [CHR 0xE3, CHR 0x80, CHR 0x80]]"

function drop_units :: "string list \<Rightarrow> string \<Rightarrow> string" where
  "drop_units us s =
     (case find (\<lambda>u. u \<noteq> [] \<and> HasPrefix s u) us of
        None \<Rightarrow> s
      | Some u \<Rightarrow> drop_units us (drop (length u) s))"
  by pat_completeness auto
termination
proof (relation "measure (\<lambda>(us, s). length s)")
  fix us :: "string list" and s u :: string
  assume "find (\<lambda>u. u \<noteq> [] \<and> HasPrefix s u) us = Some u"
  then have "u \<noteq> [] \<and> HasPrefix s u" by (auto simp: find_Some_iff)
  then have "s \<noteq> [] \<and> u \<noteq> []" by (cases s) (auto simp: HasPrefix_def)
  then show "((us, drop (length u) s), us, s) \<in> measure (\<lambda>(us, s). length s)" by simp
qed simp

declare drop_units.simps [simp del]

definition TrimSpace :: "string \<Rightarrow> string" where
  "TrimSpace s = rev (drop_units (map rev white_space) (rev (drop_units white_space s)))"

section \<open>Numbers\<close>

fun nat_digits :: "nat \<Rightarrow> string" where
  "nat_digits n =
     (if n < 10 then [char_of (48 + n)] else nat_digits (n div 10) @ [char_of (48 + n mod 10)])"

declare nat_digits.simps [simp del]

text \<open>\<^verbatim>\<open>strconv.Itoa\<close>, \<^verbatim>\<open>strconv.FormatInt(_, 10)\<close> and the verb \<^verbatim>\<open>%d\<close>.\<close>

definition Itoa :: "int \<Rightarrow> string" where
  "Itoa n = (if n < 0 then CHR ''-'' # nat_digits (nat (- n)) else nat_digits (nat n))"

definition hex_digit :: "nat \<Rightarrow> char" where
  "hex_digit n = (if n < 10 then char_of (48 + n) else char_of (87 + n))"

text \<open>\<^verbatim>\<open>hex.EncodeToString\<close>: two lower-case digits per byte.\<close>

definition hex_byte :: "char \<Rightarrow> string" where
  "hex_byte c = [hex_digit (of_char c div 16), hex_digit (of_char c mod 16)]"

definition hex_encode :: "string \<Rightarrow> string" where
  "hex_encode s = concat (map hex_byte s)"

section \<open>Quoting\<close>

text \<open>
  The verb \<^verbatim>\<open>%q\<close> (\<^verbatim>\<open>strconv.Quote\<close>): double quotes around the text, with quotes,
  backslashes and control characters escaped. Bytes from 0x80 on belong to multi-byte
  code points; printable ones are copied as they are, which is the case kept here.
\<close>

definition quote_byte :: "char \<Rightarrow> string" where
  "quote_byte c =
     (let n = (of_char c :: nat) in
      if c = CHR 0x22 then [CHR 0x5C, CHR 0x22]
      else if c = CHR 0x5C then [CHR 0x5C, CHR 0x5C]
      else if n = 7 then CHR 0x5C # ''a''
      else if n = 8 then CHR 0x5C # ''b''
      else if n = 12 then CHR 0x5C # ''f''
      else if n = 10 then CHR 0x5C # ''n''
      else if n = 13 then CHR 0x5C # ''r''
      else if n = 9 then CHR 0x5C # ''t''
      else if n = 11 then CHR 0x5C # ''v''
      else if n < 32 \<or> n = 127 then CHR 0x5C # ''x'' @ hex_byte c
      else [c])"

definition Quote :: "string \<Rightarrow> string" where
  "Quote s = [CHR 0x22] @ concat (map quote_byte s) @ [CHR 0x22]"

section \<open>Facts\<close>

abbreviation newline :: char where
  "newline \<equiv> CHR 0x0A"

lemma HasPrefix_append [simp]: "HasPrefix (p @ s) p"
  by (simp add: HasPrefix_def)

lemma HasPrefix_prefix: "HasPrefix s p \<longleftrightarrow> prefix p s"
  by (auto simp: HasPrefix_def prefix_def) (metis append_take_drop_id)

lemma HasPrefix_trans_append: "HasPrefix p q \<Longrightarrow> HasPrefix (p @ s) q"
  by (auto simp: HasPrefix_prefix)

lemma set_Join: "set (Join xs sep) \<subseteq> \<Union> (set ` set xs) \<union> set sep"
  by (induction xs sep rule: Join.induct) auto

lemma set_drop_units: "set (drop_units us s) \<subseteq> set s"
proof (induction us s rule: drop_units.induct)
  case (1 us s)
  then show ?case
    by (subst drop_units.simps) (auto split: option.splits dest: in_set_dropD)
qed

lemma set_TrimSpace: "set (TrimSpace s) \<subseteq> set s"
  unfolding TrimSpace_def using set_drop_units by (metis order_trans set_rev)

lemma Cut_found: "c \<in> set s \<Longrightarrow> \<exists>a b. s = a @ c # b \<and> c \<notin> set a \<and> Cut s c = (a, b, True)"
proof -
  assume "c \<in> set s"
  then obtain a b where ab: "s = a @ c # b" "c \<notin> set a" by (meson split_list_first)
  then have "\<And>x. x \<in> set a \<Longrightarrow> x \<noteq> c" by auto
  with ab show ?thesis by (auto simp: Cut_def takeWhile_append dropWhile_append)
qed

lemma Cut_append: "c \<notin> set a \<Longrightarrow> Cut (a @ c # b) c = (a, b, True)"
  by (auto simp: Cut_def takeWhile_append dropWhile_append)

lemma nat_digits_nonempty [simp]: "nat_digits n \<noteq> []"
  by (subst nat_digits.simps) simp

lemma nat_digits_set: "set (nat_digits n) \<subseteq> (\<lambda>d::nat. char_of (48 + d)) ` {..<10}"
proof (induction n rule: nat_digits.induct)
  case (1 n)
  then show ?case by (subst nat_digits.simps) auto
qed

lemma digit_char: "d < 10 \<Longrightarrow> of_char (char_of (48 + d :: nat) :: char) = 48 + d"
  by simp

lemma nat_digits_of_char: "c \<in> set (nat_digits n) \<Longrightarrow> 48 \<le> (of_char c :: nat) \<and> (of_char c :: nat) < 58"
  using nat_digits_set [of n] by force

text \<open>Decimal notation determines the number.\<close>

definition digits_value :: "string \<Rightarrow> nat" where
  "digits_value s = foldl (\<lambda>a c. 10 * a + (of_char c - 48)) 0 s"

lemma digits_value_nat_digits [simp]: "digits_value (nat_digits n) = n"
proof (induction n rule: nat_digits.induct)
  case (1 n)
  show ?case
  proof (cases "n < 10")
    case True
    then show ?thesis by (subst nat_digits.simps) (simp add: digits_value_def)
  next
    case False
    with 1 show ?thesis by (subst nat_digits.simps) (simp add: digits_value_def)
  qed
qed

lemma nat_digits_inj: "nat_digits m = nat_digits n \<Longrightarrow> m = n"
  by (metis digits_value_nat_digits)

lemma Itoa_inj: "Itoa m = Itoa n \<longleftrightarrow> m = n"
proof
  have no_minus: "nat_digits k \<noteq> CHR ''-'' # s" for k s
  proof
    assume "nat_digits k = CHR ''-'' # s"
    then have "CHR ''-'' \<in> set (nat_digits k)" by simp
    then show False using nat_digits_of_char [of "CHR ''-''" k] by simp
  qed
  assume "Itoa m = Itoa n"
  then have "nat m = nat n \<and> nat (- m) = nat (- n)"
    using no_minus [symmetric] no_minus
    by (auto simp: Itoa_def split: if_splits dest!: nat_digits_inj)
  then show "m = n" by linarith
qed simp

lemma Itoa_set: "c \<in> set (Itoa n) \<Longrightarrow> c = CHR ''-'' \<or> (48 \<le> (of_char c :: nat) \<and> (of_char c :: nat) < 58)"
  by (auto simp: Itoa_def split: if_splits dest: nat_digits_of_char)

lemma length_hex_encode [simp]: "length (hex_encode s) = 2 * length s"
  by (induction s) (auto simp: hex_encode_def hex_byte_def)

lemma of_char_hex_digit: "n < 16 \<Longrightarrow> of_char (hex_digit n) = (if n < 10 then 48 + n else 87 + n)"
  by (simp add: hex_digit_def)

definition is_hex_digit :: "char \<Rightarrow> bool" where
  "is_hex_digit c \<longleftrightarrow> (48 \<le> (of_char c :: nat) \<and> (of_char c :: nat) < 58) \<or> (97 \<le> (of_char c :: nat) \<and> (of_char c :: nat) < 103)"

lemma hex_encode_digits: "c \<in> set (hex_encode s) \<Longrightarrow> is_hex_digit c"
proof -
  assume "c \<in> set (hex_encode s)"
  then obtain b where "c \<in> set (hex_byte b)" by (auto simp: hex_encode_def)
  moreover have "(of_char b :: nat) div 16 < 16" by (simp add: less_mult_imp_div_less)
  moreover have "is_hex_digit (hex_digit n)" if "n < 16" for n
    using that by (auto simp: is_hex_digit_def of_char_hex_digit)
  ultimately show ?thesis by (auto simp: hex_byte_def)
qed

text \<open>Quoted text stays on one line whatever it quotes.\<close>

lemma quote_byte_no_newline: "newline \<notin> set (quote_byte c)"
proof -
  have h: "newline \<notin> set (hex_byte c)"
    using hex_encode_digits [of newline "[c]"] by (auto simp: hex_encode_def is_hex_digit_def)
  then show ?thesis by (auto simp: quote_byte_def Let_def)
qed

lemma Quote_no_newline [simp]: "newline \<notin> set (Quote s)"
  using quote_byte_no_newline by (auto simp: Quote_def)

lemma Itoa_no_newline [simp]: "newline \<notin> set (Itoa n)"
  using Itoa_set by fastforce

end
