(* ===== verification/Kube_Types.thy ===== *)
theory Kube_Types
  imports Go_Strings
begin

text \<open>
  The Kubernetes object types the sources read and build, with the fields they use. Go's
  optional pointers are \<open>option\<close> values; nil and empty slices are both the empty list.
  The last part is the client interface: one \<open>kclient\<close> record of calls per object kind
  stands for the Kubernetes client library and the API server behind it.
\<close>

section \<open>Metadata\<close>

record OwnerReference =
  or_apiVersion :: string
  or_kind :: string
  or_name :: string
  or_uid :: string
  or_controller :: "bool option"
  or_blockOwnerDeletion :: "bool option"

record ObjectMeta =
  m_name :: string
  m_namespace :: string
  m_labels :: smap
  m_annotations :: smap
  m_ownerRefs :: "OwnerReference list"
  m_finalizers :: "string list"
  m_deletionTimestamp :: "int option"
  m_creationTimestamp :: int
  m_uid :: string
  m_generation :: int
  m_resourceVersion :: string

definition new_meta :: "string \<Rightarrow> string \<Rightarrow> smap \<Rightarrow> ObjectMeta" where
  "new_meta name ns labels =
     \<lparr>m_name = name, m_namespace = ns, m_labels = labels, m_annotations = [], m_ownerRefs = [],
      m_finalizers = [], m_deletionTimestamp = None, m_creationTimestamp = 0, m_uid = '''',
      m_generation = 0, m_resourceVersion = ''''\<rparr>"

lemma new_meta_simps [simp]:
  "m_name (new_meta n ns l) = n" "m_namespace (new_meta n ns l) = ns" "m_labels (new_meta n ns l) = l"
  "m_annotations (new_meta n ns l) = []" "m_ownerRefs (new_meta n ns l) = []"
  "m_finalizers (new_meta n ns l) = []"
  by (simp_all add: new_meta_def)

text \<open>\<^verbatim>\<open>types.NamespacedName\<close>\<close>

type_synonym nsname = "string \<times> string"

abbreviation meta_key :: "ObjectMeta \<Rightarrow> nsname" where
  "meta_key m \<equiv> (m_namespace m, m_name m)"

section \<open>Pods\<close>

record EnvVar =
  ev_name :: string
  ev_value :: string

abbreviation envvar :: "string \<Rightarrow> string \<Rightarrow> EnvVar" where
  "envvar n v \<equiv> \<lparr>ev_name = n, ev_value = v\<rparr>"

record VolumeMount =
  vm_name :: string
  vm_mountPath :: string
  vm_subPath :: string
  vm_readOnly :: bool

record KeyToPath =
  kp_key :: string
  kp_path :: string

abbreviation same_path :: "string \<Rightarrow> KeyToPath" where
  "same_path k \<equiv> \<lparr>kp_key = k, kp_path = k\<rparr>"

text \<open>
  The sources of a projected volume, and of a volume. \<open>OtherVS\<close> is any other source a
  foreign pod may carry.
\<close>

datatype VolumeProjection =
    SecretProjection string "KeyToPath list"
  | DownwardAPIProjection "(string \<times> string) list"

datatype VolumeSource =
    ProjectedVS "VolumeProjection list"
  | SecretVS string "KeyToPath list"
  | ConfigMapVS string "KeyToPath list"
  | EmptyDirVS string
  | PersistentVolumeClaimVS string
  | OtherVS string

record Volume =
  vol_name :: string
  vol_source :: VolumeSource

record ResourceRequirements =
  rr_requests :: smap
  rr_limits :: smap

record SecurityContext =
  sc_runAsNonRoot :: "bool option"
  sc_runAsUser :: "int option"
  sc_allowPrivilegeEscalation :: "bool option"
  sc_capDrop :: "string list"
  sc_capAdd :: "string list"
  sc_seccomp :: "string option"

record ContainerPort =
  cp_name :: string
  cp_port :: int

record Container =
  c_name :: string
  c_image :: string
  c_imagePullPolicy :: string
  c_command :: "string list"
  c_args :: "string list"
  c_env :: "EnvVar list"
  c_ports :: "ContainerPort list"
  c_resources :: ResourceRequirements
  c_mounts :: "VolumeMount list"
  c_security :: "SecurityContext option"

definition no_resources :: ResourceRequirements where
  "no_resources = \<lparr>rr_requests = [], rr_limits = []\<rparr>"

text \<open>A container literal that sets only the name and the image.\<close>

definition plain_container :: "string \<Rightarrow> string \<Rightarrow> Container" where
  "plain_container n img =
     \<lparr>c_name = n, c_image = img, c_imagePullPolicy = '''', c_command = [], c_args = [], c_env = [],
      c_ports = [], c_resources = no_resources, c_mounts = [], c_security = None\<rparr>"

record PodDNSConfig =
  dc_nameservers :: "string list"
  dc_searches :: "string list"
  dc_options :: smap

record PodSpec =
  ps_nodeName :: string
  ps_hostNetwork :: bool
  ps_containers :: "Container list"
  ps_initContainers :: "Container list"
  ps_volumes :: "Volume list"
  ps_automountToken :: "bool option"
  ps_enableServiceLinks :: "bool option"
  ps_runtimeClassName :: "string option"
  ps_hostname :: string
  ps_terminationGrace :: "int option"
  ps_dnsPolicy :: string
  ps_dnsConfig :: "PodDNSConfig option"

definition empty_podspec :: PodSpec where
  "empty_podspec =
     \<lparr>ps_nodeName = '''', ps_hostNetwork = False, ps_containers = [], ps_initContainers = [],
      ps_volumes = [], ps_automountToken = None, ps_enableServiceLinks = None,
      ps_runtimeClassName = None, ps_hostname = '''', ps_terminationGrace = None,
      ps_dnsPolicy = '''', ps_dnsConfig = None\<rparr>"

record ContainerStatus =
  cs_name :: string
  cs_image :: string
  cs_ready :: bool
  cs_started :: "bool option"
  cs_restartCount :: int
  cs_containerID :: string
  cs_imageID :: string
  cs_startedAt :: int

record PodCondition =
  pc_type :: string
  pc_status :: string
  pc_lastTransition :: int

record PodStatus =
  pst_phase :: string
  pst_startTime :: "int option"
  pst_conditions :: "PodCondition list"
  pst_hostIP :: string
  pst_podIP :: string
  pst_podIPs :: "string list"
  pst_containerStatuses :: "ContainerStatus list"

definition empty_podstatus :: PodStatus where
  "empty_podstatus =
     \<lparr>pst_phase = '''', pst_startTime = None, pst_conditions = [], pst_hostIP = '''',
      pst_podIP = '''', pst_podIPs = [], pst_containerStatuses = []\<rparr>"

record Pod =
  pod_meta :: ObjectMeta
  pod_spec :: PodSpec
  pod_status :: PodStatus

abbreviation pod_ns :: "Pod \<Rightarrow> string" where
  "pod_ns p \<equiv> m_namespace (pod_meta p)"

abbreviation pod_name :: "Pod \<Rightarrow> string" where
  "pod_name p \<equiv> m_name (pod_meta p)"

section \<open>The other kinds\<close>

datatype IntOrString = PortInt int | PortName string

record ServicePort =
  svp_name :: string
  svp_port :: int
  svp_targetPort :: "IntOrString option"
  svp_protocol :: string

record Service =
  svc_meta :: ObjectMeta
  svc_selector :: smap
  svc_ports :: "ServicePort list"
  svc_clusterIP :: string

record Secret =
  sec_meta :: ObjectMeta
  sec_type :: string
  sec_data :: smap

record ConfigMap =
  cm_meta :: ObjectMeta
  cm_data :: smap

record PodTemplate =
  pt_labels :: smap
  pt_annotations :: smap
  pt_spec :: PodSpec

record DeploymentSpec =
  ds_replicas :: "int option"
  ds_strategy :: string
  ds_selector :: smap
  ds_template :: PodTemplate

record Deployment =
  dep_meta :: ObjectMeta
  dep_spec :: DeploymentSpec
  dep_readyReplicas :: int

record NetworkPolicyPort =
  npp_protocol :: string
  npp_port :: int

text \<open>A peer selected by the labels of its namespace.\<close>

record NetworkPolicyPeer =
  npr_namespaceSelector :: smap

record EgressRule =
  eg_to :: "NetworkPolicyPeer list"
  eg_ports :: "NetworkPolicyPort list"

record NetworkPolicy =
  np_meta :: ObjectMeta
  np_podSelector :: smap
  np_policyTypes :: "string list"
  np_egress :: "EgressRule list"

record PersistentVolumeClaim =
  pvc_meta :: ObjectMeta
  pvc_accessModes :: "string list"
  pvc_storageClass :: "string option"
  pvc_storage :: string

record Condition =
  cond_type :: string
  cond_status :: string
  cond_reason :: string
  cond_message :: string
  cond_observedGeneration :: int

section \<open>The client interface\<close>

text \<open>
  What the operator and the shim call on the API server, per kind. The functions are
  parameters: they stand for client-go, controller-runtime's client and the API server.
\<close>

record list_opts =
  lo_namespace :: "string option"
  lo_labels :: smap

definition list_all_opts :: list_opts where
  "list_all_opts = \<lparr>lo_namespace = None, lo_labels = []\<rparr>"

record ('w, 'o) kclient =
  kc_get :: "nsname \<Rightarrow> ('w, 'o) call"
  kc_list :: "list_opts \<Rightarrow> ('w, 'o list) call"
  kc_create :: "'o \<Rightarrow> ('w, 'o) call"
  kc_update :: "'o \<Rightarrow> ('w, 'o) call"
  kc_update_status :: "'o \<Rightarrow> ('w, 'o) call"
  kc_delete :: "'o \<Rightarrow> ('w, unit) call"

text \<open>
  \<^verbatim>\<open>retry.RetryOnConflict\<close> of client-go runs the function it is given, again and again
  while the result is a conflict and attempts are left, and returns the last result. That
  documented behaviour is the contract \<open>retry_contract\<close>: the result is that of one run,
  made after zero or more runs that all ended in a conflict.
\<close>

type_synonym ('w, 'a) retry = "('w, 'a) call \<Rightarrow> ('w, 'a) call"

inductive conflicts :: "('w, 'a) call \<Rightarrow> 'w \<Rightarrow> 'w \<Rightarrow> bool" for f where
  none: "conflicts f w w"
| again: "f w = (Inl e, w') \<Longrightarrow> IsConflict e \<Longrightarrow> conflicts f w' w'' \<Longrightarrow> conflicts f w w''"

inductive_cases conflictsE: "conflicts f w w'"

definition retry_contract :: "('w, 'a) retry \<Rightarrow> bool" where
  "retry_contract retry \<longleftrightarrow> (\<forall>f w. \<exists>w'. conflicts f w w' \<and> retry f w = f w')"

text \<open>A bounded number of attempts satisfies the contract.\<close>

fun retry_times :: "nat \<Rightarrow> ('w, 'a) retry" where
  "retry_times 0 f w = f w"
| "retry_times (Suc n) f w =
     (case f w of (Inl e, w') \<Rightarrow> if IsConflict e then retry_times n f w' else (Inl e, w')
                | (Inr x, w') \<Rightarrow> (Inr x, w'))"

lemma retry_times_contract: "retry_contract (retry_times n :: ('w, 'a) retry)"
  unfolding retry_contract_def
proof (intro allI)
  fix f :: "('w, 'a) call" and w
  show "\<exists>w'. conflicts f w w' \<and> retry_times n f w = f w'"
  proof (induction n arbitrary: w)
    case 0
    show ?case by (auto intro: conflicts.none)
  next
    case (Suc n)
    show ?case
    proof (cases "\<exists>e w1. f w = (Inl e, w1) \<and> IsConflict e")
      case True
      then obtain e w1 where e: "f w = (Inl e, w1)" "IsConflict e" by blast
      from Suc.IH [of w1] obtain w' where "conflicts f w1 w'" "retry_times n f w1 = f w'" by blast
      with e show ?thesis by (auto intro: conflicts.again)
    next
      case False
      then have "retry_times (Suc n) f w = f w" by (auto split: prod.splits sum.splits)
      then show ?thesis by (auto intro: conflicts.none)
    qed
  qed
qed

text \<open>What every conflicting attempt keeps and the deciding attempt establishes.\<close>

lemma retry_invariant:
  assumes "retry_contract retry"
    and keep: "\<And>w e w'. I w \<Longrightarrow> f w = (Inl e, w') \<Longrightarrow> IsConflict e \<Longrightarrow> I w'"
    and final: "\<And>w r w'. I w \<Longrightarrow> f w = (r, w') \<Longrightarrow> Q r w'"
    and "I w" and "retry f w = (r, w')"
  shows "Q r w'"
proof -
  from assms(1,5) obtain w1 where w1: "conflicts f w w1" "f w1 = (r, w')"
    unfolding retry_contract_def by metis
  from w1(1) \<open>I w\<close> have "I w1"
    by (induction rule: conflicts.induct) (auto intro: keep)
  with w1(2) show ?thesis by (auto intro: final)
qed

end
