(* ===== verification/Object_Store.thy ===== *)
theory Object_Store
  imports Kube_Types
begin

text \<open>
  Reasoning about calls on the outside world: which views and invariants a call keeps, and the laws of
  an API server that stores objects of one kind.
\<close>

section \<open>Calls that leave a view of the world alone\<close>

text \<open>
  \<open>keeps v m\<close>: whatever the outcome of the call \<open>m\<close>, the view \<open>v\<close> of the world is the
  same before and after. \<open>preserves P m\<close>: the call \<open>m\<close> keeps the invariant \<open>P\<close> of the world.
\<close>

definition keeps :: "('w \<Rightarrow> 'v) \<Rightarrow> ('w, 'a) call \<Rightarrow> bool" where
  "keeps v m \<longleftrightarrow> (\<forall>w. v (snd (m w)) = v w)"

definition preserves :: "('w \<Rightarrow> bool) \<Rightarrow> ('w, 'a) call \<Rightarrow> bool" where
  "preserves P m \<longleftrightarrow> (\<forall>w. P w \<longrightarrow> P (snd (m w)))"

named_theorems keeps_intros \<open>composition of calls that keep a view or an invariant\<close>

lemma keepsD: "keeps v m \<Longrightarrow> m w = (r, w') \<Longrightarrow> v w' = v w"
  by (metis keeps_def snd_conv)

lemma preservesD: "preserves P m \<Longrightarrow> P w \<Longrightarrow> m w = (r, w') \<Longrightarrow> P w'"
  by (metis preserves_def snd_conv)

lemma preserves_basic: "preserves P (ok x)" "preserves P (fail e)"
  by (simp_all add: preserves_def)

lemma preserves_and_then: "preserves P m \<Longrightarrow> (\<And>x. preserves P (f x)) \<Longrightarrow> preserves P (and_then m f)"
  unfolding preserves_def and_then_def by (auto split: prod.splits sum.splits; metis snd_conv)

lemma preserves_try_call: "preserves P m \<Longrightarrow> (\<And>r. preserves P (f r)) \<Longrightarrow> preserves P (try_call m f)"
  unfolding preserves_def try_call_def by (auto split: prod.splits; metis snd_conv)

lemma preserves_on_error: "preserves P m \<Longrightarrow> preserves P (on_error g m)"
  unfolding preserves_def on_error_def by (auto split: prod.splits sum.splits; metis snd_conv)

lemma preserves_each: "(\<And>x. x \<in> set xs \<Longrightarrow> preserves P (f x)) \<Longrightarrow> preserves P (each xs f)"
  by (induction xs) (auto intro: preserves_basic preserves_and_then)

text \<open>Keeping a view is keeping every statement about its value, so it composes the same way.\<close>

lemma keeps_iff_preserves: "keeps v m \<longleftrightarrow> (\<forall>c. preserves (\<lambda>w. v w = c) m)"
  by (auto simp: keeps_def preserves_def)

lemma keeps_basic: "keeps v (ok x)" "keeps v (fail e)"
  and keeps_and_then: "keeps v m \<Longrightarrow> (\<And>x. keeps v (f x)) \<Longrightarrow> keeps v (and_then m f)"
  and keeps_try_call: "keeps v m \<Longrightarrow> (\<And>r. keeps v (h r)) \<Longrightarrow> keeps v (try_call m h)"
  and keeps_on_error: "keeps v m \<Longrightarrow> keeps v (on_error g m)"
  and keeps_each: "(\<And>y. y \<in> set ys \<Longrightarrow> keeps v (b y)) \<Longrightarrow> keeps v (each ys b)"
  by (auto simp: keeps_iff_preserves
      intro: preserves_basic preserves_and_then preserves_try_call preserves_on_error preserves_each)

lemmas [keeps_intros] = preserves_basic preserves_and_then preserves_try_call preserves_on_error preserves_each
  keeps_basic keeps_and_then keeps_try_call keeps_on_error keeps_each

lemma keeps_preserves: "keeps v m \<Longrightarrow> preserves (\<lambda>w. Q (v w)) m"
  by (simp add: keeps_def preserves_def)

section \<open>The laws of a store\<close>

text \<open>
  The behaviour of the API server that the components rely on, for one kind of object.
  \<open>obs w\<close> is what is stored in the world \<open>w\<close>. Reading returns what is stored and changes
  nothing; a create or update that succeeds stores an object with the content it was given
  (\<open>same x y\<close>, the server fills in the rest); a call that fails has no effect on the store.
\<close>

definition opts_match :: "list_opts \<Rightarrow> ObjectMeta \<Rightarrow> bool" where
  "opts_match opts m \<longleftrightarrow>
     (case lo_namespace opts of None \<Rightarrow> True | Some ns \<Rightarrow> m_namespace m = ns)
     \<and> (\<forall>(k, v) \<in> set (lo_labels opts). gm_get (m_labels m) k = Some v)"

definition get_law :: "('w, 'o) kclient \<Rightarrow> ('w \<Rightarrow> nsname \<Rightarrow> 'o option) \<Rightarrow> bool" where
  "get_law c obs \<longleftrightarrow>
     (\<forall>k w. obs (snd (kc_get c k w)) = obs w
        \<and> (case fst (kc_get c k w) of Inr x \<Rightarrow> obs w k = Some x | Inl e \<Rightarrow> IsNotFound e \<longrightarrow> obs w k = None))"

definition list_law :: "('w, 'o) kclient \<Rightarrow> ('o \<Rightarrow> ObjectMeta) \<Rightarrow> ('w \<Rightarrow> nsname \<Rightarrow> 'o option) \<Rightarrow> bool" where
  "list_law c meta obs \<longleftrightarrow>
     (\<forall>opts w. obs (snd (kc_list c opts w)) = obs w
        \<and> (case fst (kc_list c opts w) of
             Inr xs \<Rightarrow> (\<forall>k x. obs w k = Some x \<and> opts_match opts (meta x) \<longrightarrow> x \<in> set xs)
               \<and> (\<forall>x \<in> set xs. obs w (meta_key (meta x)) = Some x \<and> opts_match opts (meta x))
           | Inl e \<Rightarrow> True))"

text \<open>\<open>put\<close> is the create or the update call of a client.\<close>

definition put_law ::
  "('o \<Rightarrow> ('w, 'o) call) \<Rightarrow> ('o \<Rightarrow> ObjectMeta) \<Rightarrow> ('o \<Rightarrow> 'o \<Rightarrow> bool) \<Rightarrow> ('w \<Rightarrow> nsname \<Rightarrow> 'o option) \<Rightarrow> bool" where
  "put_law put meta same obs \<longleftrightarrow>
     (\<forall>x w. case fst (put x w) of
        Inr y \<Rightarrow> same x y \<and> obs (snd (put x w)) = (obs w)(meta_key (meta x) \<mapsto> y)
      | Inl e \<Rightarrow> obs (snd (put x w)) = obs w)"

definition create_law :: "('w, 'o) kclient \<Rightarrow> ('o \<Rightarrow> ObjectMeta) \<Rightarrow> ('w \<Rightarrow> nsname \<Rightarrow> 'o option) \<Rightarrow> bool" where
  "create_law c meta obs \<longleftrightarrow>
     (\<forall>x w. (\<exists>y. fst (kc_create c x w) = Inr y) \<longrightarrow> obs w (meta_key (meta x)) = None)"

definition delete_law :: "('w, 'o) kclient \<Rightarrow> ('o \<Rightarrow> ObjectMeta) \<Rightarrow> ('w \<Rightarrow> nsname \<Rightarrow> 'o option) \<Rightarrow> bool" where
  "delete_law c meta obs \<longleftrightarrow>
     (\<forall>x w. case fst (kc_delete c x w) of
        Inr _ \<Rightarrow> obs (snd (kc_delete c x w)) = (obs w)(meta_key (meta x) := None)
      | Inl e \<Rightarrow> obs (snd (kc_delete c x w)) = obs w \<and> (IsNotFound e \<longrightarrow> obs w (meta_key (meta x)) = None))"

definition object_store ::
  "('w, 'o) kclient \<Rightarrow> ('o \<Rightarrow> ObjectMeta) \<Rightarrow> ('o \<Rightarrow> 'o \<Rightarrow> bool) \<Rightarrow> ('w \<Rightarrow> nsname \<Rightarrow> 'o option) \<Rightarrow> bool" where
  "object_store c meta same obs \<longleftrightarrow>
     get_law c obs \<and> list_law c meta obs \<and> put_law (kc_create c) meta same obs \<and> create_law c meta obs
     \<and> put_law (kc_update c) meta same obs \<and> delete_law c meta obs"

definition same_secret :: "Secret \<Rightarrow> Secret \<Rightarrow> bool" where
  "same_secret x y \<longleftrightarrow>
     meta_key (sec_meta y) = meta_key (sec_meta x) \<and> m_labels (sec_meta y) = m_labels (sec_meta x)
     \<and> m_ownerRefs (sec_meta y) = m_ownerRefs (sec_meta x) \<and> sec_data y = sec_data x"

lemma get_lawD:
  assumes "get_law c obs" and "kc_get c k w = (r, w')"
  shows "obs w' = obs w" and "r = Inr x \<Longrightarrow> obs w k = Some x" and "r = Inl e \<Longrightarrow> IsNotFound e \<Longrightarrow> obs w k = None"
  using assms by (auto simp: get_law_def simp del: split_paired_All dest!: spec [of _ k] spec [of _ w])

lemma put_lawD:
  assumes "put_law put meta same obs"
  shows "put x w = (Inr y, w') \<Longrightarrow> same x y \<and> obs w' = (obs w)(meta_key (meta x) \<mapsto> y)"
    and "put x w = (Inl e, w') \<Longrightarrow> obs w' = obs w"
  using assms by (auto simp: put_law_def dest!: spec [of _ x] spec [of _ w])

lemma delete_lawD:
  assumes "delete_law c meta obs"
  shows "kc_delete c x w = (Inr u, w') \<Longrightarrow> obs w' = (obs w)(meta_key (meta x) := None)"
    and "kc_delete c x w = (Inl e, w') \<Longrightarrow> obs w' = obs w \<and> (IsNotFound e \<longrightarrow> obs w (meta_key (meta x)) = None)"
  using assms by (auto simp: delete_law_def dest!: spec [of _ x] spec [of _ w])

lemma list_lawD:
  assumes "list_law c meta obs" and "kc_list c opts w = (r, w')"
  shows "obs w' = obs w"
    and "r = Inr xs \<Longrightarrow> obs w k = Some x \<Longrightarrow> opts_match opts (meta x) \<Longrightarrow> x \<in> set xs"
    and "r = Inr xs \<Longrightarrow> x \<in> set xs \<Longrightarrow> obs w (meta_key (meta x)) = Some x \<and> opts_match opts (meta x)"
  using assms by (auto simp: list_law_def simp del: split_paired_All dest!: spec [of _ opts] spec [of _ w])

lemma keeps_get: "get_law c obs \<Longrightarrow> keeps obs (kc_get c k)"
  unfolding get_law_def keeps_def by blast

lemma keeps_list: "list_law c meta obs \<Longrightarrow> keeps obs (kc_list c opts)"
  unfolding list_law_def keeps_def by blast

lemma object_storeD:
  assumes "object_store c meta same obs"
  shows "get_law c obs" "list_law c meta obs" "put_law (kc_create c) meta same obs" "create_law c meta obs"
    "put_law (kc_update c) meta same obs" "delete_law c meta obs"
  using assms by (simp_all add: object_store_def)

section \<open>An API server in memory\<close>

text \<open>
  The objects of one kind as a list inside a larger world: \<open>sel\<close> reads the list and \<open>upd\<close>
  changes it, as the selector and the update function of a record field do. It is the server
  of the concrete runs in the witnesses.
\<close>

definition list_obs :: "('o \<Rightarrow> ObjectMeta) \<Rightarrow> 'o list \<Rightarrow> nsname \<Rightarrow> 'o option" where
  "list_obs meta xs k = find (\<lambda>x. meta_key (meta x) = k) xs"

definition not_found :: go_error where
  "not_found = GoError NotFound [] ''not found''"

definition already_exists :: go_error where
  "already_exists = GoError AlreadyExists [] ''already exists''"

definition mem_put :: "('o \<Rightarrow> ObjectMeta) \<Rightarrow> ('w \<Rightarrow> 'o list) \<Rightarrow> (('o list \<Rightarrow> 'o list) \<Rightarrow> 'w \<Rightarrow> 'w) \<Rightarrow> 'o \<Rightarrow> ('w, 'o) call" where
  "mem_put meta sel upd x w =
     (if list_obs meta (sel w) (meta_key (meta x)) = None then (Inl not_found, w)
      else (Inr x, upd (map (\<lambda>y. if meta_key (meta y) = meta_key (meta x) then x else y)) w))"

definition mem_client :: "('o \<Rightarrow> ObjectMeta) \<Rightarrow> ('w \<Rightarrow> 'o list) \<Rightarrow> (('o list \<Rightarrow> 'o list) \<Rightarrow> 'w \<Rightarrow> 'w) \<Rightarrow> ('w, 'o) kclient" where
  "mem_client meta sel upd =
     \<lparr>kc_get = (\<lambda>k w. (case list_obs meta (sel w) k of None \<Rightarrow> Inl not_found | Some x \<Rightarrow> Inr x, w)),
      kc_list = (\<lambda>opts w. (Inr (filter (\<lambda>x. opts_match opts (meta x) \<and> list_obs meta (sel w) (meta_key (meta x)) = Some x) (sel w)), w)),
      kc_create = (\<lambda>x w. if list_obs meta (sel w) (meta_key (meta x)) \<noteq> None then (Inl already_exists, w)
                       else (Inr x, upd (\<lambda>xs. xs @ [x]) w)),
      kc_update = mem_put meta sel upd,
      kc_update_status = mem_put meta sel upd,
      kc_delete = (\<lambda>x w. if list_obs meta (sel w) (meta_key (meta x)) = None then (Inl not_found, w)
                       else (Inr (), upd (filter (\<lambda>y. meta_key (meta y) \<noteq> meta_key (meta x))) w))\<rparr>"

lemma list_obs_mem: "list_obs meta xs k = Some x \<Longrightarrow> x \<in> set xs \<and> meta_key (meta x) = k"
  by (auto simp: list_obs_def find_Some_iff)

lemma list_obs_append:
  "list_obs meta xs (meta_key (meta x)) = None \<Longrightarrow> list_obs meta (xs @ [x]) = (list_obs meta xs)(meta_key (meta x) \<mapsto> x)"
  by (induction xs) (auto simp: list_obs_def fun_eq_iff split: if_splits)

lemma list_obs_replace:
  "list_obs meta xs (meta_key (meta x)) \<noteq> None \<Longrightarrow>
     list_obs meta (map (\<lambda>y. if meta_key (meta y) = meta_key (meta x) then x else y) xs) = (list_obs meta xs)(meta_key (meta x) \<mapsto> x)"
proof (rule ext)
  fix k assume k: "list_obs meta xs (meta_key (meta x)) \<noteq> None"
  show "list_obs meta (map (\<lambda>y. if meta_key (meta y) = meta_key (meta x) then x else y) xs) k = ((list_obs meta xs)(meta_key (meta x) \<mapsto> x)) k"
  proof (cases "k = meta_key (meta x)")
    case True
    then show ?thesis using k by (induction xs) (auto simp: list_obs_def split: if_splits)
  next
    case False
    then show ?thesis by (induction xs) (auto simp: list_obs_def)
  qed
qed

lemma list_obs_filter:
  "list_obs meta (filter (\<lambda>y. meta_key (meta y) \<noteq> meta_key (meta x)) xs) = (list_obs meta xs)(meta_key (meta x) := None)"
  by (induction xs) (auto simp: list_obs_def fun_eq_iff)

lemma mem_object_store:
  assumes "\<And>f w. sel (upd f w) = f (sel w)" and "\<And>x. same x x"
  shows "object_store (mem_client meta sel upd) meta same (\<lambda>w. list_obs meta (sel w))"
  unfolding object_store_def
proof (intro conjI)
  let ?c = "mem_client meta sel upd" and ?o = "\<lambda>w. list_obs meta (sel w)"
  show "get_law ?c ?o"
    by (auto simp: get_law_def mem_client_def not_found_def split: option.split)
  show "list_law ?c meta ?o"
    by (auto simp: list_law_def mem_client_def dest: list_obs_mem simp del: split_paired_All)
  show "put_law (kc_create ?c) meta same ?o"
    by (auto simp: put_law_def mem_client_def assms list_obs_append)
  show "create_law ?c meta ?o"
    by (auto simp: create_law_def mem_client_def split: if_splits)
  show "put_law (kc_update ?c) meta same ?o"
    by (auto simp: put_law_def mem_client_def mem_put_def assms list_obs_replace [simplified])
  show "delete_law ?c meta ?o"
    by (auto simp: delete_law_def mem_client_def assms list_obs_filter [simplified] not_found_def)
qed

end
