(* ===== verification/Api_Types.thy ===== *)
theory Api_Types
  imports Kube_Types
begin

text \<open>
  The custom resources of \<^verbatim>\<open>src/api/v1alpha1\<close>: Decoy, Alert, AuditSink and Provider.
\<close>

section \<open>Decoy\<close>

record FakeNode =
  fn_name :: string
  fn_internalIP :: string
  fn_kubeletVersion :: string

record FakeContainer =
  fc_name :: string
  fc_image :: string

record FakePod =
  fp_name :: string
  fp_namespace :: string
  fp_replicas :: int
  fp_containers :: "FakeContainer list"
  fp_nodeName :: string
  fp_logLines :: "string list"
  fp_labels :: smap

record FakeSecret =
  fs_name :: string
  fs_namespace :: string
  fs_data :: smap

record FakeCRD =
  fcrd_group :: string
  fcrd_kind :: string
  fcrd_plural :: string
  fcrd_singular :: string
  fcrd_shortNames :: "string list"
  fcrd_versions :: "string list"
  fcrd_scope :: string

record PersistenceSpec =
  per_storageClassName :: "string option"
  per_size :: string

record DecoySpec =
  sp_kubeletShimImage :: string
  sp_execProfile :: string
  sp_execIsolation :: bool
  sp_kubernetesVersion :: string
  sp_kubeAPIServerImage :: string
  sp_kineImage :: string
  sp_port :: int
  sp_sans :: "string list"
  sp_auditLevel :: string
  sp_fakeNodes :: "FakeNode list"
  sp_fakePods :: "FakePod list"
  sp_fakeSecrets :: "FakeSecret list"
  sp_resources :: ResourceRequirements
  sp_runtimeClassName :: "string option"
  sp_seedSystemComponents :: "bool option"
  sp_fakeCRDs :: "FakeCRD list"
  sp_persistence :: "PersistenceSpec option"

record JoinedPod =
  jp_name :: string
  jp_namespace :: string
  jp_redirected :: bool

type_synonym int64 = "64 word"

record IntrusionActivity =
  ia_firstSeen :: "int option"
  ia_lastSeen :: "int option"
  ia_requestCount :: int64
  ia_lastSourceIP :: string

datatype DecoyPhase = PhaseUnset | Pending | Ready | Failed

fun phase_string :: "DecoyPhase \<Rightarrow> string" where
  "phase_string PhaseUnset = ''''"
| "phase_string Pending = ''Pending''"
| "phase_string Ready = ''Ready''"
| "phase_string Failed = ''Failed''"

record DecoyStatus =
  st_phase :: DecoyPhase
  st_endpoint :: string
  st_credentialsSecret :: string
  st_observedGeneration :: int
  st_joinedPods :: "JoinedPod list"
  st_intrusionActivity :: "IntrusionActivity option"
  st_conditions :: "Condition list"

record Decoy =
  kt_meta :: ObjectMeta
  kt_spec :: DecoySpec
  kt_status :: DecoyStatus

abbreviation kt_ns :: "Decoy \<Rightarrow> string" where
  "kt_ns kt \<equiv> m_namespace (kt_meta kt)"

abbreviation kt_name :: "Decoy \<Rightarrow> string" where
  "kt_name kt \<equiv> m_name (kt_meta kt)"

text \<open>
  The validation rules the CRD carries on \<^verbatim>\<open>DecoySpec\<close> and that admission enforces: a pod's
  \<^verbatim>\<open>nodeName\<close> names a fake node, \<^verbatim>\<open>execIsolation\<close> needs a \<^verbatim>\<open>runtimeClassName\<close>, the names of
  nodes and the pairs of pods are map keys, names are not empty.
\<close>

definition valid_spec :: "DecoySpec \<Rightarrow> bool" where
  "valid_spec s \<longleftrightarrow>
     (\<forall>p \<in> set (sp_fakePods s).
        fp_nodeName p = '''' \<or> fp_nodeName p \<in> fn_name ` set (sp_fakeNodes s))
     \<and> (sp_execIsolation s \<longrightarrow>
          (case sp_runtimeClassName s of None \<Rightarrow> False | Some r \<Rightarrow> r \<noteq> ''''))
     \<and> distinct (map fn_name (sp_fakeNodes s))
     \<and> distinct (map (\<lambda>p. (fp_namespace p, fp_name p)) (sp_fakePods s))
     \<and> (\<forall>n \<in> set (sp_fakeNodes s). fn_name n \<noteq> '''')
     \<and> (\<forall>p \<in> set (sp_fakePods s). fp_name p \<noteq> '''' \<and> fp_namespace p \<noteq> '''')"

section \<open>Alert, AuditSink, Provider\<close>

datatype AlertEventType = AlertEventPodJoin | AlertEventAuditActivity

record ProviderReference =
  pr_type :: string
  pr_secretRef :: "string option"

record DecoyTarget =
  tgt_name :: string
  tgt_namespace :: string

record AlertSpec =
  as_providerRef :: ProviderReference
  as_targets :: "DecoyTarget list"
  as_eventTypes :: "AlertEventType list"
  as_includeAll :: bool
  as_excludeVerbs :: "string list"
  as_excludeResources :: "string list"

record Alert =
  al_meta :: ObjectMeta
  al_spec :: AlertSpec

record AuditSinkSpec =
  ss_providerRef :: ProviderReference
  ss_targets :: "DecoyTarget list"

record AuditSink =
  sink_meta :: ObjectMeta
  sink_spec :: AuditSinkSpec

record ProviderSpec =
  prs_type :: string
  prs_address :: string
  prs_secretRef :: "string option"

record Provider =
  prov_meta :: ObjectMeta
  prov_spec :: ProviderSpec

text \<open>\<^verbatim>\<open>notifier.DecoyRef\<close>\<close>

record DecoyRef =
  dr_namespace :: string
  dr_name :: string

end
