(* ===== verification/Json.thy ===== *)
theory Json
  imports Go_Strings "HOL-Library.Monad_Syntax"
begin

text \<open>
  The part of Go's \<^verbatim>\<open>encoding/json\<close> the sources rely on, on JSON values rather than on text:
  a struct encodes to an object with one member per field (a field tagged \<open>omitempty\<close> is
  left out when it has its zero value), and decoding sets each field from the last member
  whose name equals the field's up to case, leaves a field at its zero value when there is
  no such member or the member is null, ignores other members, and fails when a member has
  the wrong shape. \<open>None\<close> is the error of the decoder.
\<close>

datatype json =
    JNull
  | JBool bool
  | JInt int
  | JStr string
  | JArr "json list"
  | JObj "(string \<times> json) list"

section \<open>Encoding\<close>

type_synonym member = "string \<times> json"

definition always :: "string \<Rightarrow> json \<Rightarrow> member list" where
  "always k v = [(k, v)]"

definition omitempty :: "bool \<Rightarrow> string \<Rightarrow> json \<Rightarrow> member list" where
  "omitempty b k v = (if b then [] else [(k, v)])"

definition enc_strs :: "string list \<Rightarrow> json" where
  "enc_strs xs = JArr (map JStr xs)"

definition enc_smap :: "smap \<Rightarrow> json" where
  "enc_smap m = JObj (map (\<lambda>(k, v). (k, JStr v)) m)"

text \<open>A slice of structs, each given by its members.\<close>

definition enc_structs :: "('a \<Rightarrow> member list) \<Rightarrow> 'a list \<Rightarrow> json" where
  "enc_structs f xs = JArr (map (\<lambda>x. JObj (f x)) xs)"

section \<open>Decoding\<close>

definition ascii_lower :: "char \<Rightarrow> char" where
  "ascii_lower c = (let n = (of_char c :: nat) in if 65 \<le> n \<and> n \<le> 90 then char_of (n + 32) else c)"

definition same_name :: "string \<Rightarrow> string \<Rightarrow> bool" where
  "same_name a b \<longleftrightarrow> map ascii_lower a = map ascii_lower b"

definition member_value :: "member list \<Rightarrow> string \<Rightarrow> json option" where
  "member_value ms k = map_option snd (find (\<lambda>m. same_name (fst m) k) (rev ms))"

definition field :: "(json \<Rightarrow> 'a option) \<Rightarrow> 'a \<Rightarrow> member list \<Rightarrow> string \<Rightarrow> 'a option" where
  "field d zero ms k = (case member_value ms k of None \<Rightarrow> Some zero | Some JNull \<Rightarrow> Some zero | Some v \<Rightarrow> d v)"

fun dec_str :: "json \<Rightarrow> string option" where
  "dec_str (JStr s) = Some s"
| "dec_str _ = None"

fun dec_bool :: "json \<Rightarrow> bool option" where
  "dec_bool (JBool b) = Some b"
| "dec_bool _ = None"

text \<open>Decoding into an int32 or int field fails outside its range.\<close>

definition dec_int :: "nat \<Rightarrow> json \<Rightarrow> int option" where
  "dec_int bits v = (case v of JInt i \<Rightarrow> if - (2 ^ (bits - 1)) \<le> i \<and> i < 2 ^ (bits - 1) then Some i else None | _ \<Rightarrow> None)"

fun those_of :: "'a option list \<Rightarrow> 'a list option" where
  "those_of [] = Some []"
| "those_of (x # xs) = (case x of None \<Rightarrow> None | Some y \<Rightarrow> map_option ((#) y) (those_of xs))"

text \<open>An element \<open>null\<close> of an array leaves the element at its zero value.\<close>

definition dec_list :: "(json \<Rightarrow> 'a option) \<Rightarrow> 'a \<Rightarrow> json \<Rightarrow> 'a list option" where
  "dec_list d zero v =
     (case v of JArr xs \<Rightarrow> those_of (map (\<lambda>x. if x = JNull then Some zero else d x) xs) | _ \<Rightarrow> None)"

abbreviation dec_strs :: "json \<Rightarrow> string list option" where
  "dec_strs \<equiv> dec_list dec_str ''''"

text \<open>A slice of structs; a \<open>null\<close> element is the zero struct, which decoding no member gives.\<close>

definition dec_structs :: "(member list \<Rightarrow> 'a option) \<Rightarrow> json \<Rightarrow> 'a list option" where
  "dec_structs d v =
     (case v of
        JArr xs \<Rightarrow> those_of (map (\<lambda>x. case x of JObj ms \<Rightarrow> d ms | JNull \<Rightarrow> d [] | _ \<Rightarrow> None) xs)
      | _ \<Rightarrow> None)"

definition dec_smap :: "json \<Rightarrow> smap option" where
  "dec_smap v =
     (case v of
        JObj ms \<Rightarrow>
          map_option (\<lambda>kvs. fold (\<lambda>(k, x). gm_set k x) kvs [])
            (those_of (map (\<lambda>(k, x). map_option (Pair k) (if x = JNull then Some '''' else dec_str x)) ms))
      | _ \<Rightarrow> None)"

section \<open>Round trips\<close>

named_theorems json_rt \<open>decoding an encoded value gives it back\<close>

lemma those_of_Some [simp]: "those_of (map Some xs) = Some xs"
  by (induction xs) auto

lemma those_of_map_Some: "(\<And>x. x \<in> set xs \<Longrightarrow> f x = Some (g x)) \<Longrightarrow> those_of (map f xs) = Some (map g xs)"
  by (induction xs) auto

lemma dec_structs_enc [json_rt]:
  "(\<And>x. x \<in> set xs \<Longrightarrow> d (f x) = Some x) \<Longrightarrow> dec_structs d (enc_structs f xs) = Some xs"
  by (induction xs) (auto simp: dec_structs_def enc_structs_def)

lemma dec_structs_Nil [json_rt]: "dec_structs d (enc_structs f []) = Some []"
  by (simp add: dec_structs_def enc_structs_def)

lemma dec_strs_enc [json_rt, simp]: "dec_strs (enc_strs xs) = Some xs"
  by (induction xs) (auto simp: dec_list_def enc_strs_def)

lemma dec_smap_enc [json_rt]: "wf_map m \<Longrightarrow> dec_smap (enc_smap m) = Some m"
proof -
  assume "wf_map m"
  have "those_of (map (\<lambda>(k, x). map_option (Pair k) (if x = JNull then Some '''' else dec_str x))
          (map (\<lambda>(k, v). (k, JStr v)) m)) = Some m"
    by (induction m) auto
  then show ?thesis
    using \<open>wf_map m\<close> fold_set_distinct [of "[]" m] by (simp add: dec_smap_def enc_smap_def)
qed

lemma dec_int_enc [json_rt]: "- (2 ^ (bits - 1)) \<le> i \<Longrightarrow> i < 2 ^ (bits - 1) \<Longrightarrow> dec_int bits (JInt i) = Some i"
  by (simp add: dec_int_def)

text \<open>Members of other fields do not matter to a field; its own member decides it.\<close>

definition absent :: "member list \<Rightarrow> string \<Rightarrow> bool" where
  "absent ms k \<longleftrightarrow> (\<forall>m \<in> set ms. \<not> same_name (fst m) k)"

lemma member_value_absent: "absent ms k \<Longrightarrow> member_value ms k = None"
  by (auto simp: member_value_def absent_def find_None_iff)

lemma find_append: "find P (xs @ ys) = (case find P xs of None \<Rightarrow> find P ys | Some x \<Rightarrow> Some x)"
  by (induction xs) auto

lemma member_value_append_absent:
  "absent ns k \<Longrightarrow> member_value (ms @ ns) k = member_value ms k"
  "absent ms k \<Longrightarrow> member_value (ms @ ns) k = member_value ns k"
proof -
  assume "absent ns k"
  then have "find (\<lambda>m. same_name (fst m) k) (rev ns) = None" by (auto simp: find_None_iff absent_def)
  then show "member_value (ms @ ns) k = member_value ms k"
    by (simp add: member_value_def find_append)
next
  assume "absent ms k"
  then have "find (\<lambda>m. same_name (fst m) k) (rev ms) = None" by (auto simp: find_None_iff absent_def)
  then show "member_value (ms @ ns) k = member_value ns k"
    by (simp add: member_value_def find_append split: option.splits)
qed

lemma absent_simps:
  "absent [] k"
  "absent (ms @ ns) k = (absent ms k \<and> absent ns k)"
  "absent (always j v) k = (\<not> same_name j k)"
  "\<not> same_name j k \<Longrightarrow> absent (omitempty b j v) k"
  by (auto simp: absent_def always_def omitempty_def)

lemma field_skip:
  "\<not> same_name j k \<Longrightarrow> field d z (always j v @ ms) k = field d z ms k"
  "\<not> same_name j k \<Longrightarrow> field d z (omitempty b j v @ ms) k = field d z ms k"
  by (simp_all add: field_def member_value_append_absent absent_simps)

lemma field_always:
  assumes "same_name j k" and "v \<noteq> JNull"
  shows "field d z (always j v) k = d v" and "absent ms k \<Longrightarrow> field d z (always j v @ ms) k = d v"
proof -
  have "member_value (always j v) k = Some v" using assms(1) by (simp add: member_value_def always_def)
  then show "field d z (always j v) k = d v"
    and "absent ms k \<Longrightarrow> field d z (always j v @ ms) k = d v"
    using assms(2) by (cases v; simp add: field_def member_value_append_absent)+
qed

lemma member_value_Nil [simp]: "member_value [] k = None"
  by (simp add: member_value_def)

lemma field_omitempty:
  assumes "same_name j k" and "v \<noteq> JNull" and "d v = Some x" and "b \<Longrightarrow> x = z"
  shows "field d z (omitempty b j v) k = Some x"
    and "absent ms k \<Longrightarrow> field d z (omitempty b j v @ ms) k = Some x"
proof -
  have "field d z (omitempty b j v) k = Some x"
    using assms field_always(1) [of j k v d z]
    by (cases b) (auto simp: omitempty_def always_def field_def)
  then show "field d z (omitempty b j v) k = Some x"
    and "absent ms k \<Longrightarrow> field d z (omitempty b j v @ ms) k = Some x"
    by (simp_all add: field_def member_value_append_absent)
qed

lemma field_null: "same_name j k \<Longrightarrow> absent ms k \<Longrightarrow> field d z (always j JNull @ ms) k = Some z"
  by (simp add: field_def member_value_append_absent) (simp add: member_value_def always_def)

lemma enc_not_null [simp]: "enc_strs xs \<noteq> JNull" "enc_smap m \<noteq> JNull" "enc_structs f ys \<noteq> JNull"
  by (simp_all add: enc_strs_def enc_smap_def enc_structs_def)

text \<open>
  The facts that decode a struct literal: names are compared by evaluation, each field finds
  its own member.
\<close>

lemmas decode_simps =
  field_skip field_always field_omitempty absent_simps same_name_def ascii_lower_def Let_def json_rt

end
