(* ===== verification/Seed.thy ===== *)
theory Seed
  imports Api_Types Json
begin

text \<open>
  \<^verbatim>\<open>src/internal/seed/seed.go\<close>: the description of what a decoy's inner cluster is seeded
  with. The operator encodes it into the ConfigMap (\<^verbatim>\<open>renderSeedJSON\<close>), kubelet-shim loads
  it (\<^verbatim>\<open>Load\<close>). The encoders follow the struct tags, the decoders Go's rules for them; the
  main fact is that loading an encoded seed gives the seed back.
\<close>

section \<open>Types\<close>

record SeedServicePort =
  ssp_name :: string
  ssp_port :: int
  ssp_targetPort :: int
  ssp_protocol :: string

record SeedService =
  ssv_name :: string
  ssv_namespace :: string
  ssv_labels :: smap
  ssv_clusterIP :: string
  ssv_ports :: "SeedServicePort list"
  ssv_selector :: smap
  ssv_endpointIPs :: "string list"

record SeedConfigMap =
  scm_name :: string
  scm_namespace :: string
  scm_labels :: smap
  scm_data :: smap

record SeedCRD =
  crd_group :: string
  crd_kind :: string
  crd_plural :: string
  crd_singular :: string
  crd_shortNames :: "string list"
  crd_versions :: "string list"
  crd_scope :: string

record SeedOwnerRef =
  sor_apiVersion :: string
  sor_kind :: string
  sor_name :: string
  sor_controller :: bool

record SeedPod =
  spd_fakePod :: FakePod
  spd_ownerRefs :: "SeedOwnerRef list"
  spd_annotations :: smap
  spd_hostNetwork :: bool
  spd_cpuRequest :: string
  spd_memoryRequest :: string

record SeedController =
  ctl_apiVersion :: string
  ctl_kind :: string
  ctl_name :: string
  ctl_namespace :: string
  ctl_labels :: smap
  ctl_replicas :: int
  ctl_image :: string
  ctl_ownerRefs :: "SeedOwnerRef list"

record Seed =
  sd_fakeNodes :: "FakeNode list"
  sd_fakePods :: "SeedPod list"
  sd_fakeSecrets :: "FakeSecret list"
  sd_controllers :: "SeedController list"
  sd_crds :: "SeedCRD list"
  sd_services :: "SeedService list"
  sd_configMaps :: "SeedConfigMap list"

text \<open>A seed pod that is a plain \<^verbatim>\<open>FakePod\<close> (\<^verbatim>\<open>seed.Pod{FakePod: p}\<close>).\<close>

definition plain_seed_pod :: "FakePod \<Rightarrow> SeedPod" where
  "plain_seed_pod p =
     \<lparr>spd_fakePod = p, spd_ownerRefs = [], spd_annotations = [], spd_hostNetwork = False,
      spd_cpuRequest = '''', spd_memoryRequest = ''''\<rparr>"

section \<open>Encoding\<close>

definition enc_FakeNode :: "FakeNode \<Rightarrow> member list" where
  "enc_FakeNode n =
     (always ''name'' (JStr (fn_name n))
      @ omitempty (fn_internalIP n = '''') ''internalIP'' (JStr (fn_internalIP n))
      @ omitempty (fn_kubeletVersion n = '''') ''kubeletVersion'' (JStr (fn_kubeletVersion n)))"

definition enc_FakeContainer :: "FakeContainer \<Rightarrow> member list" where
  "enc_FakeContainer c = (always ''name'' (JStr (fc_name c)) @ always ''image'' (JStr (fc_image c)))"

definition enc_FakeSecret :: "FakeSecret \<Rightarrow> member list" where
  "enc_FakeSecret s =
     (always ''name'' (JStr (fs_name s)) @ always ''namespace'' (JStr (fs_namespace s))
      @ always ''data'' (enc_smap (fs_data s)))"

definition enc_OwnerRef :: "SeedOwnerRef \<Rightarrow> member list" where
  "enc_OwnerRef r =
     (always ''apiVersion'' (JStr (sor_apiVersion r)) @ always ''kind'' (JStr (sor_kind r))
      @ always ''name'' (JStr (sor_name r)) @ always ''controller'' (JBool (sor_controller r)))"

text \<open>The members of the embedded \<^verbatim>\<open>FakePod\<close> stand directly in the pod's object.\<close>

definition enc_SeedPod :: "SeedPod \<Rightarrow> member list" where
  "enc_SeedPod p = (let f = spd_fakePod p in
     (always ''name'' (JStr (fp_name f)) @ always ''namespace'' (JStr (fp_namespace f))
      @ omitempty (fp_replicas f = 0) ''replicas'' (JInt (fp_replicas f))
      @ always ''containers'' (enc_structs enc_FakeContainer (fp_containers f))
      @ omitempty (fp_nodeName f = '''') ''nodeName'' (JStr (fp_nodeName f))
      @ omitempty (fp_logLines f = []) ''logLines'' (enc_strs (fp_logLines f))
      @ omitempty (fp_labels f = []) ''labels'' (enc_smap (fp_labels f))
      @ omitempty (spd_ownerRefs p = []) ''ownerRefs'' (enc_structs enc_OwnerRef (spd_ownerRefs p))
      @ omitempty (spd_annotations p = []) ''annotations'' (enc_smap (spd_annotations p))
      @ omitempty (\<not> spd_hostNetwork p) ''hostNetwork'' (JBool (spd_hostNetwork p))
      @ omitempty (spd_cpuRequest p = '''') ''cpuRequest'' (JStr (spd_cpuRequest p))
      @ omitempty (spd_memoryRequest p = '''') ''memoryRequest'' (JStr (spd_memoryRequest p))))"

definition enc_Controller :: "SeedController \<Rightarrow> member list" where
  "enc_Controller c =
     (always ''apiVersion'' (JStr (ctl_apiVersion c)) @ always ''kind'' (JStr (ctl_kind c))
      @ always ''name'' (JStr (ctl_name c)) @ always ''namespace'' (JStr (ctl_namespace c))
      @ omitempty (ctl_labels c = []) ''labels'' (enc_smap (ctl_labels c))
      @ omitempty (ctl_replicas c = 0) ''replicas'' (JInt (ctl_replicas c))
      @ omitempty (ctl_image c = '''') ''image'' (JStr (ctl_image c))
      @ omitempty (ctl_ownerRefs c = []) ''ownerRefs'' (enc_structs enc_OwnerRef (ctl_ownerRefs c)))"

definition enc_CRD :: "SeedCRD \<Rightarrow> member list" where
  "enc_CRD c =
     (always ''group'' (JStr (crd_group c)) @ always ''kind'' (JStr (crd_kind c))
      @ always ''plural'' (JStr (crd_plural c))
      @ omitempty (crd_singular c = '''') ''singular'' (JStr (crd_singular c))
      @ omitempty (crd_shortNames c = []) ''shortNames'' (enc_strs (crd_shortNames c))
      @ omitempty (crd_versions c = []) ''versions'' (enc_strs (crd_versions c))
      @ omitempty (crd_scope c = '''') ''scope'' (JStr (crd_scope c)))"

definition enc_ServicePort :: "SeedServicePort \<Rightarrow> member list" where
  "enc_ServicePort p =
     (omitempty (ssp_name p = '''') ''name'' (JStr (ssp_name p)) @ always ''port'' (JInt (ssp_port p))
      @ omitempty (ssp_targetPort p = 0) ''targetPort'' (JInt (ssp_targetPort p))
      @ omitempty (ssp_protocol p = '''') ''protocol'' (JStr (ssp_protocol p)))"

definition enc_Service :: "SeedService \<Rightarrow> member list" where
  "enc_Service s =
     (always ''name'' (JStr (ssv_name s)) @ always ''namespace'' (JStr (ssv_namespace s))
      @ omitempty (ssv_labels s = []) ''labels'' (enc_smap (ssv_labels s))
      @ omitempty (ssv_clusterIP s = '''') ''clusterIP'' (JStr (ssv_clusterIP s))
      @ omitempty (ssv_ports s = []) ''ports'' (enc_structs enc_ServicePort (ssv_ports s))
      @ omitempty (ssv_selector s = []) ''selector'' (enc_smap (ssv_selector s))
      @ omitempty (ssv_endpointIPs s = []) ''endpointIPs'' (enc_strs (ssv_endpointIPs s)))"

definition enc_ConfigMap :: "SeedConfigMap \<Rightarrow> member list" where
  "enc_ConfigMap c =
     (always ''name'' (JStr (scm_name c)) @ always ''namespace'' (JStr (scm_namespace c))
      @ omitempty (scm_labels c = []) ''labels'' (enc_smap (scm_labels c))
      @ omitempty (scm_data c = []) ''data'' (enc_smap (scm_data c)))"

definition enc_Seed :: "Seed \<Rightarrow> member list" where
  "enc_Seed s =
     (always ''fakeNodes'' (enc_structs enc_FakeNode (sd_fakeNodes s))
      @ always ''fakePods'' (enc_structs enc_SeedPod (sd_fakePods s))
      @ always ''fakeSecrets'' (enc_structs enc_FakeSecret (sd_fakeSecrets s))
      @ omitempty (sd_controllers s = []) ''controllers'' (enc_structs enc_Controller (sd_controllers s))
      @ omitempty (sd_crds s = []) ''crds'' (enc_structs enc_CRD (sd_crds s))
      @ omitempty (sd_services s = []) ''services'' (enc_structs enc_Service (sd_services s))
      @ omitempty (sd_configMaps s = []) ''configMaps'' (enc_structs enc_ConfigMap (sd_configMaps s)))"

section \<open>Decoding\<close>

definition dec_FakeNode :: "member list \<Rightarrow> FakeNode option" where
  "dec_FakeNode ms = do {
     n \<leftarrow> field dec_str [] ms ''name'';
     ip \<leftarrow> field dec_str [] ms ''internalIP'';
     v \<leftarrow> field dec_str [] ms ''kubeletVersion'';
     Some \<lparr>fn_name = n, fn_internalIP = ip, fn_kubeletVersion = v\<rparr> }"

definition dec_FakeContainer :: "member list \<Rightarrow> FakeContainer option" where
  "dec_FakeContainer ms = do {
     n \<leftarrow> field dec_str [] ms ''name'';
     i \<leftarrow> field dec_str [] ms ''image'';
     Some \<lparr>fc_name = n, fc_image = i\<rparr> }"

definition dec_FakeSecret :: "member list \<Rightarrow> FakeSecret option" where
  "dec_FakeSecret ms = do {
     n \<leftarrow> field dec_str [] ms ''name'';
     ns \<leftarrow> field dec_str [] ms ''namespace'';
     d \<leftarrow> field dec_smap [] ms ''data'';
     Some \<lparr>fs_name = n, fs_namespace = ns, fs_data = d\<rparr> }"

definition dec_OwnerRef :: "member list \<Rightarrow> SeedOwnerRef option" where
  "dec_OwnerRef ms = do {
     v \<leftarrow> field dec_str [] ms ''apiVersion'';
     k \<leftarrow> field dec_str [] ms ''kind'';
     n \<leftarrow> field dec_str [] ms ''name'';
     c \<leftarrow> field dec_bool False ms ''controller'';
     Some \<lparr>sor_apiVersion = v, sor_kind = k, sor_name = n, sor_controller = c\<rparr> }"

definition dec_SeedPod :: "member list \<Rightarrow> SeedPod option" where
  "dec_SeedPod ms = do {
     n \<leftarrow> field dec_str [] ms ''name'';
     ns \<leftarrow> field dec_str [] ms ''namespace'';
     r \<leftarrow> field (dec_int 32) 0 ms ''replicas'';
     cs \<leftarrow> field (dec_structs dec_FakeContainer) [] ms ''containers'';
     node \<leftarrow> field dec_str [] ms ''nodeName'';
     ll \<leftarrow> field dec_strs [] ms ''logLines'';
     l \<leftarrow> field dec_smap [] ms ''labels'';
     os \<leftarrow> field (dec_structs dec_OwnerRef) [] ms ''ownerRefs'';
     an \<leftarrow> field dec_smap [] ms ''annotations'';
     h \<leftarrow> field dec_bool False ms ''hostNetwork'';
     cpu \<leftarrow> field dec_str [] ms ''cpuRequest'';
     mem \<leftarrow> field dec_str [] ms ''memoryRequest'';
     Some \<lparr>spd_fakePod = \<lparr>fp_name = n, fp_namespace = ns, fp_replicas = r, fp_containers = cs,
             fp_nodeName = node, fp_logLines = ll, fp_labels = l\<rparr>,
           spd_ownerRefs = os, spd_annotations = an, spd_hostNetwork = h,
           spd_cpuRequest = cpu, spd_memoryRequest = mem\<rparr> }"

definition dec_Controller :: "member list \<Rightarrow> SeedController option" where
  "dec_Controller ms = do {
     v \<leftarrow> field dec_str [] ms ''apiVersion'';
     k \<leftarrow> field dec_str [] ms ''kind'';
     n \<leftarrow> field dec_str [] ms ''name'';
     ns \<leftarrow> field dec_str [] ms ''namespace'';
     l \<leftarrow> field dec_smap [] ms ''labels'';
     r \<leftarrow> field (dec_int 32) 0 ms ''replicas'';
     i \<leftarrow> field dec_str [] ms ''image'';
     os \<leftarrow> field (dec_structs dec_OwnerRef) [] ms ''ownerRefs'';
     Some \<lparr>ctl_apiVersion = v, ctl_kind = k, ctl_name = n, ctl_namespace = ns, ctl_labels = l,
           ctl_replicas = r, ctl_image = i, ctl_ownerRefs = os\<rparr> }"

definition dec_CRD :: "member list \<Rightarrow> SeedCRD option" where
  "dec_CRD ms = do {
     g \<leftarrow> field dec_str [] ms ''group'';
     k \<leftarrow> field dec_str [] ms ''kind'';
     p \<leftarrow> field dec_str [] ms ''plural'';
     sg \<leftarrow> field dec_str [] ms ''singular'';
     sh \<leftarrow> field dec_strs [] ms ''shortNames'';
     vs \<leftarrow> field dec_strs [] ms ''versions'';
     sc \<leftarrow> field dec_str [] ms ''scope'';
     Some \<lparr>crd_group = g, crd_kind = k, crd_plural = p, crd_singular = sg, crd_shortNames = sh,
           crd_versions = vs, crd_scope = sc\<rparr> }"

definition dec_ServicePort :: "member list \<Rightarrow> SeedServicePort option" where
  "dec_ServicePort ms = do {
     n \<leftarrow> field dec_str [] ms ''name'';
     p \<leftarrow> field (dec_int 32) 0 ms ''port'';
     t \<leftarrow> field (dec_int 32) 0 ms ''targetPort'';
     pr \<leftarrow> field dec_str [] ms ''protocol'';
     Some \<lparr>ssp_name = n, ssp_port = p, ssp_targetPort = t, ssp_protocol = pr\<rparr> }"

definition dec_Service :: "member list \<Rightarrow> SeedService option" where
  "dec_Service ms = do {
     n \<leftarrow> field dec_str [] ms ''name'';
     ns \<leftarrow> field dec_str [] ms ''namespace'';
     l \<leftarrow> field dec_smap [] ms ''labels'';
     ip \<leftarrow> field dec_str [] ms ''clusterIP'';
     ps \<leftarrow> field (dec_structs dec_ServicePort) [] ms ''ports'';
     sel \<leftarrow> field dec_smap [] ms ''selector'';
     eps \<leftarrow> field dec_strs [] ms ''endpointIPs'';
     Some \<lparr>ssv_name = n, ssv_namespace = ns, ssv_labels = l, ssv_clusterIP = ip, ssv_ports = ps,
           ssv_selector = sel, ssv_endpointIPs = eps\<rparr> }"

definition dec_ConfigMap :: "member list \<Rightarrow> SeedConfigMap option" where
  "dec_ConfigMap ms = do {
     n \<leftarrow> field dec_str [] ms ''name'';
     ns \<leftarrow> field dec_str [] ms ''namespace'';
     l \<leftarrow> field dec_smap [] ms ''labels'';
     d \<leftarrow> field dec_smap [] ms ''data'';
     Some \<lparr>scm_name = n, scm_namespace = ns, scm_labels = l, scm_data = d\<rparr> }"

definition dec_Seed :: "member list \<Rightarrow> Seed option" where
  "dec_Seed ms = do {
     ns \<leftarrow> field (dec_structs dec_FakeNode) [] ms ''fakeNodes'';
     ps \<leftarrow> field (dec_structs dec_SeedPod) [] ms ''fakePods'';
     ss \<leftarrow> field (dec_structs dec_FakeSecret) [] ms ''fakeSecrets'';
     cs \<leftarrow> field (dec_structs dec_Controller) [] ms ''controllers'';
     rs \<leftarrow> field (dec_structs dec_CRD) [] ms ''crds'';
     vs \<leftarrow> field (dec_structs dec_Service) [] ms ''services'';
     ms' \<leftarrow> field (dec_structs dec_ConfigMap) [] ms ''configMaps'';
     Some \<lparr>sd_fakeNodes = ns, sd_fakePods = ps, sd_fakeSecrets = ss, sd_controllers = cs,
           sd_crds = rs, sd_services = vs, sd_configMaps = ms'\<rparr> }"

section \<open>Loading what was rendered\<close>

text \<open>
  Well-formedness of a seed: its maps have distinct keys and its numbers fit the int32 fields
  they are held in. Every seed Go can hold satisfies it.
\<close>

abbreviation int32_range :: "int \<Rightarrow> bool" where
  "int32_range i \<equiv> - (2 ^ 31) \<le> i \<and> i < 2 ^ 31"

definition wf_seed_pod :: "SeedPod \<Rightarrow> bool" where
  "wf_seed_pod p \<longleftrightarrow> int32_range (fp_replicas (spd_fakePod p))
     \<and> wf_map (fp_labels (spd_fakePod p)) \<and> wf_map (spd_annotations p)"

definition wf_seed :: "Seed \<Rightarrow> bool" where
  "wf_seed s \<longleftrightarrow>
     (\<forall>p \<in> set (sd_fakePods s). wf_seed_pod p)
     \<and> (\<forall>x \<in> set (sd_fakeSecrets s). wf_map (fs_data x))
     \<and> (\<forall>c \<in> set (sd_controllers s). int32_range (ctl_replicas c) \<and> wf_map (ctl_labels c))
     \<and> (\<forall>v \<in> set (sd_services s). wf_map (ssv_labels v) \<and> wf_map (ssv_selector v)
           \<and> (\<forall>p \<in> set (ssv_ports v). int32_range (ssp_port p) \<and> int32_range (ssp_targetPort p)))
     \<and> (\<forall>m \<in> set (sd_configMaps s). wf_map (scm_labels m) \<and> wf_map (scm_data m))"

lemma dec_FakeNode_enc [simp]: "dec_FakeNode (enc_FakeNode n) = Some n"
  by (simp add: dec_FakeNode_def enc_FakeNode_def decode_simps)

lemma dec_FakeContainer_enc [simp]: "dec_FakeContainer (enc_FakeContainer n) = Some n"
  by (simp add: dec_FakeContainer_def enc_FakeContainer_def decode_simps)

lemma dec_FakeSecret_enc [simp]: "wf_map (fs_data s) \<Longrightarrow> dec_FakeSecret (enc_FakeSecret s) = Some s"
  by (simp add: dec_FakeSecret_def enc_FakeSecret_def decode_simps)

lemma dec_OwnerRef_enc [simp]: "dec_OwnerRef (enc_OwnerRef n) = Some n"
  by (simp add: dec_OwnerRef_def enc_OwnerRef_def decode_simps)

lemma dec_CRD_enc [simp]: "dec_CRD (enc_CRD n) = Some n"
  by (simp add: dec_CRD_def enc_CRD_def decode_simps)

lemma dec_ServicePort_enc [simp]:
  "int32_range (ssp_port p) \<Longrightarrow> int32_range (ssp_targetPort p) \<Longrightarrow> dec_ServicePort (enc_ServicePort p) = Some p"
  by (simp add: dec_ServicePort_def enc_ServicePort_def decode_simps)

lemma dec_ConfigMap_enc [simp]:
  "wf_map (scm_labels c) \<Longrightarrow> wf_map (scm_data c) \<Longrightarrow> dec_ConfigMap (enc_ConfigMap c) = Some c"
  by (simp add: dec_ConfigMap_def enc_ConfigMap_def decode_simps)

lemma dec_Service_enc [simp]:
  assumes "wf_map (ssv_labels v)" "wf_map (ssv_selector v)"
    and "\<forall>p \<in> set (ssv_ports v). int32_range (ssp_port p) \<and> int32_range (ssp_targetPort p)"
  shows "dec_Service (enc_Service v) = Some v"
proof -
  have "dec_structs dec_ServicePort (enc_structs enc_ServicePort (ssv_ports v)) = Some (ssv_ports v)"
    using assms(3) by (intro dec_structs_enc) auto
  then show ?thesis
    using assms(1,2) by (simp add: dec_Service_def enc_Service_def decode_simps)
qed

lemma dec_Controller_enc [simp]:
  "int32_range (ctl_replicas c) \<Longrightarrow> wf_map (ctl_labels c) \<Longrightarrow> dec_Controller (enc_Controller c) = Some c"
  by (simp add: dec_Controller_def enc_Controller_def decode_simps)

lemma dec_SeedPod_enc [simp]: "wf_seed_pod p \<Longrightarrow> dec_SeedPod (enc_SeedPod p) = Some p"
  by (simp add: wf_seed_pod_def dec_SeedPod_def enc_SeedPod_def decode_simps)

lemma dec_Seed_enc:
  assumes "wf_seed s"
  shows "dec_Seed (enc_Seed s) = Some s"
proof -
  have "dec_structs dec_SeedPod (enc_structs enc_SeedPod (sd_fakePods s)) = Some (sd_fakePods s)"
    "dec_structs dec_FakeSecret (enc_structs enc_FakeSecret (sd_fakeSecrets s)) = Some (sd_fakeSecrets s)"
    "dec_structs dec_Controller (enc_structs enc_Controller (sd_controllers s)) = Some (sd_controllers s)"
    "dec_structs dec_Service (enc_structs enc_Service (sd_services s)) = Some (sd_services s)"
    "dec_structs dec_ConfigMap (enc_structs enc_ConfigMap (sd_configMaps s)) = Some (sd_configMaps s)"
    using assms by (auto simp: wf_seed_def intro!: dec_structs_enc dec_Service_enc)
  then show ?thesis
    by (simp add: dec_Seed_def enc_Seed_def decode_simps)
qed

section \<open>Load\<close>

text \<open>
  Reading the file is a call to the file system. The text layer of \<^verbatim>\<open>json.Unmarshal\<close> is the
  parameter \<open>parse\<close>, from bytes to a JSON value or a syntax error; the struct layer is
  \<open>dec_Seed\<close>.
\<close>

definition Load ::
  "(string \<Rightarrow> ('w, string) call) \<Rightarrow> (string \<Rightarrow> json option) \<Rightarrow> string \<Rightarrow> ('w, Seed) call" where
  "Load ReadFile parse path =
     and_then (on_error (wrap_error ''reading seed file'') (ReadFile path)) (\<lambda>b.
       case parse b of
         Some (JObj ms) \<Rightarrow>
           (case dec_Seed ms of
              Some s \<Rightarrow> ok s
            | None \<Rightarrow> fail (wrap_error ''parsing seed file'' (errorf ''json: cannot unmarshal'')))
       | Some JNull \<Rightarrow> (case dec_Seed [] of Some s \<Rightarrow> ok s | None \<Rightarrow> fail (errorf ''parsing seed file''))
       | _ \<Rightarrow> fail (wrap_error ''parsing seed file'' (errorf ''json: invalid input'')))"

end
