(* ===== verification/Sha256.thy ===== *)
theory Sha256
  imports Go_Strings
begin

text \<open>
  SHA-256 (Go's \<^verbatim>\<open>crypto/sha256.Sum256\<close>) on byte strings, from FIPS 180-4. The operator
  uses it for its rollout checksums and the shim for every fabricated identifier. What the
  components rely on is that a digest has 32 bytes and depends on its input alone.
\<close>

unbundle bit_operations_syntax

type_synonym u32 = "32 word"

definition rotr32 :: "nat \<Rightarrow> u32 \<Rightarrow> u32" where
  "rotr32 n x = (drop_bit n x) OR (push_bit (32 - n) x)"

definition sha_k :: "u32 list" where
  "sha_k = [
    1116352408, 1899447441, 3049323471, 3921009573, 961987163, 1508970993, 2453635748, 2870763221,
    3624381080, 310598401, 607225278, 1426881987, 1925078388, 2162078206, 2614888103, 3248222580,
    3835390401, 4022224774, 264347078, 604807628, 770255983, 1249150122, 1555081692, 1996064986,
    2554220882, 2821834349, 2952996808, 3210313671, 3336571891, 3584528711, 113926993, 338241895,
    666307205, 773529912, 1294757372, 1396182291, 1695183700, 1986661051, 2177026350, 2456956037,
    2730485921, 2820302411, 3259730800, 3345764771, 3516065817, 3600352804, 4094571909, 275423344,
    430227734, 506948616, 659060556, 883997877, 958139571, 1322822218, 1537002063, 1747873779,
    1955562222, 2024104815, 2227730452, 2361852424, 2428436474, 2756734187, 3204031479, 3329325298]"

datatype sha_state = Sha u32 u32 u32 u32 u32 u32 u32 u32

definition sha_init :: sha_state where
  "sha_init = Sha 0x6a09e667 0xbb67ae85 0x3c6ef372 0xa54ff53a 0x510e527f 0x9b05688c 0x1f83d9ab 0x5be0cd19"

fun sha_round :: "sha_state \<Rightarrow> u32 \<times> u32 \<Rightarrow> sha_state" where
  "sha_round (Sha a b c d e f g h) (k, w) =
     (let s1 = rotr32 6 e XOR rotr32 11 e XOR rotr32 25 e;
          ch = (e AND f) XOR (NOT e AND g);
          t1 = h + s1 + ch + k + w;
          s0 = rotr32 2 a XOR rotr32 13 a XOR rotr32 22 a;
          maj = (a AND b) XOR (a AND c) XOR (b AND c);
          t2 = s0 + maj
      in Sha (t1 + t2) a b c (d + t1) e f g)"

text \<open>The message schedule, newest word first.\<close>

fun sha_extend :: "nat \<Rightarrow> u32 list \<Rightarrow> u32 list" where
  "sha_extend 0 ws = ws"
| "sha_extend (Suc n) ws =
     (let w15 = ws ! 14; w2 = ws ! 1;
          s0 = rotr32 7 w15 XOR rotr32 18 w15 XOR drop_bit 3 w15;
          s1 = rotr32 17 w2 XOR rotr32 19 w2 XOR drop_bit 10 w2
      in sha_extend n ((ws ! 15 + s0 + ws ! 6 + s1) # ws))"

fun sha_add :: "sha_state \<Rightarrow> sha_state \<Rightarrow> sha_state" where
  "sha_add (Sha a b c d e f g h) (Sha a' b' c' d' e' f' g' h') =
     Sha (a + a') (b + b') (c + c') (d + d') (e + e') (f + f') (g + g') (h + h')"

definition sha_block :: "sha_state \<Rightarrow> u32 list \<Rightarrow> sha_state" where
  "sha_block st ws = sha_add st (foldl sha_round st (zip sha_k (rev (sha_extend 48 (rev ws)))))"

definition be_word :: "char \<Rightarrow> char \<Rightarrow> char \<Rightarrow> char \<Rightarrow> u32" where
  "be_word a b c d = ((of_char a * 256 + of_char b) * 256 + of_char c) * 256 + of_char d"

fun be_words :: "string \<Rightarrow> u32 list" where
  "be_words (a # b # c # d # s) = be_word a b c d # be_words s"
| "be_words s = []"

definition be_bytes :: "u32 \<Rightarrow> string" where
  "be_bytes w = map (\<lambda>i. char_of (uint w div i)) [0x1000000, 0x10000, 0x100, 1]"

definition sha_pad :: "string \<Rightarrow> string" where
  "sha_pad s =
     (let n = length s; z = (119 - n mod 64) mod 64; bits = 8 * int n
      in s @ [CHR 0x80] @ replicate z (CHR 0x00)
         @ map (\<lambda>i. char_of (bits div i))
              [0x100000000000000, 0x1000000000000, 0x10000000000, 0x100000000,
               0x1000000, 0x10000, 0x100, 1])"

function sha_blocks :: "sha_state \<Rightarrow> u32 list \<Rightarrow> sha_state" where
  "sha_blocks st ws = (if ws = [] then st else sha_blocks (sha_block st (take 16 ws)) (drop 16 ws))"
  by pat_completeness auto
termination
  by (relation "measure (\<lambda>(st, ws). length ws)") auto

declare sha_blocks.simps [simp del]

fun sha_digest :: "sha_state \<Rightarrow> string" where
  "sha_digest (Sha a b c d e f g h) = concat (map be_bytes [a, b, c, d, e, f, g, h])"

definition sha256 :: "string \<Rightarrow> string" where
  "sha256 s = sha_digest (sha_blocks sha_init (be_words (sha_pad s)))"

lemma length_be_bytes [simp]: "length (be_bytes w) = 4"
  by (simp add: be_bytes_def)

lemma length_sha256 [simp]: "length (sha256 s) = 32"
  by (cases "sha_blocks sha_init (be_words (sha_pad s))") (simp add: sha256_def)

text \<open>Padding makes the message a whole number of 64-byte blocks.\<close>

lemma sha_pad_blocks: "length (sha_pad s) mod 64 = 0"
proof -
  define r z where "r = length s mod 64" and "z = (119 - r) mod 64"
  have r: "r < 64" by (simp add: r_def)
  have z: "r + 9 + z = 64 \<or> r + 9 + z = 128"
  proof (cases "r \<le> 55")
    case True
    then have "119 - r = 55 - r + 64" by simp
    then have "z = (55 - r + 64) mod 64" by (simp only: z_def)
    also have "\<dots> = 55 - r" using True by (simp only: mod_add_self2 mod_less)
    finally show ?thesis using True by simp
  next
    case False
    with r show ?thesis by (simp add: z_def)
  qed
  have "length (sha_pad s) = length s + (9 + z)"
    by (simp add: sha_pad_def Let_def z_def r_def)
  then have "length (sha_pad s) mod 64 = (r + (9 + z)) mod 64"
    by (simp only: r_def mod_add_left_eq)
  then have "length (sha_pad s) mod 64 = (r + 9 + z) mod 64" by (simp add: add.assoc)
  moreover have "m mod 64 = 0" if "m = 64 \<or> m = 128" for m :: nat
    using that by auto
  ultimately show ?thesis using z by simp
qed

end
