(* ===== verification/Render_Seed.thy ===== *)
theory Render_Seed
  imports Seed Sha256
begin

text \<open>
  First part of \<^verbatim>\<open>src/internal/controller/render.go\<close>: labels, the seed of the inner cluster,
  the names and namespaces the decoy shows, and the files of its ConfigMap.
\<close>

section \<open>Constants and labels\<close>

abbreviation "labelApp \<equiv> ''app.kubernetes.io/name''"
abbreviation "labelInstance \<equiv> ''app.kubernetes.io/instance''"
abbreviation "labelManagedBy \<equiv> ''app.kubernetes.io/managed-by''"
abbreviation "managedByValue \<equiv> ''honeypod-operator''"
abbreviation "innerAPIPort \<equiv> (8443 :: int)"
abbreviation "kineListenAddr \<equiv> ''127.0.0.1:2379''"
abbreviation "kubeletPort \<equiv> (10250 :: int)"
abbreviation "seedFileName \<equiv> ''seed.json''"
abbreviation "tokenAuthFileName \<equiv> ''token-auth.csv''"
abbreviation "auditPolicyFileName \<equiv> ''audit-policy.yaml''"
abbreviation "auditWebhookKubeconfigFileName \<equiv> ''audit-webhook-kubeconfig.yaml''"
abbreviation "kcmKubeconfigFileName \<equiv> ''kcm-kubeconfig.yaml''"
abbreviation "seedDirPath \<equiv> ''/etc/config''"
abbreviation "shimSecretDirPath \<equiv> ''/etc/ssl/app''"
abbreviation "shimBinaryPath \<equiv> ''/usr/local/bin/app''"
abbreviation "auditLogDir \<equiv> ''/var/log/kubernetes''"
abbreviation "auditLogPath \<equiv> ''/var/log/kubernetes/audit.log''"
abbreviation "managerNamespace \<equiv> ''honeypod''"
abbreviation "managerServiceName \<equiv> ''honeypod-controller-manager''"
abbreviation "auditWebhookPort \<equiv> (9880 :: int)"
abbreviation "joinAnnotation \<equiv> ''honeypod.io/join''"
abbreviation "joinAnnotationImplicit \<equiv> ''true''"

definition defaultManagerAuditWebhookURL :: string where
  "defaultManagerAuditWebhookURL =
     ''http://'' @ managerServiceName @ ''.'' @ managerNamespace @ ''.svc:'' @ Itoa auditWebhookPort"

definition selectorLabels :: "string \<Rightarrow> smap" where
  "selectorLabels name = [(labelApp, ''honeypod''), (labelInstance, name)]"

definition commonLabels :: "string \<Rightarrow> smap" where
  "commonLabels name = gm_set labelManagedBy managedByValue (selectorLabels name)"

definition checksum :: "string \<Rightarrow> string" where
  "checksum b = hex_encode (sha256 b)"

text \<open>Base64, with the alphabet and the padding as parameters.\<close>

definition b64_std :: string where
  "b64_std = ''ABCDEFGHIJKLMNOPQRSTUVWXYZabcdefghijklmnopqrstuvwxyz0123456789+/''"

definition b64_url :: string where
  "b64_url = ''ABCDEFGHIJKLMNOPQRSTUVWXYZabcdefghijklmnopqrstuvwxyz0123456789-_''"

fun b64_encode :: "string \<Rightarrow> string \<Rightarrow> string \<Rightarrow> string" where
  "b64_encode abc pad (a # b # c # rest) =
     (let n = of_char a * 65536 + of_char b * 256 + of_char c :: nat in
      [abc ! (n div 262144), abc ! (n div 4096 mod 64), abc ! (n div 64 mod 64), abc ! (n mod 64)]
      @ b64_encode abc pad rest)"
| "b64_encode abc pad [a, b] =
     (let n = of_char a * 256 + of_char b :: nat in
      [abc ! (n div 1024), abc ! (n div 16 mod 64), abc ! (n mod 16 * 4)] @ pad)"
| "b64_encode abc pad [a] =
     (let n = of_char a :: nat in [abc ! (n div 4), abc ! (n mod 4 * 16)] @ pad @ pad)"
| "b64_encode abc pad [] = ''''"

text \<open>\<open>rand\<close> reads the given number of random bytes.\<close>

definition generateToken :: "(nat \<Rightarrow> ('w, string) call) \<Rightarrow> ('w, string) call" where
  "generateToken rand = and_then (rand 32) (\<lambda>b. ok (b64_encode b64_url '''' b))"

section \<open>Versions and images\<close>

definition defaultKubernetesVersion :: string where
  "defaultKubernetesVersion = ''v1.35.0''"

definition kubernetesVersion :: "Decoy \<Rightarrow> string" where
  "kubernetesVersion kt =
     (if sp_kubernetesVersion (kt_spec kt) \<noteq> '''' then sp_kubernetesVersion (kt_spec kt)
      else defaultKubernetesVersion)"

definition kubeAPIServerImage :: "Decoy \<Rightarrow> string" where
  "kubeAPIServerImage kt =
     (if sp_kubeAPIServerImage (kt_spec kt) \<noteq> '''' then sp_kubeAPIServerImage (kt_spec kt)
      else ''registry.k8s.io/kube-apiserver:'' @ kubernetesVersion kt)"

definition kineImage :: "Decoy \<Rightarrow> string" where
  "kineImage kt =
     (if sp_kineImage (kt_spec kt) \<noteq> '''' then sp_kineImage (kt_spec kt) else ''rancher/kine:latest'')"

definition kubeletShimImage :: "Decoy \<Rightarrow> string" where
  "kubeletShimImage kt =
     (if sp_kubeletShimImage (kt_spec kt) \<noteq> '''' then sp_kubeletShimImage (kt_spec kt)
      else ''honeypod/kubelet-shim:latest'')"

definition servicePort :: "Decoy \<Rightarrow> int" where
  "servicePort kt = (if sp_port (kt_spec kt) \<noteq> 0 then sp_port (kt_spec kt) else 6443)"

definition execProfile :: "Decoy \<Rightarrow> string" where
  "execProfile kt =
     (if sp_execProfile (kt_spec kt) = ''minimal'' \<or> sp_execProfile (kt_spec kt) = ''distroless''
      then sp_execProfile (kt_spec kt) else ''shell'')"

definition seedSystemComponents :: "Decoy \<Rightarrow> bool" where
  "seedSystemComponents kt =
     (case sp_seedSystemComponents (kt_spec kt) of None \<Rightarrow> True | Some b \<Rightarrow> b)"

section \<open>The seed\<close>

subsection \<open>Custom resource definitions\<close>

definition default_crd :: "string \<Rightarrow> string \<Rightarrow> string \<Rightarrow> string list \<Rightarrow> string \<Rightarrow> SeedCRD" where
  "default_crd grp kind plural short scope =
     \<lparr>crd_group = grp, crd_kind = kind, crd_plural = plural, crd_singular = '''',
      crd_shortNames = short, crd_versions = [], crd_scope = scope\<rparr>"

definition defaultCRDs :: "SeedCRD list" where
  "defaultCRDs =
     [default_crd ''cert-manager.io'' ''Certificate'' ''certificates'' [''cert'', ''certs''] '''',
      default_crd ''cert-manager.io'' ''Issuer'' ''issuers'' [] '''',
      default_crd ''cert-manager.io'' ''ClusterIssuer'' ''clusterissuers'' [] ''Cluster'',
      default_crd ''monitoring.coreos.com'' ''ServiceMonitor'' ''servicemonitors'' [''smon''] '''',
      default_crd ''monitoring.coreos.com'' ''PrometheusRule'' ''prometheusrules'' [''promrule''] '''']"

definition crd_key :: "SeedCRD \<Rightarrow> string" where
  "crd_key c = crd_plural c @ ''.'' @ crd_group c"

definition add_crd :: "SeedCRD \<Rightarrow> (string, SeedCRD) gomap \<times> string list \<Rightarrow> (string, SeedCRD) gomap \<times> string list" where
  "add_crd c = (\<lambda>(byName, order).
     (gm_set (crd_key c) c byName, if gm_get byName (crd_key c) = None then order @ [crd_key c] else order))"

definition crd_of_fake :: "FakeCRD \<Rightarrow> SeedCRD" where
  "crd_of_fake fc =
     \<lparr>crd_group = fcrd_group fc, crd_kind = fcrd_kind fc, crd_plural = fcrd_plural fc,
      crd_singular = fcrd_singular fc, crd_shortNames = fcrd_shortNames fc,
      crd_versions = fcrd_versions fc, crd_scope = fcrd_scope fc\<rparr>"

definition zero_crd :: SeedCRD where
  "zero_crd = default_crd '''' '''' '''' [] ''''"

definition renderCRDs :: "Decoy \<Rightarrow> SeedCRD list" where
  "renderCRDs kt =
     (let st1 = (if seedSystemComponents kt then fold add_crd defaultCRDs ([], []) else ([], []));
          (byName, order) = fold (\<lambda>fc. add_crd (crd_of_fake fc)) (sp_fakeCRDs (kt_spec kt)) st1 in
      if length order = 0 then []
      else map (\<lambda>key. case gm_get byName key of Some c \<Rightarrow> c | None \<Rightarrow> zero_crd) order)"

subsection \<open>Standard objects\<close>

definition text_lines :: "string list \<Rightarrow> string" where
  "text_lines ls = concat (map (\<lambda>l. l @ [newline]) ls)"

definition standard_cm :: "string \<Rightarrow> string \<Rightarrow> smap \<Rightarrow> string \<Rightarrow> string list \<Rightarrow> SeedConfigMap" where
  "standard_cm name ns labels key body =
     \<lparr>scm_name = name, scm_namespace = ns, scm_labels = labels, scm_data = [(key, text_lines body)]\<rparr>"

definition renderStandardObjects :: "Decoy \<Rightarrow> SeedService list \<times> SeedConfigMap list" where
  "renderStandardObjects kt =
     (if \<not> seedSystemComponents kt \<or> length (sp_fakeNodes (kt_spec kt)) = 0 then ([], [])
      else
        (let version = kubernetesVersion kt in
         ([\<lparr>ssv_name = ''kube-dns'', ssv_namespace = ''kube-system'',
             ssv_labels = [(''k8s-app'', ''kube-dns''), (''kubernetes.io/name'', ''CoreDNS'')],
             ssv_clusterIP = ''10.96.0.10'',
             ssv_ports =
               [\<lparr>ssp_name = ''dns'', ssp_port = 53, ssp_targetPort = 53, ssp_protocol = ''UDP''\<rparr>,
                \<lparr>ssp_name = ''dns-tcp'', ssp_port = 53, ssp_targetPort = 53, ssp_protocol = ''TCP''\<rparr>,
                \<lparr>ssp_name = ''metrics'', ssp_port = 9153, ssp_targetPort = 9153, ssp_protocol = ''TCP''\<rparr>],
             ssv_selector = [(''k8s-app'', ''kube-dns'')],
             ssv_endpointIPs = [''10.244.0.2'', ''10.244.0.3'']\<rparr>],
          [standard_cm ''kubeadm-config'' ''kube-system'' [] ''ClusterConfiguration''
             [''apiServer: {}'', ''apiVersion: kubeadm.k8s.io/v1beta4'', ''certificatesDir: /etc/kubernetes/pki'',
              ''clusterName: kubernetes'', ''controlPlaneEndpoint: \"\"'', ''kind: ClusterConfiguration'',
              ''kubernetesVersion: '' @ version, ''networking:'', ''  dnsDomain: cluster.local'',
              ''  serviceSubnet: 10.96.0.0/12''],
           standard_cm ''kubelet-config'' ''kube-system'' [] ''kubelet''
             [''apiVersion: kubelet.config.k8s.io/v1beta1'', ''kind: KubeletConfiguration'', ''clusterDNS:'',
              ''- 10.96.0.10'', ''clusterDomain: cluster.local'', ''cgroupDriver: systemd''],
           standard_cm ''kube-proxy'' ''kube-system'' [(''app'', ''kube-proxy'')] ''config.conf''
             [''apiVersion: kubeproxy.config.k8s.io/v1alpha1'', ''kind: KubeProxyConfiguration'',
              ''clusterCIDR: 10.244.0.0/16'', ''mode: iptables''],
           standard_cm ''coredns'' ''kube-system'' [] ''Corefile''
             [''.:53 {'', ''    errors'', ''    health {'', ''       lameduck 5s'', ''    }'', ''    ready'',
              ''    kubernetes cluster.local in-addr.arpa ip6.arpa {'', ''       pods insecure'',
              ''       fallthrough in-addr.arpa ip6.arpa'', ''    }'', ''    prometheus :9153'',
              ''    forward . /etc/resolv.conf'', ''    cache 30'', ''    loop'', ''    reload'',
              ''    loadbalance'', ''}''],
           standard_cm ''cluster-info'' ''kube-public'' [] ''kubeconfig''
             [''apiVersion: v1'', ''kind: Config'', ''clusters:'', ''- name: \"\"'', ''  cluster:'',
              ''    server: https://kubernetes.default.svc:6443'']])))"

subsection \<open>The pods of kube-system\<close>

definition system_fake_pod :: "string \<Rightarrow> string \<Rightarrow> string \<Rightarrow> string \<Rightarrow> smap \<Rightarrow> FakePod" where
  "system_fake_pod name node cname img labels =
     \<lparr>fp_name = name, fp_namespace = ''kube-system'', fp_replicas = 0,
      fp_containers = [\<lparr>fc_name = cname, fc_image = img\<rparr>], fp_nodeName = node, fp_logLines = [], fp_labels = labels\<rparr>"

definition static_pod :: "string \<Rightarrow> string \<times> string \<Rightarrow> SeedPod" where
  "static_pod controlPlaneNode = (\<lambda>(name, img).
     (let podName = name @ ''-'' @ controlPlaneNode;
          hash = take 32 (checksum podName) in
      \<lparr>spd_fakePod = system_fake_pod podName controlPlaneNode name img [],
       spd_ownerRefs = [\<lparr>sor_apiVersion = ''v1'', sor_kind = ''Node'', sor_name = controlPlaneNode, sor_controller = True\<rparr>],
       spd_annotations = [(''kubernetes.io/config.source'', ''file''), (''kubernetes.io/config.hash'', hash),
                          (''kubernetes.io/config.mirror'', hash)],
       spd_hostNetwork = True, spd_cpuRequest = ''100m'', spd_memoryRequest = ''''\<rparr>))"

definition proxy_pod :: "string \<Rightarrow> FakeNode \<Rightarrow> SeedPod" where
  "proxy_pod proxyImage n =
     \<lparr>spd_fakePod = system_fake_pod (''kube-proxy-'' @ fn_name n) (fn_name n) ''kube-proxy'' proxyImage
                      [(''k8s-app'', ''kube-proxy'')],
      spd_ownerRefs = [\<lparr>sor_apiVersion = ''apps/v1'', sor_kind = ''DaemonSet'', sor_name = ''kube-proxy'', sor_controller = True\<rparr>],
      spd_annotations = [], spd_hostNetwork = True, spd_cpuRequest = ''100m'', spd_memoryRequest = ''''\<rparr>"

definition static_components :: "string \<Rightarrow> (string \<times> string) list" where
  "static_components version =
     [(''etcd'', ''registry.k8s.io/etcd:3.5.16-0''),
      (''kube-apiserver'', ''registry.k8s.io/kube-apiserver:'' @ version),
      (''kube-controller-manager'', ''registry.k8s.io/kube-controller-manager:'' @ version),
      (''kube-scheduler'', ''registry.k8s.io/kube-scheduler:'' @ version)]"

text \<open>Conversion to int32 keeps the low 32 bits.\<close>

definition to_int32 :: "int \<Rightarrow> int" where
  "to_int32 n = sint (word_of_int n :: 32 word)"

definition defaultKubeSystemPods :: "Decoy \<Rightarrow> FakeNode list \<Rightarrow> SeedPod list \<times> SeedController list" where
  "defaultKubeSystemPods kt nodes =
     (if sp_seedSystemComponents (kt_spec kt) = Some False then ([], [])
      else if length nodes = 0 then ([], [])
      else
        (let version = kubernetesVersion kt;
             controlPlaneNode = fn_name (hd nodes);
             proxyImage = ''registry.k8s.io/kube-proxy:'' @ version in
         (map (static_pod controlPlaneNode) (static_components version) @ map (proxy_pod proxyImage) nodes,
          [\<lparr>ctl_apiVersion = ''apps/v1'', ctl_kind = ''Deployment'', ctl_name = ''coredns'', ctl_namespace = ''kube-system'',
             ctl_labels = [(''k8s-app'', ''kube-dns'')], ctl_replicas = 2,
             ctl_image = ''registry.k8s.io/coredns/coredns:v1.11.3'', ctl_ownerRefs = []\<rparr>,
           \<lparr>ctl_apiVersion = ''apps/v1'', ctl_kind = ''DaemonSet'', ctl_name = ''kube-proxy'', ctl_namespace = ''kube-system'',
             ctl_labels = [(''k8s-app'', ''kube-proxy'')], ctl_replicas = to_int32 (int (length nodes)),
             ctl_image = proxyImage, ctl_ownerRefs = []\<rparr>])))"

subsection \<open>The whole seed\<close>

definition mirrorJoinedPod :: "Pod \<Rightarrow> FakePod" where
  "mirrorJoinedPod p =
     \<lparr>fp_name = pod_name p, fp_namespace = pod_ns p, fp_replicas = 1,
      fp_containers = map (\<lambda>c. \<lparr>fc_name = c_name c, fc_image = c_image c\<rparr>) (ps_containers (pod_spec p)),
      fp_nodeName = '''', fp_logLines = [], fp_labels = m_labels (pod_meta p)\<rparr>"

definition seed_nodes :: "Decoy \<Rightarrow> FakeNode list" where
  "seed_nodes kt =
     map (\<lambda>n. if fn_kubeletVersion n = '''' then n\<lparr>fn_kubeletVersion := kubernetesVersion kt\<rparr> else n)
       (sp_fakeNodes (kt_spec kt))"

definition renderSeed :: "Decoy \<Rightarrow> Pod list \<Rightarrow> Seed" where
  "renderSeed kt joined =
     (let nodes = seed_nodes kt;
          (systemPods, controllers) = defaultKubeSystemPods kt nodes;
          (services, configMaps) = renderStandardObjects kt in
      \<lparr>sd_fakeNodes = nodes,
       sd_fakePods = map plain_seed_pod (sp_fakePods (kt_spec kt))
         @ map (\<lambda>p. plain_seed_pod (mirrorJoinedPod p)) joined @ systemPods,
       sd_fakeSecrets = sp_fakeSecrets (kt_spec kt),
       sd_controllers = controllers,
       sd_crds = renderCRDs kt,
       sd_services = services,
       sd_configMaps = configMaps\<rparr>)"

text \<open>\<open>Marshal\<close> is the text layer of \<^verbatim>\<open>json.Marshal\<close>, which has no error on these types.\<close>

definition renderSeedJSON :: "(json \<Rightarrow> string) \<Rightarrow> Decoy \<Rightarrow> Pod list \<Rightarrow> string" where
  "renderSeedJSON Marshal kt joined = Marshal (JObj (enc_Seed (renderSeed kt joined)))"

section \<open>Names the decoy shows\<close>

definition servedNamespace :: "Decoy \<Rightarrow> string" where
  "servedNamespace kt =
     (case sp_fakePods (kt_spec kt) of
        p # _ \<Rightarrow> if fp_namespace p \<noteq> '''' then fp_namespace p else
          (case sp_fakeSecrets (kt_spec kt) of s # _ \<Rightarrow> if fs_namespace s \<noteq> '''' then fs_namespace s else ''default'' | [] \<Rightarrow> ''default'')
      | [] \<Rightarrow>
          (case sp_fakeSecrets (kt_spec kt) of s # _ \<Rightarrow> if fs_namespace s \<noteq> '''' then fs_namespace s else ''default'' | [] \<Rightarrow> ''default''))"

text \<open>
  \<^verbatim>\<open>strings.ToLower\<close> as far as it produces ASCII: besides the capital letters, the Kelvin sign
  (U+212A) becomes k and the dotted capital I (U+0130) becomes i. Other characters stay
  outside ASCII; their bytes are left as they are.
\<close>

function ToLower :: "string \<Rightarrow> string" where
  "ToLower s =
     (if s = [] then []
      else if HasPrefix s [CHR 0xE2, CHR 0x84, CHR 0xAA] then CHR ''k'' # ToLower (drop 3 s)
      else if HasPrefix s [CHR 0xC4, CHR 0xB0] then CHR ''i'' # ToLower (drop 2 s)
      else ascii_lower (hd s) # ToLower (tl s))"
  by pat_completeness auto

termination
  by (relation "measure length") auto

declare ToLower.simps [simp del]

definition is_alnum :: "char \<Rightarrow> bool" where
  "is_alnum c \<longleftrightarrow> (97 \<le> (of_char c :: nat) \<and> (of_char c :: nat) \<le> 122) \<or> (48 \<le> (of_char c :: nat) \<and> (of_char c :: nat) \<le> 57)"

text \<open>The loop of \<^verbatim>\<open>sanitizeDNSLabel\<close>; the flag says that a dash was written last.\<close>

fun label_chars :: "string \<Rightarrow> bool \<Rightarrow> string" where
  "label_chars [] prevDash = []"
| "label_chars (r # s) prevDash =
     (if is_alnum r then r # label_chars s False
      else if r = CHR ''-'' \<or> r = CHR ''.'' \<or> r = CHR ''_'' then
        (if \<not> prevDash then CHR ''-'' # label_chars s True else label_chars s prevDash)
      else label_chars s prevDash)"

definition sanitizeDNSLabel :: "string \<Rightarrow> string" where
  "sanitizeDNSLabel s =
     (let out1 = Trim (label_chars (ToLower s) False) ''-'';
          out = (if length out1 > 63 then Trim (take 63 out1) ''-'' else out1) in
      if out = '''' then ''worker'' else out)"

definition decoyHostname :: "Decoy \<Rightarrow> string" where
  "decoyHostname kt =
     sanitizeDNSLabel
       (if length (sp_fakePods (kt_spec kt)) > 0 \<and> fp_name (hd (sp_fakePods (kt_spec kt))) \<noteq> ''''
        then fp_name (hd (sp_fakePods (kt_spec kt)))
        else if length (sp_fakeNodes (kt_spec kt)) > 0 \<and> fn_name (hd (sp_fakeNodes (kt_spec kt))) \<noteq> ''''
        then fn_name (hd (sp_fakeNodes (kt_spec kt)))
        else ''worker'')"

section \<open>The ConfigMap's files\<close>

text \<open>
  \<open>yaml\<close> is \<^verbatim>\<open>yaml.Marshal\<close> of the sigs.k8s.io library, from a value to text; these values never
  make it fail.
\<close>

definition renderKCMKubeconfig :: "(json \<Rightarrow> string) \<Rightarrow> string \<Rightarrow> string" where
  "renderKCMKubeconfig yaml token =
     yaml (JObj
       [(''apiVersion'', JStr ''v1''), (''kind'', JStr ''Config''),
        (''clusters'', JArr [JObj [(''name'', JStr ''decoy''), (''cluster'', JObj
            [(''server'', JStr (''https://127.0.0.1:'' @ Itoa innerAPIPort)),
             (''insecure-skip-tls-verify'', JBool True)])]]),
        (''users'', JArr [JObj [(''name'', JStr ''kube-controller-manager''), (''user'', JObj [(''token'', JStr token)])]]),
        (''contexts'', JArr [JObj [(''name'', JStr ''decoy''), (''context'', JObj
            [(''cluster'', JStr ''decoy''), (''user'', JStr ''kube-controller-manager'')])]]),
        (''current-context'', JStr ''decoy'')])"

abbreviation "decoyUsername \<equiv> ''kubernetes-admin''"
abbreviation "decoyUID \<equiv> ''admin''"
abbreviation "decoyGroups \<equiv> ''system:masters''"
abbreviation "shimUID \<equiv> ''kubelet''"
abbreviation "shimGroups \<equiv> ''system:nodes,system:masters''"
abbreviation "kcmUsername \<equiv> ''system:kube-controller-manager''"
abbreviation "kcmUID \<equiv> ''kube-controller-manager''"
abbreviation "kcmGroups \<equiv> ''system:masters''"

definition shimUsername :: "Decoy \<Rightarrow> string" where
  "shimUsername kt =
     ''system:node:'' @
       (if length (sp_fakeNodes (kt_spec kt)) > 0 \<and> fn_name (hd (sp_fakeNodes (kt_spec kt))) \<noteq> ''''
        then fn_name (hd (sp_fakeNodes (kt_spec kt))) else ''worker-1'')"

definition auth_line :: "string \<Rightarrow> string \<Rightarrow> string \<Rightarrow> string \<Rightarrow> string" where
  "auth_line token user uid groups = token @ '','' @ user @ '','' @ uid @ '','' @ Quote groups @ [newline]"

definition renderTokenAuthFile :: "Decoy \<Rightarrow> string \<Rightarrow> string \<Rightarrow> string \<Rightarrow> string" where
  "renderTokenAuthFile kt decoyToken shimToken kcmToken =
     auth_line decoyToken decoyUsername decoyUID decoyGroups
     @ auth_line shimToken (shimUsername kt) shimUID shimGroups
     @ auth_line kcmToken kcmUsername kcmUID kcmGroups"

definition renderAuditPolicy :: "Decoy \<Rightarrow> string" where
  "renderAuditPolicy kt =
     (let level = (if sp_auditLevel (kt_spec kt) = '''' then ''RequestResponse'' else sp_auditLevel (kt_spec kt)) in
      text_lines [''apiVersion: audit.k8s.io/v1'', ''kind: Policy'', ''rules:'', ''- level: '' @ level])"

definition audit_server :: "Decoy \<Rightarrow> string \<Rightarrow> string" where
  "audit_server kt managerAuditWebhookURL =
     (if managerAuditWebhookURL = '''' then defaultManagerAuditWebhookURL else managerAuditWebhookURL)
     @ ''/audit/'' @ kt_ns kt @ ''/'' @ kt_name kt"

definition renderAuditWebhookKubeconfig :: "(json \<Rightarrow> string) \<Rightarrow> Decoy \<Rightarrow> string \<Rightarrow> string" where
  "renderAuditWebhookKubeconfig yaml kt managerAuditWebhookURL =
     yaml (JObj
       [(''apiVersion'', JStr ''v1''), (''kind'', JStr ''Config''),
        (''clusters'', JArr [JObj [(''name'', JStr ''honeypod-audit''),
            (''cluster'', JObj [(''server'', JStr (audit_server kt managerAuditWebhookURL))])]]),
        (''contexts'', JArr [JObj [(''name'', JStr ''honeypod-audit''),
            (''context'', JObj [(''cluster'', JStr ''honeypod-audit'')])]]),
        (''current-context'', JStr ''honeypod-audit'')])"

definition renderKubeconfig :: "(json \<Rightarrow> string) \<Rightarrow> string \<Rightarrow> string \<Rightarrow> string \<Rightarrow> string \<Rightarrow> string" where
  "renderKubeconfig yaml clusterName server caPEM token =
     yaml (JObj
       [(''apiVersion'', JStr ''v1''), (''kind'', JStr ''Config''),
        (''clusters'', JArr [JObj [(''name'', JStr clusterName), (''cluster'', JObj
            [(''server'', JStr server), (''certificate-authority-data'', JStr (b64_encode b64_std ''='' caPEM))])]]),
        (''users'', JArr [JObj [(''name'', JStr (clusterName @ ''-admin'')), (''user'', JObj [(''token'', JStr token)])]]),
        (''contexts'', JArr [JObj [(''name'', JStr clusterName), (''context'', JObj
            [(''cluster'', JStr clusterName), (''user'', JStr (clusterName @ ''-admin''))])]]),
        (''current-context'', JStr clusterName)])"

definition serviceDNSName :: "string \<Rightarrow> string \<Rightarrow> string" where
  "serviceDNSName name namespace = name @ ''.'' @ namespace @ ''.svc''"

definition renderConfigData ::
  "(json \<Rightarrow> string) \<Rightarrow> (json \<Rightarrow> string) \<Rightarrow> Decoy \<Rightarrow> Pod list \<Rightarrow> string \<Rightarrow> string \<Rightarrow> string \<Rightarrow> string \<Rightarrow> smap" where
  "renderConfigData Marshal yaml kt joined decoyToken shimToken kcmToken managerAuditWebhookURL =
     [(seedFileName, renderSeedJSON Marshal kt joined),
      (tokenAuthFileName, renderTokenAuthFile kt decoyToken shimToken kcmToken),
      (auditPolicyFileName, renderAuditPolicy kt),
      (auditWebhookKubeconfigFileName, renderAuditWebhookKubeconfig yaml kt managerAuditWebhookURL),
      (kcmKubeconfigFileName, renderKCMKubeconfig yaml kcmToken)]"

section \<open>Facts\<close>

subsection \<open>Rendered CRDs\<close>

definition all_crds :: "Decoy \<Rightarrow> SeedCRD list" where
  "all_crds kt = (if seedSystemComponents kt then defaultCRDs else []) @ map crd_of_fake (sp_fakeCRDs (kt_spec kt))"

text \<open>The two variables of \<^verbatim>\<open>renderCRDs\<close> agree: \<open>order\<close> lists the keys of \<open>byName\<close> once.\<close>

definition crd_inv :: "(string, SeedCRD) gomap \<times> string list \<Rightarrow> bool" where
  "crd_inv st \<longleftrightarrow> distinct (snd st) \<and> (\<forall>k. (k \<in> set (snd st)) = (gm_get (fst st) k \<noteq> None))
     \<and> (\<forall>k c. gm_get (fst st) k = Some c \<longrightarrow> crd_key c = k)"

lemma crd_inv_add: "crd_inv st \<Longrightarrow> crd_inv (add_crd c st)"
  by (cases st) (auto simp: crd_inv_def add_crd_def gm.get_set)

lemma crd_inv_fold: "crd_inv st \<Longrightarrow> crd_inv (fold add_crd cs st)"
proof (induction cs arbitrary: st)
  case (Cons c cs)
  then show ?case using crd_inv_add [of st c] by simp
qed simp

lemma fst_fold_add_crd:
  "fst (fold add_crd cs st) = fold (\<lambda>(k, v). gm_set k v) (map (\<lambda>c. (crd_key c, c)) cs) (fst st)"
  by (induction cs arbitrary: st) (auto simp: add_crd_def split: prod.splits)

lemma renderCRDs_eq:
  "renderCRDs kt =
     (let (byName, order) = fold add_crd (all_crds kt) ([], []) in
      map (\<lambda>key. case gm_get byName key of Some c \<Rightarrow> c | None \<Rightarrow> zero_crd) order)"
  by (auto simp: renderCRDs_def all_crds_def Let_def fold_map comp_def split: prod.splits)

lemma renderCRDs_mem:
  "c \<in> set (renderCRDs kt) \<longleftrightarrow> map_of (rev (map (\<lambda>c. (crd_key c, c)) (all_crds kt))) (crd_key c) = Some c"
  and renderCRDs_distinct: "distinct (map crd_key (renderCRDs kt))"
proof -
  obtain m ord where st: "fold add_crd (all_crds kt) ([], []) = (m, ord)" by fastforce
  have inv: "crd_inv (m, ord)"
    using crd_inv_fold [of "([], [])" "all_crds kt"] st by (simp add: crd_inv_def gm_get_def)
  have m: "gm_get m k = map_of (rev (map (\<lambda>c. (crd_key c, c)) (all_crds kt))) k" for k
    using gm.fold_set_mem [of "map (\<lambda>c. (crd_key c, c)) (all_crds kt)" "[]" k] fst_fold_add_crd [of "all_crds kt" "([], [])"] st
    by (simp add: gm_get_def split: option.splits)
  have r: "renderCRDs kt = map (\<lambda>key. case gm_get m key of Some c \<Rightarrow> c | None \<Rightarrow> zero_crd) ord"
    by (simp add: renderCRDs_eq st)
  have keys: "crd_key (case gm_get m k of Some c \<Rightarrow> c | None \<Rightarrow> zero_crd) = k" if "k \<in> set ord" for k
    using inv that by (auto simp: crd_inv_def split: option.splits)
  show "distinct (map crd_key (renderCRDs kt))"
  proof -
    have "map crd_key (renderCRDs kt) = ord"
      unfolding r map_map using keys by (simp add: map_idI)
    then show ?thesis using inv by (simp add: crd_inv_def)
  qed
  have "c \<in> set (renderCRDs kt) \<longleftrightarrow> gm_get m (crd_key c) = Some c"
    using inv by (force simp: r crd_inv_def split: option.splits)
  then show "c \<in> set (renderCRDs kt) \<longleftrightarrow> map_of (rev (map (\<lambda>c. (crd_key c, c)) (all_crds kt))) (crd_key c) = Some c"
    by (simp add: m)
qed

subsection \<open>Well-formed seeds\<close>

text \<open>The Decoy and the joined pods as Go can hold them: int32 fields in range, maps with distinct keys.\<close>

definition go_decoy :: "Decoy \<Rightarrow> bool" where
  "go_decoy kt \<longleftrightarrow> (\<forall>p \<in> set (sp_fakePods (kt_spec kt)). int32_range (fp_replicas p) \<and> wf_map (fp_labels p))
     \<and> (\<forall>s \<in> set (sp_fakeSecrets (kt_spec kt)). wf_map (fs_data s))"

lemma to_int32_range: "int32_range (to_int32 n)"
  using sint_range_size [of "word_of_int n :: 32 word"] by (simp add: to_int32_def word_size)

lemma wf_system_pods:
  "p \<in> set (fst (defaultKubeSystemPods kt nodes)) \<Longrightarrow> wf_seed_pod p"
  by (auto simp: defaultKubeSystemPods_def Let_def static_components_def static_pod_def proxy_pod_def
      system_fake_pod_def wf_seed_pod_def split: if_splits)

lemma wf_system_controllers:
  "c \<in> set (snd (defaultKubeSystemPods kt nodes)) \<Longrightarrow> int32_range (ctl_replicas c) \<and> wf_map (ctl_labels c)"
  using to_int32_range [of "int (length nodes)"]
  by (auto simp: defaultKubeSystemPods_def Let_def split: if_splits)

lemma wf_standard_services:
  "v \<in> set (fst (renderStandardObjects kt)) \<Longrightarrow> wf_map (ssv_labels v) \<and> wf_map (ssv_selector v)
     \<and> (\<forall>p \<in> set (ssv_ports v). int32_range (ssp_port p) \<and> int32_range (ssp_targetPort p))"
  by (auto simp: renderStandardObjects_def Let_def split: if_splits)

lemma wf_standard_configmaps:
  "m \<in> set (snd (renderStandardObjects kt)) \<Longrightarrow> wf_map (scm_labels m) \<and> wf_map (scm_data m)"
  by (auto simp: renderStandardObjects_def Let_def standard_cm_def split: if_splits)

lemma renderSeed_sel:
  "sd_fakeNodes (renderSeed kt joined) = seed_nodes kt"
  "sd_fakePods (renderSeed kt joined) = map plain_seed_pod (sp_fakePods (kt_spec kt))
     @ map (\<lambda>p. plain_seed_pod (mirrorJoinedPod p)) joined @ fst (defaultKubeSystemPods kt (seed_nodes kt))"
  "sd_fakeSecrets (renderSeed kt joined) = sp_fakeSecrets (kt_spec kt)"
  "sd_controllers (renderSeed kt joined) = snd (defaultKubeSystemPods kt (seed_nodes kt))"
  "sd_crds (renderSeed kt joined) = renderCRDs kt"
  "sd_services (renderSeed kt joined) = fst (renderStandardObjects kt)"
  "sd_configMaps (renderSeed kt joined) = snd (renderStandardObjects kt)"
  by (simp_all add: renderSeed_def Let_def split: prod.splits)

lemma wf_renderSeed:
  assumes "go_decoy kt" and "\<forall>p \<in> set joined. wf_map (m_labels (pod_meta p))"
  shows "wf_seed (renderSeed kt joined)"
  unfolding wf_seed_def renderSeed_sel
proof (intro conjI)
  have "wf_seed_pod (plain_seed_pod p)" if "int32_range (fp_replicas p)" "wf_map (fp_labels p)" for p
    using that by (simp add: wf_seed_pod_def plain_seed_pod_def)
  then show "\<forall>p \<in> set (map plain_seed_pod (sp_fakePods (kt_spec kt))
     @ map (\<lambda>p. plain_seed_pod (mirrorJoinedPod p)) joined @ fst (defaultKubeSystemPods kt (seed_nodes kt))). wf_seed_pod p"
    using assms wf_system_pods by (auto simp: go_decoy_def mirrorJoinedPod_def)
  show "\<forall>x \<in> set (sp_fakeSecrets (kt_spec kt)). wf_map (fs_data x)"
    using assms(1) by (simp add: go_decoy_def)
qed (use wf_system_controllers wf_standard_services wf_standard_configmaps in blast)+

subsection \<open>Labels\<close>

lemma label_chars_props:
  assumes "label_chars s d = out"
  shows "\<forall>c \<in> set out. is_alnum c \<or> c = CHR ''-''"
  unfolding assms [symmetric] by (induction s d rule: label_chars.induct) auto

lemma set_Trim: "set (Trim s x) \<subseteq> set s"
  unfolding Trim_def TrimRight_def TrimLeft_def by (auto dest!: set_dropWhileD)

lemma length_Trim: "length (Trim s x) \<le> length s"
  unfolding Trim_def TrimRight_def TrimLeft_def
  by (metis length_dropWhile_le length_rev order_trans)

lemma Trim_ends:
  assumes "Trim s x \<noteq> []"
  shows "hd (Trim s x) \<notin> set x" and "last (Trim s x) \<notin> set x"
proof -
  let ?l = "dropWhile (\<lambda>c. c \<in> set x) s"
  have t: "Trim s x = rev (dropWhile (\<lambda>c. c \<in> set x) (rev ?l))" by (simp add: Trim_def TrimRight_def TrimLeft_def)
  then have ne: "dropWhile (\<lambda>c. c \<in> set x) (rev ?l) \<noteq> []" using assms by auto
  show "last (Trim s x) \<notin> set x"
    using hd_dropWhile [OF ne] ne by (simp add: t last_rev)
  have l: "?l \<noteq> []" using ne by (metis dropWhile.simps(1) rev.simps(1))
  have "hd ?l \<notin> set x" using hd_dropWhile [OF l] by simp
  then have "last (rev ?l) \<notin> set x" using l by (simp add: last_rev)
  moreover have "last (dropWhile (\<lambda>c. c \<in> set x) (rev ?l)) = last (rev ?l)"
    using ne by (metis dropWhile_eq_drop last_drop length_drop length_0_conv not_less zero_less_diff length_greater_0_conv)
  ultimately show "hd (Trim s x) \<notin> set x"
    using ne by (simp add: t hd_rev)
qed

text \<open>RFC 1123: 1 to 63 lower-case letters, digits and dashes, with no dash at either end.\<close>

definition dns_label :: "string \<Rightarrow> bool" where
  "dns_label s \<longleftrightarrow> s \<noteq> '''' \<and> length s \<le> 63 \<and> (\<forall>c \<in> set s. is_alnum c \<or> c = CHR ''-'')
     \<and> is_alnum (hd s) \<and> is_alnum (last s)"

lemma dns_labelI:
  assumes "\<forall>c \<in> set s. is_alnum c \<or> c = CHR ''-''" and "Trim s ''-'' \<noteq> ''''" and "length (Trim s ''-'') \<le> 63"
  shows "dns_label (Trim s ''-'')"
proof -
  have all: "\<forall>c \<in> set (Trim s ''-''). is_alnum c \<or> c = CHR ''-''"
    using assms(1) set_Trim by blast
  moreover have "is_alnum (hd (Trim s ''-''))" "is_alnum (last (Trim s ''-''))"
    using all Trim_ends [OF assms(2)] hd_in_set [OF assms(2)] last_in_set [OF assms(2)] by auto
  ultimately show ?thesis using assms(2,3) by (simp add: dns_label_def)
qed

lemma sanitizeDNSLabel_dns: "dns_label (sanitizeDNSLabel s)"
proof -
  let ?b = "label_chars (ToLower s) False"
  let ?o = "Trim ?b ''-''"
  let ?p = "Trim (take 63 ?o) ''-''"
  have b: "\<forall>c \<in> set ?b. is_alnum c \<or> c = CHR ''-''" by (rule label_chars_props [OF refl])
  have t: "\<forall>c \<in> set (take 63 ?o). is_alnum c \<or> c = CHR ''-''"
    using b set_Trim [of ?b "''-''"] by (meson in_set_takeD subsetD)
  have w: "dns_label ''worker''" by (simp add: dns_label_def is_alnum_def)
  show ?thesis
  proof (cases "length ?o > 63")
    case True
    have "length ?p \<le> 63" using length_Trim [of "take 63 ?o" "''-''"] by simp
    then show ?thesis
      using True dns_labelI [OF t] w by (simp add: sanitizeDNSLabel_def Let_def)
  next
    case False
    then show ?thesis
      using dns_labelI [OF b] w by (simp add: sanitizeDNSLabel_def Let_def)
  qed
qed

subsection \<open>Nodes of the seeded pods\<close>

lemma seed_nodes_names: "map fn_name (seed_nodes kt) = map fn_name (sp_fakeNodes (kt_spec kt))"
  by (simp add: seed_nodes_def)

lemma system_pod_node:
  "p \<in> set (fst (defaultKubeSystemPods kt nodes)) \<Longrightarrow> fp_nodeName (spd_fakePod p) \<in> fn_name ` set nodes"
  by (auto simp: defaultKubeSystemPods_def Let_def static_components_def static_pod_def proxy_pod_def
      system_fake_pod_def split: if_splits)

section \<open>Properties\<close>

text \<open>A Decoy and a pod for the witnesses.\<close>

definition ex_decoy :: Decoy where
  "ex_decoy =
     \<lparr>kt_meta = new_meta ''trap'' ''decoys'' [],
      kt_spec = \<lparr>sp_kubeletShimImage = '''', sp_execProfile = '''', sp_execIsolation = False,
        sp_kubernetesVersion = '''', sp_kubeAPIServerImage = '''', sp_kineImage = '''', sp_port = 0, sp_sans = [],
        sp_auditLevel = '''',
        sp_fakeNodes = [\<lparr>fn_name = ''node-1'', fn_internalIP = '''', fn_kubeletVersion = ''''\<rparr>],
        sp_fakePods = [\<lparr>fp_name = ''web'', fp_namespace = ''shop'', fp_replicas = 2,
           fp_containers = [\<lparr>fc_name = ''web'', fc_image = ''nginx''\<rparr>], fp_nodeName = ''node-1'', fp_logLines = [], fp_labels = []\<rparr>],
        sp_fakeSecrets = [], sp_resources = no_resources, sp_runtimeClassName = None, sp_seedSystemComponents = None,
        sp_fakeCRDs = [], sp_persistence = None\<rparr>,
      kt_status = \<lparr>st_phase = PhaseUnset, st_endpoint = '''', st_credentialsSecret = '''', st_observedGeneration = 0,
        st_joinedPods = [], st_intrusionActivity = None, st_conditions = []\<rparr>\<rparr>"

definition ex_pod :: "string \<Rightarrow> string \<Rightarrow> smap \<Rightarrow> Pod" where
  "ex_pod name ns annotations =
     \<lparr>pod_meta = (new_meta name ns [])\<lparr>m_annotations := annotations\<rparr>, pod_spec = empty_podspec, pod_status = empty_podstatus\<rparr>"

lemma ex_decoy_ok: "valid_spec (kt_spec ex_decoy)" "go_decoy ex_decoy"
  by (simp_all add: ex_decoy_def valid_spec_def go_decoy_def)

text \<open>
  What the operator renders is what the shim loads: reading the file back gives exactly the
  seed that was rendered, with the Decoy's own pods and secrets, the joined pods and the system
  objects, provided the JSON text layer gives back the value it wrote.
\<close>

theorem renderSeed_Load:
  assumes "go_decoy kt" and "\<forall>p \<in> set joined. wf_map (m_labels (pod_meta p))"
    and "let v = JObj (enc_Seed (renderSeed kt joined)) in parse (Marshal v) = Some v"
    and "ReadFile path w = (Inr (renderSeedJSON Marshal kt joined), w')"
  shows "Load ReadFile parse path w = (Inr (renderSeed kt joined), w')"
  using dec_Seed_enc [OF wf_renderSeed [OF assms(1,2)]] assms(3,4)
  by (simp add: Load_def renderSeedJSON_def Let_def)

theorem renderSeed_Load_witness:
  "Load (\<lambda>path w. (Inr (renderSeedJSON (\<lambda>v. ''{...}'') ex_decoy []), w))
     (\<lambda>s. if s = ''{...}'' then Some (JObj (enc_Seed (renderSeed ex_decoy []))) else None) ''/etc/config/seed.json'' ()
   = (Inr (renderSeed ex_decoy []), ())"
  by (rule renderSeed_Load [OF ex_decoy_ok(2)]) (simp_all add: Let_def)

text \<open>
  No seeded pod sits on a node that does not exist: for a spec that passes validation every
  pod of the seed names a node of the seed or none, whichever pods were joined.
\<close>

theorem renderSeed_nodes_exist:
  assumes "valid_spec (kt_spec kt)" and "p \<in> set (sd_fakePods (renderSeed kt joined))"
  shows "fp_nodeName (spd_fakePod p) = '''' \<or> fp_nodeName (spd_fakePod p) \<in> fn_name ` set (sd_fakeNodes (renderSeed kt joined))"
proof -
  have names: "fn_name ` set (seed_nodes kt) = fn_name ` set (sp_fakeNodes (kt_spec kt))"
    by (metis seed_nodes_names set_map)
  show ?thesis
    using assms system_pod_node [of p kt "seed_nodes kt"]
    by (auto simp: renderSeed_sel names valid_spec_def plain_seed_pod_def mirrorJoinedPod_def)
qed

theorem renderSeed_nodes_exist_witness:
  "fp_nodeName (spd_fakePod (plain_seed_pod (hd (sp_fakePods (kt_spec ex_decoy)))))
     \<in> fn_name ` set (sd_fakeNodes (renderSeed ex_decoy [ex_pod ''joined'' ''prod'' []]))"
  using renderSeed_nodes_exist [OF ex_decoy_ok(1), of "plain_seed_pod (hd (sp_fakePods (kt_spec ex_decoy)))" "[ex_pod ''joined'' ''prod'' []]"]
  by (simp add: renderSeed_sel ex_decoy_def plain_seed_pod_def)

text \<open>
  The rendered CRDs: no two have the same name, and the one rendered for a name is the last
  one given for it, so that an author's \<^verbatim>\<open>fakeCRDs\<close> entry replaces the built-in one.
\<close>

theorem renderCRDs_author_wins:
  "distinct (map crd_key (renderCRDs kt))
   \<and> (\<forall>c. c \<in> set (renderCRDs kt) \<longleftrightarrow>
        map_of (rev (map (\<lambda>c. (crd_key c, c))
          ((if seedSystemComponents kt then defaultCRDs else []) @ map crd_of_fake (sp_fakeCRDs (kt_spec kt))))) (crd_key c) = Some c)"
  using renderCRDs_distinct [of kt] renderCRDs_mem [of _ kt] unfolding all_crds_def by simp

text \<open>
  Mirroring a joined pod reveals nothing of the real cluster beyond the pod's name,
  namespace, labels and the names and images of its containers: two pods that agree on these
  are mirrored alike, whatever their nodes, volumes, environment, addresses or owners.
\<close>

theorem mirrorJoinedPod_leaks_nothing:
  assumes "pod_name p = pod_name q" and "pod_ns p = pod_ns q" and "m_labels (pod_meta p) = m_labels (pod_meta q)"
    and "map (\<lambda>c. (c_name c, c_image c)) (ps_containers (pod_spec p)) = map (\<lambda>c. (c_name c, c_image c)) (ps_containers (pod_spec q))"
  shows "mirrorJoinedPod p = mirrorJoinedPod q \<and> fp_nodeName (mirrorJoinedPod p) = ''''"
  using arg_cong [OF assms(4), of "map (\<lambda>(n, i). \<lparr>fc_name = n, fc_image = i\<rparr>)"] assms(1-3)
  by (simp add: mirrorJoinedPod_def comp_def)

theorem mirrorJoinedPod_leaks_nothing_witness:
  "mirrorJoinedPod (ex_pod ''web'' ''shop'' []) = mirrorJoinedPod ((ex_pod ''web'' ''shop'' [])\<lparr>pod_spec := empty_podspec\<lparr>ps_nodeName := ''real-node-7''\<rparr>\<rparr>)"
  using mirrorJoinedPod_leaks_nothing [of "ex_pod ''web'' ''shop'' []" "(ex_pod ''web'' ''shop'' [])\<lparr>pod_spec := empty_podspec\<lparr>ps_nodeName := ''real-node-7''\<rparr>\<rparr>"]
  by (simp add: ex_pod_def empty_podspec_def)

text \<open>
  The hostname of the decoy pod is a valid DNS label for every spec, so the pod always
  schedules: 1 to 63 lower-case letters, digits and dashes, beginning and ending with a letter
  or digit.
\<close>

theorem decoyHostname_dns_label: "dns_label (decoyHostname kt) \<and> dns_label (sanitizeDNSLabel s)"
  unfolding decoyHostname_def using sanitizeDNSLabel_dns by blast

end
