(* ===== verification/Render_Pod.thy ===== *)
theory Render_Pod
  imports Render_Seed
begin

text \<open>
  Second part of \<^verbatim>\<open>src/internal/controller/render.go\<close>: the Deployment of the inner control
  plane with its containers and volumes, the Service, the egress policy and the Secrets; with
  \<^verbatim>\<open>kubernetesServiceEnv\<close> of \<^verbatim>\<open>join_webhook.go\<close>, which the Deployment uses too.
\<close>

section \<open>Environment of a redirected container\<close>

abbreviation "realKubernetesServicePortDefault \<equiv> (443 :: int)"

definition kubernetesServiceEnv :: "string \<Rightarrow> int \<Rightarrow> int \<Rightarrow> EnvVar list" where
  "kubernetesServiceEnv clusterIP decoyPort realPort =
     (let decoyPortStr = Itoa decoyPort;
          realPortStr = Itoa realPort;
          tcpAddr = ''tcp://'' @ clusterIP @ '':'' @ decoyPortStr in
      [envvar ''KUBERNETES_SERVICE_HOST'' clusterIP,
       envvar ''KUBERNETES_SERVICE_PORT'' decoyPortStr,
       envvar ''KUBERNETES_SERVICE_PORT_HTTPS'' decoyPortStr,
       envvar ''KUBERNETES_PORT'' tcpAddr,
       envvar (''KUBERNETES_PORT_'' @ realPortStr @ ''_TCP'') tcpAddr,
       envvar (''KUBERNETES_PORT_'' @ realPortStr @ ''_TCP_PROTO'') ''tcp'',
       envvar (''KUBERNETES_PORT_'' @ realPortStr @ ''_TCP_PORT'') decoyPortStr,
       envvar (''KUBERNETES_PORT_'' @ realPortStr @ ''_TCP_ADDR'') clusterIP])"

section \<open>Security contexts\<close>

definition hardenedSecurityContext :: SecurityContext where
  "hardenedSecurityContext =
     \<lparr>sc_runAsNonRoot = Some True, sc_runAsUser = Some 65532, sc_allowPrivilegeEscalation = Some False,
      sc_capDrop = [''ALL''], sc_capAdd = [], sc_seccomp = Some ''RuntimeDefault''\<rparr>"

definition kubeAPIServerSecurityContext :: SecurityContext where
  "kubeAPIServerSecurityContext =
     \<lparr>sc_runAsNonRoot = Some True, sc_runAsUser = Some 65532, sc_allowPrivilegeEscalation = Some False,
      sc_capDrop = [], sc_capAdd = [], sc_seccomp = Some ''RuntimeDefault''\<rparr>"

definition execSandboxSecurityContext :: "bool \<Rightarrow> SecurityContext" where
  "execSandboxSecurityContext execIsolation =
     (if execIsolation then
        \<lparr>sc_runAsNonRoot = Some False, sc_runAsUser = Some 0, sc_allowPrivilegeEscalation = Some True,
         sc_capDrop = [''ALL''], sc_capAdd = [''SYS_ADMIN''], sc_seccomp = Some ''Unconfined''\<rparr>
      else
        \<lparr>sc_runAsNonRoot = Some True, sc_runAsUser = None, sc_allowPrivilegeEscalation = Some False,
         sc_capDrop = [''ALL''], sc_capAdd = [], sc_seccomp = Some ''RuntimeDefault''\<rparr>)"

definition saSetupSecurityContext :: SecurityContext where
  "saSetupSecurityContext =
     \<lparr>sc_runAsNonRoot = None, sc_runAsUser = Some 0, sc_allowPrivilegeEscalation = Some False,
      sc_capDrop = [''ALL''], sc_capAdd = [], sc_seccomp = Some ''RuntimeDefault''\<rparr>"

section \<open>Volumes and mounts\<close>

definition serviceAccountTokenMountPath :: string where
  "serviceAccountTokenMountPath = ''/var/run/secrets/kubernetes.io/serviceaccount/''"

definition decoyVolumeName :: string where
  "decoyVolumeName = ''kube-api-access-decoy''"

abbreviation vmount :: "string \<Rightarrow> string \<Rightarrow> string \<Rightarrow> bool \<Rightarrow> VolumeMount" where
  "vmount n path sub ro \<equiv> \<lparr>vm_name = n, vm_mountPath = path, vm_subPath = sub, vm_readOnly = ro\<rparr>"

abbreviation volume :: "string \<Rightarrow> VolumeSource \<Rightarrow> Volume" where
  "volume n src \<equiv> \<lparr>vol_name = n, vol_source = src\<rparr>"

definition saDir :: string where
  "saDir = TrimSuffix serviceAccountTokenMountPath ''/''"

definition secretMount :: VolumeMount where
  "secretMount = vmount ''decoy-secret'' ''/etc/kubernetes/pki'' '''' True"

definition shimSecretMount :: VolumeMount where
  "shimSecretMount = vmount ''decoy-shim-secret'' shimSecretDirPath '''' True"

definition configMount :: "string \<Rightarrow> VolumeMount" where
  "configMount file = vmount ''config'' (''/etc/kubernetes/'' @ file) file True"

definition seedMount :: VolumeMount where
  "seedMount = vmount ''seed'' seedDirPath '''' True"

definition kineVolMount :: "Decoy \<Rightarrow> VolumeMount" where
  "kineVolMount kt =
     (if sp_persistence (kt_spec kt) \<noteq> None then vmount ''data'' ''/var/lib/kine'' ''kine'' False
      else vmount ''kine-data'' ''/var/lib/kine'' '''' False)"

definition auditVolMount :: "Decoy \<Rightarrow> VolumeMount" where
  "auditVolMount kt =
     (if sp_persistence (kt_spec kt) \<noteq> None then vmount ''data'' auditLogDir ''audit'' False
      else vmount ''audit-logs'' auditLogDir '''' False)"

definition storageVolumes :: "Decoy \<Rightarrow> Volume list" where
  "storageVolumes kt =
     (if sp_persistence (kt_spec kt) \<noteq> None
      then [volume ''data'' (PersistentVolumeClaimVS (kt_name kt @ ''-data''))]
      else [volume ''kine-data'' (EmptyDirVS ''''), volume ''audit-logs'' (EmptyDirVS '''')])"

definition podVolumes :: "Decoy \<Rightarrow> string \<Rightarrow> string \<Rightarrow> Volume list" where
  "podVolumes kt secretName configMapName =
     [volume ''config'' (ConfigMapVS configMapName []),
      volume ''seed'' (ConfigMapVS configMapName [same_path seedFileName]),
      volume ''decoy-secret'' (SecretVS secretName []),
      volume ''decoy-shim-secret'' (SecretVS secretName
        [same_path ''ca.crt'', same_path ''token'', same_path ''shim.token'', same_path ''tls.crt'', same_path ''tls.key'']),
      volume ''sa-token'' (EmptyDirVS ''Memory'')]
     @ storageVolumes kt"

definition decoyServiceAccountVolume :: "string \<Rightarrow> Volume" where
  "decoyServiceAccountVolume secretName =
     volume decoyVolumeName
       (ProjectedVS [SecretProjection secretName [same_path ''token'', same_path ''ca.crt''],
                     DownwardAPIProjection [(''namespace'', ''metadata.namespace'')]])"

definition decoyDNSConfig :: "Decoy \<Rightarrow> PodDNSConfig" where
  "decoyDNSConfig kt =
     \<lparr>dc_nameservers = [''10.96.0.10''],
      dc_searches = [servedNamespace kt @ ''.svc.cluster.local'', ''svc.cluster.local'', ''cluster.local''],
      dc_options = [(''ndots'', ''5'')]\<rparr>"

section \<open>Containers\<close>

definition sa_setup_container :: "Decoy \<Rightarrow> Container" where
  "sa_setup_container kt =
     (plain_container ''sa-setup'' (kubeletShimImage kt))
       \<lparr>c_imagePullPolicy := ''IfNotPresent'',
        c_command := [shimBinaryPath],
        c_args := [''--write-sa-layout'', ''--token-file=/etc/kubernetes/pki/token'',
          ''--ca-file=/etc/kubernetes/pki/ca.crt'', ''--namespace='' @ servedNamespace kt, ''--sa-dir='' @ saDir],
        c_resources := sp_resources (kt_spec kt),
        c_mounts := [secretMount, vmount ''sa-token'' saDir '''' False],
        c_security := Some saSetupSecurityContext\<rparr>"

definition kine_container :: "Decoy \<Rightarrow> Container" where
  "kine_container kt =
     (plain_container ''kine'' (kineImage kt))
       \<lparr>c_imagePullPolicy := ''IfNotPresent'',
        c_args := [''--endpoint=sqlite:///var/lib/kine/kine.db'', ''--listen-address='' @ kineListenAddr],
        c_resources := sp_resources (kt_spec kt),
        c_mounts := [kineVolMount kt],
        c_security := Some hardenedSecurityContext\<rparr>"

definition apiserver_container :: "Decoy \<Rightarrow> Container" where
  "apiserver_container kt =
     (plain_container ''kube-apiserver'' (kubeAPIServerImage kt))
       \<lparr>c_imagePullPolicy := ''IfNotPresent'',
        c_command := [''/usr/local/bin/kube-apiserver''],
        c_args :=
          [''--etcd-servers=http://'' @ kineListenAddr,
           ''--secure-port='' @ Itoa innerAPIPort,
           ''--bind-address=0.0.0.0'',
           ''--tls-cert-file=/etc/kubernetes/pki/tls.crt'',
           ''--tls-private-key-file=/etc/kubernetes/pki/tls.key'',
           ''--token-auth-file=/etc/kubernetes/'' @ tokenAuthFileName,
           ''--authorization-mode=RBAC'',
           ''--disable-admission-plugins=ServiceAccount'',
           ''--service-cluster-ip-range=10.96.0.0/16'',
           ''--service-account-issuer=https://kubernetes.default.svc.cluster.local'',
           ''--service-account-key-file=/etc/kubernetes/pki/sa.pub'',
           ''--service-account-signing-key-file=/etc/kubernetes/pki/sa.key'',
           ''--kubelet-preferred-address-types=InternalIP'',
           ''--kubelet-certificate-authority=/etc/kubernetes/pki/ca.crt'',
           ''--audit-policy-file=/etc/kubernetes/'' @ auditPolicyFileName,
           ''--audit-webhook-config-file=/etc/kubernetes/'' @ auditWebhookKubeconfigFileName,
           ''--audit-webhook-mode=blocking'',
           ''--audit-log-path='' @ auditLogPath,
           ''--audit-log-maxage=30'', ''--audit-log-maxbackup=10'', ''--audit-log-maxsize=100''],
        c_resources := sp_resources (kt_spec kt),
        c_ports := [\<lparr>cp_name = ''decoy'', cp_port = innerAPIPort\<rparr>],
        c_mounts := [configMount tokenAuthFileName, configMount auditPolicyFileName,
          configMount auditWebhookKubeconfigFileName, secretMount, auditVolMount kt],
        c_security := Some kubeAPIServerSecurityContext\<rparr>"

definition kcmDisabledControllers :: "string list" where
  "kcmDisabledControllers =
     [''node-lifecycle-controller'', ''pod-garbage-collector-controller'', ''taint-eviction-controller'',
      ''device-taint-eviction-controller'', ''node-ipam-controller'', ''node-route-controller'',
      ''cloud-node-lifecycle-controller'', ''daemonset-controller'',
      ''persistentvolume-attach-detach-controller'', ''persistentvolume-binder-controller'',
      ''persistentvolume-expander-controller'', ''persistentvolume-protection-controller'',
      ''persistentvolumeclaim-protection-controller'', ''ephemeral-volume-controller'',
      ''resourceclaim-controller'', ''ttl-controller'']"

definition kcmImage :: "Decoy \<Rightarrow> string" where
  "kcmImage kt = ''registry.k8s.io/kube-controller-manager:'' @ kubernetesVersion kt"

definition schedulerImage :: "Decoy \<Rightarrow> string" where
  "schedulerImage kt = ''registry.k8s.io/kube-scheduler:'' @ kubernetesVersion kt"

definition kcmMounts :: "VolumeMount list" where
  "kcmMounts =
     [vmount ''config'' (''/etc/kubernetes/'' @ kcmKubeconfigFileName) kcmKubeconfigFileName True,
      vmount ''decoy-secret'' ''/etc/kubernetes/pki'' '''' True]"

definition kcmContainer :: "Decoy \<Rightarrow> Container" where
  "kcmContainer kt =
     (plain_container ''kube-controller-manager'' (kcmImage kt))
       \<lparr>c_imagePullPolicy := ''IfNotPresent'',
        c_command := [''/usr/local/bin/kube-controller-manager''],
        c_args :=
          [''--kubeconfig=/etc/kubernetes/'' @ kcmKubeconfigFileName,
           ''--authentication-kubeconfig=/etc/kubernetes/'' @ kcmKubeconfigFileName,
           ''--authorization-kubeconfig=/etc/kubernetes/'' @ kcmKubeconfigFileName,
           ''--service-account-private-key-file=/etc/kubernetes/pki/sa.key'',
           ''--root-ca-file=/etc/kubernetes/pki/ca.crt'',
           ''--use-service-account-credentials=false'',
           ''--controllers='' @ foldl (\<lambda>a c. a @ '',-'' @ c) ''*'' kcmDisabledControllers,
           ''--leader-elect=true'', ''--secure-port=10257'', ''--bind-address=127.0.0.1''],
        c_resources := sp_resources (kt_spec kt),
        c_mounts := kcmMounts,
        c_security := Some kubeAPIServerSecurityContext\<rparr>"

definition schedulerContainer :: "Decoy \<Rightarrow> Container" where
  "schedulerContainer kt =
     (plain_container ''kube-scheduler'' (schedulerImage kt))
       \<lparr>c_imagePullPolicy := ''IfNotPresent'',
        c_command := [''/usr/local/bin/kube-scheduler''],
        c_args :=
          [''--kubeconfig=/etc/kubernetes/'' @ kcmKubeconfigFileName,
           ''--authentication-kubeconfig=/etc/kubernetes/'' @ kcmKubeconfigFileName,
           ''--authorization-kubeconfig=/etc/kubernetes/'' @ kcmKubeconfigFileName,
           ''--leader-elect=true'', ''--secure-port=10259'', ''--bind-address=127.0.0.1''],
        c_resources := sp_resources (kt_spec kt),
        c_mounts := kcmMounts,
        c_security := Some kubeAPIServerSecurityContext\<rparr>"

definition shim_container :: "Decoy \<Rightarrow> string \<Rightarrow> Container" where
  "shim_container kt nodeInternalIP =
     (plain_container ''kubelet-shim'' (kubeletShimImage kt))
       \<lparr>c_imagePullPolicy := ''IfNotPresent'',
        c_args :=
          [''--apiserver=https://127.0.0.1:'' @ Itoa innerAPIPort,
           ''--ca-file='' @ shimSecretDirPath @ ''/ca.crt'',
           ''--token-file='' @ shimSecretDirPath @ ''/token'',
           ''--client-token-file='' @ shimSecretDirPath @ ''/shim.token'',
           ''--seed='' @ seedDirPath @ ''/'' @ seedFileName,
           ''--node-internal-ip='' @ nodeInternalIP,
           ''--kubelet-port='' @ Itoa kubeletPort,
           ''--listen=:'' @ Itoa kubeletPort,
           ''--tls-cert-file='' @ shimSecretDirPath @ ''/tls.crt'',
           ''--tls-key-file='' @ shimSecretDirPath @ ''/tls.key'',
           ''--namespace='' @ servedNamespace kt,
           ''--sa-dir='' @ saDir,
           ''--kubernetes-version='' @ kubernetesVersion kt,
           ''--kubernetes-service-port='' @ Itoa (servicePort kt),
           ''--exec-profile='' @ execProfile kt,
           ''--exec-isolation='' @ (if sp_execIsolation (kt_spec kt) then ''true'' else ''false'')],
        c_resources := sp_resources (kt_spec kt),
        c_env := kubernetesServiceEnv nodeInternalIP (servicePort kt) realKubernetesServicePortDefault,
        c_ports := [\<lparr>cp_name = ''kubelet'', cp_port = kubeletPort\<rparr>],
        c_mounts := [seedMount, shimSecretMount, vmount ''sa-token'' saDir '''' False],
        c_security := Some (execSandboxSecurityContext (sp_execIsolation (kt_spec kt)))\<rparr>"

section \<open>The rendered objects\<close>

definition decoyPodSpec :: "Decoy \<Rightarrow> string \<Rightarrow> string \<Rightarrow> string \<Rightarrow> PodSpec" where
  "decoyPodSpec kt secretName configMapName nodeInternalIP =
     empty_podspec
       \<lparr>ps_runtimeClassName := sp_runtimeClassName (kt_spec kt),
        ps_hostname := decoyHostname kt,
        ps_terminationGrace := Some 5,
        ps_dnsPolicy := ''None'',
        ps_dnsConfig := Some (decoyDNSConfig kt),
        ps_enableServiceLinks := Some False,
        ps_automountToken := Some False,
        ps_initContainers := [sa_setup_container kt],
        ps_containers := [kine_container kt, apiserver_container kt, kcmContainer kt, schedulerContainer kt,
          shim_container kt nodeInternalIP],
        ps_volumes := podVolumes kt secretName configMapName\<rparr>"

definition buildDeployment :: "Decoy \<Rightarrow> string \<Rightarrow> string \<Rightarrow> string \<Rightarrow> string \<Rightarrow> string \<Rightarrow> Deployment" where
  "buildDeployment kt secretName configMapName configChecksum certChecksum nodeInternalIP =
     \<lparr>dep_meta = new_meta (kt_name kt) (kt_ns kt) (commonLabels (kt_name kt)),
      dep_spec =
        \<lparr>ds_replicas = Some 1,
         ds_strategy = (if sp_persistence (kt_spec kt) \<noteq> None then ''Recreate'' else ''''),
         ds_selector = selectorLabels (kt_name kt),
         ds_template =
           \<lparr>pt_labels = selectorLabels (kt_name kt),
            pt_annotations = [(''honeypod.io/config-checksum'', configChecksum), (''honeypod.io/cert-checksum'', certChecksum)],
            pt_spec = decoyPodSpec kt secretName configMapName nodeInternalIP\<rparr>\<rparr>,
      dep_readyReplicas = 0\<rparr>"

definition buildService :: "Decoy \<Rightarrow> Service" where
  "buildService kt =
     \<lparr>svc_meta = new_meta (kt_name kt) (kt_ns kt) (commonLabels (kt_name kt)),
      svc_selector = selectorLabels (kt_name kt),
      svc_ports =
        [\<lparr>svp_name = ''decoy'', svp_port = servicePort kt, svp_targetPort = Some (PortName ''decoy''), svp_protocol = ''''\<rparr>,
         \<lparr>svp_name = ''kubelet'', svp_port = kubeletPort, svp_targetPort = Some (PortName ''kubelet''), svp_protocol = ''''\<rparr>],
      svc_clusterIP = ''''\<rparr>"

definition buildNetworkPolicy :: "Decoy \<Rightarrow> NetworkPolicy" where
  "buildNetworkPolicy kt =
     \<lparr>np_meta = new_meta (kt_name kt @ ''-egress'') (kt_ns kt) (commonLabels (kt_name kt)),
      np_podSelector = selectorLabels (kt_name kt),
      np_policyTypes = [''Egress''],
      np_egress =
        [\<lparr>eg_to = [],
          eg_ports = [\<lparr>npp_protocol = ''UDP'', npp_port = 53\<rparr>, \<lparr>npp_protocol = ''TCP'', npp_port = 53\<rparr>]\<rparr>,
         \<lparr>eg_to = [\<lparr>npr_namespaceSelector = [(''kubernetes.io/metadata.name'', managerNamespace)]\<rparr>],
          eg_ports = [\<lparr>npp_protocol = ''TCP'', npp_port = auditWebhookPort\<rparr>]\<rparr>]\<rparr>"

abbreviation "mirroredSecretLabelDecoyNamespace \<equiv> ''honeypod.io/honeypod-namespace''"
abbreviation "mirroredSecretLabelDecoyName \<equiv> ''honeypod.io/honeypod-name''"
abbreviation "mirroredSecretLabelRole \<equiv> ''honeypod.io/role''"
abbreviation "mirroredSecretRoleValue \<equiv> ''joined-pod-credentials''"

definition decoySecretName :: "string \<Rightarrow> string" where
  "decoySecretName ktName = ktName @ ''-decoy''"

definition mirroredSecretName :: "string \<Rightarrow> string" where
  "mirroredSecretName ktName = ktName @ ''-decoy-creds''"

definition buildMirroredSecret :: "Decoy \<Rightarrow> string \<Rightarrow> string \<Rightarrow> string \<Rightarrow> Secret" where
  "buildMirroredSecret kt namespace token caCert =
     \<lparr>sec_meta = new_meta (mirroredSecretName (kt_name kt)) namespace
        [(mirroredSecretLabelDecoyNamespace, kt_ns kt), (mirroredSecretLabelDecoyName, kt_name kt),
         (mirroredSecretLabelRole, mirroredSecretRoleValue)],
      sec_type = ''Opaque'',
      sec_data = [(''token'', token), (''ca.crt'', caCert)]\<rparr>"

section \<open>What a container can read\<close>

text \<open>
  A volume of a Secret or a ConfigMap shows all keys of the object when it lists no items, and
  exactly the listed keys otherwise. A mount shows its volume, or one file of it when it has a
  sub-path. \<open>readable\<close> gives the keys of the object \<open>name\<close> with the keys \<open>ks\<close> that a container
  can read through its mounts.
\<close>

definition shown_keys :: "KeyToPath list \<Rightarrow> string set \<Rightarrow> string set" where
  "shown_keys items ks = (if items = [] then ks else ks \<inter> kp_key ` set items)"

fun secret_keys :: "VolumeSource \<Rightarrow> string \<Rightarrow> string set \<Rightarrow> string set" where
  "secret_keys (SecretVS s items) name ks = (if s = name then shown_keys items ks else {})"
| "secret_keys (ProjectedVS ps) name ks =
     (\<Union>p \<in> set ps. case p of SecretProjection s items \<Rightarrow> if s = name then shown_keys items ks else {} | _ \<Rightarrow> {})"
| "secret_keys _ name ks = {}"

fun configmap_keys :: "VolumeSource \<Rightarrow> string \<Rightarrow> string set \<Rightarrow> string set" where
  "configmap_keys (ConfigMapVS s items) name ks = (if s = name then shown_keys items ks else {})"
| "configmap_keys _ name ks = {}"

definition readable ::
  "(VolumeSource \<Rightarrow> string \<Rightarrow> string set \<Rightarrow> string set) \<Rightarrow> Volume list \<Rightarrow> Container \<Rightarrow> string \<Rightarrow> string set \<Rightarrow> string set" where
  "readable keys vols c name ks =
     (\<Union>m \<in> set (c_mounts c). \<Union>v \<in> {v \<in> set vols. vol_name v = vm_name m}.
        if vm_subPath m = '''' then keys (vol_source v) name ks else keys (vol_source v) name ks \<inter> {vm_subPath m})"

section \<open>What a policy lets out\<close>

definition labels_select :: "smap \<Rightarrow> smap \<Rightarrow> bool" where
  "labels_select sel labels \<longleftrightarrow> (\<forall>(k, v) \<in> set sel. gm_get labels k = Some v)"

text \<open>
  The destination is given by the labels of its namespace, \<open>None\<close> for an address outside the
  cluster. A rule with no peers allows every destination.
\<close>

definition egress_allows :: "NetworkPolicy \<Rightarrow> smap option \<Rightarrow> string \<Rightarrow> int \<Rightarrow> bool" where
  "egress_allows np dest proto port \<longleftrightarrow>
     (\<exists>r \<in> set (np_egress np).
        (eg_to r = [] \<or> (\<exists>p \<in> set (eg_to r). case dest of None \<Rightarrow> False | Some ls \<Rightarrow> labels_select (npr_namespaceSelector p) ls))
        \<and> (eg_ports r = [] \<or> (\<exists>q \<in> set (eg_ports r). npp_protocol q = proto \<and> npp_port q = port)))"

section \<open>Facts\<close>

lemmas volume_defs = podVolumes_def storageVolumes_def

lemmas mount_defs = secretMount_def shimSecretMount_def configMount_def seedMount_def kineVolMount_def
  auditVolMount_def kcmMounts_def

lemmas container_defs = sa_setup_container_def kine_container_def apiserver_container_def kcmContainer_def
  schedulerContainer_def shim_container_def plain_container_def

lemma shown_keys_items [simp]: "items \<noteq> [] \<Longrightarrow> shown_keys items ks = ks \<inter> kp_key ` set items"
  by (simp add: shown_keys_def)

lemma saDir_eq: "saDir = ''/var/run/secrets/kubernetes.io/serviceaccount''"
  by (simp add: saDir_def serviceAccountTokenMountPath_def TrimSuffix_def HasSuffix_def HasPrefix_def)

lemma shim_mounts [simp]:
  "c_mounts (shim_container kt ip) = [seedMount, shimSecretMount, vmount ''sa-token'' saDir '''' False]"
  by (simp add: shim_container_def)

lemma container_security [simp]:
  "c_security (kine_container kt) = Some hardenedSecurityContext"
  "c_security (apiserver_container kt) = Some kubeAPIServerSecurityContext"
  "c_security (kcmContainer kt) = Some kubeAPIServerSecurityContext"
  "c_security (schedulerContainer kt) = Some kubeAPIServerSecurityContext"
  "c_security (shim_container kt ip) = Some (execSandboxSecurityContext (sp_execIsolation (kt_spec kt)))"
  "c_security (sa_setup_container kt) = Some saSetupSecurityContext"
  "c_name (shim_container kt ip) = ''kubelet-shim''"
  by (simp_all add: container_defs)

lemma volumes_named:
  "{v \<in> set (podVolumes kt s c). vol_name v = ''seed''} = {volume ''seed'' (ConfigMapVS c [same_path seedFileName])}"
  "{v \<in> set (podVolumes kt s c). vol_name v = ''decoy-shim-secret''} =
     {volume ''decoy-shim-secret'' (SecretVS s
        [same_path ''ca.crt'', same_path ''token'', same_path ''shim.token'', same_path ''tls.crt'', same_path ''tls.key''])}"
  "{v \<in> set (podVolumes kt s c). vol_name v = ''sa-token''} = {volume ''sa-token'' (EmptyDirVS ''Memory'')}"
  by (auto simp: volume_defs split: if_splits)

lemma shim_readable:
  "readable keys (podVolumes kt s c) (shim_container kt ip) name ks =
     keys (ConfigMapVS c [same_path seedFileName]) name ks
     \<union> keys (SecretVS s [same_path ''ca.crt'', same_path ''token'', same_path ''shim.token'', same_path ''tls.crt'', same_path ''tls.key'']) name ks
     \<union> keys (EmptyDirVS ''Memory'') name ks"
  unfolding readable_def shim_mounts by (simp add: seedMount_def shimSecretMount_def volumes_named Un_assoc)

section \<open>Properties\<close>

text \<open>
  C11 The container an attacker's shell runs in can read, of all Secrets, only the five serving
  keys of the decoy's own Secret, and of all ConfigMaps only \<^verbatim>\<open>seed.json\<close>: the CA key, the
  ServiceAccount signing key, the controller manager's token and the token file stay out of
  reach whatever the two objects hold.
\<close>

theorem exec_container_reads_only:
  assumes "spec = pt_spec (ds_template (dep_spec (buildDeployment kt secretName configMapName cc tc ip)))"
  shows "shim_container kt ip \<in> set (ps_containers spec)
    \<and> readable secret_keys (ps_volumes spec) (shim_container kt ip) name ks
        \<subseteq> (if name = secretName then {''ca.crt'', ''token'', ''shim.token'', ''tls.crt'', ''tls.key''} else {})
    \<and> readable configmap_keys (ps_volumes spec) (shim_container kt ip) name ks
        \<subseteq> (if name = configMapName then {''seed.json''} else {})"
  unfolding assms by (auto simp: buildDeployment_def decoyPodSpec_def shim_readable)

theorem exec_container_reads_only_witness:
  "''sa.key'' \<notin> readable secret_keys
     (ps_volumes (pt_spec (ds_template (dep_spec (buildDeployment ex_decoy ''trap-decoy'' ''trap'' ''c'' ''t'' ''10.96.7.7'')))))
     (shim_container ex_decoy ''10.96.7.7'') ''trap-decoy'' {''token'', ''ca.crt'', ''ca.key'', ''sa.key'', ''kcm.token''}"
  using exec_container_reads_only [OF refl, of ex_decoy "''10.96.7.7''" "''trap-decoy''" "''trap''" "''c''" "''t''"
      "''trap-decoy''" "{''token'', ''ca.crt'', ''ca.key'', ''sa.key'', ''kcm.token''}"] by auto

text \<open>
  The rendered pod is well formed: volume names are distinct, every mount of every container
  names one of the pod's volumes, and no container mounts two volumes at one path.
\<close>

theorem deployment_mounts_resolve:
  assumes "spec = pt_spec (ds_template (dep_spec (buildDeployment kt secretName configMapName cc tc ip)))"
  shows "distinct (map vol_name (ps_volumes spec))
    \<and> (\<forall>c \<in> set (ps_initContainers spec @ ps_containers spec).
         (\<forall>m \<in> set (c_mounts c). vm_name m \<in> vol_name ` set (ps_volumes spec)) \<and> distinct (map vm_mountPath (c_mounts c)))"
  unfolding assms
  by (cases "sp_persistence (kt_spec kt)")
    (simp_all add: buildDeployment_def decoyPodSpec_def volume_defs container_defs mount_defs saDir_eq)

theorem deployment_mounts_resolve_witness:
  "distinct (map vol_name (ps_volumes (pt_spec (ds_template (dep_spec (buildDeployment ex_decoy ''s'' ''c'' ''x'' ''y'' ''z''))))))"
  using deployment_mounts_resolve [OF refl] by blast



text \<open>
  The objects of one decoy belong together and to no other decoy of the namespace: the
  selectors of the Deployment, the Service and the egress policy select the decoy's pod, none
  selects the pod of a decoy with another name, and both ports of the Service lead to a named
  port of a container of the pod.
\<close>

theorem decoy_selectors:
  "labels_select (ds_selector (dep_spec (buildDeployment kt s c cc tc ip))) (pt_labels (ds_template (dep_spec (buildDeployment kt' s' c' cc' tc' ip')))) = (kt_name kt = kt_name kt')
   \<and> labels_select (svc_selector (buildService kt)) (pt_labels (ds_template (dep_spec (buildDeployment kt' s' c' cc' tc' ip')))) = (kt_name kt = kt_name kt')
   \<and> labels_select (np_podSelector (buildNetworkPolicy kt)) (pt_labels (ds_template (dep_spec (buildDeployment kt' s' c' cc' tc' ip')))) = (kt_name kt = kt_name kt')
   \<and> (\<forall>p \<in> set (svc_ports (buildService kt)). \<exists>k \<in> set (ps_containers (pt_spec (ds_template (dep_spec (buildDeployment kt s c cc tc ip))))).
        \<exists>q \<in> set (c_ports k). svp_targetPort p = Some (PortName (cp_name q)))"
  by (auto simp: buildDeployment_def buildService_def buildNetworkPolicy_def decoyPodSpec_def labels_select_def
      selectorLabels_def gm_get_def apiserver_container_def shim_container_def)

theorem decoy_selectors_witness:
  "labels_select (svc_selector (buildService ex_decoy)) (pt_labels (ds_template (dep_spec (buildDeployment ex_decoy ''s'' ''c'' ''x'' ''y'' ''z''))))"
  using decoy_selectors [of ex_decoy "''s''" "''c''" "''x''" "''y''" "''z''" ex_decoy "''s''" "''c''" "''x''" "''y''" "''z''"] by simp

text \<open>
  What can leave the decoy pod: DNS to anywhere, and TCP to the audit port in the operator's
  namespace. Everything else is denied, in particular every API server port.
\<close>

theorem decoy_egress:
  "''Egress'' \<in> set (np_policyTypes (buildNetworkPolicy kt))
   \<and> (egress_allows (buildNetworkPolicy kt) dest proto port \<longleftrightarrow>
        (port = 53 \<and> proto \<in> {''UDP'', ''TCP''})
        \<or> (proto = ''TCP'' \<and> port = 9880 \<and> (\<exists>ls. dest = Some ls \<and> gm_get ls ''kubernetes.io/metadata.name'' = Some ''honeypod'')))"
  by (auto simp: egress_allows_def buildNetworkPolicy_def labels_select_def split: option.splits)

text \<open>
  A mirrored Secret carries the token and the CA certificate and nothing else, and names the
  Decoy it belongs to.
\<close>

theorem mirrored_secret_contents:
  "fst ` set (sec_data (buildMirroredSecret kt ns token ca)) = {''token'', ''ca.crt''}
   \<and> gm_get (m_labels (sec_meta (buildMirroredSecret kt ns token ca))) mirroredSecretLabelDecoyNamespace = Some (kt_ns kt)
   \<and> gm_get (m_labels (sec_meta (buildMirroredSecret kt ns token ca))) mirroredSecretLabelDecoyName = Some (kt_name kt)"
  by (simp add: buildMirroredSecret_def gm_get_def)

text \<open>
  Mirrors collide: the mirror's name is made from the Decoy's name alone, so two Decoys of
  the same name in different namespaces want the same Secret in every third namespace both are
  joined from, with different credentials in it.
\<close>

theorem mirrored_secret_collision:
  assumes "kt_name kt = kt_name kt'" and "token \<noteq> token'"
  shows "meta_key (sec_meta (buildMirroredSecret kt ns token ca)) = meta_key (sec_meta (buildMirroredSecret kt' ns token' ca'))
    \<and> sec_data (buildMirroredSecret kt ns token ca) \<noteq> sec_data (buildMirroredSecret kt' ns token' ca')"
  using assms by (simp add: buildMirroredSecret_def)

theorem mirrored_secret_collision_witness:
  "kt_ns ex_decoy \<noteq> kt_ns (ex_decoy\<lparr>kt_meta := new_meta ''trap'' ''other'' []\<rparr>)
   \<and> meta_key (sec_meta (buildMirroredSecret ex_decoy ''apps'' ''t1'' ''ca''))
       = meta_key (sec_meta (buildMirroredSecret (ex_decoy\<lparr>kt_meta := new_meta ''trap'' ''other'' []\<rparr>) ''apps'' ''t2'' ''ca''))"
  using mirrored_secret_collision [of ex_decoy "ex_decoy\<lparr>kt_meta := new_meta ''trap'' ''other'' []\<rparr>" "''t1''" "''t2''" "''apps''" "''ca''" "''ca''"]
  by (simp add: ex_decoy_def)

end
