(* ===== verification/Apply_Resource.thy ===== *)
theory Apply_Resource
  imports Object_Store Render_Pod
begin

text \<open>
  \<^verbatim>\<open>applyResource\<close> and \<^verbatim>\<open>mergedLabels\<close> of \<^verbatim>\<open>src/internal/controller/decoy_controller.go\<close>: the
  create-or-update that every object of a decoy goes through, generic in the kind of object.
\<close>

section \<open>The operation\<close>

text \<open>
  A kind as the controller uses it: its client, and \<^verbatim>\<open>retry.RetryOnConflict\<close> at the type of the
  closure's result. The metadata of an object is read by \<open>meta\<close> and changed by \<open>meta_update\<close>,
  the selector and the update function of the kind's record.
\<close>

record ('w, 'o) rkind =
  rk_client :: "('w, 'o) kclient"
  rk_retry :: "('w, 'o) retry"

definition mergedLabels :: "smap \<Rightarrow> smap \<Rightarrow> smap" where
  "mergedLabels live desired =
     (if length desired = 0 then live else fold (\<lambda>(k, v). gm_set k v) desired live)"

definition aligned ::
  "('o \<Rightarrow> ObjectMeta) \<Rightarrow> ((ObjectMeta \<Rightarrow> ObjectMeta) \<Rightarrow> 'o \<Rightarrow> 'o) \<Rightarrow> ('o \<Rightarrow> 'o \<Rightarrow> 'o) \<Rightarrow> 'o \<Rightarrow> 'o \<Rightarrow> 'o" where
  "aligned meta meta_update mutate desired live =
     meta_update (\<lambda>m. m\<lparr>m_labels := mergedLabels (m_labels m) (m_labels (meta desired)),
                       m_ownerRefs := m_ownerRefs (meta desired)\<rparr>) (mutate live desired)"

definition apply_once ::
  "('w, 'o) kclient \<Rightarrow> ('o \<Rightarrow> ObjectMeta) \<Rightarrow> ((ObjectMeta \<Rightarrow> ObjectMeta) \<Rightarrow> 'o \<Rightarrow> 'o) \<Rightarrow> 'o \<Rightarrow> ('o \<Rightarrow> 'o \<Rightarrow> 'o) \<Rightarrow> ('w, 'o) call" where
  "apply_once c meta meta_update desired mutate =
     and_then (kc_get c (meta_key (meta desired))) (\<lambda>live. kc_update c (aligned meta meta_update mutate desired live))"

definition applyResource ::
  "('w, 'o) rkind \<Rightarrow> ('o \<Rightarrow> ObjectMeta) \<Rightarrow> ((ObjectMeta \<Rightarrow> ObjectMeta) \<Rightarrow> 'o \<Rightarrow> 'o) \<Rightarrow> 'o \<Rightarrow> ('o \<Rightarrow> 'o \<Rightarrow> 'o) \<Rightarrow> ('w, 'o) call" where
  "applyResource k meta meta_update desired mutate =
     try_call (kc_get (rk_client k) (meta_key (meta desired))) (\<lambda>r.
       case r of
         Inl e \<Rightarrow> if IsNotFound e then kc_create (rk_client k) desired else fail e
       | Inr _ \<Rightarrow> rk_retry k (apply_once (rk_client k) meta meta_update desired mutate))"

section \<open>Labels\<close>

text \<open>
  The interface of a label overlay: the operator's labels win, foreign labels stay. What the
  controller's List selectors need of it is proved once here.
\<close>

locale label_overlay =
  fixes merge :: "smap \<Rightarrow> smap \<Rightarrow> smap"
  assumes merge_get: "wf_map desired \<Longrightarrow>
    gm_get (merge live desired) k = (case gm_get desired k of Some v \<Rightarrow> Some v | None \<Rightarrow> gm_get live k)"
begin

lemma merge_repairs: "wf_map desired \<Longrightarrow> (k, v) \<in> set desired \<Longrightarrow> gm_get (merge live desired) k = Some v"
  by (simp add: merge_get gm_get_wf_iff [THEN iffD2])

lemma merge_foreign: "wf_map desired \<Longrightarrow> k \<notin> fst ` set desired \<Longrightarrow> gm_get (merge live desired) k = gm_get live k"
  by (simp add: merge_get gm_get_None_iff [THEN iffD2])

text \<open>An object with merged labels is found by every selector made of the operator's labels.\<close>

lemma merge_selected:
  "wf_map desired \<Longrightarrow> set sel \<subseteq> set desired \<Longrightarrow>
     opts_match \<lparr>lo_namespace = None, lo_labels = sel\<rparr> (m\<lparr>m_labels := merge live desired\<rparr>)"
  by (auto simp: opts_match_def merge_repairs)

text \<open>Merging again changes nothing that can be observed.\<close>

lemma merge_again: "wf_map desired \<Longrightarrow> gm_get (merge (merge live desired) desired) k = gm_get (merge live desired) k"
  by (simp add: merge_get split: option.split)

end

interpretation labels: label_overlay mergedLabels
proof
  fix desired live :: smap and k
  assume d: "wf_map desired"
  have "map_of (rev desired) = map_of desired"
    by (rule map_of_inject_set [THEN iffD2]) (use d in \<open>simp_all add: rev_map [symmetric]\<close>)
  then have "gm_get (fold (\<lambda>(k, v). gm_set k v) desired live) k = (case gm_get desired k of Some v \<Rightarrow> Some v | None \<Rightarrow> gm_get live k)"
    by (simp add: gm.fold_set_mem gm_get_def [of desired] split: option.split)
  then show "gm_get (mergedLabels live desired) k = (case gm_get desired k of Some v \<Rightarrow> Some v | None \<Rightarrow> gm_get live k)"
    by (simp add: mergedLabels_def gm_get_def [of "[]"])
qed

section \<open>What applying stores\<close>

text \<open>
  A kind whose \<open>meta_update\<close> is the update of \<open>meta\<close>, whose \<open>mutate\<close> leaves metadata alone,
  and whose stored form \<open>same\<close> keeps name, namespace, labels and owner references.
\<close>

definition plain_kind ::
  "('o \<Rightarrow> ObjectMeta) \<Rightarrow> ((ObjectMeta \<Rightarrow> ObjectMeta) \<Rightarrow> 'o \<Rightarrow> 'o) \<Rightarrow> ('o \<Rightarrow> 'o \<Rightarrow> 'o) \<Rightarrow> ('o \<Rightarrow> 'o \<Rightarrow> bool) \<Rightarrow> bool" where
  "plain_kind meta meta_update mutate same \<longleftrightarrow>
     (\<forall>f x. meta (meta_update f x) = f (meta x)) \<and> (\<forall>x d. meta (mutate x d) = meta x)
     \<and> (\<forall>x y. same x y \<longrightarrow> meta_key (meta y) = meta_key (meta x) \<and> m_labels (meta y) = m_labels (meta x)
          \<and> m_ownerRefs (meta y) = m_ownerRefs (meta x))"

lemma aligned_meta:
  assumes "plain_kind meta meta_update mutate same"
  shows "meta (aligned meta meta_update mutate desired live) = (meta live)
     \<lparr>m_labels := mergedLabels (m_labels (meta live)) (m_labels (meta desired)), m_ownerRefs := m_ownerRefs (meta desired)\<rparr>"
  using assms by (simp add: aligned_def plain_kind_def)

definition keyed_obs :: "('o \<Rightarrow> ObjectMeta) \<Rightarrow> (nsname \<Rightarrow> 'o option) \<Rightarrow> bool" where
  "keyed_obs meta st \<longleftrightarrow> (\<forall>k x. st k = Some x \<longrightarrow> meta_key (meta x) = k)"

lemma apply_once_stores:
  assumes store: "object_store c meta same obs" and kind: "plain_kind meta meta_update mutate same"
    and keyed: "keyed_obs meta (obs w)" and run: "apply_once c meta meta_update desired mutate w = (r, w')"
  shows "(\<forall>e. r = Inl e \<longrightarrow> obs w' = obs w)
    \<and> (\<forall>x. r = Inr x \<longrightarrow> (\<exists>live. obs w (meta_key (meta desired)) = Some live
         \<and> same (aligned meta meta_update mutate desired live) x \<and> obs w' = (obs w)(meta_key (meta desired) \<mapsto> x)))"
proof -
  let ?k = "meta_key (meta desired)"
  obtain g w1 where g: "kc_get c ?k w = (g, w1)" by fastforce
  note get = get_lawD [OF object_storeD(1) [OF store] g]
  show ?thesis
  proof (cases g)
    case (Inl e)
    with run g get(1) show ?thesis by (auto simp: apply_once_def)
  next
    case (Inr live)
    let ?a = "aligned meta meta_update mutate desired live"
    from Inr get(2) have live: "obs w ?k = Some live" by simp
    with keyed have "meta_key (meta live) = ?k" unfolding keyed_obs_def by blast
    then have key: "meta_key (meta ?a) = ?k" by (simp add: aligned_meta [OF kind])
    from run g Inr have u: "kc_update c ?a w1 = (r, w')" by (simp add: apply_once_def)
    show ?thesis
      using put_lawD [OF object_storeD(5) [OF store], of ?a w1] u get(1) live key by auto
  qed
qed

lemma applyResource_update:
  assumes "object_store (rk_client k) meta same obs" and "plain_kind meta meta_update mutate same"
    and "retry_contract (rk_retry k)" and "keyed_obs meta (obs w)"
    and "rk_retry k (apply_once (rk_client k) meta meta_update desired mutate) w = (r, w')"
  shows "(\<forall>e. r = Inl e \<longrightarrow> obs w' = obs w)
    \<and> (\<forall>x. r = Inr x \<longrightarrow> (\<exists>live. obs w (meta_key (meta desired)) = Some live
         \<and> same (aligned meta meta_update mutate desired live) x \<and> obs w' = (obs w)(meta_key (meta desired) \<mapsto> x)))"
proof -
  let ?f = "apply_once (rk_client k) meta meta_update desired mutate"
  let ?Q = "\<lambda>r w'. (\<forall>e. r = Inl e \<longrightarrow> obs w' = obs w)
    \<and> (\<forall>x. r = Inr x \<longrightarrow> (\<exists>live. obs w (meta_key (meta desired)) = Some live
         \<and> same (aligned meta meta_update mutate desired live) x \<and> obs w' = (obs w)(meta_key (meta desired) \<mapsto> x)))"
  have step: "?Q r v'" if "obs v = obs w" "?f v = (r, v')" for v r v'
    using apply_once_stores [OF assms(1,2), of v] assms(4) that by simp
  have keep: "obs v' = obs w" if "obs v = obs w" "?f v = (Inl e, v')" for v e v'
    using step [OF that] by simp
  show ?thesis
    by (rule retry_invariant [OF assms(3) _ _ _ assms(5), where I = "\<lambda>v. obs v = obs w" and Q = ?Q])
      (use step keep in blast)+
qed

text \<open>What a failed or successful apply does to the store, in one fact for the callers.\<close>

lemma applyResource_effect:
  assumes "object_store (rk_client k) meta same obs" and "plain_kind meta meta_update mutate same"
    and "retry_contract (rk_retry k)" and "keyed_obs meta (obs w)"
    and "applyResource k meta meta_update desired mutate w = (r, w')"
  shows "(\<forall>e. r = Inl e \<longrightarrow> obs w' = obs w)
    \<and> (\<forall>x. r = Inr x \<longrightarrow> obs w' = (obs w)(meta_key (meta desired) \<mapsto> x)
         \<and> (case obs w (meta_key (meta desired)) of
              None \<Rightarrow> same desired x | Some live \<Rightarrow> same (aligned meta meta_update mutate desired live) x))"
proof -
  let ?k = "meta_key (meta desired)"
  obtain g w1 where g: "kc_get (rk_client k) ?k w = (g, w1)" by fastforce
  note get = get_lawD [OF object_storeD(1) [OF assms(1)] g]
  have w1: "keyed_obs meta (obs w1)" using assms(4) get(1) by simp
  show ?thesis
  proof (cases g)
    case (Inr live)
    with assms(5) g have "rk_retry k (apply_once (rk_client k) meta meta_update desired mutate) w1 = (r, w')"
      by (simp add: applyResource_def)
    from applyResource_update [OF assms(1-3) w1 this] show ?thesis using get(1) by auto
  next
    case (Inl e)
    show ?thesis
    proof (cases "IsNotFound e")
      case True
      with assms(5) g Inl have "kc_create (rk_client k) desired w1 = (r, w')" by (simp add: applyResource_def)
      then show ?thesis using put_lawD [OF object_storeD(3) [OF assms(1)], of desired w1] get(1,3) Inl True by auto
    next
      case False
      with assms(5) g Inl get(1) show ?thesis by (auto simp: applyResource_def)
    qed
  qed
qed

section \<open>Properties\<close>

text \<open>
  C21 Create or repair: after a successful apply, through any number of write conflicts, the
  object stored under the desired name carries every label the operator wants and its owner
  references, keeps the labels others put on it, and differs from what was stored before (or
  from what was to be created) only by the fields that are brought into line. No other object of
  the kind is touched, and a failed apply changes nothing.
\<close>

theorem applyResource_stores:
  assumes "object_store (rk_client k) meta same obs" and "plain_kind meta meta_update mutate same"
    and "retry_contract (rk_retry k)" and "keyed_obs meta (obs w)" and "wf_map (m_labels (meta desired))"
    and "applyResource k meta meta_update desired mutate w = (r, w')"
  shows "case r of
      Inl e \<Rightarrow> obs w' = obs w
    | Inr x \<Rightarrow> obs w' = (obs w)(meta_key (meta desired) \<mapsto> x) \<and> m_ownerRefs (meta x) = m_ownerRefs (meta desired)
        \<and> (\<forall>l v. gm_get (m_labels (meta desired)) l = Some v \<longrightarrow> gm_get (m_labels (meta x)) l = Some v)
        \<and> (case obs w (meta_key (meta desired)) of
             None \<Rightarrow> same desired x
           | Some live \<Rightarrow> same (aligned meta meta_update mutate desired live) x
               \<and> (\<forall>l. gm_get (m_labels (meta desired)) l = None \<longrightarrow> gm_get (m_labels (meta x)) l = gm_get (m_labels (meta live)) l))"
proof (cases r)
  case (Inl e)
  with applyResource_effect [OF assms(1-4,6)] show ?thesis by simp
next
  case (Inr x)
  note eff = applyResource_effect [OF assms(1-4,6), THEN conjunct2, rule_format, OF Inr]
  have sm: "m_labels (meta y) = m_labels (meta z)" "m_ownerRefs (meta y) = m_ownerRefs (meta z)" if "same z y" for z y
    using assms(2) that unfolding plain_kind_def by blast+
  show ?thesis
    using eff Inr sm aligned_meta [OF assms(2), of desired]
    by (auto simp: labels.merge_get [OF assms(5)] split: option.splits)
qed

definition same_configmap :: "ConfigMap \<Rightarrow> ConfigMap \<Rightarrow> bool" where
  "same_configmap x y \<longleftrightarrow> cm_data y = cm_data x \<and> meta_key (cm_meta y) = meta_key (cm_meta x)
     \<and> m_labels (cm_meta y) = m_labels (cm_meta x) \<and> m_ownerRefs (cm_meta y) = m_ownerRefs (cm_meta x)"

definition ex_cm_kind :: "(ConfigMap list, ConfigMap) rkind" where
  "ex_cm_kind = \<lparr>rk_client = mem_client cm_meta (\<lambda>w. w) (\<lambda>f w. f w), rk_retry = retry_times 4\<rparr>"

definition ex_cm :: "smap \<Rightarrow> smap \<Rightarrow> ConfigMap" where
  "ex_cm labels data = \<lparr>cm_meta = new_meta ''trap-config'' ''decoys'' labels, cm_data = data\<rparr>"

lemma list_obs_keyed: "keyed_obs meta (list_obs meta xs)"
  unfolding keyed_obs_def by (intro allI impI) (drule list_obs_mem, erule conjunct2)

theorem applyResource_stores_witness:
  "\<exists>x w'. applyResource ex_cm_kind cm_meta cm_meta_update (ex_cm (commonLabels ''trap'') [(''seed.json'', ''new'')]) (\<lambda>live d. live\<lparr>cm_data := cm_data d\<rparr>)
       [ex_cm [(''mesh'', ''on'')] [(''seed.json'', ''old'')]] = (Inr x, w')
     \<and> cm_data x = [(''seed.json'', ''new'')] \<and> gm_get (m_labels (cm_meta x)) ''mesh'' = Some ''on''
     \<and> gm_get (m_labels (cm_meta x)) labelInstance = Some ''trap''"
proof -
  let ?d = "ex_cm (commonLabels ''trap'') [(''seed.json'', ''new'')]" and ?w = "[ex_cm [(''mesh'', ''on'')] [(''seed.json'', ''old'')]]"
  let ?mut = "\<lambda>live d :: ConfigMap. live\<lparr>cm_data := cm_data d\<rparr>"
  have st: "object_store (rk_client ex_cm_kind) cm_meta same_configmap (list_obs cm_meta)"
    unfolding ex_cm_kind_def rkind.simps by (rule mem_object_store) (simp_all add: same_configmap_def)
  have pk: "plain_kind cm_meta cm_meta_update ?mut same_configmap"
    by (simp add: plain_kind_def same_configmap_def)
  have rc: "retry_contract (rk_retry ex_cm_kind)" by (simp add: ex_cm_kind_def retry_times_contract del: retry_times.simps)
  have wf: "wf_map (m_labels (cm_meta ?d))" by (simp add: ex_cm_def commonLabels_def selectorLabels_def gm_set_def)
  have "\<exists>x w'. applyResource ex_cm_kind cm_meta cm_meta_update ?d ?mut ?w = (Inr x, w')"
    by (simp add: applyResource_def ex_cm_kind_def mem_client_def list_obs_def ex_cm_def try_call_def eval_nat_numeral
        apply_once_def and_then_def mem_put_def aligned_def)
  then obtain x w' where r: "applyResource ex_cm_kind cm_meta cm_meta_update ?d ?mut ?w = (Inr x, w')" by blast
  from applyResource_stores [OF st pk rc list_obs_keyed wf r] r show ?thesis
    by (simp add: list_obs_def ex_cm_def aligned_def same_configmap_def commonLabels_def selectorLabels_def gm_get_def gm_set_def mergedLabels_def)
qed

end
