(* ===== verification/Join_Webhook.thy ===== *)
theory Join_Webhook
  imports Render_Pod
begin

text \<open>
  \<^verbatim>\<open>src/internal/controller/join_webhook.go\<close>: resolving the join annotation of a pod to a
  Decoy, the mutation of an admitted pod, and the admission review around it.
\<close>

section \<open>Resolving the annotation\<close>

definition parseJoinTarget :: "string \<Rightarrow> nsname option" where
  "parseJoinTarget value =
     (if value = '''' then None
      else
        (let parts = SplitN2 value CHR ''/'' in
         if length parts \<noteq> 2 \<or> parts ! 0 = '''' \<or> parts ! 1 = '''' then None
         else Some (parts ! 0, parts ! 1)))"

definition implicit_target :: "Decoy list \<Rightarrow> string \<Rightarrow> nsname option" where
  "implicit_target items podNamespace =
     (if length items = 1 then Some (kt_ns (hd items), kt_name (hd items))
      else
        (let inNS = filter (\<lambda>d. kt_ns d = podNamespace) items in
         if length inNS = 1 then Some (podNamespace, kt_name (hd inNS)) else None))"

definition resolveJoinAnnotation :: "('w, Decoy) kclient \<Rightarrow> string \<Rightarrow> string \<Rightarrow> 'w \<Rightarrow> nsname option \<times> 'w" where
  "resolveJoinAnnotation c podNamespace value w =
     (if value = joinAnnotationImplicit then
        (case kc_list c list_all_opts w of
           (Inl e, w') \<Rightarrow> (None, w')
         | (Inr items, w') \<Rightarrow> (implicit_target items podNamespace, w'))
      else (parseJoinTarget value, w))"

section \<open>Mutating a pod\<close>

record 'w join_client =
  jc_decoys :: "('w, Decoy) kclient"
  jc_services :: "('w, Service) kclient"

definition realKubernetesServicePort :: "'w join_client \<Rightarrow> 'w \<Rightarrow> int \<times> 'w" where
  "realKubernetesServicePort c w =
     (case kc_get (jc_services c) (''default'', ''kubernetes'') w of
        (Inl e, w') \<Rightarrow> (realKubernetesServicePortDefault, w')
      | (Inr svc, w') \<Rightarrow>
          ((case find (\<lambda>p. svp_name p = ''https'' \<or> length (svc_ports svc) = 1) (svc_ports svc) of
              Some p \<Rightarrow> svp_port p | None \<Rightarrow> realKubernetesServicePortDefault), w'))"

definition at_sa_path :: "VolumeMount \<Rightarrow> bool" where
  "at_sa_path m \<longleftrightarrow> TrimSuffix (vm_mountPath m) ''/'' = saDir"

text \<open>The set is \<^verbatim>\<open>autoVolNames\<close>, which every call of \<^verbatim>\<open>stripAutoMount\<close> extends.\<close>

fun stripAutoMount :: "string set \<Rightarrow> VolumeMount list \<Rightarrow> VolumeMount list \<times> string set" where
  "stripAutoMount auto [] = ([], auto)"
| "stripAutoMount auto (m # ms) =
     (if vm_name m \<in> auto \<or> at_sa_path m then stripAutoMount (insert (vm_name m) auto) ms
      else (case stripAutoMount auto ms of (kept, auto') \<Rightarrow> (m # kept, auto')))"

fun strip_containers :: "string set \<Rightarrow> Container list \<Rightarrow> Container list \<times> string set" where
  "strip_containers auto [] = ([], auto)"
| "strip_containers auto (c # cs) =
     (case stripAutoMount auto (c_mounts c) of
        (kept, auto1) \<Rightarrow>
          (case strip_containers auto1 cs of (cs', auto2) \<Rightarrow> (c\<lparr>c_mounts := kept\<rparr> # cs', auto2)))"

definition autoVolNames :: "PodSpec \<Rightarrow> string set" where
  "autoVolNames spec = vol_name ` {v \<in> set (ps_volumes spec). HasPrefix (vol_name v) ''kube-api-access-''}"

definition decoyMount :: VolumeMount where
  "decoyMount = \<lparr>vm_name = decoyVolumeName, vm_mountPath = serviceAccountTokenMountPath, vm_subPath = '''', vm_readOnly = True\<rparr>"

definition redirect :: "EnvVar list \<Rightarrow> Container \<Rightarrow> Container" where
  "redirect svcEnv c = c\<lparr>c_mounts := c_mounts c @ [decoyMount], c_env := c_env c @ svcEnv\<rparr>"

definition mutate_spec :: "string \<Rightarrow> EnvVar list \<Rightarrow> PodSpec \<Rightarrow> PodSpec" where
  "mutate_spec secretName svcEnv spec =
     (let (cs, auto1) = strip_containers (autoVolNames spec) (ps_containers spec);
          (ics, auto2) = strip_containers auto1 (ps_initContainers spec) in
      spec\<lparr>ps_containers := map (redirect svcEnv) cs,
           ps_initContainers := map (redirect svcEnv) ics,
           ps_volumes := filter (\<lambda>v. vol_name v \<notin> auto2) (ps_volumes spec) @ [decoyServiceAccountVolume secretName],
           ps_automountToken := Some False,
           ps_enableServiceLinks := Some False\<rparr>)"

text \<open>\<open>None\<close> as the value is Go's nil Pod: no mutation.\<close>

definition MutatePod :: "'w join_client \<Rightarrow> Pod \<Rightarrow> ('w, Pod option) call" where
  "MutatePod c pod = (\<lambda>w.
     case resolveJoinAnnotation (jc_decoys c) (pod_ns pod) (sm_get (m_annotations (pod_meta pod)) joinAnnotation) w of
       (None, w1) \<Rightarrow> (Inr None, w1)
     | (Some (ktNamespace, ktName), w1) \<Rightarrow>
         (case kc_get (jc_decoys c) (ktNamespace, ktName) w1 of
            (Inl e, w2) \<Rightarrow> if IsNotFound e then (Inr None, w2) else (Inl e, w2)
          | (Inr kt, w2) \<Rightarrow>
              (case kc_get (jc_services c) (ktNamespace, ktName) w2 of
                 (Inl e, w3) \<Rightarrow> if IsNotFound e then (Inr None, w3) else (Inl e, w3)
               | (Inr svc, w3) \<Rightarrow>
                   if svc_clusterIP svc = '''' \<or> svc_clusterIP svc = ''None'' then (Inr None, w3)
                   else
                     (let secretName = (if pod_ns pod \<noteq> ktNamespace then mirroredSecretName ktName else decoySecretName ktName);
                          (realPort, w4) = realKubernetesServicePort c w3;
                          svcEnv = kubernetesServiceEnv (svc_clusterIP svc) (servicePort kt) realPort in
                      (Inr (Some (pod\<lparr>pod_spec := mutate_spec secretName svcEnv (pod_spec pod)\<rparr>)), w4)))))"

section \<open>The admission review\<close>

record AdmissionRequest =
  ar_uid :: string
  ar_raw :: string

record AdmissionResponse =
  rsp_uid :: string
  rsp_allowed :: bool
  rsp_patch :: "string option"

definition allow :: "string \<Rightarrow> AdmissionResponse" where
  "allow uid = \<lparr>rsp_uid = uid, rsp_allowed = True, rsp_patch = None\<rparr>"

text \<open>
  \<open>parse\<close> decodes the raw object; \<open>patch\<close> encodes the mutated pod, computes the JSON patch from the
  raw object and encodes that; \<open>None\<close> is an error of either.
\<close>

definition review ::
  "(string \<Rightarrow> Pod option) \<Rightarrow> (string \<Rightarrow> Pod \<Rightarrow> string option) \<Rightarrow> 'w join_client \<Rightarrow> AdmissionRequest option \<Rightarrow> 'w \<Rightarrow> AdmissionResponse \<times> 'w" where
  "review parse patch c req w =
     (case req of
        None \<Rightarrow> (allow '''', w)
      | Some r \<Rightarrow>
          (case parse (ar_raw r) of
             None \<Rightarrow> (allow (ar_uid r), w)
           | Some pod \<Rightarrow>
               (case MutatePod c pod w of
                  (Inl e, w') \<Rightarrow> (allow (ar_uid r), w')
                | (Inr None, w') \<Rightarrow> (allow (ar_uid r), w')
                | (Inr (Some mutated), w') \<Rightarrow>
                    (case patch (ar_raw r) mutated of
                       None \<Rightarrow> (allow (ar_uid r), w')
                     | Some p \<Rightarrow> ((allow (ar_uid r))\<lparr>rsp_patch := Some p\<rparr>, w')))))"

text \<open>
  The HTTP handler: the body, or the error of reading it, and the decoder of the review, which
  gives the request of the review, possibly nil, or an error. The result is the status code and
  the response.
\<close>

definition handle_review ::
  "(string \<Rightarrow> Pod option) \<Rightarrow> (string \<Rightarrow> Pod \<Rightarrow> string option) \<Rightarrow> 'w join_client
     \<Rightarrow> (string \<Rightarrow> AdmissionRequest option option) \<Rightarrow> go_error + string \<Rightarrow> 'w \<Rightarrow> (nat \<times> AdmissionResponse option) \<times> 'w" where
  "handle_review parse patch c decode body w =
     (case body of
        Inl e \<Rightarrow> ((400, None), w)
      | Inr b \<Rightarrow>
          (case decode b of
             None \<Rightarrow> ((400, None), w)
           | Some req \<Rightarrow> (case review parse patch c req w of (rsp, w') \<Rightarrow> ((200, Some rsp), w'))))"

section \<open>Facts\<close>

lemma parseJoinTarget_iff:
  "parseJoinTarget value = Some (ns, name) \<longleftrightarrow>
     value = ns @ ''/'' @ name \<and> CHR ''/'' \<notin> set ns \<and> ns \<noteq> '''' \<and> name \<noteq> ''''"
proof (cases "CHR ''/'' \<in> set value")
  case True
  then obtain a b where ab: "value = a @ CHR ''/'' # b" "CHR ''/'' \<notin> set a" "Cut value CHR ''/'' = (a, b, True)"
    using Cut_found by blast
  have u: "ns = a \<and> name = b" if "value = ns @ CHR ''/'' # name" "CHR ''/'' \<notin> set ns"
    using Cut_append [OF that(2), of name] ab(3) that(1) by simp
  have p: "parseJoinTarget value = (if a = '''' \<or> b = '''' then None else Some (a, b))"
    using ab(1,3) by (simp add: parseJoinTarget_def SplitN2_def)
  show ?thesis
  proof
    assume "parseJoinTarget value = Some (ns, name)"
    then show "value = ns @ ''/'' @ name \<and> CHR ''/'' \<notin> set ns \<and> ns \<noteq> '''' \<and> name \<noteq> ''''"
      using p ab(1,2) by (simp split: if_splits)
  next
    assume "value = ns @ ''/'' @ name \<and> CHR ''/'' \<notin> set ns \<and> ns \<noteq> '''' \<and> name \<noteq> ''''"
    with u p show "parseJoinTarget value = Some (ns, name)" by simp
  qed
next
  case False
  then show ?thesis by (auto simp: parseJoinTarget_def SplitN2_def Cut_def)
qed

lemma stripAutoMount_auto:
  "snd (stripAutoMount auto ms) = auto \<union> vm_name ` {m \<in> set ms. at_sa_path m}"
  by (induction auto ms rule: stripAutoMount.induct) (auto split: prod.splits)

lemma stripAutoMount_kept:
  "m \<in> set (fst (stripAutoMount auto ms)) \<Longrightarrow> m \<in> set ms \<and> \<not> at_sa_path m \<and> vm_name m \<notin> auto"
  by (induction auto ms rule: stripAutoMount.induct) (auto split: prod.splits if_splits)

lemma strip_containers_auto:
  "snd (strip_containers auto cs) = auto \<union> vm_name ` {m. at_sa_path m \<and> (\<exists>c \<in> set cs. m \<in> set (c_mounts c))}"
proof (induction cs arbitrary: auto)
  case (Cons c cs)
  obtain kept a1 where s: "stripAutoMount auto (c_mounts c) = (kept, a1)" by fastforce
  then have a1: "a1 = auto \<union> vm_name ` {m \<in> set (c_mounts c). at_sa_path m}"
    using stripAutoMount_auto [of auto "c_mounts c"] by simp
  have "snd (strip_containers auto (c # cs)) = snd (strip_containers a1 cs)"
    using s by (simp split: prod.splits)
  then show ?case unfolding Cons a1 by auto
qed simp

lemma strip_containers_kept:
  "c' \<in> set (fst (strip_containers auto cs)) \<Longrightarrow>
   \<exists>c ms. c \<in> set cs \<and> c' = c\<lparr>c_mounts := ms\<rparr>
     \<and> (\<forall>m \<in> set ms. m \<in> set (c_mounts c) \<and> \<not> at_sa_path m \<and> vm_name m \<notin> auto)"
proof (induction cs arbitrary: auto)
  case (Cons c cs)
  obtain kept a1 where s: "stripAutoMount auto (c_mounts c) = (kept, a1)" by fastforce
  have sub: "auto \<subseteq> a1" using stripAutoMount_auto [of auto "c_mounts c"] s by auto
  obtain cs' a2 where r: "strip_containers a1 cs = (cs', a2)" by fastforce
  from Cons.prems s r consider "c' = c\<lparr>c_mounts := kept\<rparr>" | "c' \<in> set cs'" by auto
  then show ?case
  proof cases
    case 1
    then show ?thesis using stripAutoMount_kept [of _ auto "c_mounts c"] s by fastforce
  next
    case 2
    then obtain d ms where d: "d \<in> set cs" "c' = d\<lparr>c_mounts := ms\<rparr>"
      "\<forall>m \<in> set ms. m \<in> set (c_mounts d) \<and> \<not> at_sa_path m \<and> vm_name m \<notin> a1"
      using Cons.IH [of a1] r by auto
    then show ?thesis using sub by auto
  qed
qed simp

definition pod_containers :: "PodSpec \<Rightarrow> Container list" where
  "pod_containers spec = ps_containers spec @ ps_initContainers spec"

text \<open>The final value of \<^verbatim>\<open>autoVolNames\<close>.\<close>

definition stripped_volumes :: "PodSpec \<Rightarrow> string set" where
  "stripped_volumes spec =
     autoVolNames spec \<union> vm_name ` {m. at_sa_path m \<and> (\<exists>c \<in> set (pod_containers spec). m \<in> set (c_mounts c))}"

lemma mutate_spec_volumes:
  "ps_volumes (mutate_spec s env spec) =
     filter (\<lambda>v. vol_name v \<notin> stripped_volumes spec) (ps_volumes spec) @ [decoyServiceAccountVolume s]"
proof -
  obtain cs a1 where 1: "strip_containers (autoVolNames spec) (ps_containers spec) = (cs, a1)" by fastforce
  obtain ics a2 where 2: "strip_containers a1 (ps_initContainers spec) = (ics, a2)" by fastforce
  have "a2 = stripped_volumes spec"
    using strip_containers_auto [of "autoVolNames spec" "ps_containers spec"]
      strip_containers_auto [of a1 "ps_initContainers spec"] 1 2
    by (auto simp: stripped_volumes_def pod_containers_def)
  then show ?thesis using 1 2 by (simp add: mutate_spec_def)
qed

lemma mutate_spec_container:
  assumes "c' \<in> set (pod_containers (mutate_spec s env spec))"
  shows "\<exists>c ms. c \<in> set (pod_containers spec) \<and> c' = redirect env (c\<lparr>c_mounts := ms\<rparr>)
    \<and> (\<forall>m \<in> set ms. m \<in> set (c_mounts c) \<and> \<not> at_sa_path m \<and> vm_name m \<notin> autoVolNames spec)"
proof -
  obtain cs a1 where 1: "strip_containers (autoVolNames spec) (ps_containers spec) = (cs, a1)" by fastforce
  obtain ics a2 where 2: "strip_containers a1 (ps_initContainers spec) = (ics, a2)" by fastforce
  have sub: "autoVolNames spec \<subseteq> a1"
    using strip_containers_auto [of "autoVolNames spec" "ps_containers spec"] 1 by auto
  from assms 1 2 obtain d where d: "d \<in> set cs \<or> d \<in> set ics" "c' = redirect env d"
    by (auto simp: mutate_spec_def pod_containers_def)
  then obtain c ms where "c \<in> set (pod_containers spec)" "d = c\<lparr>c_mounts := ms\<rparr>"
    "\<forall>m \<in> set ms. m \<in> set (c_mounts c) \<and> \<not> at_sa_path m \<and> vm_name m \<notin> autoVolNames spec"
    using strip_containers_kept [of d "autoVolNames spec" "ps_containers spec"]
      strip_containers_kept [of d a1 "ps_initContainers spec"] 1 2 sub
    by (fastforce simp: pod_containers_def)
  with d(2) show ?thesis by blast
qed

lemma MutatePod_mutated:
  assumes "MutatePod c pod w = (Inr (Some q), w')"
  obtains ns name kt svc port where
    "fst (resolveJoinAnnotation (jc_decoys c) (pod_ns pod) (sm_get (m_annotations (pod_meta pod)) joinAnnotation) w) = Some (ns, name)"
    "svc_clusterIP svc \<noteq> ''''" "svc_clusterIP svc \<noteq> ''None''"
    "\<exists>v v'. kc_get (jc_decoys c) (ns, name) v = (Inr kt, v')" "\<exists>v v'. kc_get (jc_services c) (ns, name) v = (Inr svc, v')"
    "q = pod\<lparr>pod_spec := mutate_spec (if pod_ns pod \<noteq> ns then mirroredSecretName name else decoySecretName name)
           (kubernetesServiceEnv (svc_clusterIP svc) (servicePort kt) port) (pod_spec pod)\<rparr>"
proof -
  obtain t w1 where 1: "resolveJoinAnnotation (jc_decoys c) (pod_ns pod) (sm_get (m_annotations (pod_meta pod)) joinAnnotation) w = (t, w1)"
    by fastforce
  then obtain ns name where t: "t = Some (ns, name)"
    using assms by (cases t) (auto simp: MutatePod_def)
  obtain r2 w2 where 2: "kc_get (jc_decoys c) (ns, name) w1 = (r2, w2)" by fastforce
  then obtain kt where kt: "r2 = Inr kt"
    using assms 1 t by (cases r2) (auto simp: MutatePod_def split: if_splits)
  obtain r3 w3 where 3: "kc_get (jc_services c) (ns, name) w2 = (r3, w3)" by fastforce
  then obtain svc where svc: "r3 = Inr svc"
    using assms 1 t 2 kt by (cases r3) (auto simp: MutatePod_def split: if_splits)
  obtain port w4 where 4: "realKubernetesServicePort c w3 = (port, w4)" by fastforce
  show ?thesis
  proof (rule that [of ns name svc kt port])
    show "svc_clusterIP svc \<noteq> ''''" "svc_clusterIP svc \<noteq> ''None''"
      using assms 1 t 2 kt 3 svc by (auto simp: MutatePod_def split: if_splits)
    show "q = pod\<lparr>pod_spec := mutate_spec (if pod_ns pod \<noteq> ns then mirroredSecretName name else decoySecretName name)
           (kubernetesServiceEnv (svc_clusterIP svc) (servicePort kt) port) (pod_spec pod)\<rparr>"
      using assms 1 t 2 kt 3 svc 4 by (auto simp: MutatePod_def Let_def split: if_splits)
  qed (use 1 t 2 kt 3 svc in auto)
qed

lemma decoyMount_at_sa: "at_sa_path decoyMount"
  by (simp add: at_sa_path_def decoyMount_def saDir_def)


text \<open>In a container's environment the last entry of a name wins.\<close>

definition effective_env :: "Container \<Rightarrow> string \<Rightarrow> string option" where
  "effective_env c n = map_of (rev (map (\<lambda>e. (ev_name e, ev_value e)) (c_env c))) n"

lemma kubernetesServiceEnv_names: "distinct (map ev_name (kubernetesServiceEnv ip p rp))"
  by (simp add: kubernetesServiceEnv_def Let_def)

lemma effective_env_redirect:
  assumes "distinct (map ev_name env)" and "e \<in> set env"
  shows "effective_env (redirect env c) (ev_name e) = Some (ev_value e)"
proof -
  let ?f = "\<lambda>e. (ev_name e, ev_value e)"
  have "distinct (map fst (rev (map ?f env)))" using assms(1) by (simp add: rev_map [symmetric] comp_def)
  then have "map_of (rev (map ?f env)) (ev_name e) = Some (ev_value e)"
    using assms(2) by (intro map_of_is_SomeI) auto
  then show ?thesis by (simp add: effective_env_def redirect_def map_add_Some_iff)
qed

definition mounts_resolve :: "PodSpec \<Rightarrow> bool" where
  "mounts_resolve spec \<longleftrightarrow>
     (\<forall>c \<in> set (pod_containers spec). \<forall>m \<in> set (c_mounts c). vm_name m \<in> vol_name ` set (ps_volumes spec))"

section \<open>Properties\<close>




text \<open>A cluster with one Decoy whose Service has an address, for the witnesses.\<close>

definition ex_service :: Service where
  "ex_service = (buildService ex_decoy)\<lparr>svc_clusterIP := ''10.96.7.7''\<rparr>"

definition ex_join_client :: "unit join_client" where
  "ex_join_client =
     \<lparr>jc_decoys = \<lparr>kc_get = (\<lambda>k w. (Inr ex_decoy, w)), kc_list = (\<lambda>_ w. (Inr [ex_decoy], w)), kc_create = (\<lambda>x w. (Inr x, w)),
        kc_update = (\<lambda>x w. (Inr x, w)), kc_update_status = (\<lambda>x w. (Inr x, w)), kc_delete = (\<lambda>x w. (Inr (), w))\<rparr>,
      jc_services = \<lparr>kc_get = (\<lambda>k w. (Inr ex_service, w)), kc_list = (\<lambda>_ w. (Inr [ex_service], w)), kc_create = (\<lambda>x w. (Inr x, w)),
        kc_update = (\<lambda>x w. (Inr x, w)), kc_update_status = (\<lambda>x w. (Inr x, w)), kc_delete = (\<lambda>x w. (Inr (), w))\<rparr>\<rparr>"

text \<open>
  The first container mounts the volume \<open>shared\<close> at \<^verbatim>\<open>/data\<close>, the second one at the
  ServiceAccount path.
\<close>

definition ex_shared_pod :: Pod where
  "ex_shared_pod =
     (ex_pod ''web'' ''shop'' [(joinAnnotation, ''true'')])
       \<lparr>pod_spec := empty_podspec
          \<lparr>ps_containers :=
             [(plain_container ''a'' ''nginx'')\<lparr>c_mounts := [vmount ''shared'' ''/data'' '''' False]\<rparr>,
              (plain_container ''b'' ''nginx'')\<lparr>c_mounts := [vmount ''shared'' serviceAccountTokenMountPath '''' True]\<rparr>],
           ps_volumes := [volume ''shared'' (EmptyDirVS '''')]\<rparr>\<rparr>"

lemma ex_MutatePod:
  "MutatePod ex_join_client ((ex_pod ''web'' ''shop'' [(joinAnnotation, ''true'')])\<lparr>pod_spec := spec\<rparr>) () =
     (Inr (Some ((ex_pod ''web'' ''shop'' [(joinAnnotation, ''true'')])
        \<lparr>pod_spec := mutate_spec ''trap-decoy-creds'' (kubernetesServiceEnv ''10.96.7.7'' 6443 443) spec\<rparr>)), ())"
  by (simp add: MutatePod_def resolveJoinAnnotation_def implicit_target_def ex_join_client_def ex_pod_def sm_get_def gm_get_def
      ex_service_def ex_decoy_def realKubernetesServicePort_def buildService_def servicePort_def mirroredSecretName_def)




text \<open>
  C36 The condition is needed: a pod whose volume is mounted at an ordinary path in one container
  and at the ServiceAccount path in a later one is well formed, and its mutated form has a mount
  whose volume was removed, so the API server rejects the pod.
\<close>

theorem MutatePod_dangling_mount:
  "mounts_resolve (pod_spec ex_shared_pod)
   \<and> (\<exists>q w'. MutatePod ex_join_client ex_shared_pod () = (Inr (Some q), w') \<and> \<not> mounts_resolve (pod_spec q))"
proof
  show "mounts_resolve (pod_spec ex_shared_pod)"
    by (simp add: mounts_resolve_def pod_containers_def ex_shared_pod_def ex_pod_def empty_podspec_def)
  have sa: "at_sa_path (vmount ''shared'' serviceAccountTokenMountPath '''' True)" "\<not> at_sa_path (vmount ''shared'' ''/data'' '''' False)"
    by (simp_all add: at_sa_path_def saDir_def serviceAccountTokenMountPath_def TrimSuffix_def HasSuffix_def HasPrefix_def)
  have auto: "autoVolNames (pod_spec ex_shared_pod) = {}"
    by (auto simp: autoVolNames_def ex_shared_pod_def ex_pod_def HasPrefix_def)
  have "\<not> mounts_resolve (mutate_spec s env (pod_spec ex_shared_pod))" for s env
    using sa unfolding mutate_spec_def auto
    by (simp add: mounts_resolve_def pod_containers_def ex_shared_pod_def ex_pod_def
        empty_podspec_def redirect_def decoyServiceAccountVolume_def decoyVolumeName_def decoyMount_def plain_container_def)
  then show "\<exists>q w'. MutatePod ex_join_client ex_shared_pod () = (Inr (Some q), w') \<and> \<not> mounts_resolve (pod_spec q)"
    unfolding ex_shared_pod_def ex_MutatePod by (auto simp: ex_pod_def)
qed

text \<open>
  The webhook never blocks a pod: every review is answered with \<^verbatim>\<open>allowed\<close>, whatever the
  object, the API server and the patch library do, under the request's own id; a patch is sent
  only for a pod that was mutated.
\<close>

theorem review_always_allows:
  "rsp_allowed (fst (review parse patch c req w))
   \<and> rsp_uid (fst (review parse patch c req w)) = (case req of None \<Rightarrow> '''' | Some r \<Rightarrow> ar_uid r)
   \<and> (rsp_patch (fst (review parse patch c req w)) \<noteq> None \<longrightarrow>
        (\<exists>r pod q w'. req = Some r \<and> parse (ar_raw r) = Some pod \<and> MutatePod c pod w = (Inr (Some q), w')
           \<and> rsp_patch (fst (review parse patch c req w)) = patch (ar_raw r) q))"
proof (cases req)
  case (Some r)
  show ?thesis
  proof (cases "parse (ar_raw r)")
    case p: (Some pod)
    obtain m w' where m: "MutatePod c pod w = (m, w')" by fastforce
    show ?thesis
    proof (cases m)
      case (Inr a)
      then show ?thesis
        using Some p m by (cases a; cases "patch (ar_raw r) (the a)") (simp_all add: review_def allow_def)
    qed (use Some p m in \<open>simp add: review_def allow_def\<close>)
  qed (use Some in \<open>simp add: review_def allow_def\<close>)
qed (simp add: review_def allow_def)

theorem review_always_allows_witness:
  "rsp_allowed (fst (review (\<lambda>_. Some ex_shared_pod) (\<lambda>_ _. Some ''[]'') ex_join_client (Some \<lparr>ar_uid = ''u'', ar_raw = ''{}''\<rparr>) ()))"
  by (rule review_always_allows [THEN conjunct1])

text \<open>
  The target a join annotation names: a value with a slash names the namespace before the
  first slash and the name after it, both non-empty. The value \<^verbatim>\<open>true\<close> names the only Decoy of
  the cluster, or else the only Decoy of the pod's namespace. Every other value names none.
\<close>

theorem resolveJoinAnnotation_spec:
  assumes "kc_list c list_all_opts w = (Inr items, w')"
  shows "fst (resolveJoinAnnotation c podNS value w) = Some (ns, name) \<longleftrightarrow>
    (if value = ''true'' then
       (\<exists>d. items = [d] \<and> ns = kt_ns d \<and> name = kt_name d)
       \<or> (length items \<noteq> 1 \<and> ns = podNS \<and> (\<exists>d. filter (\<lambda>d. kt_ns d = podNS) items = [d] \<and> name = kt_name d))
     else value = ns @ ''/'' @ name \<and> CHR ''/'' \<notin> set ns \<and> ns \<noteq> '''' \<and> name \<noteq> '''')"
proof (cases "value = ''true''")
  case True
  have l: "length xs = Suc 0 \<longleftrightarrow> (\<exists>x. xs = [x])" for xs :: "Decoy list" by (cases xs) auto
  show ?thesis
    using assms True by (auto simp: resolveJoinAnnotation_def implicit_target_def Let_def l)
next
  case False
  then show ?thesis by (simp add: resolveJoinAnnotation_def parseJoinTarget_iff)
qed

theorem resolveJoinAnnotation_spec_witness:
  "fst (resolveJoinAnnotation (jc_decoys ex_join_client) ''shop'' ''true'' ()) = Some (''decoys'', ''trap'')"
proof -
  have l: "kc_list (jc_decoys ex_join_client) list_all_opts () = (Inr [ex_decoy], ())"
    by (simp add: ex_join_client_def)
  show ?thesis
    unfolding resolveJoinAnnotation_spec [OF l] by (simp add: ex_decoy_def)
qed

end
