(* ===== verification/Go_Time.thy ===== *)
theory Go_Time
  imports Go_Strings
begin

text \<open>
  Go's instants, as the number of nanoseconds since January 1 of the year 1, UTC (the zero
  time), with the two renderings the sources use.
\<close>

definition second :: int where
  "second = 1000000000"

definition unix_epoch :: int where
  "unix_epoch = 62135596800 * second"

text \<open>\<^verbatim>\<open>Time.UnixNano\<close> is an int64: outside the years 1678 to 2262 it wraps around.\<close>

definition UnixNano :: "int \<Rightarrow> int" where
  "UnixNano t = sint (word_of_int (t - unix_epoch) :: 64 word)"

text \<open>The proleptic Gregorian date of a day number, day 0 being January 1 of the year 1.\<close>

definition civil_date :: "int \<Rightarrow> int \<times> int \<times> int" where
  "civil_date days =
     (let z = days + 306;
          era = z div 146097;
          doe = z mod 146097;
          yoe = (doe - doe div 1460 + doe div 36524 - doe div 146096) div 365;
          doy = doe - (365 * yoe + yoe div 4 - yoe div 100);
          mp = (5 * doy + 2) div 153;
          d = doy - (153 * mp + 2) div 5 + 1;
          m = (if mp < 10 then mp + 3 else mp - 9);
          y = yoe + era * 400 + (if m \<le> 2 then 1 else 0) in
      (y, m, d))"

definition pad_digits :: "nat \<Rightarrow> int \<Rightarrow> string" where
  "pad_digits width n = (let s = Itoa n in replicate (width - length s) CHR ''0'' @ s)"

text \<open>\<^verbatim>\<open>t.UTC().Format(time.RFC3339)\<close>\<close>

definition rfc3339 :: "int \<Rightarrow> string" where
  "rfc3339 t =
     (let secs = t div second;
          (y, m, d) = civil_date (secs div 86400);
          r = secs mod 86400 in
      pad_digits 4 y @ ''-'' @ pad_digits 2 m @ ''-'' @ pad_digits 2 d @ ''T''
      @ pad_digits 2 (r div 3600) @ '':'' @ pad_digits 2 (r mod 3600 div 60) @ '':'' @ pad_digits 2 (r mod 60) @ ''Z'')"

text \<open>In the years an int64 can hold, later instants have larger values of \<^verbatim>\<open>UnixNano\<close>.\<close>

lemma sint_word_of_int_64: "- (2 ^ 63) \<le> x \<Longrightarrow> x < 2 ^ 63 \<Longrightarrow> sint (word_of_int x :: 64 word) = x"
  by (simp add: sint_sbintrunc' signed_take_bit_int_eq_self)

lemma UnixNano_range:
  "- (2 ^ 63) \<le> t - unix_epoch \<Longrightarrow> t - unix_epoch < 2 ^ 63 \<Longrightarrow> UnixNano t = t - unix_epoch"
  unfolding UnixNano_def by (rule sint_word_of_int_64)

end
