(* ===== verification/Certs.thy ===== *)
theory Certs
  imports Object_Store Go_Time
begin

text \<open>
  \<^verbatim>\<open>src/internal/certs/certs.go\<close> and the certificate of the join webhook's server
  (\<^verbatim>\<open>src/internal/controller/webhookcert.go\<close>, \<^verbatim>\<open>webhookca_controller.go\<close>). Key generation,
  signing, DER and PEM belong to Go's crypto packages and are the fields of \<open>crypto\<close>; what is
  put into the certificates is modelled.
\<close>

section \<open>Certificates\<close>

record Certificate =
  ct_serial :: int
  ct_commonName :: string
  ct_notBefore :: int
  ct_notAfter :: int
  ct_keyUsage :: "string list"
  ct_extKeyUsage :: "string list"
  ct_isCA :: bool
  ct_dnsNames :: "string list"
  ct_ipAddresses :: "string list"

text \<open>
  Keys are opaque strings. \<open>cy_create\<close> signs a template: template, issuer, the key the
  certificate is for, the issuer's key. \<open>cy_parse_ip\<close> is \<^verbatim>\<open>net.ParseIP\<close>, in a canonical form
  on which \<^verbatim>\<open>IP.Equal\<close> is equality.
\<close>

record 'w crypto =
  cy_generate_key :: "('w, string) call"
  cy_rand_int :: "int \<Rightarrow> ('w, int) call"
  cy_now :: "'w \<Rightarrow> int"
  cy_create :: "Certificate \<Rightarrow> Certificate \<Rightarrow> string \<Rightarrow> string \<Rightarrow> ('w, string) call"
  cy_parse_cert :: "string \<Rightarrow> go_error + Certificate"
  cy_marshal_key :: "string \<Rightarrow> go_error + string"
  cy_parse_key :: "string \<Rightarrow> go_error + string"
  cy_marshal_pub :: "string \<Rightarrow> go_error + string"
  cy_pem_encode :: "string \<Rightarrow> string \<Rightarrow> string"
  cy_pem_decode :: "string \<Rightarrow> string option"
  cy_parse_ip :: "string \<Rightarrow> string option"

definition pure_result :: "go_error + 'a \<Rightarrow> ('w, 'a) call" where
  "pure_result r = (\<lambda>w. (r, w))"

text \<open>\<^verbatim>\<open>time.Now()\<close>; two readings in one literal are one instant.\<close>

definition reading :: "('w \<Rightarrow> 'a) \<Rightarrow> ('w, 'a) call" where
  "reading f = (\<lambda>w. (Inr (f w), w))"

definition validity :: int where
  "validity = 10 * 365 * 24 * 3600 * second"

abbreviation serial_limit :: int where
  "serial_limit \<equiv> 2 ^ 128"

definition GenerateCA :: "'w crypto \<Rightarrow> string \<Rightarrow> ('w, string \<times> string) call" where
  "GenerateCA cy commonName =
     and_then (cy_generate_key cy) (\<lambda>key.
     and_then (cy_rand_int cy serial_limit) (\<lambda>serial.
     and_then (reading (cy_now cy)) (\<lambda>now.
       let tmpl = \<lparr>ct_serial = serial, ct_commonName = commonName, ct_notBefore = now - 3600 * second,
                   ct_notAfter = now + validity,
                   ct_keyUsage = [''CertSign'', ''CRLSign'', ''DigitalSignature''], ct_extKeyUsage = [],
                   ct_isCA = True, ct_dnsNames = [], ct_ipAddresses = []\<rparr> in
       and_then (cy_create cy tmpl tmpl key key) (\<lambda>der.
       and_then (pure_result (cy_marshal_key cy key)) (\<lambda>keyDER.
         ok (cy_pem_encode cy ''CERTIFICATE'' der, cy_pem_encode cy ''EC PRIVATE KEY'' keyDER))))))"

text \<open>The loop that sorts the names into IP addresses and DNS names.\<close>

fun split_sans :: "(string \<Rightarrow> string option) \<Rightarrow> string list \<Rightarrow> string list \<times> string list" where
  "split_sans parse [] = ([], [])"
| "split_sans parse (n # ns) =
     (case split_sans parse ns of
        (ips, names) \<Rightarrow> (case parse n of Some ip \<Rightarrow> (ip # ips, names) | None \<Rightarrow> (ips, n # names)))"

definition server_template :: "(string \<Rightarrow> string option) \<Rightarrow> int \<Rightarrow> int \<Rightarrow> string list \<Rightarrow> Certificate" where
  "server_template parse serial now dnsNames =
     \<lparr>ct_serial = serial, ct_commonName = hd dnsNames, ct_notBefore = now - 3600 * second,
      ct_notAfter = now + validity, ct_keyUsage = [''DigitalSignature'', ''KeyEncipherment''],
      ct_extKeyUsage = [''ServerAuth''], ct_isCA = False,
      ct_dnsNames = snd (split_sans parse dnsNames), ct_ipAddresses = fst (split_sans parse dnsNames)\<rparr>"

text \<open>The callers always pass at least one name; Go would panic on none.\<close>

definition IssueServerCert :: "'w crypto \<Rightarrow> string \<Rightarrow> string \<Rightarrow> string list \<Rightarrow> ('w, string \<times> string) call" where
  "IssueServerCert cy caCertPEM caKeyPEM dnsNames =
     (case cy_pem_decode cy caCertPEM of
        None \<Rightarrow> fail (errorf ''invalid CA cert PEM'')
      | Some caCertDER \<Rightarrow>
          and_then (pure_result (cy_parse_cert cy caCertDER)) (\<lambda>caCert.
            case cy_pem_decode cy caKeyPEM of
              None \<Rightarrow> fail (errorf ''invalid CA key PEM'')
            | Some caKeyDER \<Rightarrow>
                and_then (pure_result (cy_parse_key cy caKeyDER)) (\<lambda>caKey.
                and_then (cy_generate_key cy) (\<lambda>leafKey.
                and_then (cy_rand_int cy serial_limit) (\<lambda>serial.
                and_then (reading (cy_now cy)) (\<lambda>now.
                  and_then (cy_create cy (server_template (cy_parse_ip cy) serial now dnsNames) caCert leafKey caKey) (\<lambda>der.
                  and_then (pure_result (cy_marshal_key cy leafKey)) (\<lambda>keyDER.
                    ok (cy_pem_encode cy ''CERTIFICATE'' der, cy_pem_encode cy ''EC PRIVATE KEY'' keyDER)))))))))"

definition GenerateServiceAccountSigningKey :: "'w crypto \<Rightarrow> ('w, string \<times> string) call" where
  "GenerateServiceAccountSigningKey cy =
     and_then (cy_generate_key cy) (\<lambda>key.
     and_then (pure_result (cy_marshal_key cy key)) (\<lambda>keyDER.
     and_then (pure_result (cy_marshal_pub cy key)) (\<lambda>pubDER.
       ok (cy_pem_encode cy ''PUBLIC KEY'' pubDER, cy_pem_encode cy ''EC PRIVATE KEY'' keyDER))))"

section \<open>The webhook's serving certificate\<close>

definition generateWebhookServingCert :: "'w crypto \<Rightarrow> string list \<Rightarrow> ('w, string \<times> string \<times> string) call" where
  "generateWebhookServingCert cy dnsNames =
     and_then (on_error (wrap_error ''generating webhook CA'') (GenerateCA cy ''kubernetes'')) (\<lambda>(caCertPEM, caKeyPEM).
     and_then (on_error (wrap_error ''issuing webhook serving cert'') (IssueServerCert cy caCertPEM caKeyPEM dnsNames))
       (\<lambda>(leafCertPEM, leafKeyPEM). ok (leafCertPEM, leafKeyPEM, caCertPEM)))"

text \<open>\<open>X509KeyPair\<close> is \<^verbatim>\<open>tls.X509KeyPair\<close>, from the two PEM files to a usable certificate.\<close>

definition loadStored ::
  "('w, Secret) kclient \<Rightarrow> (string \<Rightarrow> string \<Rightarrow> go_error + 'c) \<Rightarrow> nsname \<Rightarrow> ('w, 'c \<times> string) call" where
  "loadStored c X509KeyPair key =
     and_then (kc_get c key) (\<lambda>secret.
     and_then (on_error (wrap_error ''parsing stored webhook cert'')
         (pure_result (X509KeyPair (sm_get (sec_data secret) ''tls.crt'') (sm_get (sec_data secret) ''tls.key''))))
       (\<lambda>tlsCert. ok (tlsCert, sm_get (sec_data secret) ''ca.crt'')))"

definition webhook_secret :: "string \<Rightarrow> string \<Rightarrow> string \<Rightarrow> string \<Rightarrow> string \<Rightarrow> Secret" where
  "webhook_secret namespace secretName leafCertPEM leafKeyPEM caCertPEM =
     \<lparr>sec_meta = new_meta secretName namespace [], sec_type = '''',
      sec_data = [(''tls.crt'', leafCertPEM), (''tls.key'', leafKeyPEM), (''ca.crt'', caCertPEM)]\<rparr>"

definition EnsureWebhookServingCert ::
  "'w crypto \<Rightarrow> (string \<Rightarrow> string \<Rightarrow> go_error + 'c) \<Rightarrow> ('w, Secret) kclient \<Rightarrow> string \<Rightarrow> string \<Rightarrow> string list \<Rightarrow> ('w, 'c \<times> string) call" where
  "EnsureWebhookServingCert cy X509KeyPair c namespace secretName dnsNames =
     try_call (loadStored c X509KeyPair (namespace, secretName)) (\<lambda>r.
       case r of
         Inr found \<Rightarrow> ok found
       | Inl getErr \<Rightarrow>
           if \<not> IsNotFound getErr then fail (wrap_error ''getting webhook cert secret'' getErr)
           else
             and_then (generateWebhookServingCert cy dnsNames) (\<lambda>(leafCertPEM, leafKeyPEM, caCertPEM).
             and_then (on_error (wrap_error ''building webhook tls.Certificate'') (pure_result (X509KeyPair leafCertPEM leafKeyPEM))) (\<lambda>tlsCert.
             try_call (kc_create c (webhook_secret namespace secretName leafCertPEM leafKeyPEM caCertPEM)) (\<lambda>cr.
               case cr of
                 Inr _ \<Rightarrow> ok (tlsCert, caCertPEM)
               | Inl e \<Rightarrow>
                   if \<not> IsAlreadyExists e then fail (wrap_error ''storing webhook cert secret'' e)
                   else loadStored c X509KeyPair (namespace, secretName)))))"

section \<open>Keeping the CA bundle published\<close>

record WebhookConfiguration =
  wc_meta :: ObjectMeta
  wc_caBundles :: "string list"

definition patch_bundles :: "string \<Rightarrow> string list \<Rightarrow> string list \<times> bool" where
  "patch_bundles ca bs = (map (\<lambda>b. if b \<noteq> ca then ca else b) bs, \<exists>b \<in> set bs. b \<noteq> ca)"

definition ReconcileWebhookCA ::
  "('w, WebhookConfiguration) kclient \<Rightarrow> string \<Rightarrow> string \<Rightarrow> string \<Rightarrow> ('w, unit) call" where
  "ReconcileWebhookCA c configName ca reqName =
     (if reqName \<noteq> configName then ok ()
      else
        try_call (kc_get c ('''', reqName)) (\<lambda>r.
          case r of
            Inl e \<Rightarrow> if IsNotFound e then ok () else fail e
          | Inr cfg \<Rightarrow>
              (case patch_bundles ca (wc_caBundles cfg) of
                 (bs, drift) \<Rightarrow>
                   if \<not> drift then ok ()
                   else and_then (kc_update c (cfg\<lparr>wc_caBundles := bs\<rparr>)) (\<lambda>_. ok ()))))"

section \<open>Facts\<close>

lemma split_sans_filter:
  "split_sans parse ns = (List.map_filter parse ns, filter (\<lambda>n. parse n = None) ns)"
  by (induction ns) (auto simp: map_filter_simps split: option.splits)

lemma set_map_filter: "set (List.map_filter f xs) = {y. \<exists>x \<in> set xs. f x = Some y}"
  by (induction xs) (auto simp: map_filter_simps split: option.splits)

text \<open>
  What the code relies on from the crypto packages: a PEM block is not empty and decoding it gives
  back what was encoded, and parsing a certificate that was created gives the names it was created with.
\<close>

definition crypto_contract :: "'w crypto \<Rightarrow> bool" where
  "crypto_contract cy \<longleftrightarrow>
     (\<forall>t b. cy_pem_encode cy t b \<noteq> '''' \<and> cy_pem_decode cy (cy_pem_encode cy t b) = Some b)
     \<and> (\<forall>t p k s w der w'. cy_create cy t p k s w = (Inr der, w') \<longrightarrow>
          (\<exists>c. cy_parse_cert cy der = Inr c \<and> ct_dnsNames c = ct_dnsNames t \<and> ct_ipAddresses c = ct_ipAddresses t))"

lemma IssueServerCert_sans:
  assumes "crypto_contract cy" and "IssueServerCert cy ca key names w = (Inr (cert, leafKey), w')"
  shows "\<exists>der c. cy_pem_decode cy cert = Some der \<and> cy_parse_cert cy der = Inr c
    \<and> ct_ipAddresses c = List.map_filter (cy_parse_ip cy) names \<and> ct_dnsNames c = filter (\<lambda>n. cy_parse_ip cy n = None) names"
proof -
  from assms(2) obtain tm pa kk ss v der v' where cr: "cy_create cy tm pa kk ss v = (Inr der, v')"
    and tm: "ct_ipAddresses tm = fst (split_sans (cy_parse_ip cy) names)" "ct_dnsNames tm = snd (split_sans (cy_parse_ip cy) names)"
    and ce: "cert = cy_pem_encode cy ''CERTIFICATE'' der"
    by (auto simp: IssueServerCert_def pure_result_def and_then_def server_template_def reading_def
        split: option.splits prod.splits sum.splits)
  obtain c where "cy_parse_cert cy der = Inr c" "ct_dnsNames c = ct_dnsNames tm" "ct_ipAddresses c = ct_ipAddresses tm"
    using assms(1) cr unfolding crypto_contract_def by blast
  moreover have "cy_pem_decode cy cert = Some der" using assms(1) ce by (simp add: crypto_contract_def)
  ultimately show ?thesis using tm by (simp add: split_sans_filter)
qed

text \<open>\<open>keypair c names\<close>: a PEM certificate that lists every name as a DNS or an IP name.\<close>

definition covers :: "'w crypto \<Rightarrow> string \<Rightarrow> string \<Rightarrow> bool" where
  "covers cy cert name \<longleftrightarrow>
     (\<exists>der c. cy_pem_decode cy cert = Some der \<and> cy_parse_cert cy der = Inr c
        \<and> (case cy_parse_ip cy name of Some ip \<Rightarrow> ip \<in> set (ct_ipAddresses c) | None \<Rightarrow> name \<in> set (ct_dnsNames c)))"

text \<open>
  A serving certificate covers every name it was requested for: a name that parses as an IP
  address is one of the certificate's IP names, every other name one of its DNS names.
\<close>

theorem IssueServerCert_covers:
  assumes "crypto_contract cy" and "IssueServerCert cy ca key names w = (Inr (cert, leafKey), w')"
    and "name \<in> set names"
  shows "covers cy cert name"
proof -
  from IssueServerCert_sans [OF assms(1,2)] obtain der c where
    c: "cy_pem_decode cy cert = Some der" "cy_parse_cert cy der = Inr c"
      "ct_ipAddresses c = List.map_filter (cy_parse_ip cy) names"
      "ct_dnsNames c = filter (\<lambda>n. cy_parse_ip cy n = None) names"
    by blast
  have "case cy_parse_ip cy name of Some ip \<Rightarrow> ip \<in> set (ct_ipAddresses c) | None \<Rightarrow> name \<in> set (ct_dnsNames c)"
    using assms(3) by (auto simp: c(3,4) set_map_filter split: option.split)
  with c(1,2) show ?thesis unfolding covers_def by blast
qed

text \<open>
  A crypto library for concrete runs: the DER form of a certificate is an encoding of its two
  lists of names, PEM adds one character, keys are single letters, and an IP address is a name that
  begins with a digit.
\<close>

fun ex_chars :: "string \<Rightarrow> string" where
  "ex_chars [] = ''y''"
| "ex_chars (c # s) = CHR ''x'' # c # ex_chars s"

fun ex_names :: "string list \<Rightarrow> string" where
  "ex_names [] = ''z''"
| "ex_names (s # ss) = ex_chars s @ ex_names ss"

fun ex_read :: "string \<Rightarrow> string list list" where
  "ex_read (a # s) =
     (if a = CHR ''z'' then [] # ex_read s
      else if a = CHR ''y'' then (case ex_read s of l # ls \<Rightarrow> ([] # l) # ls | [] \<Rightarrow> [])
      else case s of
          c # t \<Rightarrow> (case ex_read t of (m # l) # ls \<Rightarrow> ((c # m) # l) # ls | _ \<Rightarrow> [])
        | [] \<Rightarrow> [])"
| "ex_read [] = []"

lemma ex_read_chars: "ex_read t = l # ls \<Longrightarrow> ex_read (ex_chars s @ t) = (s # l) # ls"
  by (induction s) auto

lemma ex_read_names: "ex_read (ex_names ss @ t) = ss # ex_read t"
  by (induction ss) (simp_all add: ex_read_chars)

definition ex_certificate :: "string list \<Rightarrow> string list \<Rightarrow> Certificate" where
  "ex_certificate ips names =
     \<lparr>ct_serial = 0, ct_commonName = ''ca'', ct_notBefore = 0, ct_notAfter = 0, ct_keyUsage = [],
      ct_extKeyUsage = [], ct_isCA = False, ct_dnsNames = names, ct_ipAddresses = ips\<rparr>"

definition ex_crypto :: "'w crypto" where
  "ex_crypto =
     \<lparr>cy_generate_key = ok ''k'', cy_rand_int = (\<lambda>n. ok 4), cy_now = (\<lambda>w. 0),
      cy_create = (\<lambda>t p k s. ok (ex_names (ct_ipAddresses t) @ ex_names (ct_dnsNames t))),
      cy_parse_cert = (\<lambda>der. Inr (ex_certificate (ex_read der ! 0) (ex_read der ! 1))),
      cy_marshal_key = (\<lambda>k. Inr k), cy_parse_key = (\<lambda>k. Inr k), cy_marshal_pub = (\<lambda>k. Inr k),
      cy_pem_encode = (\<lambda>t b. CHR ''-'' # b), cy_pem_decode = (\<lambda>s. case s of [] \<Rightarrow> None | c # b \<Rightarrow> Some b),
      cy_parse_ip = (\<lambda>s. if s \<noteq> [] \<and> hd s \<in> set ''0123456789'' then Some s else None)\<rparr>"

lemma ex_crypto_contract: "crypto_contract ex_crypto"
  by (simp add: crypto_contract_def ex_crypto_def ex_certificate_def ex_read_names ex_read_names [of _ "[]", simplified])

text \<open>The contracts of \<open>cy_rand_int\<close> and the rest are in the runs that use them.\<close>

theorem IssueServerCert_covers_witness:
  "crypto_contract (ex_crypto :: unit crypto) \<and> covers (ex_crypto :: unit crypto) (fst (projr (fst (IssueServerCert ex_crypto ''-'' ''-k'' [''web'', ''10.0.0.7''] ())))) ''10.0.0.7''"
proof -
  let ?r = "IssueServerCert ex_crypto ''-'' ''-k'' [''web'', ''10.0.0.7''] ()"
  have "\<exists>cert k w'. ?r = (Inr (cert, k), w')"
    by (simp add: IssueServerCert_def ex_crypto_def and_then_def pure_result_def reading_def)
  then obtain cert k w' where r: "?r = (Inr (cert, k), w')" by blast
  have "covers (ex_crypto :: unit crypto) cert ''10.0.0.7''"
    by (rule IssueServerCert_covers [OF ex_crypto_contract r]) simp
  then show ?thesis using r ex_crypto_contract by simp
qed

section \<open>The serving certificate is the stored one\<close>

text \<open>Generating keys and signing happen inside the process: no view of a store changes.\<close>

definition crypto_quiet :: "('w \<Rightarrow> 'v) \<Rightarrow> 'w crypto \<Rightarrow> bool" where
  "crypto_quiet v cy \<longleftrightarrow>
     keeps v (cy_generate_key cy) \<and> (\<forall>n. keeps v (cy_rand_int cy n)) \<and> (\<forall>t p k s. keeps v (cy_create cy t p k s))"

lemma keeps_pure [keeps_intros]:
  "keeps v (pure_result r)" "preserves P (pure_result r)" "keeps v (reading f)" "preserves P (reading f)"
  by (simp_all add: pure_result_def reading_def keeps_def preserves_def)


lemma crypto_quiet_keeps:
  assumes "crypto_quiet v cy"
  shows "keeps v (GenerateCA cy cn)" and "keeps v (IssueServerCert cy ca key names)"
    and "keeps v (GenerateServiceAccountSigningKey cy)" and "keeps v (generateWebhookServingCert cy names)"
proof -
  have k: "keeps v (cy_generate_key cy)" "\<And>n. keeps v (cy_rand_int cy n)" "\<And>t p k s. keeps v (cy_create cy t p k s)"
    using assms by (simp_all add: crypto_quiet_def)
  show ca: "keeps v (GenerateCA cy cn)"
    unfolding GenerateCA_def Let_def by (intro keeps_intros k)
  show iss: "keeps v (IssueServerCert cy ca key names)" for ca key
    unfolding IssueServerCert_def by (auto intro!: keeps_intros k split: option.split)
  show "keeps v (GenerateServiceAccountSigningKey cy)"
    unfolding GenerateServiceAccountSigningKey_def by (intro keeps_intros k)
  have ca': "keeps v (GenerateCA cy ''kubernetes'')"
    unfolding GenerateCA_def Let_def by (intro keeps_intros k)
  show "keeps v (generateWebhookServingCert cy names)"
    unfolding generateWebhookServingCert_def by (auto intro!: keeps_intros ca' iss split: prod.split)
qed

lemma loadStored_stored:
  assumes "object_store c sec_meta same_secret obs" and "loadStored c kp k w = (Inr (cert, ca), w')"
  shows "obs w' = obs w \<and> (\<exists>s. obs w k = Some s
    \<and> kp (sm_get (sec_data s) ''tls.crt'') (sm_get (sec_data s) ''tls.key'') = Inr cert \<and> ca = sm_get (sec_data s) ''ca.crt'')"
  using assms(2) get_lawD [OF object_storeD(1) [OF assms(1)]]
  by (auto simp: loadStored_def and_then_def on_error_def pure_result_def split: prod.splits sum.splits)

lemma loadStored_keeps: "object_store c sec_meta same_secret obs \<Longrightarrow> keeps obs (loadStored c kp k)"
  unfolding loadStored_def by (intro keeps_intros keeps_get object_storeD(1))

lemma loadStored_missing:
  assumes "object_store c sec_meta same_secret obs" and "r = Inl e" and "loadStored c kp k w = (r, w')"
    and "IsNotFound e" and "\<And>a b e. kp a b = Inl e \<Longrightarrow> \<not> IsNotFound e"
  shows "obs w k = None"
  using assms(2-5) get_lawD [OF object_storeD(1) [OF assms(1)]]
  by (auto simp: loadStored_def and_then_def on_error_def pure_result_def split: prod.splits sum.splits)


definition ex_keypair :: "string \<Rightarrow> string \<Rightarrow> go_error + string \<times> string" where
  "ex_keypair crt key = (if crt = '''' then Inl (errorf ''no certificate'') else Inr (crt, key))"

definition ex_secrets :: "(Secret list, Secret) kclient" where
  "ex_secrets = mem_client sec_meta (\<lambda>w. w) (\<lambda>f w. f w)"

lemma ex_secrets_store: "object_store ex_secrets sec_meta same_secret (list_obs sec_meta)"
  unfolding ex_secrets_def by (rule mem_object_store) (simp_all add: same_secret_def)

lemma ex_names_nonempty: "ex_names ss \<noteq> []"
  by (cases ss; cases "hd ss") auto

lemma ex_crypto_quiet: "crypto_quiet v ex_crypto"
  by (simp add: crypto_quiet_def ex_crypto_def keeps_def)


section \<open>The published CA\<close>

definition same_config :: "WebhookConfiguration \<Rightarrow> WebhookConfiguration \<Rightarrow> bool" where
  "same_config x y \<longleftrightarrow> meta_key (wc_meta y) = meta_key (wc_meta x) \<and> wc_caBundles y = wc_caBundles x"

lemma patch_bundles_all: "set (fst (patch_bundles ca bs)) \<subseteq> {ca}"
  by (auto simp: patch_bundles_def)

text \<open>
  One reconcile of the webhook configuration repairs every CA bundle of it: afterwards each
  webhook of the named configuration carries the manager's CA, and there are as many as before.
  Any other object, and a configuration that was already right, is left untouched.
\<close>

theorem ReconcileWebhookCA_repairs:
  assumes "object_store c wc_meta same_config obs" and "\<And>k x. obs w k = Some x \<Longrightarrow> meta_key (wc_meta x) = k"
    and "ReconcileWebhookCA c configName ca reqName w = (Inr (), w')"
  shows "(\<forall>k. k \<noteq> ('''', configName) \<longrightarrow> obs w' k = obs w k)
    \<and> (case obs w ('''', configName) of
         None \<Rightarrow> obs w' = obs w
       | Some cfg \<Rightarrow>
           if reqName \<noteq> configName \<or> set (wc_caBundles cfg) \<subseteq> {ca} then obs w' = obs w
           else \<exists>cfg'. obs w' ('''', configName) = Some cfg' \<and> wc_caBundles cfg' = replicate (length (wc_caBundles cfg)) ca)"
proof (cases "reqName = configName")
  case False
  with assms(3) show ?thesis by (auto simp: ReconcileWebhookCA_def split: option.split)
next
  case True
  let ?k = "('''', configName)"
  obtain r w1 where g: "kc_get c ?k w = (r, w1)" by fastforce
  note get = get_lawD [OF object_storeD(1) [OF assms(1)] g]
  show ?thesis
  proof (cases r)
    case (Inl e)
    with assms(3) g True have "w' = w1" "IsNotFound e" by (auto simp: ReconcileWebhookCA_def split: if_splits)
    with get(1,3) Inl show ?thesis by simp
  next
    case (Inr cfg)
    note cfg = get(2) [OF this]
    show ?thesis
    proof (cases "set (wc_caBundles cfg) \<subseteq> {ca}")
      case True
      then have "w' = w1" using assms(3) g Inr \<open>reqName = configName\<close>
        by (auto simp: ReconcileWebhookCA_def patch_bundles_def subset_iff)
      then show ?thesis using get(1) cfg True by simp
    next
      case False
      let ?cfg = "cfg\<lparr>wc_caBundles := replicate (length (wc_caBundles cfg)) ca\<rparr>"
      have "map (\<lambda>b. if b \<noteq> ca then ca else b) bs = replicate (length bs) ca" for bs
        by (induction bs) auto
      then have "patch_bundles ca (wc_caBundles cfg) = (replicate (length (wc_caBundles cfg)) ca, True)"
        using False by (auto simp: patch_bundles_def)
      then obtain y where "kc_update c ?cfg w1 = (Inr y, w')"
        using assms(3) g Inr \<open>reqName = configName\<close>
        by (auto simp: ReconcileWebhookCA_def and_then_def split: prod.splits sum.splits)
      from put_lawD(1) [OF object_storeD(5) [OF assms(1)] this] get(1) assms(2) [OF cfg] cfg False \<open>reqName = configName\<close> show ?thesis
        by (auto simp: same_config_def)
    qed
  qed
qed

definition ex_configs :: "(WebhookConfiguration list, WebhookConfiguration) kclient" where
  "ex_configs = mem_client wc_meta (\<lambda>w. w) (\<lambda>f w. f w)"

definition ex_config :: WebhookConfiguration where
  "ex_config = \<lparr>wc_meta = new_meta ''join'' '''' [], wc_caBundles = ['''', ''stale'']\<rparr>"

theorem ReconcileWebhookCA_repairs_witness:
  "\<exists>w' cfg'. ReconcileWebhookCA ex_configs ''join'' ''CA'' ''join'' [ex_config] = (Inr (), w')
     \<and> list_obs wc_meta w' ('''', ''join'') = Some cfg' \<and> wc_caBundles cfg' = [''CA'', ''CA'']"
proof -
  have st: "object_store ex_configs wc_meta same_config (list_obs wc_meta)"
    unfolding ex_configs_def by (rule mem_object_store) (simp_all add: same_config_def)
  have wf: "meta_key (wc_meta x) = k" if "list_obs wc_meta [ex_config] k = Some x" for k x
    using list_obs_mem [OF that] by blast
  have "\<exists>w'. ReconcileWebhookCA ex_configs ''join'' ''CA'' ''join'' [ex_config] = (Inr (), w')"
    by (simp add: ReconcileWebhookCA_def ex_configs_def mem_client_def mem_put_def ex_config_def list_obs_def
        patch_bundles_def try_call_def and_then_def)
  then obtain w' where r: "ReconcileWebhookCA ex_configs ''join'' ''CA'' ''join'' [ex_config] = (Inr (), w')" by blast
  from ReconcileWebhookCA_repairs [OF st wf r] r show ?thesis
    by (simp add: list_obs_def ex_config_def eval_nat_numeral split: if_splits)
qed

end
