(* ===== verification/Audit_Webhook.thy ===== *)
theory Audit_Webhook
  imports Json
begin

text \<open>
  \<^verbatim>\<open>src/internal/auditwebhook/auditwebhook.go\<close>: the receiver of the audit events that the
  inner API servers post, and the log line an event is rendered to.
\<close>

section \<open>Events\<close>

record ObjectRef =
  ref_resource :: string
  ref_namespace :: string
  ref_name :: string
  ref_subresource :: string

record Event =
  ev_stage :: string
  ev_verb :: string
  ev_requestURI :: string
  ev_username :: string
  ev_objectRef :: "ObjectRef option"
  ev_code :: int
  ev_timestamp :: string
  ev_sourceIPs :: "string list"
  ev_userAgent :: string

text \<open>
  Decoding. \<^verbatim>\<open>user\<close> and \<^verbatim>\<open>responseStatus\<close> are embedded structs, \<^verbatim>\<open>objectRef\<close> is a pointer:
  absent or null leaves it nil.
\<close>

definition dec_ObjectRef :: "member list \<Rightarrow> ObjectRef option" where
  "dec_ObjectRef ms = do {
     r \<leftarrow> field dec_str [] ms ''resource'';
     ns \<leftarrow> field dec_str [] ms ''namespace'';
     n \<leftarrow> field dec_str [] ms ''name'';
     s \<leftarrow> field dec_str [] ms ''subresource'';
     Some \<lparr>ref_resource = r, ref_namespace = ns, ref_name = n, ref_subresource = s\<rparr> }"

definition dec_struct :: "(member list \<Rightarrow> 'a option) \<Rightarrow> json \<Rightarrow> 'a option" where
  "dec_struct d v = (case v of JObj ms \<Rightarrow> d ms | _ \<Rightarrow> None)"

definition dec_Event :: "member list \<Rightarrow> Event option" where
  "dec_Event ms = do {
     st \<leftarrow> field dec_str [] ms ''stage'';
     vb \<leftarrow> field dec_str [] ms ''verb'';
     uri \<leftarrow> field dec_str [] ms ''requestURI'';
     un \<leftarrow> field (dec_struct (\<lambda>u. field dec_str [] u ''username'')) [] ms ''user'';
     ref \<leftarrow> field (dec_struct (\<lambda>r. map_option Some (dec_ObjectRef r))) None ms ''objectRef'';
     code \<leftarrow> field (dec_struct (\<lambda>r. field (dec_int 64) 0 r ''code'')) 0 ms ''responseStatus'';
     ts \<leftarrow> field dec_str [] ms ''requestReceivedTimestamp'';
     ips \<leftarrow> field dec_strs [] ms ''sourceIPs'';
     ua \<leftarrow> field dec_str [] ms ''userAgent'';
     Some \<lparr>ev_stage = st, ev_verb = vb, ev_requestURI = uri, ev_username = un, ev_objectRef = ref,
           ev_code = code, ev_timestamp = ts, ev_sourceIPs = ips, ev_userAgent = ua\<rparr> }"

definition dec_eventList :: "json option \<Rightarrow> Event list option" where
  "dec_eventList body =
     (case body of
        Some (JObj ms) \<Rightarrow> field (dec_structs dec_Event) [] ms ''items''
      | Some JNull \<Rightarrow> Some []
      | _ \<Rightarrow> None)"

section \<open>The handler\<close>

text \<open>
  \<^verbatim>\<open>http.ServeMux\<close> hands a POST to a path \<^verbatim>\<open>/audit/{namespace}/{name}\<close> with two non-empty
  segments to the handler.
\<close>

definition audit_route :: "string \<Rightarrow> (string \<times> string) option" where
  "audit_route path =
     (if HasPrefix path ''/audit/'' then
        (case Cut (drop 7 path) CHR ''/'' of
           (ns, name, found) \<Rightarrow>
             if found \<and> ns \<noteq> '''' \<and> name \<noteq> '''' \<and> CHR ''/'' \<notin> set name then Some (ns, name) else None)
      else None)"

definition keep_stage :: "Event \<Rightarrow> bool" where
  "keep_stage ev \<longleftrightarrow> \<not> (ev_stage ev \<noteq> '''' \<and> ev_stage ev \<noteq> ''ResponseComplete'')"

text \<open>
  The handler of \<^verbatim>\<open>NewHandler\<close>: \<open>body\<close> is the JSON value of the request body, \<open>None\<close> when it
  is no JSON. It returns the status code and the world after the callback.
\<close>

definition handle_audit ::
  "(string \<Rightarrow> string \<Rightarrow> Event list \<Rightarrow> 'w \<Rightarrow> 'w) \<Rightarrow> string \<Rightarrow> string \<Rightarrow> json option \<Rightarrow> 'w \<Rightarrow> nat \<times> 'w" where
  "handle_audit fn ns name body w =
     (case dec_eventList body of
        None \<Rightarrow> (400, w)
      | Some items \<Rightarrow>
          (let events = filter keep_stage items in
           (200, if length events > 0 then fn ns name events w else w)))"

section \<open>Log lines\<close>

definition resource_text :: "ObjectRef option \<Rightarrow> string" where
  "resource_text r =
     (case r of
        None \<Rightarrow> ''''
      | Some o' \<Rightarrow>
          ref_resource o'
          @ (if ref_namespace o' \<noteq> '''' then '' '' @ ref_namespace o' @ ''/'' @ ref_name o'
             else if ref_name o' \<noteq> '''' then '' '' @ ref_name o'
             else '''')
          @ (if ref_subresource o' \<noteq> '''' then ''/'' @ ref_subresource o' else ''''))"

definition FormatLine :: "Event \<Rightarrow> string" where
  "FormatLine ev =
     (''verb='' @ ev_verb ev @ '' user='' @ ev_username ev
      @ '' resource='' @ Quote (TrimSpace (resource_text (ev_objectRef ev)))
      @ '' status='' @ Itoa (ev_code ev) @ '' uri='' @ ev_requestURI ev
      @ (if length (ev_sourceIPs ev) > 0 then '' srcIP='' @ Join (ev_sourceIPs ev) '','' else '''')
      @ (if ev_userAgent ev \<noteq> '''' then '' userAgent='' @ Quote (ev_userAgent ev) else '''')
      @ '' ts='' @ ev_timestamp ev)"

text \<open>The log is the list of messages printed.\<close>

definition LogEvent :: "string \<Rightarrow> string \<Rightarrow> Event \<Rightarrow> string list \<Rightarrow> string list" where
  "LogEvent namespace name ev out =
     out @ [''[honeypod audit] honeypod='' @ namespace @ ''/'' @ name @ '' '' @ FormatLine ev]"

definition enc_ObjectRef :: "ObjectRef \<Rightarrow> member list" where
  "enc_ObjectRef r =
     (always ''resource'' (JStr (ref_resource r)) @ always ''namespace'' (JStr (ref_namespace r))
      @ always ''name'' (JStr (ref_name r)) @ always ''subresource'' (JStr (ref_subresource r)))"

definition enc_Event :: "Event \<Rightarrow> member list" where
  "enc_Event ev =
     (always ''stage'' (JStr (ev_stage ev)) @ always ''verb'' (JStr (ev_verb ev))
      @ always ''requestURI'' (JStr (ev_requestURI ev))
      @ always ''user'' (JObj (always ''username'' (JStr (ev_username ev))))
      @ always ''objectRef'' (case ev_objectRef ev of None \<Rightarrow> JNull | Some r \<Rightarrow> JObj (enc_ObjectRef r))
      @ always ''responseStatus'' (JObj (always ''code'' (JInt (ev_code ev))))
      @ always ''requestReceivedTimestamp'' (JStr (ev_timestamp ev))
      @ omitempty (ev_sourceIPs ev = []) ''sourceIPs'' (enc_strs (ev_sourceIPs ev))
      @ omitempty (ev_userAgent ev = '''') ''userAgent'' (JStr (ev_userAgent ev)))"

definition enc_jsonLine :: "string \<Rightarrow> string \<Rightarrow> Event \<Rightarrow> json" where
  "enc_jsonLine ns name ev =
     JObj (always ''honeypodNamespace'' (JStr ns) @ always ''honeypodName'' (JStr name)
           @ always ''event'' (JObj (enc_Event ev)))"

text \<open>\<open>Marshal\<close> is the text layer of \<^verbatim>\<open>json.Marshal\<close>; \<open>None\<close> is its error.\<close>

definition LogEventJSON ::
  "(json \<Rightarrow> string option) \<Rightarrow> string \<Rightarrow> string \<Rightarrow> Event \<Rightarrow> string list \<Rightarrow> string list" where
  "LogEventJSON Marshal namespace name ev out =
     (case Marshal (enc_jsonLine namespace name ev) of
        None \<Rightarrow> out @ [''[honeypod audit] honeypod='' @ namespace @ ''/'' @ name @ '' '' @ FormatLine ev]
      | Some b \<Rightarrow> out @ [b])"

definition logBatch :: "string \<Rightarrow> string \<Rightarrow> Event list \<Rightarrow> string list \<Rightarrow> string list" where
  "logBatch namespace name events out = fold (LogEvent namespace name) events out"

section \<open>Facts\<close>

lemma dec_ObjectRef_enc [simp]: "dec_ObjectRef (enc_ObjectRef r) = Some r"
  by (simp add: dec_ObjectRef_def enc_ObjectRef_def decode_simps)

lemma dec_struct_JObj [simp]: "dec_struct d (JObj ms) = d ms"
  by (simp add: dec_struct_def)

lemma set_FormatLine:
  "set (FormatLine ev) \<subseteq> set (ev_verb ev) \<union> set (ev_username ev) \<union> set (ev_requestURI ev)
     \<union> \<Union> (set ` set (ev_sourceIPs ev)) \<union> set (ev_timestamp ev) \<union> - {newline}"
  using set_Join [of "ev_sourceIPs ev" "'',''"]
    Quote_no_newline [of "TrimSpace (resource_text (ev_objectRef ev))"] Quote_no_newline [of "ev_userAgent ev"]
    Itoa_no_newline [of "ev_code ev"]
  by (auto simp: FormatLine_def)

lemma logBatch_eq:
  "logBatch ns n evs out =
     out @ map (\<lambda>ev. ''[honeypod audit] honeypod='' @ ns @ ''/'' @ n @ '' '' @ FormatLine ev) evs"
  by (induction evs arbitrary: out) (auto simp: logBatch_def LogEvent_def)

text \<open>
  The receiver never acts on a body it cannot decode: it answers 400 and the callback is not
  called. On a decodable body it answers 200, and the callback runs once with exactly the
  events of the terminal stage (or of no stage), in their order, or not at all when there are
  none.
\<close>

theorem handle_audit_batch:
  "handle_audit fn ns name body w =
     (case dec_eventList body of
        None \<Rightarrow> (400, w)
      | Some items \<Rightarrow>
          (200, if \<exists>ev \<in> set items. ev_stage ev \<in> {'''', ''ResponseComplete''}
                then fn ns name (filter (\<lambda>ev. ev_stage ev \<in> {'''', ''ResponseComplete''}) items) w
                else w))"
proof -
  have *: "keep_stage = (\<lambda>ev. ev_stage ev \<in> {'''', ''ResponseComplete''})"
    by (auto simp: keep_stage_def)
  show ?thesis
    unfolding handle_audit_def * by (auto simp: Let_def filter_empty_conv split: option.splits)
qed

text \<open>
  An attacker who controls the user agent and the names in the request cannot break the log
  line: it is free of line breaks whenever the fields the API server itself writes (verb,
  user name, request URI, source addresses, time) are.
\<close>

theorem FormatLine_single_line:
  assumes "newline \<notin> set (ev_verb ev @ ev_username ev @ ev_requestURI ev @ concat (ev_sourceIPs ev) @ ev_timestamp ev)"
  shows "newline \<notin> set (FormatLine (ev\<lparr>ev_userAgent := ua, ev_objectRef := ref\<rparr>))"
  using set_FormatLine [of "ev\<lparr>ev_userAgent := ua, ev_objectRef := ref\<rparr>"] assms by auto

definition sample_event :: Event where
  "sample_event =
     \<lparr>ev_stage = ''ResponseComplete'', ev_verb = ''list'', ev_requestURI = ''/api/v1/secrets'',
      ev_username = ''system:kubernetes-admin'', ev_objectRef = None, ev_code = 200,
      ev_timestamp = ''2024-01-01T00:00:00Z'', ev_sourceIPs = [''10.0.0.1''], ev_userAgent = ''kubectl''\<rparr>"

theorem FormatLine_single_line_witness:
  "newline \<notin> set (FormatLine (sample_event\<lparr>ev_userAgent := [newline], ev_objectRef := None\<rparr>))"
  by (rule FormatLine_single_line) (simp add: sample_event_def)

text \<open>
  The structured log line loses nothing: decoding the event it carries gives the event that
  was logged.
\<close>

theorem jsonLine_event_roundtrip:
  assumes "- (2 ^ 63) \<le> ev_code ev" and "ev_code ev < 2 ^ 63"
  shows "dec_Event (enc_Event ev) = Some ev"
proof -
  have "field (dec_struct (\<lambda>r. map_option Some (dec_ObjectRef r))) None
      (always ''objectRef'' (case ev_objectRef ev of None \<Rightarrow> JNull | Some r \<Rightarrow> JObj (enc_ObjectRef r)) @ ms) ''objectRef''
      = Some (ev_objectRef ev)" if "absent ms ''objectRef''" for ms
    using that
    by (cases "ev_objectRef ev") (simp_all add: field_null decode_simps)
  then show ?thesis
    using assms by (simp add: dec_Event_def enc_Event_def decode_simps)
qed

theorem jsonLine_event_roundtrip_witness: "dec_Event (enc_Event sample_event) = Some sample_event"
  by (rule jsonLine_event_roundtrip) (simp_all add: sample_event_def)

end
