(* ===== verification/Notifier.thy ===== *)
theory Notifier
  imports Api_Types Audit_Webhook Go_Time
begin

text \<open>
  \<^verbatim>\<open>src/internal/notifier\<close>: which Alerts and AuditSinks an event goes to, the provider it is
  sent through, and the bodies that are posted. The API client and the HTTP client are the
  fields of \<open>dispatcher\<close>; a function that only logs returns the lines it printed.
\<close>

section \<open>classify.go\<close>

record AuditFilter =
  af_includeAll :: bool
  af_excludeVerbs :: "string list"
  af_excludeResources :: "string list"

definition FilterFromAlertSpec :: "AlertSpec \<Rightarrow> AuditFilter" where
  "FilterFromAlertSpec spec =
     \<lparr>af_includeAll = as_includeAll spec, af_excludeVerbs = as_excludeVerbs spec,
      af_excludeResources = as_excludeResources spec\<rparr>"

definition matchesResourcePattern :: "string \<Rightarrow> ObjectRef option \<Rightarrow> bool" where
  "matchesResourcePattern pattern ref =
     (case ref of
        None \<Rightarrow> False
      | Some r \<Rightarrow>
          (case Cut pattern CHR ''/'' of
             (resource, subresource, hasSub) \<Rightarrow>
               if ref_resource r \<noteq> resource then False
               else \<not> hasSub \<or> ref_subresource r = subresource))"

definition builtin_drop :: "Event \<Rightarrow> bool" where
  "builtin_drop ev \<longleftrightarrow>
     (if HasPrefix (ev_username ev) ''system:'' then True
      else case ev_objectRef ev of
        None \<Rightarrow> True
      | Some r \<Rightarrow> if ref_subresource r = ''status'' then True else ref_resource r = ''leases'')"

definition IsNotableAuditEvent :: "Event \<Rightarrow> AuditFilter \<Rightarrow> bool" where
  "IsNotableAuditEvent ev filt =
     (if \<not> af_includeAll filt \<and> builtin_drop ev then False
      else if \<exists>v \<in> set (af_excludeVerbs filt). v = ev_verb ev then False
      else if \<exists>p \<in> set (af_excludeResources filt). matchesResourcePattern p (ev_objectRef ev) then False
      else True)"

section \<open>transport.go\<close>

text \<open>
  \<open>d_post\<close> stands for building the request and \<^verbatim>\<open>http.Client.Do\<close>: an error, or the response's
  status code and the first 2048 bytes of its body.
\<close>

record 'w dispatcher =
  d_alerts :: "('w, Alert) kclient"
  d_sinks :: "('w, AuditSink) kclient"
  d_providers :: "('w, Provider) kclient"
  d_secrets :: "('w, Secret) kclient"
  d_post :: "string \<Rightarrow> json \<Rightarrow> ('w, nat \<times> string) call"
  d_now :: "'w \<Rightarrow> int"

definition postJSON :: "'w dispatcher \<Rightarrow> string \<Rightarrow> json \<Rightarrow> ('w, unit) call" where
  "postJSON d address body =
     and_then (d_post d address body) (\<lambda>(code, b).
       if code \<ge> 300 then fail (errorf (address @ '' returned '' @ Itoa (int code) @ '': '' @ b)) else ok ())"

section \<open>discord.go\<close>

record discordField =
  df_name :: string
  df_value :: string
  df_inline :: bool

record discordEmbed =
  de_title :: string
  de_description :: string
  de_color :: int
  de_timestamp :: string
  de_fields :: "discordField list"

definition enc_field :: "discordField \<Rightarrow> member list" where
  "enc_field f =
     (always ''name'' (JStr (df_name f)) @ always ''value'' (JStr (df_value f))
      @ omitempty (\<not> df_inline f) ''inline'' (JBool (df_inline f)))"

definition enc_embed :: "discordEmbed \<Rightarrow> member list" where
  "enc_embed e =
     (omitempty (de_title e = '''') ''title'' (JStr (de_title e))
      @ omitempty (de_description e = '''') ''description'' (JStr (de_description e))
      @ omitempty (de_color e = 0) ''color'' (JInt (de_color e))
      @ omitempty (de_timestamp e = '''') ''timestamp'' (JStr (de_timestamp e))
      @ omitempty (de_fields e = []) ''fields'' (enc_structs enc_field (de_fields e)))"

definition discordPayload :: "discordEmbed list \<Rightarrow> json" where
  "discordPayload es = JObj (omitempty (es = []) ''embeds'' (enc_structs enc_embed es))"

definition discordEmbedsPerMessage :: nat where
  "discordEmbedsPerMessage = 10"

text \<open>An em dash and an ellipsis, in UTF-8.\<close>

definition codeOrDash :: "string \<Rightarrow> string" where
  "codeOrDash v =
     (if v = '''' then [CHR 0xE2, CHR 0x80, CHR 0x94]
      else ''`'' @ (if length v > 1000 then take 1000 v @ [CHR 0xE2, CHR 0x80, CHR 0xA6] else v) @ ''`'')"

definition podJoinEmbed :: "DecoyRef \<Rightarrow> nsname \<Rightarrow> bool \<Rightarrow> string \<Rightarrow> discordEmbed" where
  "podJoinEmbed kt pod joined ts =
     \<lparr>de_title = (if joined then [CHR 0xF0, CHR 0x9F, CHR 0xAA, CHR 0xA4] @ '' Pod joined a decoy''
                  else [CHR 0xF0, CHR 0x9F, CHR 0x94, CHR 0x8C] @ '' Pod left a decoy''),
      de_description = '''',
      de_color = (if joined then 0x2ecc71 else 0x95a5a6),
      de_timestamp = ts,
      de_fields =
        [\<lparr>df_name = ''Pod'', df_value = codeOrDash (snd pod), df_inline = True\<rparr>,
         \<lparr>df_name = ''Namespace'', df_value = codeOrDash (fst pod), df_inline = True\<rparr>,
         \<lparr>df_name = ''Decoy'', df_value = codeOrDash (dr_namespace kt @ ''/'' @ dr_name kt), df_inline = False\<rparr>]\<rparr>"

definition inline_field :: "string \<Rightarrow> string \<Rightarrow> discordField" where
  "inline_field n v = \<lparr>df_name = n, df_value = codeOrDash v, df_inline = True\<rparr>"

definition auditEmbed :: "DecoyRef \<Rightarrow> Event \<Rightarrow> string \<Rightarrow> discordEmbed" where
  "auditEmbed kt ev ts =
     (let (namespace, name, object) =
        (case ev_objectRef ev of
           None \<Rightarrow> ('''', '''', ev_requestURI ev)
         | Some r \<Rightarrow>
             (ref_namespace r, ref_name r,
              TrimSpace (ref_resource r) @ (if ref_subresource r \<noteq> '''' then ''/'' @ ref_subresource r else ''''))) in
      \<lparr>de_title = [CHR 0xF0, CHR 0x9F, CHR 0x9A, CHR 0xA8] @ '' Attacker activity '' @ [CHR 0xC2, CHR 0xB7]
                    @ '' '' @ dr_namespace kt @ ''/'' @ dr_name kt,
       de_description = '''', de_color = 0xe67e22, de_timestamp = ts,
       de_fields =
         [inline_field ''Verb'' (ev_verb ev), inline_field ''Status'' (Itoa (ev_code ev)),
          inline_field ''Identity'' (ev_username ev)]
         @ (if namespace \<noteq> '''' then [inline_field ''Namespace'' namespace] else [])
         @ [inline_field ''Object'' object]
         @ (if name \<noteq> '''' then [inline_field ''Name'' name] else [])
         @ (if length (ev_sourceIPs ev) > 0 then [inline_field ''Source IP'' (Join (ev_sourceIPs ev) '', '')] else [])
         @ (if ev_userAgent ev \<noteq> '''' then [inline_field ''Client'' (ev_userAgent ev)] else [])\<rparr>)"

function discord_from :: "'w dispatcher \<Rightarrow> string \<Rightarrow> discordEmbed list \<Rightarrow> nat \<Rightarrow> ('w, unit) call" where
  "discord_from d address embeds i =
     (if i < length embeds then
        (let stop = (if i + discordEmbedsPerMessage > length embeds then length embeds
                     else i + discordEmbedsPerMessage) in
         and_then (postJSON d address (discordPayload (take (stop - i) (drop i embeds))))
           (\<lambda>_. discord_from d address embeds (i + discordEmbedsPerMessage)))
      else ok ())"
  by pat_completeness auto

termination
  by (relation "measure (\<lambda>(d, a, es, i). length es - i)") (auto simp: discordEmbedsPerMessage_def)

declare discord_from.simps [simp del]

definition sendDiscord :: "'w dispatcher \<Rightarrow> string \<Rightarrow> discordEmbed list \<Rightarrow> ('w, unit) call" where
  "sendDiscord d address embeds = discord_from d address embeds 0"

section \<open>generic.go and loki.go\<close>

definition sendGenericMessage :: "'w dispatcher \<Rightarrow> string \<Rightarrow> DecoyRef \<Rightarrow> string \<Rightarrow> string \<Rightarrow> ('w, unit) call" where
  "sendGenericMessage d address kt eventType message = (\<lambda>w.
     postJSON d address
       (JObj (always ''honeypodNamespace'' (JStr (dr_namespace kt)) @ always ''honeypodName'' (JStr (dr_name kt))
              @ always ''eventType'' (JStr eventType) @ always ''message'' (JStr message)
              @ always ''timestamp'' (JStr (rfc3339 (d_now d w))))) w)"

definition genericAuditBatch :: "DecoyRef \<Rightarrow> Event list \<Rightarrow> json" where
  "genericAuditBatch kt events =
     JObj (always ''honeypodNamespace'' (JStr (dr_namespace kt)) @ always ''honeypodName'' (JStr (dr_name kt))
           @ always ''events'' (enc_structs enc_Event events))"

definition sendGenericAudit :: "'w dispatcher \<Rightarrow> string \<Rightarrow> DecoyRef \<Rightarrow> Event list \<Rightarrow> ('w, unit) call" where
  "sendGenericAudit d address kt events = postJSON d address (genericAuditBatch kt events)"

text \<open>One value per line: the time in nanoseconds, a nanosecond after the one before it.\<close>

definition loki_values :: "int \<Rightarrow> string list \<Rightarrow> (string \<times> string) list" where
  "loki_values now lines = map (\<lambda>i. (Itoa (UnixNano (now + int i)), lines ! i)) [0 ..< length lines]"

definition enc_loki :: "smap \<Rightarrow> (string \<times> string) list \<Rightarrow> json" where
  "enc_loki labels values =
     JObj (always ''streams'' (JArr [JObj (always ''stream'' (enc_smap labels)
       @ always ''values'' (JArr (map (\<lambda>(t, l). enc_strs [t, l]) values)))]))"

definition sendLoki :: "'w dispatcher \<Rightarrow> string \<Rightarrow> smap \<Rightarrow> string list \<Rightarrow> ('w, unit) call" where
  "sendLoki d address labels lines = (\<lambda>w.
     postJSON d address (enc_loki labels (loki_values (d_now d w) lines)) w)"

section \<open>dispatcher.go\<close>

text \<open>The destination of the one matching provider.\<close>

definition provider_address ::
  "'w dispatcher \<Rightarrow> string \<Rightarrow> ProviderReference \<Rightarrow> Provider \<Rightarrow> ('w, Provider \<times> string) call" where
  "provider_address d namespace ref p =
     (let secretRef = (case pr_secretRef ref of None \<Rightarrow> prs_secretRef (prov_spec p) | Some s \<Rightarrow> Some s) in
      case secretRef of
        Some s \<Rightarrow>
          and_then
            (on_error (wrap_error (''getting provider '' @ namespace @ ''/'' @ m_name (prov_meta p)
                                   @ '' secret '' @ Quote s))
              (kc_get (d_secrets d) (namespace, s)))
            (\<lambda>sec. ok (p, sm_get (sec_data sec) ''address''))
      | None \<Rightarrow>
          if prs_address (prov_spec p) \<noteq> '''' then ok (p, prs_address (prov_spec p))
          else fail (errorf (''provider '' @ namespace @ ''/'' @ m_name (prov_meta p)
                 @ '' has no address: set providerRef.secretRef, spec.secretRef, or spec.address'')))"

definition resolveProvider ::
  "'w dispatcher \<Rightarrow> string \<Rightarrow> ProviderReference \<Rightarrow> ('w, Provider \<times> string) call" where
  "resolveProvider d namespace ref =
     and_then
       (on_error (wrap_error (''listing providers in '' @ namespace))
         (kc_list (d_providers d) \<lparr>lo_namespace = Some namespace, lo_labels = []\<rparr>))
       (\<lambda>items.
         (let matches = filter (\<lambda>p. prs_type (prov_spec p) = pr_type ref) items in
          if length matches = 0 then
            fail (errorf (''no provider of type '' @ Quote (pr_type ref) @ '' found in namespace '' @ namespace))
          else if length matches > 1 then
            fail (errorf (''multiple providers of type '' @ Quote (pr_type ref) @ '' found in namespace ''
                          @ namespace @ '', expected exactly one''))
          else provider_address d namespace ref (hd matches)))"

definition anyDecoyMatches :: "DecoyTarget list \<Rightarrow> string \<Rightarrow> DecoyRef \<Rightarrow> bool" where
  "anyDecoyMatches targets ownerNamespace kt =
     (if length targets = 0 then True
      else \<exists>t \<in> set targets.
        (let ns = (if tgt_namespace t = '''' then ownerNamespace else tgt_namespace t) in
         if ns \<noteq> dr_namespace kt then False else tgt_name t = ''*'' \<or> tgt_name t = dr_name kt))"

definition wantsEventType :: "AlertEventType list \<Rightarrow> AlertEventType \<Rightarrow> bool" where
  "wantsEventType eventTypes want = (if length eventTypes = 0 then True else \<exists>t \<in> set eventTypes. t = want)"

definition sendPodJoinAlert ::
  "'w dispatcher \<Rightarrow> Alert \<Rightarrow> DecoyRef \<Rightarrow> nsname \<Rightarrow> bool \<Rightarrow> string \<Rightarrow> ('w, unit) call" where
  "sendPodJoinAlert d a kt pod joined message =
     and_then (resolveProvider d (m_namespace (al_meta a)) (as_providerRef (al_spec a))) (\<lambda>(p, address).
       let ty = prs_type (prov_spec p) in
       if ty = ''discord'' then
         (\<lambda>w. sendDiscord d address [podJoinEmbed kt pod joined (rfc3339 (d_now d w))] w)
       else if ty = ''generic-webhook'' then sendGenericMessage d address kt ''PodJoin'' message
       else fail (errorf (''provider type '' @ Quote ty
              @ '' not supported for a PodJoin alert (use discord or generic-webhook)'')))"

definition sendAlertAudit :: "'w dispatcher \<Rightarrow> Alert \<Rightarrow> DecoyRef \<Rightarrow> Event list \<Rightarrow> ('w, unit) call" where
  "sendAlertAudit d a kt events =
     and_then (resolveProvider d (m_namespace (al_meta a)) (as_providerRef (al_spec a))) (\<lambda>(p, address).
       let ty = prs_type (prov_spec p) in
       if ty = ''discord'' then
         (\<lambda>w. sendDiscord d address (map (\<lambda>ev. auditEmbed kt ev (rfc3339 (d_now d w))) events) w)
       else if ty = ''generic-webhook'' then sendGenericAudit d address kt events
       else fail (errorf (''provider type '' @ Quote ty
              @ '' not supported for an AuditActivity alert (use discord or generic-webhook)'')))"

definition shipToSink :: "'w dispatcher \<Rightarrow> AuditSink \<Rightarrow> DecoyRef \<Rightarrow> Event list \<Rightarrow> ('w, unit) call" where
  "shipToSink d s kt events =
     and_then (resolveProvider d (m_namespace (sink_meta s)) (ss_providerRef (sink_spec s))) (\<lambda>(p, address).
       let ty = prs_type (prov_spec p) in
       if ty = ''loki'' then
         sendLoki d address
           [(''job'', ''honeypod-audit''), (''honeypod_namespace'', dr_namespace kt), (''honeypod_name'', dr_name kt)]
           (map FormatLine events)
       else if ty = ''generic-webhook'' then sendGenericAudit d address kt events
       else fail (errorf (''provider type '' @ Quote ty @ '' not supported for AuditSink (use loki or generic-webhook)'')))"

text \<open>A loop over objects: skip, or send and log a failure. Its result is the log and the world.\<close>

fun send_each ::
  "('x \<Rightarrow> ('w, unit) call option) \<Rightarrow> ('x \<Rightarrow> go_error \<Rightarrow> string) \<Rightarrow> 'x list \<Rightarrow> 'w \<Rightarrow> string list \<times> 'w" where
  "send_each f line [] w = ([], w)"
| "send_each f line (x # xs) w =
     (case f x of
        None \<Rightarrow> send_each f line xs w
      | Some m \<Rightarrow>
          (case m w of
             (Inl e, w') \<Rightarrow> (case send_each f line xs w' of (ls, w'') \<Rightarrow> (line x e # ls, w''))
           | (Inr _, w') \<Rightarrow> send_each f line xs w'))"

definition alert_failure :: "Alert \<Rightarrow> go_error \<Rightarrow> string" where
  "alert_failure a e =
     ''notifier: alert '' @ m_namespace (al_meta a) @ ''/'' @ m_name (al_meta a) @ '': '' @ err_msg e"

definition sink_failure :: "AuditSink \<Rightarrow> go_error \<Rightarrow> string" where
  "sink_failure s e =
     ''notifier: auditsink '' @ m_namespace (sink_meta s) @ ''/'' @ m_name (sink_meta s) @ '': '' @ err_msg e"

definition NotifyPodJoin :: "'w dispatcher \<Rightarrow> DecoyRef \<Rightarrow> nsname \<Rightarrow> bool \<Rightarrow> 'w \<Rightarrow> string list \<times> 'w" where
  "NotifyPodJoin d kt pod joined w =
     (case kc_list (d_alerts d) list_all_opts w of
        (Inl e, w') \<Rightarrow> ([''notifier: listing alerts: '' @ err_msg e], w')
      | (Inr items, w') \<Rightarrow>
          (let action = (if joined then ''joined'' else ''left'');
               message = ''pod '' @ fst pod @ ''/'' @ snd pod @ '' '' @ action @ '' Decoy ''
                           @ dr_namespace kt @ ''/'' @ dr_name kt in
           send_each
             (\<lambda>a. if \<not> wantsEventType (as_eventTypes (al_spec a)) AlertEventPodJoin then None
                  else if \<not> anyDecoyMatches (as_targets (al_spec a)) (m_namespace (al_meta a)) kt then None
                  else Some (sendPodJoinAlert d a kt pod joined message))
             alert_failure items w'))"

definition notable_events :: "Alert \<Rightarrow> Event list \<Rightarrow> Event list" where
  "notable_events a events = filter (\<lambda>ev. IsNotableAuditEvent ev (FilterFromAlertSpec (al_spec a))) events"

definition NotifyAuditActivity :: "'w dispatcher \<Rightarrow> DecoyRef \<Rightarrow> Event list \<Rightarrow> 'w \<Rightarrow> string list \<times> 'w" where
  "NotifyAuditActivity d kt events w =
     (case kc_list (d_alerts d) list_all_opts w of
        (Inl e, w') \<Rightarrow> ([''notifier: listing alerts: '' @ err_msg e], w')
      | (Inr items, w') \<Rightarrow>
          send_each
            (\<lambda>a. if \<not> wantsEventType (as_eventTypes (al_spec a)) AlertEventAuditActivity then None
                 else if \<not> anyDecoyMatches (as_targets (al_spec a)) (m_namespace (al_meta a)) kt then None
                 else if length (notable_events a events) = 0 then None
                 else Some (sendAlertAudit d a kt (notable_events a events)))
            alert_failure items w')"

definition ShipAuditLog :: "'w dispatcher \<Rightarrow> DecoyRef \<Rightarrow> Event list \<Rightarrow> 'w \<Rightarrow> string list \<times> 'w" where
  "ShipAuditLog d kt events w =
     (if length events = 0 then ([], w)
      else case kc_list (d_sinks d) list_all_opts w of
        (Inl e, w') \<Rightarrow> ([''notifier: listing auditsinks: '' @ err_msg e], w')
      | (Inr items, w') \<Rightarrow>
          send_each
            (\<lambda>s. if \<not> anyDecoyMatches (ss_targets (sink_spec s)) (m_namespace (sink_meta s)) kt then None
                 else Some (shipToSink d s kt events))
            sink_failure items w')"

section \<open>Facts\<close>

text \<open>Every send a loop decides on is attempted, whatever became of the ones before it.\<close>

lemma send_each_world:
  "snd (send_each f line xs w) = fold (\<lambda>m w. snd (m w)) (List.map_filter f xs) w"
  by (induction xs arbitrary: w)
    (auto simp: map_filter_simps split: option.splits prod.splits sum.splits, (metis snd_conv)+)

lemma send_each_log:
  "length (fst (send_each f line xs w)) \<le> length (List.map_filter f xs)"
proof (induction xs arbitrary: w)
  case (Cons x xs)
  show ?case
  proof (cases "f x")
    case None
    then show ?thesis using Cons by (simp add: map_filter_simps)
  next
    case (Some m)
    then show ?thesis
      using Cons [of "snd (m w)"]
      by (auto simp: map_filter_simps split: prod.splits sum.splits)
  qed
qed simp

text \<open>The index loop of \<^verbatim>\<open>sendDiscord\<close> posts consecutive slices.\<close>

function chunks :: "nat \<Rightarrow> 'a list \<Rightarrow> 'a list list" where
  "chunks n xs = (if xs = [] \<or> n = 0 then [] else take n xs # chunks n (drop n xs))"
  by pat_completeness auto

termination
  by (relation "measure (\<lambda>(n, xs). length xs)") auto

declare chunks.simps [simp del]

lemma concat_chunks: "0 < n \<Longrightarrow> concat (chunks n xs) = xs"
  by (induction n xs rule: chunks.induct) (subst chunks.simps, auto)

lemma chunks_length: "c \<in> set (chunks n xs) \<Longrightarrow> 0 < length c \<and> length c \<le> n"
proof (induction n xs rule: chunks.induct)
  case (1 n xs)
  then show ?case
    by (subst (asm) (2) chunks.simps) (auto split: if_splits)
qed

lemma discord_from_chunks:
  "discord_from d address embeds i =
     each (chunks discordEmbedsPerMessage (drop i embeds)) (\<lambda>c. postJSON d address (discordPayload c))"
proof (induction d address embeds i rule: discord_from.induct)
  case (1 d address embeds i)
  show ?case
  proof (cases "i < length embeds")
    case True
    let ?stop = "if i + discordEmbedsPerMessage > length embeds then length embeds else i + discordEmbedsPerMessage"
    have slice: "take (?stop - i) (drop i embeds) = take discordEmbedsPerMessage (drop i embeds)" by auto
    have c: "chunks discordEmbedsPerMessage (drop i embeds) =
        take discordEmbedsPerMessage (drop i embeds) # chunks discordEmbedsPerMessage (drop (i + discordEmbedsPerMessage) embeds)"
      using True by (subst chunks.simps) (simp add: discordEmbedsPerMessage_def add.commute)
    show ?thesis
      using 1 [OF True refl] True slice c by (subst discord_from.simps) (simp add: Let_def)
  next
    case False
    then show ?thesis by (subst discord_from.simps, subst chunks.simps) simp
  qed
qed

lemma codeOrDash_bounds: "codeOrDash v \<noteq> '''' \<and> length (codeOrDash v) \<le> 1005"
  by (simp add: codeOrDash_def)

lemma builtin_drop_iff:
  "builtin_drop ev \<longleftrightarrow> HasPrefix (ev_username ev) ''system:'' \<or> ev_objectRef ev = None
     \<or> (\<exists>r. ev_objectRef ev = Some r \<and> (ref_subresource r = ''status'' \<or> ref_resource r = ''leases''))"
  by (auto simp: builtin_drop_def split: option.splits)

lemma matchesResourcePattern_iff:
  "matchesResourcePattern p ref \<longleftrightarrow>
     (\<exists>r. ref = Some r \<and>
        ((CHR ''/'' \<notin> set p \<and> ref_resource r = p)
         \<or> (CHR ''/'' \<notin> set (ref_resource r) \<and> p = ref_resource r @ CHR ''/'' # ref_subresource r)))"
proof (cases ref)
  case None
  then show ?thesis by (simp add: matchesResourcePattern_def)
next
  case (Some r)
  show ?thesis
  proof (cases "CHR ''/'' \<in> set p")
    case True
    then obtain a b where "p = a @ CHR ''/'' # b" "CHR ''/'' \<notin> set a" "Cut p CHR ''/'' = (a, b, True)"
      using Cut_found by blast
    with Some show ?thesis
      using Cut_append [of "CHR ''/''" "ref_resource r" "ref_subresource r"]
      by (auto simp: matchesResourcePattern_def)
  next
    case False
    with Some show ?thesis by (auto simp: matchesResourcePattern_def Cut_def)
  qed
qed

section \<open>Properties\<close>

text \<open>
  C32 Which audit events alert: under the built-in rule exactly the requests of a non-system
  identity on an object that is neither a status subresource nor a lease; the verbs and the
  resource patterns an Alert excludes are dropped on top of that, also when the built-in rule
  is switched off. A pattern is a resource name, or a resource and a subresource.
\<close>

theorem IsNotableAuditEvent_spec:
  "IsNotableAuditEvent ev f \<longleftrightarrow>
     (af_includeAll f
      \<or> (\<not> HasPrefix (ev_username ev) ''system:''
         \<and> (\<exists>r. ev_objectRef ev = Some r \<and> ref_subresource r \<noteq> ''status'' \<and> ref_resource r \<noteq> ''leases'')))
     \<and> ev_verb ev \<notin> set (af_excludeVerbs f)
     \<and> (\<nexists>p r. p \<in> set (af_excludeResources f) \<and> ev_objectRef ev = Some r
          \<and> ((CHR ''/'' \<notin> set p \<and> ref_resource r = p)
             \<or> (CHR ''/'' \<notin> set (ref_resource r) \<and> p = ref_resource r @ ''/'' @ ref_subresource r)))"
proof -
  have "(\<exists>p \<in> set (af_excludeResources f). matchesResourcePattern p (ev_objectRef ev)) \<longleftrightarrow>
      (\<exists>p r. p \<in> set (af_excludeResources f) \<and> ev_objectRef ev = Some r
          \<and> ((CHR ''/'' \<notin> set p \<and> ref_resource r = p)
             \<or> (CHR ''/'' \<notin> set (ref_resource r) \<and> p = ref_resource r @ ''/'' @ ref_subresource r)))"
    by (auto simp: matchesResourcePattern_iff)
  moreover have "\<not> builtin_drop ev \<longleftrightarrow> \<not> HasPrefix (ev_username ev) ''system:''
      \<and> (\<exists>r. ev_objectRef ev = Some r \<and> ref_subresource r \<noteq> ''status'' \<and> ref_resource r \<noteq> ''leases'')"
    by (auto simp: builtin_drop_iff)
  ultimately show ?thesis
    unfolding IsNotableAuditEvent_def by (auto split: if_splits)
qed

theorem IsNotableAuditEvent_spec_witness:
  "IsNotableAuditEvent
     (sample_event\<lparr>ev_username := ''kubernetes-admin'', ev_objectRef := Some \<lparr>ref_resource = ''pods'',
        ref_namespace = ''default'', ref_name = ''web'', ref_subresource = ''exec''\<rparr>\<rparr>)
     \<lparr>af_includeAll = False, af_excludeVerbs = [''watch''], af_excludeResources = [''events'', ''pods/log'']\<rparr>"
  unfolding IsNotableAuditEvent_spec by (simp add: sample_event_def HasPrefix_def) auto

text \<open>
  C31 One Alert cannot keep another from firing: for every Alert that wants audit activity, has
  the decoy among its targets and finds at least one notable event, in the listed order, the
  notable events are sent once, whether or not the sends before it failed; no other Alert
  sends anything.
\<close>

theorem NotifyAuditActivity_isolated:
  assumes "kc_list (d_alerts d) list_all_opts w = (Inr items, w')"
  shows "snd (NotifyAuditActivity d kt events w) =
    fold (\<lambda>a w. snd (sendAlertAudit d a kt (notable_events a events) w))
      (filter (\<lambda>a. wantsEventType (as_eventTypes (al_spec a)) AlertEventAuditActivity
          \<and> anyDecoyMatches (as_targets (al_spec a)) (m_namespace (al_meta a)) kt
          \<and> (\<exists>ev \<in> set events. IsNotableAuditEvent ev (FilterFromAlertSpec (al_spec a)))) items) w'"
proof -
  have none: "notable_events a events = [] \<longleftrightarrow>
      \<not> (\<exists>ev \<in> set events. IsNotableAuditEvent ev (FilterFromAlertSpec (al_spec a)))" for a
    by (auto simp: notable_events_def filter_empty_conv)
  have "fold (\<lambda>m w. snd (m w))
      (List.map_filter (\<lambda>a. if \<not> wantsEventType (as_eventTypes (al_spec a)) AlertEventAuditActivity then None
         else if \<not> anyDecoyMatches (as_targets (al_spec a)) (m_namespace (al_meta a)) kt then None
         else if length (notable_events a events) = 0 then None
         else Some (sendAlertAudit d a kt (notable_events a events))) as) v =
    fold (\<lambda>a w. snd (sendAlertAudit d a kt (notable_events a events) w))
      (filter (\<lambda>a. wantsEventType (as_eventTypes (al_spec a)) AlertEventAuditActivity
          \<and> anyDecoyMatches (as_targets (al_spec a)) (m_namespace (al_meta a)) kt
          \<and> (\<exists>ev \<in> set events. IsNotableAuditEvent ev (FilterFromAlertSpec (al_spec a)))) as) v" for as v
    by (induction as arbitrary: v) (simp_all add: map_filter_simps none)
  then show ?thesis
    using assms by (simp add: NotifyAuditActivity_def send_each_world)
qed

text \<open>A dispatcher whose world is the list of posts made, for the witnesses.\<close>

definition static_client :: "'o list \<Rightarrow> ('o \<Rightarrow> ObjectMeta) \<Rightarrow> ('w, 'o) kclient" where
  "static_client objs meta =
     \<lparr>kc_get = (\<lambda>(ns, n) w. case find (\<lambda>x. meta_key (meta x) = (ns, n)) objs of
                  Some x \<Rightarrow> (Inr x, w) | None \<Rightarrow> (Inl (GoError NotFound [] ''not found''), w)),
      kc_list = (\<lambda>o' w. (Inr (filter (\<lambda>x. case lo_namespace o' of None \<Rightarrow> True | Some ns \<Rightarrow> m_namespace (meta x) = ns) objs), w)),
      kc_create = (\<lambda>x w. (Inr x, w)), kc_update = (\<lambda>x w. (Inr x, w)),
      kc_update_status = (\<lambda>x w. (Inr x, w)), kc_delete = (\<lambda>x w. (Inr (), w))\<rparr>"

definition ex_provider :: "string \<Rightarrow> string \<Rightarrow> Provider" where
  "ex_provider n ty =
     \<lparr>prov_meta = new_meta n ''ops'' [], prov_spec = \<lparr>prs_type = ty, prs_address = ''http://hook'', prs_secretRef = None\<rparr>\<rparr>"

definition ex_alert :: "string \<Rightarrow> string \<Rightarrow> Alert" where
  "ex_alert n ty =
     \<lparr>al_meta = new_meta n ''ops'' [],
      al_spec = \<lparr>as_providerRef = \<lparr>pr_type = ty, pr_secretRef = None\<rparr>, as_targets = [], as_eventTypes = [],
        as_includeAll = True, as_excludeVerbs = [], as_excludeResources = []\<rparr>\<rparr>"

definition ex_dispatcher :: "Alert list \<Rightarrow> Provider list \<Rightarrow> (string \<times> json) list dispatcher" where
  "ex_dispatcher as ps =
     \<lparr>d_alerts = static_client as al_meta, d_sinks = static_client [] sink_meta,
      d_providers = static_client ps prov_meta, d_secrets = static_client [] sec_meta,
      d_post = (\<lambda>a b w. (Inr (200, ''''), w @ [(a, b)])), d_now = (\<lambda>_. unix_epoch)\<rparr>"

text \<open>The first Alert names a provider type nobody configured; the second still sends.\<close>

theorem NotifyAuditActivity_isolated_witness:
  "snd (NotifyAuditActivity (ex_dispatcher [ex_alert ''a'' ''loki'', ex_alert ''b'' ''generic-webhook''] [ex_provider ''p'' ''generic-webhook''])
          \<lparr>dr_namespace = ''default'', dr_name = ''d''\<rparr> [sample_event] [])
     = [(''http://hook'', genericAuditBatch \<lparr>dr_namespace = ''default'', dr_name = ''d''\<rparr> [sample_event])]"
proof -
  let ?d = "ex_dispatcher [ex_alert ''a'' ''loki'', ex_alert ''b'' ''generic-webhook''] [ex_provider ''p'' ''generic-webhook'']"
  have l: "kc_list (d_alerts ?d) list_all_opts [] = (Inr [ex_alert ''a'' ''loki'', ex_alert ''b'' ''generic-webhook''], [])"
    by (simp add: ex_dispatcher_def static_client_def list_all_opts_def)
  show ?thesis
    unfolding NotifyAuditActivity_isolated [OF l]
    by (simp add: ex_alert_def ex_dispatcher_def static_client_def ex_provider_def
        wantsEventType_def anyDecoyMatches_def IsNotableAuditEvent_def FilterFromAlertSpec_def notable_events_def
        sendAlertAudit_def resolveProvider_def provider_address_def sendGenericAudit_def postJSON_def and_then_def on_error_def)
qed

lemma provider_address_result:
  "provider_address d ns ref p w = (Inr (q, address), w') \<longleftrightarrow>
     q = p \<and>
     (case (if pr_secretRef ref \<noteq> None then pr_secretRef ref else prs_secretRef (prov_spec p)) of
        Some s \<Rightarrow> \<exists>sec. kc_get (d_secrets d) (ns, s) w = (Inr sec, w') \<and> address = sm_get (sec_data sec) ''address''
      | None \<Rightarrow> address = prs_address (prov_spec p) \<and> address \<noteq> '''' \<and> w' = w)"
proof -
  obtain so where so: "(if pr_secretRef ref \<noteq> None then pr_secretRef ref else prs_secretRef (prov_spec p)) = so"
    and so': "(case pr_secretRef ref of None \<Rightarrow> prs_secretRef (prov_spec p) | Some s \<Rightarrow> Some s) = so"
    by (cases "pr_secretRef ref") auto
  show ?thesis
  proof (cases so)
    case None
    then show ?thesis unfolding provider_address_def so so' by auto
  next
    case (Some s)
    obtain r v where g: "kc_get (d_secrets d) (ns, s) w = (r, v)" by fastforce
    then show ?thesis
      unfolding provider_address_def so so' using Some by (cases r) auto
  qed
qed

text \<open>
  A provider reference resolves only when exactly one provider of the type exists in the
  referring object's namespace. The address comes from the Secret the reference names, else
  from the Secret the provider names, else from the provider's own non-empty address.
\<close>

theorem resolveProvider_unique:
  "resolveProvider d ns ref w = (Inr (p, address), w'') \<longleftrightarrow>
     (\<exists>items w'. kc_list (d_providers d) \<lparr>lo_namespace = Some ns, lo_labels = []\<rparr> w = (Inr items, w')
        \<and> filter (\<lambda>q. prs_type (prov_spec q) = pr_type ref) items = [p]
        \<and> (case (if pr_secretRef ref \<noteq> None then pr_secretRef ref else prs_secretRef (prov_spec p)) of
             Some s \<Rightarrow> \<exists>sec. kc_get (d_secrets d) (ns, s) w' = (Inr sec, w'') \<and> address = sm_get (sec_data sec) ''address''
           | None \<Rightarrow> address = prs_address (prov_spec p) \<and> address \<noteq> '''' \<and> w'' = w'))"
proof -
  obtain r w' where l: "kc_list (d_providers d) \<lparr>lo_namespace = Some ns, lo_labels = []\<rparr> w = (r, w')"
    by fastforce
  show ?thesis
  proof (cases r)
    case (Inl e)
    with l show ?thesis by (simp add: resolveProvider_def)
  next
    case (Inr items)
    define ms where "ms = filter (\<lambda>q. prs_type (prov_spec q) = pr_type ref) items"
    consider "ms = []" | q where "ms = [q]" | q q' qs where "ms = q # q' # qs"
      by (metis list.exhaust)
    then have "resolveProvider d ns ref w = (Inr (p, address), w'') \<longleftrightarrow>
        ms = [p] \<and> provider_address d ns ref p w' = (Inr (p, address), w'')"
      using l Inr by cases (auto simp: resolveProvider_def Let_def provider_address_result simp flip: ms_def)
    then show ?thesis
      using l Inr by (simp only: provider_address_result ms_def) auto
  qed
qed

text \<open>
  Discord's limit is kept and nothing is lost: the embeds are posted in order as consecutive
  messages of one to ten embeds, stopping at the first message that is refused.
\<close>

theorem sendDiscord_chunks:
  "sendDiscord d address embeds =
     each (chunks 10 embeds) (\<lambda>c. postJSON d address (discordPayload c))
   \<and> concat (chunks 10 embeds) = embeds \<and> (\<forall>c \<in> set (chunks 10 embeds). 0 < length c \<and> length c \<le> 10)"
  using discord_from_chunks [of d address embeds 0] concat_chunks [of 10 embeds] chunks_length
  by (auto simp: sendDiscord_def discordEmbedsPerMessage_def)

theorem sendDiscord_chunks_witness:
  "sendDiscord (ex_dispatcher [] []) ''http://hook'' (replicate 11 (podJoinEmbed \<lparr>dr_namespace = ''default'', dr_name = ''d''\<rparr> (''a'', ''b'') True ''t'')) [] =
     (Inr (), [(''http://hook'', discordPayload (replicate 10 (podJoinEmbed \<lparr>dr_namespace = ''default'', dr_name = ''d''\<rparr> (''a'', ''b'') True ''t''))),
               (''http://hook'', discordPayload [podJoinEmbed \<lparr>dr_namespace = ''default'', dr_name = ''d''\<rparr> (''a'', ''b'') True ''t''])])"
proof -
  have "chunks 10 (replicate 11 x) = [replicate 10 x, [x]]" for x :: discordEmbed
    by (subst chunks.simps, subst chunks.simps, subst chunks.simps) simp
  then show ?thesis
    using sendDiscord_chunks [THEN conjunct1, of "ex_dispatcher [] []" "''http://hook''"]
    by (simp add: ex_dispatcher_def postJSON_def and_then_def)
qed

text \<open>
  Loki's rule is kept: in the push of an audit batch line \<open>i\<close> is the \<open>i\<close>-th event's line and
  the timestamps of the stream are strictly increasing, in every year whose nanoseconds an
  int64 can hold.
\<close>

theorem loki_values_increasing:
  assumes "- (2 ^ 63) \<le> now - unix_epoch" and "now - unix_epoch + int (length lines) < 2 ^ 63"
  shows "map snd (loki_values now lines) = lines
    \<and> (\<exists>ts. map fst (loki_values now lines) = map Itoa ts \<and> sorted_wrt (<) ts)"
proof
  show "map snd (loki_values now lines) = lines"
    by (simp add: loki_values_def comp_def map_nth)
  let ?ts = "map (\<lambda>i. now + int i - unix_epoch) [0 ..< length lines]"
  have "UnixNano (now + int i) = now + int i - unix_epoch" if "i < length lines" for i
    using assms that by (intro UnixNano_range) auto
  then have "map fst (loki_values now lines) = map Itoa ?ts"
    by (auto simp: loki_values_def)
  moreover have "sorted_wrt (<) ?ts"
    by (simp add: sorted_wrt_iff_nth_less)
  ultimately show "\<exists>ts. map fst (loki_values now lines) = map Itoa ts \<and> sorted_wrt (<) ts" by blast
qed

theorem loki_values_increasing_witness:
  "map snd (loki_values unix_epoch [''a'', ''b'']) = [''a'', ''b'']
   \<and> (\<exists>ts. map fst (loki_values unix_epoch [''a'', ''b'']) = map Itoa ts \<and> sorted_wrt (<) ts)"
  by (rule loki_values_increasing) (simp_all add: unix_epoch_def)

text \<open>
  Discord never rejects an embed over its fields: each of the at most eight fields of an audit
  embed has a non-empty value of at most 1024 bytes, however long or empty the attacker's
  request made the event's fields.
\<close>

theorem auditEmbed_fields:
  "length (de_fields (auditEmbed kt ev ts)) \<le> 8
   \<and> (\<forall>f \<in> set (de_fields (auditEmbed kt ev ts)).
        df_name f \<noteq> '''' \<and> df_value f \<noteq> '''' \<and> length (df_value f) \<le> 1024)"
proof -
  have v: "codeOrDash v \<noteq> ''''" "length (codeOrDash v) \<le> 1024" for v
    using codeOrDash_bounds [of v] by simp_all
  show ?thesis
    by (auto simp: auditEmbed_def inline_field_def Let_def v split: option.splits)
qed

theorem auditEmbed_fields_witness:
  "length (de_fields (auditEmbed \<lparr>dr_namespace = ''default'', dr_name = ''d''\<rparr> sample_event ''t'')) \<le> 8"
  using auditEmbed_fields by blast

end
