(* ===== verification/Metrics.thy ===== *)
theory Metrics
  imports Api_Types
begin

text \<open>
  \<^verbatim>\<open>src/internal/metrics/metrics.go\<close>. The collectors belong to the Prometheus client library;
  what the sources do to them is the list of operations below, in order. \<open>sample\<close> reads a
  series back from such a list by the documented meaning of the operations: a gauge has the
  value last set, a counter the number of increments, and a deletion by partial match drops
  every series whose labels agree with the given ones.
\<close>

datatype metric = ReconcileErrors | Phase | JoinedPods | AuditEvents | AttackerRequests | ActivityFlushErrors

fun label_names :: "metric \<Rightarrow> string list" where
  "label_names Phase = [''namespace'', ''name'', ''phase'']"
| "label_names ActivityFlushErrors = []"
| "label_names _ = [''namespace'', ''name'']"

text \<open>The family names, and what the package's \<^verbatim>\<open>init\<close> hands to \<^verbatim>\<open>MustRegister\<close>, which panics on a name it has.\<close>

fun metric_name :: "metric \<Rightarrow> string" where
  "metric_name ReconcileErrors = ''honeypod_reconcile_errors_total''"
| "metric_name Phase = ''honeypod_phase''"
| "metric_name JoinedPods = ''honeypod_joined_pods''"
| "metric_name AuditEvents = ''honeypod_audit_events_received_total''"
| "metric_name AttackerRequests = ''honeypod_attacker_requests_total''"
| "metric_name ActivityFlushErrors = ''honeypod_activity_flush_errors_total''"

definition metrics_init :: "metric list" where
  "metrics_init = [ReconcileErrors, Phase, JoinedPods, AuditEvents, AttackerRequests, ActivityFlushErrors]"

lemma metrics_registered_once: "distinct (map metric_name metrics_init) \<and> m \<in> set metrics_init"
  by (cases m) (simp_all add: metrics_init_def)

datatype metric_op =
    SetGauge metric "string list" int
  | AddCounter metric "string list" int
  | DeletePartialMatch metric smap

definition phases :: "string list" where
  "phases = [''Pending'', ''Ready'', ''Failed'']"

definition SetPhase :: "string \<Rightarrow> string \<Rightarrow> string \<Rightarrow> metric_op list" where
  "SetPhase namespace name phase =
     map (\<lambda>p. SetGauge Phase [namespace, name, p] (if p = phase then 1 else 0)) phases"

definition DeleteDecoy :: "string \<Rightarrow> string \<Rightarrow> metric_op list" where
  "DeleteDecoy namespace name =
     (let m = [(''namespace'', namespace), (''name'', name)] in
      [DeletePartialMatch ReconcileErrors m, DeletePartialMatch Phase m, DeletePartialMatch JoinedPods m,
       DeletePartialMatch AuditEvents m, DeletePartialMatch AttackerRequests m])"

section \<open>Reading series back\<close>

definition labels_match :: "metric \<Rightarrow> string list \<Rightarrow> smap \<Rightarrow> bool" where
  "labels_match m vs want \<longleftrightarrow> (\<forall>(k, v) \<in> set want. map_of (zip (label_names m) vs) k = Some v)"

fun apply_op :: "metric \<Rightarrow> string list \<Rightarrow> metric_op \<Rightarrow> int option \<Rightarrow> int option" where
  "apply_op m vs (SetGauge m' vs' x) cur = (if m' = m \<and> vs' = vs then Some x else cur)"
| "apply_op m vs (AddCounter m' vs' x) cur =
     (if m' = m \<and> vs' = vs then Some ((case cur of None \<Rightarrow> 0 | Some c \<Rightarrow> c) + x) else cur)"
| "apply_op m vs (DeletePartialMatch m' want) cur = (if m' = m \<and> labels_match m vs want then None else cur)"

definition sample :: "metric_op list \<Rightarrow> metric \<Rightarrow> string list \<Rightarrow> int option" where
  "sample ops m vs = fold (apply_op m vs) ops None"

lemma sample_append: "sample (xs @ ys) m vs = fold (apply_op m vs) ys (sample xs m vs)"
  by (simp add: sample_def)

lemma fold_SetPhase:
  "fold (apply_op Phase [ns, n, p]) (SetPhase ns' n' phase) cur =
     (if ns' = ns \<and> n' = n \<and> p \<in> set phases then Some (if p = phase then 1 else 0) else cur)"
  by (auto simp: SetPhase_def phases_def)

lemma fold_SetPhase_other:
  "m \<noteq> Phase \<Longrightarrow> fold (apply_op m vs) (SetPhase ns n phase) cur = cur"
  by (auto simp: SetPhase_def phases_def)

lemma fold_DeleteDecoy:
  "fold (apply_op m vs) (DeleteDecoy ns n) cur =
     (if m \<noteq> ActivityFlushErrors \<and> labels_match m vs [(''namespace'', ns), (''name'', n)] then None else cur)"
  by (cases m) (auto simp: DeleteDecoy_def Let_def)

text \<open>
  After \<^verbatim>\<open>SetPhase\<close> exactly one phase row of the decoy reads 1 and the other rows read 0,
  whatever was recorded before, so a transition is never counted twice; the rows of other
  decoys are left alone.
\<close>

theorem SetPhase_one_hot:
  assumes "phase \<in> set phases"
  shows "length (filter (\<lambda>p. sample (ops @ SetPhase ns n phase) Phase [ns, n, p] = Some 1) phases) = 1
    \<and> (\<forall>p \<in> set phases. sample (ops @ SetPhase ns n phase) Phase [ns, n, p] = Some (if p = phase then 1 else 0))
    \<and> ((ns', n') \<noteq> (ns, n) \<longrightarrow> sample (ops @ SetPhase ns n phase) Phase [ns', n', q] = sample ops Phase [ns', n', q])"
  using assms by (auto simp: sample_append fold_SetPhase) (auto simp: phases_def)

theorem SetPhase_one_hot_witness:
  "sample ([SetGauge Phase [''ns'', ''d'', ''Pending''] 1] @ SetPhase ''ns'' ''d'' ''Ready'') Phase [''ns'', ''d'', ''Pending''] = Some 0"
  using SetPhase_one_hot [of "''Ready''" "[SetGauge Phase [''ns'', ''d'', ''Pending''] 1]" "''ns''" "''d''"]
  by (simp add: phases_def)

text \<open>
  After \<^verbatim>\<open>DeleteDecoy\<close> no series labelled with the decoy is left, in any of the per-decoy
  metrics and for any phase, and the series of every other decoy keep their values.
\<close>

theorem DeleteDecoy_clears:
  "(m \<noteq> ActivityFlushErrors \<longrightarrow> sample (ops @ DeleteDecoy ns n) m (ns # n # rest) = None)
   \<and> ((ns', n') \<noteq> (ns, n) \<longrightarrow>
        sample (ops @ DeleteDecoy ns n) m (ns' # n' # rest) = sample ops m (ns' # n' # rest))"
  by (cases m; auto simp: sample_append fold_DeleteDecoy labels_match_def)

theorem DeleteDecoy_clears_witness:
  "sample ([AddCounter AuditEvents [''a'', ''x''] 1] @ DeleteDecoy ''a'' ''x'') AuditEvents [''a'', ''x''] = None
   \<and> sample ([AddCounter AuditEvents [''b'', ''x''] 1] @ DeleteDecoy ''a'' ''x'') AuditEvents [''b'', ''x''] = Some 1"
  using DeleteDecoy_clears [of AuditEvents "[AddCounter AuditEvents [''a'', ''x''] 1]" "''a''" "''x''" "[]"]
    DeleteDecoy_clears [of AuditEvents "[AddCounter AuditEvents [''b'', ''x''] 1]" "''a''" "''x''" "[]" "''b''" "''x''"]
  by (simp add: sample_def)

end
