(* ===== verification/Decoy_Controller.thy ===== *)
theory Decoy_Controller
  imports Apply_Resource Join_Webhook Certs Notifier Metrics
    "HOL-Library.List_Lexorder" "HOL-Library.Char_ord" "HOL-Library.Product_Lexorder"
begin

text \<open>
  \<^verbatim>\<open>src/internal/controller/decoy_controller.go\<close>: one reconcile of a Decoy, step by step. The
  clients, the helper packages of controller-runtime and the random source are fields of
  \<open>reconciler\<close>.
\<close>

section \<open>The reconciler and what it calls\<close>

text \<open>
  \<open>rc_setref\<close> is \<^verbatim>\<open>controllerutil.SetControllerReference\<close> on the metadata of owner and object,
  \<open>rc_controlled_by\<close> is \<^verbatim>\<open>metav1.IsControlledBy\<close> (object, owner), \<open>rc_setcond\<close> is
  \<^verbatim>\<open>apimeta.SetStatusCondition\<close>, the three finalizer functions are those of \<^verbatim>\<open>controllerutil\<close>,
  \<open>rc_quantity_zero\<close> is \<^verbatim>\<open>Quantity.IsZero\<close>. \<open>rc_retry_failed\<close> is \<^verbatim>\<open>retry.RetryOnConflict\<close> for the
  one closure that leaves values in captured variables on a path without a write; they are part
  of the state it runs on.
\<close>

record 'w reconciler =
  rc_decoys :: "('w, Decoy) rkind"
  rc_pods :: "('w, Pod) kclient"
  rc_secrets :: "('w, Secret) rkind"
  rc_services :: "('w, Service) rkind"
  rc_configmaps :: "('w, ConfigMap) rkind"
  rc_deployments :: "('w, Deployment) rkind"
  rc_netpols :: "('w, NetworkPolicy) rkind"
  rc_pvcs :: "('w, PersistentVolumeClaim) kclient"
  rc_retry_failed :: "('w \<times> Decoy option \<times> bool, unit) retry"
  rc_setref :: "ObjectMeta \<Rightarrow> ObjectMeta \<Rightarrow> go_error + ObjectMeta"
  rc_controlled_by :: "ObjectMeta \<Rightarrow> ObjectMeta \<Rightarrow> bool"
  rc_setcond :: "Condition list \<Rightarrow> Condition \<Rightarrow> Condition list"
  rc_add_finalizer :: "string \<Rightarrow> ObjectMeta \<Rightarrow> ObjectMeta \<times> bool"
  rc_remove_finalizer :: "string \<Rightarrow> ObjectMeta \<Rightarrow> ObjectMeta \<times> bool"
  rc_contains_finalizer :: "string \<Rightarrow> ObjectMeta \<Rightarrow> bool"
  rc_quantity_zero :: "string \<Rightarrow> bool"
  rc_metrics :: "metric_op list \<Rightarrow> 'w \<Rightarrow> 'w"
  rc_recorder :: "(Decoy \<Rightarrow> string \<Rightarrow> string \<Rightarrow> string \<Rightarrow> 'w \<Rightarrow> 'w) option"
  rc_notifier :: "'w dispatcher option"
  rc_crypto :: "'w crypto"
  rc_rand :: "nat \<Rightarrow> ('w, string) call"
  rc_marshal :: "json \<Rightarrow> string"
  rc_yaml :: "json \<Rightarrow> string"
  rc_managerURL :: string

abbreviation rc_decoy_client :: "'w reconciler \<Rightarrow> ('w, Decoy) kclient" where
  "rc_decoy_client r \<equiv> rk_client (rc_decoys r)"

abbreviation rc_secret_client :: "'w reconciler \<Rightarrow> ('w, Secret) kclient" where
  "rc_secret_client r \<equiv> rk_client (rc_secrets r)"

text \<open>A step that cannot fail.\<close>

definition effect :: "('w \<Rightarrow> 'w) \<Rightarrow> ('w, unit) call" where
  "effect f = (\<lambda>w. (Inr (), f w))"

definition emit :: "'w reconciler \<Rightarrow> metric_op list \<Rightarrow> ('w, unit) call" where
  "emit r ops = effect (rc_metrics r ops)"

definition record_event :: "'w reconciler \<Rightarrow> Decoy \<Rightarrow> string \<Rightarrow> string \<Rightarrow> string \<Rightarrow> ('w, unit) call" where
  "record_event r kt typ reason msg =
     (case rc_recorder r of None \<Rightarrow> ok () | Some rec \<Rightarrow> effect (rec kt typ reason msg))"

section \<open>Mirrored secrets\<close>

abbreviation "mirroredSecretsFinalizer \<equiv> ''honeypod.io/mirrored-secrets''"

definition mirror_opts :: "Decoy \<Rightarrow> list_opts" where
  "mirror_opts kt =
     \<lparr>lo_namespace = None,
      lo_labels = [(mirroredSecretLabelDecoyNamespace, kt_ns kt), (mirroredSecretLabelDecoyName, kt_name kt)]\<rparr>"

text \<open>Deleting one Secret, ignoring that it is gone already.\<close>

definition delete_secret :: "'w reconciler \<Rightarrow> string \<Rightarrow> Secret \<Rightarrow> ('w, unit) call" where
  "delete_secret r what s =
     try_call (kc_delete (rc_secret_client r) s) (\<lambda>d.
       case d of
         Inr _ \<Rightarrow> ok ()
       | Inl e \<Rightarrow>
           if IsNotFound e then ok ()
           else fail (wrap_error (what @ m_namespace (sec_meta s) @ ''/'' @ m_name (sec_meta s)) e))"

definition deleteMirroredSecrets :: "'w reconciler \<Rightarrow> Decoy \<Rightarrow> ('w, unit) call" where
  "deleteMirroredSecrets r kt =
     and_then (on_error (wrap_error ''listing mirrored credentials secrets'') (kc_list (rc_secret_client r) (mirror_opts kt)))
       (\<lambda>items. each items (delete_secret r ''deleting mirrored credentials secret ''))"

definition isNamespaceTerminating :: "go_error \<Rightarrow> bool" where
  "isNamespaceTerminating e \<longleftrightarrow>
     ''NamespaceTerminating'' \<in> set (err_causes e)
     \<or> (err_reason e = Forbidden \<and> Contains (err_msg e) ''being terminated'')"

definition needsMirroredSecrets :: "string \<Rightarrow> Pod list \<Rightarrow> bool" where
  "needsMirroredSecrets decoyNamespace joined \<longleftrightarrow> (\<exists>p \<in> set joined. pod_ns p \<noteq> decoyNamespace)"

text \<open>The Decoy is changed in place: the result is the object after the call.\<close>

definition setMirroredSecretsFinalizer :: "'w reconciler \<Rightarrow> Decoy \<Rightarrow> bool \<Rightarrow> ('w, Decoy) call" where
  "setMirroredSecretsFinalizer r kt want =
     (case (if want then rc_add_finalizer r mirroredSecretsFinalizer (kt_meta kt)
            else rc_remove_finalizer r mirroredSecretsFinalizer (kt_meta kt)) of
        (m, changed) \<Rightarrow> if \<not> changed then ok (kt\<lparr>kt_meta := m\<rparr>) else kc_update (rc_decoy_client r) (kt\<lparr>kt_meta := m\<rparr>))"

definition needed_namespaces :: "Decoy \<Rightarrow> Pod list \<Rightarrow> string list" where
  "needed_namespaces kt joined = remdups (map pod_ns (filter (\<lambda>p. pod_ns p \<noteq> kt_ns kt) joined))"

definition apply_mirror :: "'w reconciler \<Rightarrow> Decoy \<Rightarrow> Secret \<Rightarrow> string \<Rightarrow> ('w, unit) call" where
  "apply_mirror r kt secret ns =
     try_call
       (applyResource (rc_secrets r) sec_meta sec_meta_update
          (buildMirroredSecret kt ns (sm_get (sec_data secret) ''token'') (sm_get (sec_data secret) ''ca.crt''))
          (\<lambda>live desired. live\<lparr>sec_data := sec_data desired\<rparr>))
       (\<lambda>a. case a of
          Inr _ \<Rightarrow> ok ()
        | Inl e \<Rightarrow>
            if isNamespaceTerminating e then ok ()
            else fail (wrap_error (''reconciling mirrored credentials secret in '' @ ns) e))"

definition reconcileMirroredSecrets :: "'w reconciler \<Rightarrow> Decoy \<Rightarrow> Secret \<Rightarrow> Pod list \<Rightarrow> ('w, unit) call" where
  "reconcileMirroredSecrets r kt secret joined =
     and_then (each (needed_namespaces kt joined) (apply_mirror r kt secret)) (\<lambda>_.
     and_then (on_error (wrap_error ''listing mirrored credentials secrets'') (kc_list (rc_secret_client r) (mirror_opts kt))) (\<lambda>items.
       each (filter (\<lambda>s. m_namespace (sec_meta s) \<notin> set (needed_namespaces kt joined)) items)
         (delete_secret r ''deleting stale mirrored credentials secret '')))"

section \<open>Joined pods\<close>

definition join_value :: "Pod \<Rightarrow> string" where
  "join_value p = sm_get (m_annotations (pod_meta p)) joinAnnotation"

text \<open>
  How \<^verbatim>\<open>true\<close> resolves for this Decoy: whether it is the only one in the cluster, and else
  whether there is exactly one in its namespace. A failed List counts as neither.
\<close>

definition resolveImplicit :: "'w reconciler \<Rightarrow> Decoy \<Rightarrow> ('w, bool \<times> bool) call" where
  "resolveImplicit r kt =
     try_call (kc_list (rc_decoy_client r) list_all_opts) (\<lambda>l.
       case l of
         Inl e \<Rightarrow> ok (False, False)
       | Inr items \<Rightarrow>
           if length items = 1 then ok (kt_ns (hd items) = kt_ns kt \<and> kt_name (hd items) = kt_name kt, False)
           else ok (False, length (filter (\<lambda>d. kt_ns d = kt_ns kt) items) = 1))"

definition joins :: "Decoy \<Rightarrow> bool \<times> bool \<Rightarrow> Pod \<Rightarrow> bool" where
  "joins kt sole p \<longleftrightarrow>
     join_value p = kt_ns kt @ ''/'' @ kt_name kt
     \<or> (join_value p = joinAnnotationImplicit \<and> (fst sole \<or> (snd sole \<and> pod_ns p = kt_ns kt)))"

text \<open>The Decoys are only listed when some pod says \<^verbatim>\<open>true\<close>.\<close>

definition listJoinedPods :: "'w reconciler \<Rightarrow> Decoy \<Rightarrow> ('w, Pod list) call" where
  "listJoinedPods r kt =
     and_then (kc_list (rc_pods r) list_all_opts) (\<lambda>pods.
     and_then
       (if \<exists>p \<in> set pods. join_value p \<noteq> kt_ns kt @ ''/'' @ kt_name kt \<and> join_value p = joinAnnotationImplicit
        then resolveImplicit r kt else ok (False, False))
       (\<lambda>sole. ok (sort_key (\<lambda>p. (pod_ns p, pod_name p)) (filter (joins kt sole) pods))))"

definition pod_key :: "Pod \<Rightarrow> nsname" where
  "pod_key p = (pod_ns p, pod_name p)"

definition transition :: "'w reconciler \<Rightarrow> Decoy \<Rightarrow> bool \<Rightarrow> nsname \<Rightarrow> ('w, unit) call" where
  "transition r kt joined key =
     and_then
       (record_event r kt ''Normal'' (if joined then ''PodJoined'' else ''PodLeft'')
          (''Pod '' @ fst key @ ''/'' @ snd key @ (if joined then '' joined the decoy'' else '' left the decoy'')))
       (\<lambda>_. case rc_notifier r of
              None \<Rightarrow> ok ()
            | Some d \<Rightarrow> effect (\<lambda>w. snd (NotifyPodJoin d \<lparr>dr_namespace = kt_ns kt, dr_name = kt_name kt\<rparr> key joined w)))"

definition reconcileJoinTransitions :: "'w reconciler \<Rightarrow> Decoy \<Rightarrow> JoinedPod list \<Rightarrow> Pod list \<Rightarrow> ('w, unit) call" where
  "reconcileJoinTransitions r kt previous current =
     (let wasJoined = remdups (map (\<lambda>p. (jp_namespace p, jp_name p)) previous);
          isJoined = map pod_key current in
      and_then (each (filter (\<lambda>k. k \<notin> set wasJoined) isJoined) (transition r kt True)) (\<lambda>_.
        each (filter (\<lambda>k. k \<notin> set isJoined) wasJoined) (transition r kt False)))"

definition mapJoinedPodToDecoy :: "'w reconciler \<Rightarrow> Pod \<Rightarrow> 'w \<Rightarrow> nsname list \<times> 'w" where
  "mapJoinedPodToDecoy r pod w =
     (case resolveJoinAnnotation (rc_decoy_client r) (pod_ns pod) (join_value pod) w of
        (None, w') \<Rightarrow> ([], w')
      | (Some k, w') \<Rightarrow> ([k], w'))"

section \<open>The decoy's Secret\<close>

definition certCoversIP :: "'w crypto \<Rightarrow> string \<Rightarrow> string \<Rightarrow> bool" where
  "certCoversIP cy certPEM ip =
     (if certPEM = '''' \<or> ip = '''' then False
      else case cy_pem_decode cy certPEM of
          None \<Rightarrow> False
        | Some der \<Rightarrow>
            (case cy_parse_cert cy der of
               Inl e \<Rightarrow> False
             | Inr crt \<Rightarrow>
                 (case cy_parse_ip cy ip of
                    None \<Rightarrow> False
                  | Some want \<Rightarrow> \<exists>got \<in> set (ct_ipAddresses crt). got = want)))"

definition serving_names :: "Decoy \<Rightarrow> string \<Rightarrow> string list" where
  "serving_names kt clusterIP =
     [serviceDNSName (kt_name kt) (kt_ns kt), kt_name kt, ''localhost'', ''127.0.0.1'', clusterIP] @ sp_sans (kt_spec kt)"

text \<open>Storing several keys in a Secret's data.\<close>

definition set_data :: "(string \<times> string) list \<Rightarrow> Secret \<Rightarrow> Secret" where
  "set_data kvs s = s\<lparr>sec_data := fold (\<lambda>(k, v). gm_set k v) kvs (sec_data s)\<rparr>"

definition reissueServingCert :: "'w reconciler \<Rightarrow> Decoy \<Rightarrow> Secret \<Rightarrow> string \<Rightarrow> ('w, Secret) call" where
  "reissueServingCert r kt secret clusterIP =
     and_then
       (let caCert = sm_get (sec_data secret) ''ca.crt''; caKey = sm_get (sec_data secret) ''ca.key'' in
        if caCert = '''' \<or> caKey = '''' then
          on_error (wrap_error ''regenerating CA to reissue serving cert'') (GenerateCA (rc_crypto r) ''kubernetes'')
        else ok (caCert, caKey)) (\<lambda>(caCert, caKey).
     and_then (on_error (wrap_error ''reissuing serving cert'')
         (IssueServerCert (rc_crypto r) caCert caKey (serving_names kt clusterIP))) (\<lambda>(leafCert, leafKey).
       on_error (wrap_error ''saving reissued serving cert'')
         (kc_update (rc_secret_client r)
            (set_data [(''ca.crt'', caCert), (''ca.key'', caKey), (''tls.crt'', leafCert), (''tls.key'', leafKey)] secret))))"

definition backfillKCMToken :: "'w reconciler \<Rightarrow> Secret \<Rightarrow> ('w, Secret) call" where
  "backfillKCMToken r existing =
     (if sm_get (sec_data existing) ''kcm.token'' \<noteq> '''' then ok existing
      else and_then (generateToken (rc_rand r)) (\<lambda>kcmToken.
             on_error (wrap_error ''backfilling kcm token'')
               (kc_update (rc_secret_client r) (set_data [(''kcm.token'', kcmToken)] existing))))"

definition newSecret :: "'w reconciler \<Rightarrow> Decoy \<Rightarrow> string \<Rightarrow> string \<Rightarrow> ('w, Secret) call" where
  "newSecret r kt name clusterIP =
     and_then (generateToken (rc_rand r)) (\<lambda>token.
     and_then (generateToken (rc_rand r)) (\<lambda>shimToken.
     and_then (generateToken (rc_rand r)) (\<lambda>kcmToken.
     and_then (GenerateCA (rc_crypto r) ''kubernetes'') (\<lambda>(caCert, caKey).
     and_then (IssueServerCert (rc_crypto r) caCert caKey (serving_names kt clusterIP)) (\<lambda>(leafCert, leafKey).
     and_then (GenerateServiceAccountSigningKey (rc_crypto r)) (\<lambda>(saPub, saKey).
     and_then (pure_result (rc_setref r (kt_meta kt) (new_meta name (kt_ns kt) (commonLabels (kt_name kt))))) (\<lambda>m.
       kc_create (rc_secret_client r)
         \<lparr>sec_meta = m, sec_type = ''Opaque'',
          sec_data = [(''token'', token), (''shim.token'', shimToken), (''kcm.token'', kcmToken),
            (''ca.crt'', caCert), (''ca.key'', caKey), (''tls.crt'', leafCert), (''tls.key'', leafKey),
            (''sa.pub'', saPub), (''sa.key'', saKey)]\<rparr>)))))))"

definition reconcileSecret :: "'w reconciler \<Rightarrow> Decoy \<Rightarrow> string \<Rightarrow> string \<Rightarrow> ('w, Secret) call" where
  "reconcileSecret r kt name clusterIP =
     try_call (kc_get (rc_secret_client r) (kt_ns kt, name)) (\<lambda>g.
       case g of
         Inr existing \<Rightarrow>
           and_then (backfillKCMToken r existing) (\<lambda>existing.
             if clusterIP = '''' \<or> certCoversIP (rc_crypto r) (sm_get (sec_data existing) ''tls.crt'') clusterIP
             then ok existing
             else reissueServingCert r kt existing clusterIP)
       | Inl e \<Rightarrow> if IsNotFound e then newSecret r kt name clusterIP else fail e)"

definition kubeconfig_once :: "'w reconciler \<Rightarrow> Decoy \<Rightarrow> string \<Rightarrow> string \<Rightarrow> ('w, Secret) call" where
  "kubeconfig_once r kt name kubeconfig =
     and_then (kc_get (rc_secret_client r) (kt_ns kt, name)) (\<lambda>latest.
       kc_update (rc_secret_client r) (set_data [(''kubeconfig'', kubeconfig)] latest))"

definition reconcileKubeconfig :: "'w reconciler \<Rightarrow> Decoy \<Rightarrow> string \<Rightarrow> Secret \<Rightarrow> string \<Rightarrow> ('w, unit) call" where
  "reconcileKubeconfig r kt name secret server =
     (let kubeconfig = renderKubeconfig (rc_yaml r) (kt_name kt) server (sm_get (sec_data secret) ''ca.crt'') (sm_get (sec_data secret) ''token'') in
      if sm_get (sec_data secret) ''kubeconfig'' = kubeconfig then ok ()
      else and_then (rk_retry (rc_secrets r) (kubeconfig_once r kt name kubeconfig)) (\<lambda>_. ok ()))"

section \<open>The other objects\<close>

definition applyConfigMap :: "'w reconciler \<Rightarrow> ConfigMap \<Rightarrow> ('w, unit) call" where
  "applyConfigMap r cm =
     and_then (applyResource (rc_configmaps r) cm_meta cm_meta_update cm (\<lambda>live desired. live\<lparr>cm_data := cm_data desired\<rparr>)) (\<lambda>_. ok ())"

definition applyDeployment :: "'w reconciler \<Rightarrow> Deployment \<Rightarrow> ('w, unit) call" where
  "applyDeployment r dep =
     and_then (applyResource (rc_deployments r) dep_meta dep_meta_update dep (\<lambda>live desired. live\<lparr>dep_spec := dep_spec desired\<rparr>)) (\<lambda>_. ok ())"

definition applyService :: "'w reconciler \<Rightarrow> Service \<Rightarrow> ('w, string) call" where
  "applyService r svc =
     and_then (applyResource (rc_services r) svc_meta svc_meta_update svc
         (\<lambda>live desired. live\<lparr>svc_ports := svc_ports desired, svc_selector := svc_selector desired\<rparr>))
       (\<lambda>live. ok (svc_clusterIP live))"

definition applyNetworkPolicy :: "'w reconciler \<Rightarrow> NetworkPolicy \<Rightarrow> ('w, unit) call" where
  "applyNetworkPolicy r np =
     and_then (applyResource (rc_netpols r) np_meta np_meta_update np
         (\<lambda>live desired. live\<lparr>np_podSelector := np_podSelector desired, np_policyTypes := np_policyTypes desired,
                               np_egress := np_egress desired\<rparr>))
       (\<lambda>_. ok ())"

definition ensureDataPVC :: "'w reconciler \<Rightarrow> Decoy \<Rightarrow> PersistenceSpec \<Rightarrow> ('w, unit) call" where
  "ensureDataPVC r kt per =
     try_call (kc_get (rc_pvcs r) (kt_ns kt, kt_name kt @ ''-data'')) (\<lambda>g.
       case g of
         Inr _ \<Rightarrow> ok ()
       | Inl e \<Rightarrow>
           if \<not> IsNotFound e then fail e
           else
             and_then (pure_result (rc_setref r (kt_meta kt) (new_meta (kt_name kt @ ''-data'') (kt_ns kt) (commonLabels (kt_name kt))))) (\<lambda>m.
             and_then (kc_create (rc_pvcs r)
                 \<lparr>pvc_meta = m, pvc_accessModes = [''ReadWriteOnce''], pvc_storageClass = per_storageClassName per,
                  pvc_storage = (if rc_quantity_zero r (per_size per) then ''1Gi'' else per_size per)\<rparr>) (\<lambda>_. ok ())))"

text \<open>The part of the rendered files that rolls the pod; Go's JSON encoder sorts the keys.\<close>

definition rollout_doc :: "smap \<Rightarrow> (string \<times> json) list" where
  "rollout_doc data = sort_key fst (map (\<lambda>(k, v). (k, JStr v)) (filter (\<lambda>(k, v). k \<noteq> seedFileName) data))"

definition rollout_checksum :: "(json \<Rightarrow> string) \<Rightarrow> smap \<Rightarrow> string" where
  "rollout_checksum Marshal data = checksum (Marshal (JObj (rollout_doc data)))"

definition config_data :: "'w reconciler \<Rightarrow> Decoy \<Rightarrow> Pod list \<Rightarrow> string \<Rightarrow> string \<Rightarrow> string \<Rightarrow> smap" where
  "config_data r kt joined decoyToken shimToken kcmToken =
     renderConfigData (rc_marshal r) (rc_yaml r) kt joined decoyToken shimToken kcmToken
       (if rc_managerURL r = '''' then defaultManagerAuditWebhookURL else rc_managerURL r)"

definition reconcileConfigMap ::
  "'w reconciler \<Rightarrow> Decoy \<Rightarrow> string \<Rightarrow> Pod list \<Rightarrow> string \<Rightarrow> string \<Rightarrow> string \<Rightarrow> ('w, string) call" where
  "reconcileConfigMap r kt name joined decoyToken shimToken kcmToken =
     (let data = config_data r kt joined decoyToken shimToken kcmToken in
      and_then (pure_result (rc_setref r (kt_meta kt) (new_meta name (kt_ns kt) (commonLabels (kt_name kt))))) (\<lambda>m.
      and_then (applyConfigMap r \<lparr>cm_meta = m, cm_data = data\<rparr>) (\<lambda>_.
        ok (rollout_checksum (rc_marshal r) data))))"

text \<open>Removing the policy an older version created under the decoy's bare name.\<close>

definition prune_legacy :: "'w reconciler \<Rightarrow> Decoy \<Rightarrow> NetworkPolicy \<Rightarrow> ('w, unit) call" where
  "prune_legacy r kt np =
     (if m_name (np_meta np) = kt_name kt then ok ()
      else
        try_call (kc_get (rk_client (rc_netpols r)) (kt_ns kt, kt_name kt)) (\<lambda>g.
          case g of
            Inl e \<Rightarrow> if IsNotFound e then ok () else fail (wrap_error ''checking for legacy network policy'' e)
          | Inr legacy \<Rightarrow>
              if \<not> rc_controlled_by r (np_meta legacy) (kt_meta kt) then ok ()
              else
                try_call (kc_delete (rk_client (rc_netpols r)) legacy) (\<lambda>d.
                  case d of
                    Inr _ \<Rightarrow> ok ()
                  | Inl e \<Rightarrow> if IsNotFound e then ok () else fail (wrap_error ''pruning legacy network policy'' e))))"

section \<open>Status\<close>

definition podIsRedirected :: "Pod \<Rightarrow> bool" where
  "podIsRedirected p \<longleftrightarrow> (\<exists>v \<in> set (ps_volumes (pod_spec p)). vol_name v = decoyVolumeName)"

definition joined_status :: "Pod \<Rightarrow> JoinedPod" where
  "joined_status p = \<lparr>jp_name = pod_name p, jp_namespace = pod_ns p, jp_redirected = podIsRedirected p\<rparr>"

definition ready_condition :: "Decoy \<Rightarrow> string \<Rightarrow> string \<Rightarrow> string \<Rightarrow> Condition" where
  "ready_condition kt status reason msg =
     \<lparr>cond_type = ''Ready'', cond_status = status, cond_reason = reason, cond_message = msg,
      cond_observedGeneration = m_generation (kt_meta kt)\<rparr>"

definition status_once :: "'w reconciler \<Rightarrow> nsname \<Rightarrow> DecoyPhase \<Rightarrow> string \<Rightarrow> string \<Rightarrow> Pod list \<Rightarrow> ('w, Decoy) call" where
  "status_once r key phase secretName server joined =
     and_then (kc_get (rc_decoy_client r) key) (\<lambda>kt.
       kc_update_status (rc_decoy_client r)
         (kt\<lparr>kt_status := (kt_status kt)
            \<lparr>st_phase := phase, st_endpoint := server, st_credentialsSecret := secretName,
             st_observedGeneration := m_generation (kt_meta kt), st_joinedPods := map joined_status joined,
             st_conditions := rc_setcond r (st_conditions (kt_status kt))
               (ready_condition kt (if phase = Ready then ''True'' else ''False'') (phase_string phase)
                  (''Decoy is '' @ phase_string phase))\<rparr>\<rparr>))"

definition deployment_phase :: "'w reconciler \<Rightarrow> Decoy \<Rightarrow> ('w, DecoyPhase) call" where
  "deployment_phase r kt =
     try_call (kc_get (rk_client (rc_deployments r)) (kt_ns kt, kt_name kt)) (\<lambda>g.
       ok (case g of Inl e \<Rightarrow> Pending | Inr dep \<Rightarrow> if dep_readyReplicas dep > 0 then Ready else Pending))"

definition updateStatus :: "'w reconciler \<Rightarrow> Decoy \<Rightarrow> string \<Rightarrow> string \<Rightarrow> Pod list \<Rightarrow> ('w, unit) call" where
  "updateStatus r kt secretName server joined =
     and_then (deployment_phase r kt) (\<lambda>phase.
     and_then (emit r (SetPhase (kt_ns kt) (kt_name kt) (phase_string phase)
                       @ [SetGauge JoinedPods [kt_ns kt, kt_name kt] (int (length joined))])) (\<lambda>_.
     and_then (rk_retry (rc_decoys r) (status_once r (kt_ns kt, kt_name kt) phase secretName server joined)) (\<lambda>kt'.
       if phase = Ready \<and> st_phase (kt_status kt) \<noteq> Ready
       then record_event r kt' ''Normal'' ''Ready'' ''Decoy is ready'' else ok ())))"

definition failed_once :: "'w reconciler \<Rightarrow> nsname \<Rightarrow> go_error \<Rightarrow> ('w \<times> Decoy option \<times> bool, unit) call" where
  "failed_once r name reconcileErr = (\<lambda>(w, k, entered).
     case kc_get (rc_decoy_client r) name w of
       (Inl e, w1) \<Rightarrow> (Inl e, (w1, k, entered))
     | (Inr kt, w1) \<Rightarrow>
         if m_deletionTimestamp (kt_meta kt) \<noteq> None then (Inr (), (w1, Some kt, entered))
         else
           (let kt' = kt\<lparr>kt_status := (kt_status kt)
                  \<lparr>st_phase := Failed,
                   st_conditions := rc_setcond r (st_conditions (kt_status kt))
                     (ready_condition kt ''False'' ''ReconcileFailed'' (err_msg reconcileErr))\<rparr>\<rparr>;
                w2 = rc_metrics r (SetPhase (kt_ns kt) (kt_name kt) ''Failed'') w1;
                entered' = (st_phase (kt_status kt) \<noteq> Failed) in
            case kc_update_status (rc_decoy_client r) kt' w2 of
              (Inl e, w3) \<Rightarrow> (Inl e, (w3, Some kt', entered'))
            | (Inr kt'', w3) \<Rightarrow> (Inr (), (w3, Some kt'', entered'))))"

definition markFailed :: "'w reconciler \<Rightarrow> nsname \<Rightarrow> go_error \<Rightarrow> 'w \<Rightarrow> 'w" where
  "markFailed r name reconcileErr w =
     (case rc_retry_failed r (failed_once r name reconcileErr) (w, None, False) of
        (Inr _, (w', Some kt, True)) \<Rightarrow> snd (record_event r kt ''Warning'' ''ReconcileFailed'' (err_msg reconcileErr) w')
      | (_, (w', _, _)) \<Rightarrow> w')"

section \<open>Reconcile\<close>

definition reconcile_deleted :: "'w reconciler \<Rightarrow> Decoy \<Rightarrow> ('w, unit) call" where
  "reconcile_deleted r kt =
     (if \<not> rc_contains_finalizer r mirroredSecretsFinalizer (kt_meta kt) then ok ()
      else
        and_then (deleteMirroredSecrets r kt) (\<lambda>_.
        and_then (kc_update (rc_decoy_client r) (kt\<lparr>kt_meta := fst (rc_remove_finalizer r mirroredSecretsFinalizer (kt_meta kt))\<rparr>))
          (\<lambda>_. ok ())))"

text \<open>The joined pods with their Secret mirrors, and the finalizer around them.\<close>

definition reconcile_mirrors :: "'w reconciler \<Rightarrow> Decoy \<Rightarrow> Secret \<Rightarrow> Pod list \<Rightarrow> ('w, Decoy) call" where
  "reconcile_mirrors r kt secret joined =
     (let wantMirrors = needsMirroredSecrets (kt_ns kt) joined in
      and_then
        (if wantMirrors then on_error (wrap_error ''adding mirrored-secrets finalizer'') (setMirroredSecretsFinalizer r kt True)
         else ok kt) (\<lambda>kt.
      and_then (on_error (wrap_error ''reconciling joined-pod credentials secrets'') (reconcileMirroredSecrets r kt secret joined)) (\<lambda>_.
        if \<not> wantMirrors then on_error (wrap_error ''removing mirrored-secrets finalizer'') (setMirroredSecretsFinalizer r kt False)
        else ok kt)))"

definition with_ref :: "'w reconciler \<Rightarrow> Decoy \<Rightarrow> ((ObjectMeta \<Rightarrow> ObjectMeta) \<Rightarrow> 'o \<Rightarrow> 'o) \<Rightarrow> ('o \<Rightarrow> ObjectMeta) \<Rightarrow> 'o \<Rightarrow> ('w, 'o) call" where
  "with_ref r kt meta_update meta x =
     and_then (pure_result (rc_setref r (kt_meta kt) (meta x))) (\<lambda>m. ok (meta_update (\<lambda>_. m) x))"

definition reconcile_workload :: "'w reconciler \<Rightarrow> Decoy \<Rightarrow> Secret \<Rightarrow> Pod list \<Rightarrow> string \<Rightarrow> ('w, unit) call" where
  "reconcile_workload r kt secret joined clusterIP =
     (let secretName = decoySecretName (kt_name kt); configCMName = kt_name kt @ ''-config'' in
      and_then (on_error (wrap_error ''reconciling config configmap'')
          (reconcileConfigMap r kt configCMName joined (sm_get (sec_data secret) ''token'')
             (sm_get (sec_data secret) ''shim.token'') (sm_get (sec_data secret) ''kcm.token''))) (\<lambda>configChecksum.
      and_then
        (case sp_persistence (kt_spec kt) of
           None \<Rightarrow> ok ()
         | Some per \<Rightarrow> on_error (wrap_error ''reconciling data PVC'') (ensureDataPVC r kt per)) (\<lambda>_.
      and_then (with_ref r kt dep_meta_update dep_meta
          (buildDeployment kt secretName configCMName configChecksum (checksum (sm_get (sec_data secret) ''tls.crt'')) clusterIP)) (\<lambda>dep.
      and_then (on_error (wrap_error ''reconciling deployment'') (applyDeployment r dep)) (\<lambda>_.
      and_then (with_ref r kt np_meta_update np_meta (buildNetworkPolicy kt)) (\<lambda>np.
      and_then (on_error (wrap_error ''reconciling network policy'') (applyNetworkPolicy r np)) (\<lambda>_.
        prune_legacy r kt np)))))))"

definition reconcile_live :: "'w reconciler \<Rightarrow> Decoy \<Rightarrow> ('w, unit) call" where
  "reconcile_live r kt =
     (let secretName = decoySecretName (kt_name kt) in
      and_then (with_ref r kt svc_meta_update svc_meta (buildService kt)) (\<lambda>svc.
      and_then (on_error (wrap_error ''reconciling service'') (applyService r svc)) (\<lambda>clusterIP.
      and_then (on_error (wrap_error ''reconciling decoy secret'') (reconcileSecret r kt secretName clusterIP)) (\<lambda>secret.
      and_then (on_error (wrap_error ''listing joined pods'') (listJoinedPods r kt)) (\<lambda>joined.
      and_then (reconcileJoinTransitions r kt (st_joinedPods (kt_status kt)) joined) (\<lambda>_.
      and_then (reconcile_mirrors r kt secret joined) (\<lambda>kt.
      and_then (reconcile_workload r kt secret joined clusterIP) (\<lambda>_.
      let server = ''https://'' @ serviceDNSName (kt_name kt) (kt_ns kt) @ '':'' @ Itoa (servicePort kt) in
      and_then (on_error (wrap_error ''reconciling kubeconfig'') (reconcileKubeconfig r kt secretName secret server)) (\<lambda>_.
        updateStatus r kt secretName server joined)))))))))"

definition reconcile :: "'w reconciler \<Rightarrow> nsname \<Rightarrow> ('w, unit) call" where
  "reconcile r req =
     try_call (kc_get (rc_decoy_client r) req) (\<lambda>g.
       case g of
         Inl e \<Rightarrow> if IsNotFound e then emit r (DeleteDecoy (fst req) (snd req)) else fail e
       | Inr kt \<Rightarrow> if m_deletionTimestamp (kt_meta kt) \<noteq> None then reconcile_deleted r kt else reconcile_live r kt)"

definition Reconcile :: "'w reconciler \<Rightarrow> nsname \<Rightarrow> ('w, unit) call" where
  "Reconcile r req w =
     (case reconcile r req w of
        (Inr u, w') \<Rightarrow> (Inr u, w')
      | (Inl e, w') \<Rightarrow> (Inl e, markFailed r req e (rc_metrics r [AddCounter ReconcileErrors [fst req, snd req] 1] w')))"

text \<open>The watch events that wake the controller.\<close>

definition has_join_annotation :: "Pod option \<Rightarrow> bool" where
  "has_join_annotation obj = (case obj of None \<Rightarrow> False | Some p \<Rightarrow> gm_get (m_annotations (pod_meta p)) joinAnnotation \<noteq> None)"

datatype pod_event = PodCreate "Pod option" | PodDelete "Pod option" | PodUpdate "Pod option" "Pod option" | PodGeneric "Pod option"

fun podJoinAnnotationPredicate :: "pod_event \<Rightarrow> bool" where
  "podJoinAnnotationPredicate (PodCreate p) = has_join_annotation p"
| "podJoinAnnotationPredicate (PodDelete p) = has_join_annotation p"
| "podJoinAnnotationPredicate (PodUpdate old new) = (has_join_annotation old \<or> has_join_annotation new)"
| "podJoinAnnotationPredicate (PodGeneric p) = has_join_annotation p"

text \<open>
  The Pod watch set up by \<^verbatim>\<open>SetupWithManager\<close>: an event the predicate lets through is handed to
  \<^verbatim>\<open>handler.EnqueueRequestsFromMapFunc\<close>, the parameter \<open>enqueue\<close>. What it is documented to do,
  \<open>enqueue_contract\<close>, is to map the objects of the event, both of them for an update.
\<close>

definition pod_watch ::
  "((Pod \<Rightarrow> 'w \<Rightarrow> nsname list \<times> 'w) \<Rightarrow> pod_event \<Rightarrow> 'w \<Rightarrow> nsname list \<times> 'w) \<Rightarrow> 'w reconciler \<Rightarrow> pod_event \<Rightarrow> 'w \<Rightarrow> nsname list \<times> 'w" where
  "pod_watch enqueue r ev w = (if podJoinAnnotationPredicate ev then enqueue (mapJoinedPodToDecoy r) ev w else ([], w))"

fun event_pods :: "pod_event \<Rightarrow> Pod list" where
  "event_pods (PodUpdate old new) = List.map_filter (\<lambda>obj. obj) [old, new]"
| "event_pods (PodCreate p) = List.map_filter (\<lambda>obj. obj) [p]"
| "event_pods (PodDelete p) = List.map_filter (\<lambda>obj. obj) [p]"
| "event_pods (PodGeneric p) = List.map_filter (\<lambda>obj. obj) [p]"

fun map_pods :: "(Pod \<Rightarrow> 'w \<Rightarrow> nsname list \<times> 'w) \<Rightarrow> Pod list \<Rightarrow> 'w \<Rightarrow> nsname list \<times> 'w" where
  "map_pods f [] w = ([], w)"
| "map_pods f (p # ps) w = (case f p w of (ks, w1) \<Rightarrow> case map_pods f ps w1 of (ks', w2) \<Rightarrow> (ks @ ks', w2))"

definition enqueue_contract :: "((Pod \<Rightarrow> 'w \<Rightarrow> nsname list \<times> 'w) \<Rightarrow> pod_event \<Rightarrow> 'w \<Rightarrow> nsname list \<times> 'w) \<Rightarrow> bool" where
  "enqueue_contract enqueue \<longleftrightarrow> (\<forall>f ev w. set (fst (enqueue f ev w)) = set (fst (map_pods f (event_pods ev) w)))"

end
