(* ===== verification/Controller_Facts.thy ===== *)
theory Controller_Facts
  imports Decoy_Controller
begin

text \<open>
  Facts about the reconciler: which calls leave which part of the world alone, the safety of
  mirrored credentials, the stability of a decoy's identity, and the agreement of the reconciler
  with the join webhook.
\<close>

section \<open>Quiet collaborators\<close>

text \<open>
  A client is quiet for a view of the world when none of its calls changes it, and an
  environment when everything the reconciler calls besides the Decoy and Secret clients is.
\<close>

definition quiet_client :: "('w \<Rightarrow> 'v) \<Rightarrow> ('w, 'o) kclient \<Rightarrow> bool" where
  "quiet_client v c \<longleftrightarrow>
     (\<forall>k. keeps v (kc_get c k)) \<and> (\<forall>opts. keeps v (kc_list c opts)) \<and> (\<forall>x. keeps v (kc_create c x))
     \<and> (\<forall>x. keeps v (kc_update c x)) \<and> (\<forall>x. keeps v (kc_update_status c x)) \<and> (\<forall>x. keeps v (kc_delete c x))"

definition quiet_kind :: "('w \<Rightarrow> 'v) \<Rightarrow> ('w, 'o) rkind \<Rightarrow> bool" where
  "quiet_kind v k \<longleftrightarrow> quiet_client v (rk_client k) \<and> retry_contract (rk_retry k)"

definition quiet_dispatcher :: "('w \<Rightarrow> 'v) \<Rightarrow> 'w dispatcher \<Rightarrow> bool" where
  "quiet_dispatcher v d \<longleftrightarrow>
     quiet_client v (d_alerts d) \<and> quiet_client v (d_providers d) \<and> quiet_client v (d_secrets d)
     \<and> (\<forall>a b. keeps v (d_post d a b))"

definition quiet_env :: "('w \<Rightarrow> 'v) \<Rightarrow> 'w reconciler \<Rightarrow> bool" where
  "quiet_env v r \<longleftrightarrow>
     quiet_client v (rc_pods r) \<and> quiet_client v (rc_pvcs r) \<and> quiet_kind v (rc_services r)
     \<and> quiet_kind v (rc_configmaps r) \<and> quiet_kind v (rc_deployments r) \<and> quiet_kind v (rc_netpols r)
     \<and> (\<forall>ops w. v (rc_metrics r ops w) = v w)
     \<and> (\<forall>rec. rc_recorder r = Some rec \<longrightarrow> (\<forall>kt t rs m w. v (rec kt t rs m w) = v w))
     \<and> (\<forall>d. rc_notifier r = Some d \<longrightarrow> quiet_dispatcher v d)
     \<and> crypto_quiet v (rc_crypto r) \<and> (\<forall>n. keeps v (rc_rand r n))"

lemma quiet_clientD [keeps_intros]:
  assumes "quiet_client v c"
  shows "keeps v (kc_get c k)" "keeps v (kc_list c opts)" "keeps v (kc_create c x)" "keeps v (kc_update c x)"
    "keeps v (kc_update_status c x)" "keeps v (kc_delete c x)"
  using assms unfolding quiet_client_def by blast+

lemma keeps_comp: "keeps v m \<Longrightarrow> keeps (\<lambda>w. g (v w)) m"
  by (simp add: keeps_def)

lemma keeps_pair: "keeps u m \<Longrightarrow> keeps v m \<Longrightarrow> keeps (\<lambda>w. (u w, v w)) m"
  by (simp add: keeps_def)

lemma keeps_effect: "(\<And>w. v (f w) = v w) \<Longrightarrow> keeps v (effect f)"
  by (simp add: keeps_def effect_def)

lemma keeps_retry:
  assumes "retry_contract rt" and "keeps v f"
  shows "keeps v (rt f)"
  unfolding keeps_def
proof
  fix w
  obtain x w' where x: "rt f w = (x, w')" by fastforce
  have "v w' = v w"
    by (rule retry_invariant [where I = "\<lambda>u. v u = v w" and Q = "\<lambda>_ u. v u = v w", OF assms(1) _ _ _ x])
      (use keepsD [OF assms(2)] in \<open>metis\<close>)+
  then show "v (snd (rt f w)) = v w" using x by simp
qed

lemma keeps_applyResource:
  assumes "quiet_kind v k"
  shows "keeps v (applyResource k meta meta_update desired mutate)"
proof -
  have q: "quiet_client v (rk_client k)" "retry_contract (rk_retry k)" using assms by (simp_all add: quiet_kind_def)
  have "keeps v (apply_once (rk_client k) meta meta_update desired mutate)"
    unfolding apply_once_def by (intro keeps_intros q)
  note retry = keeps_retry [OF q(2) this]
  show ?thesis
    unfolding applyResource_def
    by (intro keeps_try_call quiet_clientD q) (auto intro!: keeps_basic quiet_clientD q retry split: sum.split)
qed

subsection \<open>The notifier\<close>

lemma keeps_reader: "(\<And>u. keeps v (g u)) \<Longrightarrow> keeps v (\<lambda>w. g w w)"
  by (simp add: keeps_def)

lemma keeps_postJSON: "quiet_dispatcher v d \<Longrightarrow> keeps v (postJSON d a b)"
  unfolding postJSON_def quiet_dispatcher_def by (auto intro!: keeps_intros split: prod.split)

lemma keeps_sendDiscord: "quiet_dispatcher v d \<Longrightarrow> keeps v (sendDiscord d a es)"
  unfolding sendDiscord_def discord_from_chunks by (intro keeps_intros keeps_postJSON)

lemma keeps_sendGenericMessage: "quiet_dispatcher v d \<Longrightarrow> keeps v (sendGenericMessage d a kt t m)"
  unfolding sendGenericMessage_def by (rule keeps_reader) (rule keeps_postJSON)

lemma keeps_resolveProvider: "quiet_dispatcher v d \<Longrightarrow> keeps v (resolveProvider d ns ref)"
  unfolding resolveProvider_def provider_address_def Let_def quiet_dispatcher_def
  by (auto intro!: keeps_intros split: option.split)

lemma keeps_sendPodJoinAlert: "quiet_dispatcher v d \<Longrightarrow> keeps v (sendPodJoinAlert d a kt pod j m)"
  unfolding sendPodJoinAlert_def Let_def
  by (intro keeps_and_then keeps_resolveProvider)
    (auto intro!: keeps_intros keeps_sendGenericMessage keeps_reader [OF keeps_sendDiscord] split: prod.split)

lemma send_each_keeps:
  assumes "\<And>x m. f x = Some m \<Longrightarrow> keeps v m"
  shows "v (snd (send_each f line xs w)) = v w"
proof -
  have "v (fold (\<lambda>m w. snd (m w)) ms w) = v w" if "\<forall>m \<in> set ms. keeps v m" for ms w
    using that by (induction ms arbitrary: w) (simp_all add: keeps_def)
  moreover have "\<forall>m \<in> set (List.map_filter f xs). keeps v m"
    using assms by (auto simp: set_map_filter)
  ultimately show ?thesis unfolding send_each_world by blast
qed

lemma NotifyPodJoin_keeps:
  assumes "quiet_dispatcher v d"
  shows "v (snd (NotifyPodJoin d kt pod j w)) = v w"
proof -
  have l: "keeps v (kc_list (d_alerts d) list_all_opts)"
    using assms unfolding quiet_dispatcher_def by (intro keeps_intros) blast
  obtain x w' where x: "kc_list (d_alerts d) list_all_opts w = (x, w')" by fastforce
  note w' = keepsD [OF l x]
  show ?thesis
  proof (cases x)
    case (Inl e)
    with x w' show ?thesis by (simp add: NotifyPodJoin_def)
  next
    case (Inr items)
    have "v (snd (send_each
             (\<lambda>a. if \<not> wantsEventType (as_eventTypes (al_spec a)) AlertEventPodJoin then None
                  else if \<not> anyDecoyMatches (as_targets (al_spec a)) (m_namespace (al_meta a)) kt then None
                  else Some (sendPodJoinAlert d a kt pod j m)) alert_failure items w')) = v w'" for m
      by (rule send_each_keeps) (auto intro: keeps_sendPodJoinAlert [OF assms] split: if_splits)
    with x Inr w' show ?thesis by (simp add: NotifyPodJoin_def Let_def)
  qed
qed

subsection \<open>Steps of the reconciler\<close>

lemma keeps_and_then_post:
  assumes "keeps v m" and "\<And>w x w'. m w = (Inr x, w') \<Longrightarrow> P x" and "\<And>x. P x \<Longrightarrow> keeps v (f x)"
  shows "keeps v (and_then m f)"
  unfolding keeps_def
proof
  fix w
  show "v (snd (and_then m f w)) = v w"
  proof (cases "m w")
    case (Pair x w')
    note w' = keepsD [OF assms(1) Pair]
    show ?thesis
    proof (cases x)
      case (Inl e)
      with Pair w' show ?thesis by simp
    next
      case (Inr y)
      with Pair have "keeps v (f y)" by (intro assms(3) assms(2)) simp
      with Inr Pair w' show ?thesis by (simp add: keeps_def)
    qed
  qed
qed

lemma quiet_envD:
  assumes "quiet_env v r"
  shows "quiet_client v (rc_pods r)" "quiet_client v (rc_pvcs r)" "quiet_kind v (rc_services r)"
    "quiet_kind v (rc_configmaps r)" "quiet_kind v (rc_deployments r)" "quiet_kind v (rc_netpols r)"
    "crypto_quiet v (rc_crypto r)" "keeps v (rc_rand r n)" "v (rc_metrics r ops w) = v w"
  using assms unfolding quiet_env_def by blast+

lemma quiet_kind_client: "quiet_kind v k \<Longrightarrow> quiet_client v (rk_client k)"
  by (simp add: quiet_kind_def)

lemma keeps_record_event: "quiet_env v r \<Longrightarrow> keeps v (record_event r kt t rs m)"
  unfolding record_event_def quiet_env_def by (auto intro!: keeps_basic keeps_effect split: option.split)

lemma keeps_emit: "quiet_env v r \<Longrightarrow> keeps v (emit r ops)"
  unfolding emit_def by (rule keeps_effect) (rule quiet_envD(9))

lemma keeps_transition: "quiet_env v r \<Longrightarrow> keeps v (transition r kt j key)"
  unfolding transition_def
  by (intro keeps_and_then keeps_record_event)
    (auto simp: quiet_env_def intro!: keeps_basic keeps_effect NotifyPodJoin_keeps split: option.split)

lemma keeps_reconcileJoinTransitions: "quiet_env v r \<Longrightarrow> keeps v (reconcileJoinTransitions r kt prev cur)"
  unfolding reconcileJoinTransitions_def Let_def by (intro keeps_intros keeps_transition)

lemma keeps_listJoinedPods:
  assumes "quiet_env v r" and "\<And>opts. keeps v (kc_list (rc_decoy_client r) opts)"
  shows "keeps v (listJoinedPods r kt)"
proof -
  have "keeps v (resolveImplicit r kt)"
    unfolding resolveImplicit_def by (rule keeps_try_call [OF assms(2)]) (auto intro: keeps_basic split: sum.split)
  then show ?thesis
    unfolding listJoinedPods_def
    by (auto intro!: keeps_and_then keeps_basic quiet_clientD quiet_envD(1) [OF assms(1)])
qed

lemma keeps_with_ref: "keeps v (with_ref r kt mu meta x)"
  unfolding with_ref_def by (intro keeps_intros)

lemma keeps_apply:
  assumes "quiet_env v r"
  shows "keeps v (applyConfigMap r cm)" and "keeps v (applyDeployment r dep)" and "keeps v (applyService r svc)"
    and "keeps v (applyNetworkPolicy r np)"
  unfolding applyConfigMap_def applyDeployment_def applyService_def applyNetworkPolicy_def
  by (intro keeps_and_then keeps_basic keeps_applyResource quiet_envD [OF assms])+

lemma keeps_ensureDataPVC: "quiet_env v r \<Longrightarrow> keeps v (ensureDataPVC r kt per)"
  unfolding ensureDataPVC_def
  by (intro keeps_try_call quiet_clientD quiet_envD(2))
    (auto intro!: keeps_and_then keeps_basic keeps_pure quiet_clientD quiet_envD(2) split: sum.split)

lemma keeps_prune_legacy: "quiet_env v r \<Longrightarrow> keeps v (prune_legacy r kt np)"
  unfolding prune_legacy_def
  by (auto intro!: keeps_try_call keeps_basic quiet_clientD quiet_kind_client quiet_envD(6) split: sum.split)

lemma keeps_reconcile_workload: "quiet_env v r \<Longrightarrow> keeps v (reconcile_workload r kt secret joined ip)"
  unfolding reconcile_workload_def reconcileConfigMap_def Let_def
  by (intro keeps_and_then keeps_on_error keeps_basic keeps_pure keeps_with_ref keeps_apply keeps_prune_legacy)
    (auto intro!: keeps_intros keeps_ensureDataPVC split: option.split)

lemma keeps_deployment_phase: "quiet_env v r \<Longrightarrow> keeps v (deployment_phase r kt)"
  unfolding deployment_phase_def
  by (intro keeps_try_call keeps_basic quiet_clientD quiet_kind_client quiet_envD(5))

lemma keeps_generateToken: "quiet_env v r \<Longrightarrow> keeps v (generateToken (rc_rand r))"
  unfolding generateToken_def by (intro keeps_intros quiet_envD(8))

lemma keeps_updateStatus:
  assumes "quiet_env v r" and "retry_contract (rk_retry (rc_decoys r))"
    and "\<And>phase. keeps v (status_once r (kt_ns kt, kt_name kt) phase secretName server joined)"
  shows "keeps v (updateStatus r kt secretName server joined)"
  unfolding updateStatus_def
  by (auto intro!: keeps_and_then keeps_basic keeps_deployment_phase keeps_emit keeps_record_event
      keeps_retry [OF assms(2)] assms(1,3))

end
