(* ===== verification/Mirror_Safety.thy ===== *)
theory Mirror_Safety
  imports Controller_Facts
begin

text \<open>
  The order in which the reconciler adds the finalizer, creates and deletes mirrored credentials
  Secrets and removes the finalizer: whatever call fails, a mirror in another namespace exists
  only while the Decoy carries the finalizer that will clean it up.
\<close>

section \<open>What the API server and controllerutil promise\<close>

text \<open>
  \<open>fins w k\<close> are the finalizers of the stored Decoy \<open>k\<close>. An update stores the finalizers it is
  given, and removes an object that is being deleted and has none left; a status update never
  touches them.
\<close>

definition finalizer_store :: "('w, Decoy) kclient \<Rightarrow> ('w \<Rightarrow> nsname \<Rightarrow> string list option) \<Rightarrow> bool" where
  "finalizer_store c fins \<longleftrightarrow>
     (\<forall>k w. fins (snd (kc_get c k w)) = fins w
        \<and> (case fst (kc_get c k w) of Inr kt \<Rightarrow> meta_key (kt_meta kt) = k \<and> fins w k = Some (m_finalizers (kt_meta kt)) | Inl e \<Rightarrow> True))
     \<and> (\<forall>opts. keeps fins (kc_list c opts)) \<and> (\<forall>x. keeps fins (kc_update_status c x))
     \<and> (\<forall>x w. case fst (kc_update c x w) of
          Inr y \<Rightarrow> meta_key (kt_meta y) = meta_key (kt_meta x) \<and> m_finalizers (kt_meta y) = m_finalizers (kt_meta x)
            \<and> fins (snd (kc_update c x w)) = (fins w)(meta_key (kt_meta x) :=
                 (if m_deletionTimestamp (kt_meta x) \<noteq> None \<and> m_finalizers (kt_meta x) = [] then None
                  else Some (m_finalizers (kt_meta x))))
        | Inl e \<Rightarrow> fins (snd (kc_update c x w)) = fins w)"

text \<open>
  \<^verbatim>\<open>AddFinalizer\<close>, \<^verbatim>\<open>RemoveFinalizer\<close> and \<^verbatim>\<open>ContainsFinalizer\<close> change nothing but the list of
  finalizers, and report whether they changed it.
\<close>

definition finalizer_lib :: "'w reconciler \<Rightarrow> bool" where
  "finalizer_lib r \<longleftrightarrow>
     (\<forall>f m. rc_contains_finalizer r f m = (f \<in> set (m_finalizers m)))
     \<and> (\<forall>f m. case rc_add_finalizer r f m of (m', changed) \<Rightarrow>
          (if f \<in> set (m_finalizers m) then \<not> changed \<and> m' = m
           else changed \<and> m' = m\<lparr>m_finalizers := m_finalizers m @ [f]\<rparr>))
     \<and> (\<forall>f m. case rc_remove_finalizer r f m of (m', changed) \<Rightarrow>
          (if f \<in> set (m_finalizers m) then changed \<and> m' = m\<lparr>m_finalizers := filter (\<lambda>g. g \<noteq> f) (m_finalizers m)\<rparr>
           else \<not> changed \<and> m' = m))"

text \<open>\<^verbatim>\<open>SetControllerReference\<close> adds an owner reference and leaves the rest of the metadata alone.\<close>

definition setref_lib :: "'w reconciler \<Rightarrow> bool" where
  "setref_lib r \<longleftrightarrow>
     (\<forall>ow m m'. rc_setref r ow m = Inr m' \<longrightarrow> m_namespace m' = m_namespace m \<and> m_name m' = m_name m \<and> m_labels m' = m_labels m)"

definition mirror_world ::
  "'w reconciler \<Rightarrow> ('w \<Rightarrow> nsname \<Rightarrow> Secret option) \<Rightarrow> ('w \<Rightarrow> nsname \<Rightarrow> string list option) \<Rightarrow> bool" where
  "mirror_world r secs fins \<longleftrightarrow>
     object_store (rc_secret_client r) sec_meta same_secret secs \<and> (\<forall>w. keyed_obs sec_meta (secs w))
     \<and> quiet_client fins (rc_secret_client r) \<and> retry_contract (rk_retry (rc_secrets r))
     \<and> finalizer_store (rc_decoy_client r) fins \<and> quiet_client secs (rc_decoy_client r)
     \<and> retry_contract (rk_retry (rc_decoys r)) \<and> retry_contract (rc_retry_failed r)
     \<and> finalizer_lib r \<and> quiet_env (\<lambda>w. (secs w, fins w)) r \<and> setref_lib r"

section \<open>The invariant\<close>

definition is_mirror :: "nsname \<Rightarrow> Secret \<Rightarrow> bool" where
  "is_mirror k s \<longleftrightarrow>
     gm_get (m_labels (sec_meta s)) mirroredSecretLabelDecoyNamespace = Some (fst k)
     \<and> gm_get (m_labels (sec_meta s)) mirroredSecretLabelDecoyName = Some (snd k)"

definition has_mirror :: "nsname \<Rightarrow> (nsname \<Rightarrow> Secret option) \<Rightarrow> bool" where
  "has_mirror k st \<longleftrightarrow> (\<exists>k' s. st k' = Some s \<and> is_mirror k s \<and> fst k' \<noteq> fst k)"

definition mirrors_guarded :: "nsname \<Rightarrow> (nsname \<Rightarrow> Secret option) \<Rightarrow> (nsname \<Rightarrow> string list option) \<Rightarrow> bool" where
  "mirrors_guarded k st fs \<longleftrightarrow> (has_mirror k st \<longrightarrow> (\<exists>l. fs k = Some l \<and> mirroredSecretsFinalizer \<in> set l))"

text \<open>The Secrets of other namespaces, and the finalizers.\<close>

definition outside :: "string \<Rightarrow> (nsname \<Rightarrow> Secret option) \<Rightarrow> nsname \<Rightarrow> Secret option" where
  "outside ns st k = (if fst k = ns then None else st k)"

definition mview :: "('w \<Rightarrow> nsname \<Rightarrow> Secret option) \<Rightarrow> ('w \<Rightarrow> nsname \<Rightarrow> string list option) \<Rightarrow> string \<Rightarrow> 'w
    \<Rightarrow> (nsname \<Rightarrow> Secret option) \<times> (nsname \<Rightarrow> string list option)" where
  "mview secs fins ns w = (outside ns (secs w), fins w)"

lemma has_mirror_outside: "has_mirror k (outside (fst k) st) = has_mirror k st"
  unfolding has_mirror_def outside_def by (metis option.distinct(1))

lemma mirrors_guarded_mview:
  assumes "mview secs fins (fst k) w' = mview secs fins (fst k) w" and "mirrors_guarded k (secs w) (fins w)"
  shows "mirrors_guarded k (secs w') (fins w')"
  using assms has_mirror_outside [of k "secs w"] has_mirror_outside [of k "secs w'"]
  by (simp add: mview_def mirrors_guarded_def)

lemma is_mirror_opts: "opts_match (mirror_opts kt) (sec_meta s) = is_mirror (kt_ns kt, kt_name kt) s"
  by (simp add: opts_match_def mirror_opts_def is_mirror_def)

lemma mirror_worldD:
  assumes "mirror_world r secs fins"
  shows "object_store (rc_secret_client r) sec_meta same_secret secs" "keyed_obs sec_meta (secs w)"
    "quiet_client fins (rc_secret_client r)" "retry_contract (rk_retry (rc_secrets r))"
    "finalizer_store (rc_decoy_client r) fins" "quiet_client secs (rc_decoy_client r)"
    "retry_contract (rk_retry (rc_decoys r))" "retry_contract (rc_retry_failed r)"
    "finalizer_lib r" "quiet_env (\<lambda>w. (secs w, fins w)) r" "setref_lib r"
  using assms unfolding mirror_world_def by blast+

lemma quiet_client_comp: "quiet_client v c \<Longrightarrow> quiet_client (\<lambda>w. g (v w)) c"
  unfolding quiet_client_def by (blast intro: keeps_comp)

lemma crypto_quiet_comp: "crypto_quiet v c \<Longrightarrow> crypto_quiet (\<lambda>w. g (v w)) c"
  unfolding crypto_quiet_def by (blast intro: keeps_comp)

lemma quiet_env_comp: "quiet_env v r \<Longrightarrow> quiet_env (\<lambda>w. g (v w)) r"
  unfolding quiet_env_def quiet_kind_def quiet_dispatcher_def
  by (intro conjI allI impI quiet_client_comp [where g = g and v = v] crypto_quiet_comp [where g = g and v = v]
      keeps_comp [where g = g and v = v] arg_cong [where f = g]) blast+

lemma mview_comp: "mview secs fins ns = (\<lambda>w. case (secs w, fins w) of (s, f) \<Rightarrow> (outside ns s, f))"
  by (rule ext) (simp add: mview_def)

lemma quiet_env_mview: "mirror_world r secs fins \<Longrightarrow> quiet_env (mview secs fins ns) r"
  unfolding mview_comp by (rule quiet_env_comp) (rule mirror_worldD(10))

lemma keeps_mview: "keeps (\<lambda>w. outside ns (secs w)) m \<Longrightarrow> keeps fins m \<Longrightarrow> keeps (mview secs fins ns) m"
  by (simp add: keeps_def mview_def)

lemma keeps_mview': "keeps secs m \<Longrightarrow> keeps fins m \<Longrightarrow> keeps (mview secs fins ns) m"
  by (simp add: keeps_def mview_def)

section \<open>Writes to the decoy's own namespace\<close>

lemma put_own_namespace:
  assumes "put_law put sec_meta same secs" and "m_namespace (sec_meta x) = ns"
  shows "keeps (\<lambda>w. outside ns (secs w)) (put x)"
  unfolding keeps_def
proof
  fix w
  obtain y w' where y: "put x w = (y, w')" by fastforce
  show "outside ns (secs (snd (put x w))) = outside ns (secs w)"
    using put_lawD [OF assms(1), of x w] y assms(2) by (cases y) (auto simp: outside_def fun_eq_iff)
qed

lemma own_secret_writes:
  assumes "mirror_world r secs fins" and "m_namespace (sec_meta x) = ns"
  shows "keeps (mview secs fins ns) (kc_create (rc_secret_client r) x)"
    and "keeps (mview secs fins ns) (kc_update (rc_secret_client r) x)"
proof -
  note st = object_storeD [OF mirror_worldD(1) [OF assms(1)]] and q = quiet_clientD [OF mirror_worldD(3) [OF assms(1)]]
  show "keeps (mview secs fins ns) (kc_create (rc_secret_client r) x)"
    by (rule keeps_mview [OF put_own_namespace [OF st(3) assms(2)] q(3)])
  show "keeps (mview secs fins ns) (kc_update (rc_secret_client r) x)"
    by (rule keeps_mview [OF put_own_namespace [OF st(5) assms(2)] q(4)])
qed

lemma secret_reads:
  assumes "mirror_world r secs fins"
  shows "keeps (mview secs fins ns) (kc_get (rc_secret_client r) k)"
    and "keeps (mview secs fins ns) (kc_list (rc_secret_client r) opts)"
proof -
  note st = object_storeD [OF mirror_worldD(1) [OF assms]] and q = quiet_clientD [OF mirror_worldD(3) [OF assms]]
  show "keeps (mview secs fins ns) (kc_get (rc_secret_client r) k)"
    by (rule keeps_mview' [OF keeps_get [OF st(1)] q(1)])
  show "keeps (mview secs fins ns) (kc_list (rc_secret_client r) opts)"
    by (rule keeps_mview' [OF keeps_list [OF st(2)] q(2)])
qed

lemma secret_get_key:
  assumes "mirror_world r secs fins" and "kc_get (rc_secret_client r) k w = (Inr s, w')"
  shows "m_namespace (sec_meta s) = fst k"
proof -
  have "secs w k = Some s" by (rule get_lawD(2) [OF object_storeD(1) [OF mirror_worldD(1) [OF assms(1)]] assms(2)]) simp
  then have "meta_key (sec_meta s) = k" using mirror_worldD(2) [OF assms(1)] unfolding keyed_obs_def by blast
  then show ?thesis by auto
qed

lemma set_data_meta [simp]: "sec_meta (set_data kvs s) = sec_meta s"
  by (simp add: set_data_def)

lemma keeps_try_post:
  assumes "keeps v m" and "\<And>w x w'. m w = (x, w') \<Longrightarrow> P x" and "\<And>x. P x \<Longrightarrow> keeps v (f x)"
  shows "keeps v (try_call m f)"
  unfolding keeps_def
proof
  fix w
  obtain x w' where x: "m w = (x, w')" by fastforce
  with assms have "keeps v (f x)" "v w' = v w" by (blast, metis keepsD)
  with x show "v (snd (try_call m f w)) = v w" by (simp add: keeps_def)
qed

lemma setref_meta:
  assumes "mirror_world r secs fins" and "rc_setref r o1 m = Inr m'"
  shows "m_namespace m' = m_namespace m \<and> m_name m' = m_name m \<and> m_labels m' = m_labels m"
  using mirror_worldD(11) [OF assms(1)] assms(2) unfolding setref_lib_def by blast

lemma backfill_ns:
  assumes "mirror_world r secs fins" and "backfillKCMToken r s w = (Inr s', w')"
  shows "m_namespace (sec_meta s') = m_namespace (sec_meta s)"
  using assms(2) put_lawD(1) [OF object_storeD(5) [OF mirror_worldD(1) [OF assms(1)]]]
  by (auto simp: backfillKCMToken_def and_then_def on_error_def same_secret_def split: if_splits prod.splits sum.splits)

lemma keeps_reconcileSecret:
  assumes "mirror_world r secs fins"
  shows "keeps (mview secs fins (kt_ns kt)) (reconcileSecret r kt name ip)"
proof -
  let ?v = "mview secs fins (kt_ns kt)"
  note env = quiet_env_mview [OF assms, of "kt_ns kt"]
  note cr = crypto_quiet_keeps [OF quiet_envD(7) [OF env]]
  have re: "keeps ?v (reissueServingCert r kt s ip)" if "m_namespace (sec_meta s) = kt_ns kt" for s
    unfolding reissueServingCert_def Let_def using that
    by (auto intro!: keeps_and_then keeps_on_error keeps_basic cr own_secret_writes [OF assms] split: prod.split)
  have bf: "keeps ?v (backfillKCMToken r s)" if "m_namespace (sec_meta s) = kt_ns kt" for s
    unfolding backfillKCMToken_def using that
    by (auto intro!: keeps_and_then keeps_on_error keeps_basic keeps_generateToken env own_secret_writes [OF assms])
  have cre: "keeps ?v (and_then (pure_result (rc_setref r (kt_meta kt) (new_meta name (kt_ns kt) l)))
      (\<lambda>m. kc_create (rc_secret_client r) \<lparr>sec_meta = m, sec_type = t, sec_data = d\<rparr>))" for l t d
    by (rule keeps_and_then_post [where P = "\<lambda>m. m_namespace m = kt_ns kt", OF keeps_pure(1)])
      (auto simp: pure_result_def dest!: setref_meta [OF assms] intro: own_secret_writes [OF assms])
  have new: "keeps ?v (newSecret r kt name ip)"
    unfolding newSecret_def
    by (intro keeps_and_then keeps_generateToken env cr; clarify; intro keeps_and_then cr; clarify; intro keeps_and_then cr; clarify; rule cre)
  show ?thesis
    unfolding reconcileSecret_def
  proof (rule keeps_try_post [where P = "\<lambda>x. \<forall>s. x = Inr s \<longrightarrow> m_namespace (sec_meta s) = kt_ns kt", OF secret_reads(1) [OF assms]])
    fix w x w' assume "kc_get (rc_secret_client r) (kt_ns kt, name) w = (x, w')"
    then show "\<forall>s. x = Inr s \<longrightarrow> m_namespace (sec_meta s) = kt_ns kt" using secret_get_key [OF assms] by fastforce
  next
    fix x :: "go_error + Secret" assume x: "\<forall>s. x = Inr s \<longrightarrow> m_namespace (sec_meta s) = kt_ns kt"
    show "keeps ?v (case x of
         Inr existing \<Rightarrow>
           and_then (backfillKCMToken r existing) (\<lambda>existing.
             if ip = '''' \<or> certCoversIP (rc_crypto r) (sm_get (sec_data existing) ''tls.crt'') ip
             then ok existing else reissueServingCert r kt existing ip)
       | Inl e \<Rightarrow> if IsNotFound e then newSecret r kt name ip else fail e)"
    proof (cases x)
      case (Inl e)
      then show ?thesis using new by (auto intro: keeps_basic)
    next
      case (Inr s)
      then have s: "m_namespace (sec_meta s) = kt_ns kt" using x by simp
      show ?thesis unfolding Inr sum.case
        by (rule keeps_and_then_post [where P = "\<lambda>s. m_namespace (sec_meta s) = kt_ns kt", OF bf [OF s]])
          (use backfill_ns [OF assms] s in \<open>auto intro!: keeps_basic re\<close>)
    qed
  qed
qed

lemma keeps_reconcileKubeconfig:
  assumes "mirror_world r secs fins"
  shows "keeps (mview secs fins (kt_ns kt)) (reconcileKubeconfig r kt name secret server)"
proof -
  have "keeps (mview secs fins (kt_ns kt)) (kubeconfig_once r kt name kc)" for kc
    unfolding kubeconfig_once_def
    by (rule keeps_and_then_post [where P = "\<lambda>s. m_namespace (sec_meta s) = kt_ns kt", OF secret_reads(1) [OF assms]])
      (auto dest: secret_get_key [OF assms] intro: own_secret_writes [OF assms])
  then show ?thesis
    unfolding reconcileKubeconfig_def Let_def
    by (auto intro!: keeps_and_then keeps_basic keeps_retry [OF mirror_worldD(4) [OF assms]])
qed

section \<open>The Decoy client\<close>

lemma finalizer_storeD:
  assumes "finalizer_store c fins"
  shows "kc_get c k w = (x, w') \<Longrightarrow> fins w' = fins w"
    and "kc_get c k w = (Inr kt, w') \<Longrightarrow> meta_key (kt_meta kt) = k \<and> fins w k = Some (m_finalizers (kt_meta kt))"
    and "keeps fins (kc_list c opts)" and "keeps fins (kc_update_status c kt)"
    and "kc_update c kt w = (Inr y, w') \<Longrightarrow> meta_key (kt_meta y) = meta_key (kt_meta kt) \<and> m_finalizers (kt_meta y) = m_finalizers (kt_meta kt)
      \<and> fins w' = (fins w)(meta_key (kt_meta kt) :=
           (if m_deletionTimestamp (kt_meta kt) \<noteq> None \<and> m_finalizers (kt_meta kt) = [] then None else Some (m_finalizers (kt_meta kt))))"
    and "kc_update c kt w = (Inl e, w') \<Longrightarrow> fins w' = fins w"
proof -
  note d = assms [unfolded finalizer_store_def]
  show "kc_get c k w = (x, w') \<Longrightarrow> fins w' = fins w" using d [THEN conjunct1, rule_format, of k w] by simp
  show "kc_get c k w = (Inr kt, w') \<Longrightarrow> meta_key (kt_meta kt) = k \<and> fins w k = Some (m_finalizers (kt_meta kt))"
    using d [THEN conjunct1, rule_format, of k w] by simp
  show "keeps fins (kc_list c opts)" "keeps fins (kc_update_status c kt)" using d by blast+
  note u = d [THEN conjunct2, THEN conjunct2, THEN conjunct2, rule_format, of kt w]
  show "kc_update c kt w = (Inr y, w') \<Longrightarrow> meta_key (kt_meta y) = meta_key (kt_meta kt) \<and> m_finalizers (kt_meta y) = m_finalizers (kt_meta kt)
      \<and> fins w' = (fins w)(meta_key (kt_meta kt) :=
           (if m_deletionTimestamp (kt_meta kt) \<noteq> None \<and> m_finalizers (kt_meta kt) = [] then None else Some (m_finalizers (kt_meta kt))))"
    "kc_update c kt w = (Inl e, w') \<Longrightarrow> fins w' = fins w"
    using u by simp_all
qed

lemma decoy_reads:
  assumes "mirror_world r secs fins"
  shows "keeps (mview secs fins ns) (kc_get (rc_decoy_client r) k)"
    and "keeps (mview secs fins ns) (kc_list (rc_decoy_client r) opts)"
    and "keeps (mview secs fins ns) (kc_update_status (rc_decoy_client r) kt)"
proof -
  note fs = finalizer_storeD [OF mirror_worldD(5) [OF assms]] and q = quiet_clientD [OF mirror_worldD(6) [OF assms]]
  have "keeps fins (kc_get (rc_decoy_client r) k)" unfolding keeps_def using fs(1) by (metis prod.collapse)
  then show "keeps (mview secs fins ns) (kc_get (rc_decoy_client r) k)" by (rule keeps_mview' [OF q(1)])
  show "keeps (mview secs fins ns) (kc_list (rc_decoy_client r) opts)" by (rule keeps_mview' [OF q(2) fs(3)])
  show "keeps (mview secs fins ns) (kc_update_status (rc_decoy_client r) kt)" by (rule keeps_mview' [OF q(5) fs(4)])
qed

lemma keeps_status_once:
  "mirror_world r secs fins \<Longrightarrow> keeps (mview secs fins ns) (status_once r key phase sn server joined)"
  unfolding status_once_def by (intro keeps_and_then decoy_reads)

lemma markFailed_mview:
  assumes "mirror_world r secs fins"
  shows "mview secs fins ns (markFailed r name e w) = mview secs fins ns w"
proof -
  let ?v = "mview secs fins ns"
  note env = quiet_env_mview [OF assms, of ns]
  have once: "keeps (\<lambda>s. ?v (fst s)) (failed_once r name e)"
    unfolding keeps_def failed_once_def
    using keepsD [OF decoy_reads(1) [OF assms]] keepsD [OF decoy_reads(3) [OF assms]]
    by (auto simp: Let_def quiet_envD(9) [OF env] split: prod.splits sum.splits)
  obtain x s where x: "rc_retry_failed r (failed_once r name e) (w, None, False) = (x, s)" by (meson surj_pair)
  have "?v (fst s) = ?v w"
    using keepsD [OF keeps_retry [OF mirror_worldD(8) [OF assms] once] x] by simp
  moreover have "?v (snd (record_event r kt t rs m u)) = ?v u" for kt t rs m u
    using keeps_record_event [OF env] by (simp add: keeps_def)
  ultimately show ?thesis
    unfolding markFailed_def x by (auto split: prod.splits sum.splits option.splits bool.splits)
qed

section \<open>Creating and deleting mirrors\<close>

definition shrinks :: "(nsname \<Rightarrow> Secret option) \<Rightarrow> (nsname \<Rightarrow> Secret option) \<Rightarrow> bool" where
  "shrinks st' st \<longleftrightarrow> (\<forall>k. st' k = st k \<or> st' k = None)"

lemma shrinks_trans: "shrinks a b \<Longrightarrow> shrinks b c \<Longrightarrow> shrinks a c"
  unfolding shrinks_def by metis

lemma shrinks_None: "shrinks a b \<Longrightarrow> b k = None \<Longrightarrow> a k = None"
  unfolding shrinks_def by metis

lemma shrinks_Some: "shrinks a b \<Longrightarrow> a k = Some s \<Longrightarrow> b k = Some s"
  unfolding shrinks_def by (metis option.distinct(1))

lemma shrinks_refl [simp]: "shrinks a a"
  by (simp add: shrinks_def)

lemma shrinks_has_mirror: "shrinks a b \<Longrightarrow> has_mirror k a \<Longrightarrow> has_mirror k b"
  unfolding has_mirror_def by (blast dest: shrinks_Some)

lemma delete_secret_effect:
  assumes "mirror_world r secs fins" and "delete_secret r what s w = (x, w')"
  shows "fins w' = fins w \<and> shrinks (secs w') (secs w)
    \<and> (x = Inr () \<longrightarrow> secs w' (meta_key (sec_meta s)) = None)"
proof -
  obtain d w1 where d: "kc_delete (rc_secret_client r) s w = (d, w1)" by fastforce
  have w': "w' = w1" and x: "x = Inr () \<longrightarrow> (\<forall>e. d = Inl e \<longrightarrow> IsNotFound e)"
    using assms(2) d by (auto simp: delete_secret_def split: sum.splits if_splits)
  have "fins w1 = fins w" by (rule keepsD [OF quiet_clientD(6) [OF mirror_worldD(3) [OF assms(1)]] d])
  then show ?thesis
    using delete_lawD [OF object_storeD(6) [OF mirror_worldD(1) [OF assms(1)]], of s w] d w' x
    by (cases d) (auto simp: shrinks_def)
qed

lemma delete_all_effect:
  assumes "mirror_world r secs fins" and "each items (delete_secret r what) w = (x, w')"
  shows "fins w' = fins w \<and> shrinks (secs w') (secs w)
    \<and> (x = Inr () \<longrightarrow> (\<forall>s \<in> set items. secs w' (meta_key (sec_meta s)) = None))"
  using assms(2)
proof (induction items arbitrary: w)
  case (Cons s items)
  obtain y w1 where y: "delete_secret r what s w = (y, w1)" by fastforce
  note e1 = delete_secret_effect [OF assms(1) y]
  show ?case
  proof (cases y)
    case (Inl e)
    with Cons.prems y e1 show ?thesis by auto
  next
    case (Inr u)
    with Cons.prems y have "each items (delete_secret r what) w1 = (x, w')" by simp
    from Cons.IH [OF this] e1 Inr show ?thesis by (auto intro: shrinks_trans shrinks_None)
  qed
qed simp

lemma mirrors_removed:
  assumes "mirror_world r secs fins"
    and "kc_list (rc_secret_client r) (mirror_opts kt) w = (Inr items, w1)"
    and "\<forall>s \<in> set items. secs w' (meta_key (sec_meta s)) = None" and "shrinks (secs w') (secs w1)"
  shows "\<not> has_mirror (kt_ns kt, kt_name kt) (secs w')"
proof
  note ll = list_lawD [OF object_storeD(2) [OF mirror_worldD(1) [OF assms(1)]] assms(2)]
  assume "has_mirror (kt_ns kt, kt_name kt) (secs w')"
  then obtain k s where s: "secs w' k = Some s" "is_mirror (kt_ns kt, kt_name kt) s" by (auto simp: has_mirror_def)
  with assms(4) ll(1) have "secs w k = Some s" by (metis shrinks_Some)
  with ll(2) s(2) have "s \<in> set items" by (simp add: is_mirror_opts)
  moreover have "meta_key (sec_meta s) = k"
    using s(1) mirror_worldD(2) [OF assms(1)] unfolding keyed_obs_def by blast
  ultimately show False using assms(3) s(1) by fastforce
qed

lemma deleteMirroredSecrets_effect:
  assumes "mirror_world r secs fins" and "deleteMirroredSecrets r kt w = (x, w')"
  shows "fins w' = fins w \<and> shrinks (secs w') (secs w)
    \<and> (x = Inr () \<longrightarrow> \<not> has_mirror (kt_ns kt, kt_name kt) (secs w'))"
proof -
  obtain l w1 where l: "kc_list (rc_secret_client r) (mirror_opts kt) w = (l, w1)" by fastforce
  have w1: "secs w1 = secs w" "fins w1 = fins w"
    using keepsD [OF keeps_list [OF object_storeD(2) [OF mirror_worldD(1) [OF assms(1)]]] l]
      keepsD [OF quiet_clientD(2) [OF mirror_worldD(3) [OF assms(1)]] l] by simp_all
  show ?thesis
  proof (cases l)
    case (Inl e)
    with assms(2) l w1 show ?thesis by (auto simp: deleteMirroredSecrets_def)
  next
    case (Inr items)
    with assms(2) l have "each items (delete_secret r ''deleting mirrored credentials secret '') w1 = (x, w')"
      by (simp add: deleteMirroredSecrets_def)
    note e = delete_all_effect [OF assms(1) this]
    then show ?thesis using w1 mirrors_removed [OF assms(1) l [unfolded Inr]] by auto
  qed
qed

lemma apply_mirror_fins:
  assumes "mirror_world r secs fins"
  shows "keeps fins (apply_mirror r kt secret ns)"
proof -
  have "quiet_kind fins (rc_secrets r)"
    using mirror_worldD(3,4) [OF assms] by (simp add: quiet_kind_def)
  then show ?thesis
    unfolding apply_mirror_def
    by (intro keeps_try_call keeps_applyResource) (auto intro: keeps_basic split: sum.split)
qed

text \<open>With mirrors wanted nothing but Secrets changes; without, mirrors only disappear.\<close>

lemma reconcileMirroredSecrets_effect:
  assumes "mirror_world r secs fins" and "reconcileMirroredSecrets r kt secret joined w = (x, w')"
  shows "fins w' = fins w
    \<and> (\<not> needsMirroredSecrets (kt_ns kt) joined \<longrightarrow> shrinks (secs w') (secs w)
         \<and> (x = Inr () \<longrightarrow> \<not> has_mirror (kt_ns kt, kt_name kt) (secs w')))"
proof -
  let ?ns = "needed_namespaces kt joined" and ?d = "delete_secret r ''deleting stale mirrored credentials secret ''"
  obtain y w1 where y: "each ?ns (apply_mirror r kt secret) w = (y, w1)" by fastforce
  have f1: "fins w1 = fins w" by (rule keepsD [OF keeps_each [OF apply_mirror_fins [OF assms(1)]] y])
  have none: "?ns = []" if "\<not> needsMirroredSecrets (kt_ns kt) joined"
    using that by (auto simp: needed_namespaces_def needsMirroredSecrets_def filter_empty_conv)
  show ?thesis
  proof (cases y)
    case (Inl e)
    with assms(2) y have "w' = w1" "x = Inl e" by (auto simp: reconcileMirroredSecrets_def)
    with f1 none y Inl show ?thesis by auto
  next
    case (Inr u)
    obtain l w2 where l: "kc_list (rc_secret_client r) (mirror_opts kt) w1 = (l, w2)" by fastforce
    have w2: "secs w2 = secs w1" "fins w2 = fins w1"
      using keepsD [OF keeps_list [OF object_storeD(2) [OF mirror_worldD(1) [OF assms(1)]]] l]
        keepsD [OF quiet_clientD(2) [OF mirror_worldD(3) [OF assms(1)]] l] by simp_all
    have w1: "secs w1 = secs w" if "\<not> needsMirroredSecrets (kt_ns kt) joined" using none [OF that] y by simp
    show ?thesis
    proof (cases l)
      case (Inl e)
      with assms(2) y \<open>y = Inr u\<close> l have "w' = w2" "x \<noteq> Inr ()" by (auto simp: reconcileMirroredSecrets_def)
      with f1 w2 w1 show ?thesis by auto
    next
      case (Inr items)
      with assms(2) y \<open>y = Inr u\<close> l
      have d: "each (filter (\<lambda>s. m_namespace (sec_meta s) \<notin> set ?ns) items) ?d w2 = (x, w')"
        by (simp add: reconcileMirroredSecrets_def)
      note eff = delete_all_effect [OF assms(1) d]
      then show ?thesis using f1 w1 w2 none mirrors_removed [OF assms(1) l [unfolded Inr], of w'] by auto
    qed
  qed
qed

section \<open>The finalizer around the mirrors\<close>

lemma finalizer_libD:
  assumes "finalizer_lib r"
  shows "rc_contains_finalizer r f m = (f \<in> set (m_finalizers m))"
    and "rc_add_finalizer r f m = (if f \<in> set (m_finalizers m) then (m, False) else (m\<lparr>m_finalizers := m_finalizers m @ [f]\<rparr>, True))"
    and "rc_remove_finalizer r f m =
      (if f \<in> set (m_finalizers m) then (m\<lparr>m_finalizers := filter (\<lambda>g. g \<noteq> f) (m_finalizers m)\<rparr>, True) else (m, False))"
proof -
  note d = assms [unfolded finalizer_lib_def]
  show "rc_contains_finalizer r f m = (f \<in> set (m_finalizers m))" using d by blast
  show "rc_add_finalizer r f m = (if f \<in> set (m_finalizers m) then (m, False) else (m\<lparr>m_finalizers := m_finalizers m @ [f]\<rparr>, True))"
    using d [THEN conjunct2, THEN conjunct1, rule_format, of f m] by (cases "rc_add_finalizer r f m") (auto split: if_splits)
  show "rc_remove_finalizer r f m =
      (if f \<in> set (m_finalizers m) then (m\<lparr>m_finalizers := filter (\<lambda>g. g \<noteq> f) (m_finalizers m)\<rparr>, True) else (m, False))"
    using d [THEN conjunct2, THEN conjunct2, rule_format, of f m] by (cases "rc_remove_finalizer r f m") (auto split: if_splits)
qed

lemma setFinalizer_secs:
  assumes "mirror_world r secs fins" and "setMirroredSecretsFinalizer r kt want w = (x, w')"
  shows "secs w' = secs w"
  using assms(2) keepsD [OF quiet_clientD(4) [OF mirror_worldD(6) [OF assms(1)]]]
  by (auto simp: setMirroredSecretsFinalizer_def split: prod.splits if_splits)

lemma addFinalizer_effect:
  assumes "mirror_world r secs fins" and "setMirroredSecretsFinalizer r kt True w = (x, w')"
    and "fins w (meta_key (kt_meta kt)) = Some (m_finalizers (kt_meta kt))" and "m_deletionTimestamp (kt_meta kt) = None"
  shows "case x of
      Inl e \<Rightarrow> fins w' = fins w
    | Inr kt' \<Rightarrow> meta_key (kt_meta kt') = meta_key (kt_meta kt)
        \<and> (\<exists>l. fins w' (meta_key (kt_meta kt)) = Some l \<and> mirroredSecretsFinalizer \<in> set l)"
proof (cases "mirroredSecretsFinalizer \<in> set (m_finalizers (kt_meta kt))")
  case True
  with assms(2,3) show ?thesis
    by (auto simp: setMirroredSecretsFinalizer_def finalizer_libD [OF mirror_worldD(9) [OF assms(1)]])
next
  case False
  let ?kt = "kt\<lparr>kt_meta := (kt_meta kt)\<lparr>m_finalizers := m_finalizers (kt_meta kt) @ [mirroredSecretsFinalizer]\<rparr>\<rparr>"
  have u: "kc_update (rc_decoy_client r) ?kt w = (x, w')"
    using assms(2) False by (simp add: setMirroredSecretsFinalizer_def finalizer_libD [OF mirror_worldD(9) [OF assms(1)]])
  show ?thesis
    using finalizer_storeD(5,6) [OF mirror_worldD(5) [OF assms(1)], of ?kt w] u assms(4) by (cases x) auto
qed

lemma removeFinalizer_key:
  assumes "mirror_world r secs fins" and "setMirroredSecretsFinalizer r kt False w = (Inr kt', w')"
  shows "meta_key (kt_meta kt') = meta_key (kt_meta kt)"
  using assms(2) finalizer_storeD(5) [OF mirror_worldD(5) [OF assms(1)]]
  by (auto simp: setMirroredSecretsFinalizer_def finalizer_libD [OF mirror_worldD(9) [OF assms(1)]] split: if_splits; fastforce)

lemma guarded_no_mirror: "\<not> has_mirror k st \<Longrightarrow> mirrors_guarded k st fs"
  by (simp add: mirrors_guarded_def)

lemma guarded_shrinks: "shrinks st' st \<Longrightarrow> mirrors_guarded k st fs \<Longrightarrow> mirrors_guarded k st' fs"
  using shrinks_has_mirror by (auto simp: mirrors_guarded_def)

lemma on_error_fst: "on_error g m w = (x, w') \<Longrightarrow> \<exists>y. m w = (y, w') \<and> (\<forall>v. x = Inr v \<longleftrightarrow> y = Inr v)"
  by (auto simp: on_error_def split: prod.splits sum.splits)

lemma reconcile_mirrors_guarded:
  assumes mw: "mirror_world r secs fins" and g: "mirrors_guarded (meta_key (kt_meta kt)) (secs w) (fins w)"
    and f: "fins w (meta_key (kt_meta kt)) = Some (m_finalizers (kt_meta kt))" and nd: "m_deletionTimestamp (kt_meta kt) = None"
    and run: "reconcile_mirrors r kt secret joined w = (x, w')"
  shows "mirrors_guarded (meta_key (kt_meta kt)) (secs w') (fins w') \<and> (\<forall>kt'. x = Inr kt' \<longrightarrow> meta_key (kt_meta kt') = meta_key (kt_meta kt))"
proof (cases "needsMirroredSecrets (kt_ns kt) joined")
  case True
  obtain y w1 where y: "setMirroredSecretsFinalizer r kt True w = (y, w1)" by fastforce
  note add = addFinalizer_effect [OF mw y f nd] and s1 = setFinalizer_secs [OF mw y]
  show ?thesis
  proof (cases y)
    case (Inl e)
    with run y True have "w' = w1" "\<forall>kt'. x \<noteq> Inr kt'" by (auto simp: reconcile_mirrors_def Let_def)
    with add Inl s1 g show ?thesis by simp
  next
    case (Inr kt1)
    with add have k1: "meta_key (kt_meta kt1) = meta_key (kt_meta kt)" by simp
    obtain z w2 where z: "reconcileMirroredSecrets r kt1 secret joined w1 = (z, w2)" by fastforce
    have "fins w2 = fins w1" using reconcileMirroredSecrets_effect [OF mw z] by simp
    moreover have "w' = w2" "\<forall>kt'. x = Inr kt' \<longrightarrow> kt' = kt1"
      using run y True Inr z by (cases z; auto simp: reconcile_mirrors_def Let_def)+
    ultimately show ?thesis using add Inr k1 by (auto simp: mirrors_guarded_def)
  qed
next
  case False
  obtain z w1 where z: "reconcileMirroredSecrets r kt secret joined w = (z, w1)" by fastforce
  note eff = reconcileMirroredSecrets_effect [OF mw z]
  show ?thesis
  proof (cases z)
    case (Inl e)
    with run z False have "w' = w1" "\<forall>kt'. x \<noteq> Inr kt'" by (auto simp: reconcile_mirrors_def Let_def)
    with eff False g guarded_shrinks show ?thesis by auto
  next
    case (Inr u)
    with run z False obtain y where y: "setMirroredSecretsFinalizer r kt False w1 = (y, w')" "\<forall>v. x = Inr v \<longleftrightarrow> y = Inr v"
      by (auto simp: reconcile_mirrors_def Let_def dest: on_error_fst)
    from eff False Inr have "\<not> has_mirror (meta_key (kt_meta kt)) (secs w')" using setFinalizer_secs [OF mw y(1)] by simp
    with y removeFinalizer_key [OF mw] show ?thesis by (auto intro: guarded_no_mirror)
  qed
qed

section \<open>A whole reconcile\<close>

text \<open>Stepping over a call that keeps a view: it fails and the run ends there, or it goes on.\<close>

lemma and_then_keepsE:
  assumes "and_then m f w = (x, w')" and "keeps v m"
  obtains (stop) "v w' = v w" and "\<exists>e. x = Inl e"
    | (go) y w1 where "v w1 = v w" and "m w = (Inr y, w1)" and "f y w1 = (x, w')"
proof (cases "m w")
  case (Pair y w1)
  with assms keepsD [OF assms(2) Pair] show thesis
    by (cases y) (auto intro: stop go)
qed

lemma reconcile_suffix_keeps:
  assumes "mirror_world r secs fins" and "kt_ns kt' = ns"
  shows "keeps (mview secs fins ns)
    (and_then (reconcile_workload r kt' secret joined ip) (\<lambda>_.
     and_then (on_error g (reconcileKubeconfig r kt' sn secret server)) (\<lambda>_. updateStatus r kt' sn server joined)))"
proof -
  note env = quiet_env_mview [OF assms(1), of ns]
  have "keeps (mview secs fins ns) (updateStatus r kt' sn server joined)"
    by (rule keeps_updateStatus [OF env mirror_worldD(7) [OF assms(1)]]) (rule keeps_status_once [OF assms(1)])
  then show ?thesis
    using keeps_reconcileKubeconfig [OF assms(1), of kt'] keeps_reconcile_workload [OF env] assms(2)
    by (auto intro!: keeps_and_then keeps_on_error)
qed

text \<open>The calls of \<open>reconcile_live\<close> before the mirrors.\<close>

definition live_prefix :: "'w reconciler \<Rightarrow> Decoy \<Rightarrow> ('w, string \<times> Secret \<times> Pod list) call" where
  "live_prefix r kt =
     and_then (with_ref r kt svc_meta_update svc_meta (buildService kt)) (\<lambda>svc.
     and_then (on_error (wrap_error ''reconciling service'') (applyService r svc)) (\<lambda>clusterIP.
     and_then (on_error (wrap_error ''reconciling decoy secret'') (reconcileSecret r kt (decoySecretName (kt_name kt)) clusterIP)) (\<lambda>secret.
     and_then (on_error (wrap_error ''listing joined pods'') (listJoinedPods r kt)) (\<lambda>joined.
     and_then (reconcileJoinTransitions r kt (st_joinedPods (kt_status kt)) joined) (\<lambda>_. ok (clusterIP, secret, joined))))))"

lemma reconcile_live_split:
  "reconcile_live r kt =
     (let sn = decoySecretName (kt_name kt) in
      and_then (live_prefix r kt) (\<lambda>(clusterIP, secret, joined).
      and_then (reconcile_mirrors r kt secret joined) (\<lambda>kt.
      and_then (reconcile_workload r kt secret joined clusterIP) (\<lambda>_.
      let server = ''https://'' @ serviceDNSName (kt_name kt) (kt_ns kt) @ '':'' @ Itoa (servicePort kt) in
      and_then (on_error (wrap_error ''reconciling kubeconfig'') (reconcileKubeconfig r kt sn secret server)) (\<lambda>_.
        updateStatus r kt sn server joined)))))"
  unfolding reconcile_live_def live_prefix_def Let_def and_then_assoc and_then_ok prod.case ..

lemma live_prefix_keeps:
  assumes "mirror_world r secs fins"
  shows "keeps (mview secs fins (kt_ns kt)) (live_prefix r kt)"
proof -
  note env = quiet_env_mview [OF assms, of "kt_ns kt"]
  show ?thesis
    unfolding live_prefix_def
    by (intro keeps_and_then keeps_on_error keeps_basic keeps_with_ref keeps_apply(3) [OF env]
        keeps_reconcileSecret [OF assms] keeps_listJoinedPods [OF env decoy_reads(2) [OF assms]]
        keeps_reconcileJoinTransitions [OF env])
qed

lemma reconcile_live_guarded:
  assumes mw: "mirror_world r secs fins" and g: "mirrors_guarded (meta_key (kt_meta kt)) (secs w) (fins w)"
    and f: "fins w (meta_key (kt_meta kt)) = Some (m_finalizers (kt_meta kt))" and nd: "m_deletionTimestamp (kt_meta kt) = None"
    and run: "reconcile_live r kt w = (x, w')"
  shows "mirrors_guarded (meta_key (kt_meta kt)) (secs w') (fins w')"
proof -
  let ?v = "mview secs fins (kt_ns kt)" and ?k = "meta_key (kt_meta kt)"
  have same: "mirrors_guarded ?k (secs u) (fins u)" if "?v u = ?v u'" "mirrors_guarded ?k (secs u') (fins u')" for u u'
    using mirrors_guarded_mview [of secs fins ?k u u'] that by simp
  from run [unfolded reconcile_live_split Let_def] live_prefix_keeps [OF mw] show ?thesis
  proof (cases rule: and_then_keepsE)
    case stop
    then show ?thesis using same g by blast
  next
    case (go p w1)
    obtain ip secret joined where p: "p = (ip, secret, joined)" by (cases p)
    have f1: "fins w1 ?k = Some (m_finalizers (kt_meta kt))" using go(1) f by (simp add: mview_def)
    obtain y w2 where y: "reconcile_mirrors r kt secret joined w1 = (y, w2)" by fastforce
    note m = reconcile_mirrors_guarded [OF mw same [OF go(1) g] f1 nd y]
    show ?thesis
    proof (cases y)
      case (Inl e)
      with go(3) y m p show ?thesis by simp
    next
      case (Inr kt')
      with go(3) y p m have "kt_ns kt' = kt_ns kt" "?v w' = ?v w2"
        by (auto dest!: keepsD [OF reconcile_suffix_keeps [OF mw, of kt' "kt_ns kt"], rotated])
      with m same show ?thesis by blast
    qed
  qed
qed

lemma reconcile_deleted_guarded:
  assumes mw: "mirror_world r secs fins" and g: "mirrors_guarded (meta_key (kt_meta kt)) (secs w) (fins w)"
    and run: "reconcile_deleted r kt w = (x, w')" and fin: "mirroredSecretsFinalizer \<in> set (m_finalizers (kt_meta kt))"
  shows "mirrors_guarded (meta_key (kt_meta kt)) (secs w') (fins w')
    \<and> (x = Inr () \<longrightarrow> \<not> has_mirror (meta_key (kt_meta kt)) (secs w'))"
proof -
  obtain y w1 where y: "deleteMirroredSecrets r kt w = (y, w1)" by fastforce
  note eff = deleteMirroredSecrets_effect [OF mw y]
  note run' = run [unfolded reconcile_deleted_def finalizer_libD [OF mirror_worldD(9) [OF mw]]]
  show ?thesis
  proof (cases y)
    case (Inl e)
    with run' y fin have "w' = w1" "x = Inl e" by auto
    with eff g guarded_shrinks show ?thesis by auto
  next
    case (Inr u)
    have "keeps secs (and_then (kc_update (rc_decoy_client r) q) (\<lambda>_. ok ()))" for q
      by (intro keeps_and_then keeps_basic quiet_clientD [OF mirror_worldD(6) [OF mw]])
    with run' y fin Inr have "secs w' = secs w1" by (auto dest: keepsD)
    with eff Inr show ?thesis by (auto intro: guarded_no_mirror)
  qed
qed

lemma reconcile_guarded:
  assumes mw: "mirror_world r secs fins" and g: "mirrors_guarded req (secs w) (fins w)" and run: "reconcile r req w = (x, w')"
  shows "mirrors_guarded req (secs w') (fins w')"
proof -
  obtain y w1 where y: "kc_get (rc_decoy_client r) req w = (y, w1)" by fastforce
  note fs = finalizer_storeD [OF mirror_worldD(5) [OF mw]]
  have w1: "secs w1 = secs w" "fins w1 = fins w"
    using keepsD [OF quiet_clientD(1) [OF mirror_worldD(6) [OF mw]] y] fs(1) [OF y] by simp_all
  show ?thesis
  proof (cases y)
    case (Inl e)
    have "mview secs fins (fst req) w' = mview secs fins (fst req) w1"
      using run y Inl keepsD [OF keeps_emit [OF quiet_env_mview [OF mw]]] by (auto simp: reconcile_def split: if_splits)
    with mirrors_guarded_mview g w1 show ?thesis by metis
  next
    case (Inr kt)
    with fs(2) y have k: "meta_key (kt_meta kt) = req" "fins w req = Some (m_finalizers (kt_meta kt))" by blast+
    show ?thesis
    proof (cases "m_deletionTimestamp (kt_meta kt) = None")
      case True
      with run y Inr have "reconcile_live r kt w1 = (x, w')" by (simp add: reconcile_def)
      with reconcile_live_guarded [OF mw, of kt w1] True k g w1 show ?thesis by simp
    next
      case False
      with run y Inr have d: "reconcile_deleted r kt w1 = (x, w')" by (simp add: reconcile_def)
      show ?thesis
      proof (cases "mirroredSecretsFinalizer \<in> set (m_finalizers (kt_meta kt))")
        case True
        with reconcile_deleted_guarded [OF mw, of kt w1] d k g w1 show ?thesis by simp
      next
        case False
        with d g w1 show ?thesis by (simp add: reconcile_deleted_def finalizer_libD [OF mirror_worldD(9) [OF mw]])
      qed
    qed
  qed
qed

section \<open>A cluster in memory\<close>

text \<open>
  A world for concrete runs: the objects of every kind as lists. The Decoy client removes an
  object that is being deleted once it has no finalizers, and a status update writes the status
  only.
\<close>

record exw =
  xw_decoys :: "Decoy list"
  xw_secrets :: "Secret list"
  xw_pods :: "Pod list"
  xw_services :: "Service list"
  xw_configmaps :: "ConfigMap list"
  xw_deployments :: "Deployment list"
  xw_netpols :: "NetworkPolicy list"
  xw_pvcs :: "PersistentVolumeClaim list"

abbreviation ex_decoy_base :: "(exw, Decoy) kclient" where
  "ex_decoy_base \<equiv> mem_client kt_meta xw_decoys xw_decoys_update"

definition ex_decoy_update :: "Decoy \<Rightarrow> (exw, Decoy) call" where
  "ex_decoy_update x w =
     (if list_obs kt_meta (xw_decoys w) (meta_key (kt_meta x)) = None then (Inl not_found, w)
      else if m_deletionTimestamp (kt_meta x) \<noteq> None \<and> m_finalizers (kt_meta x) = []
      then (Inr x, xw_decoys_update (filter (\<lambda>y. meta_key (kt_meta y) \<noteq> meta_key (kt_meta x))) w)
      else (Inr x, xw_decoys_update (map (\<lambda>y. if meta_key (kt_meta y) = meta_key (kt_meta x) then x else y)) w))"

definition ex_decoy_status :: "Decoy \<Rightarrow> (exw, Decoy) call" where
  "ex_decoy_status x w =
     (case list_obs kt_meta (xw_decoys w) (meta_key (kt_meta x)) of
        None \<Rightarrow> (Inl not_found, w)
      | Some old \<Rightarrow>
          (Inr x, xw_decoys_update (map (\<lambda>y. if meta_key (kt_meta y) = meta_key (kt_meta x) then y\<lparr>kt_status := kt_status x\<rparr> else y)) w))"

definition ex_decoy_client :: "(exw, Decoy) kclient" where
  "ex_decoy_client = ex_decoy_base\<lparr>kc_update := ex_decoy_update, kc_update_status := ex_decoy_status\<rparr>"

abbreviation ex_kind :: "('w, 'o) kclient \<Rightarrow> ('w, 'o) rkind" where
  "ex_kind c \<equiv> \<lparr>rk_client = c, rk_retry = retry_times 4\<rparr>"

definition ex_reconciler :: "exw reconciler" where
  "ex_reconciler =
     \<lparr>rc_decoys = ex_kind ex_decoy_client, rc_pods = mem_client pod_meta xw_pods xw_pods_update,
      rc_secrets = ex_kind (mem_client sec_meta xw_secrets xw_secrets_update),
      rc_services = ex_kind (mem_client svc_meta xw_services xw_services_update),
      rc_configmaps = ex_kind (mem_client cm_meta xw_configmaps xw_configmaps_update),
      rc_deployments = ex_kind (mem_client dep_meta xw_deployments xw_deployments_update),
      rc_netpols = ex_kind (mem_client np_meta xw_netpols xw_netpols_update),
      rc_pvcs = mem_client pvc_meta xw_pvcs xw_pvcs_update,
      rc_retry_failed = retry_times 4,
      rc_setref = (\<lambda>ow m. Inr (m\<lparr>m_ownerRefs := [\<lparr>or_apiVersion = ''honeypod.io/v1alpha1'', or_kind = ''Decoy'',
         or_name = m_name ow, or_uid = m_uid ow, or_controller = Some True, or_blockOwnerDeletion = Some True\<rparr>]\<rparr>)),
      rc_controlled_by = (\<lambda>m ow. \<exists>o' \<in> set (m_ownerRefs m). or_uid o' = m_uid ow),
      rc_setcond = (\<lambda>cs c. c # filter (\<lambda>d. cond_type d \<noteq> cond_type c) cs),
      rc_add_finalizer = (\<lambda>f m. if f \<in> set (m_finalizers m) then (m, False) else (m\<lparr>m_finalizers := m_finalizers m @ [f]\<rparr>, True)),
      rc_remove_finalizer = (\<lambda>f m. if f \<in> set (m_finalizers m) then (m\<lparr>m_finalizers := filter (\<lambda>g. g \<noteq> f) (m_finalizers m)\<rparr>, True) else (m, False)),
      rc_contains_finalizer = (\<lambda>f m. f \<in> set (m_finalizers m)),
      rc_quantity_zero = (\<lambda>q. q = '''' \<or> q = ''0''),
      rc_metrics = (\<lambda>ops w. w), rc_recorder = None, rc_notifier = None, rc_crypto = ex_crypto,
      rc_rand = (\<lambda>n. ok (replicate n CHR ''r'')), rc_marshal = (\<lambda>v. ''{}''), rc_yaml = (\<lambda>v. ''yaml''), rc_managerURL = ''''\<rparr>"

abbreviation ex_secs :: "exw \<Rightarrow> nsname \<Rightarrow> Secret option" where
  "ex_secs w \<equiv> list_obs sec_meta (xw_secrets w)"

definition ex_fins :: "exw \<Rightarrow> nsname \<Rightarrow> string list option" where
  "ex_fins w k = map_option (\<lambda>kt. m_finalizers (kt_meta kt)) (list_obs kt_meta (xw_decoys w) k)"

lemma mem_quiet:
  assumes "\<And>f w. v (upd f w) = v w"
  shows "quiet_client v (mem_client meta sel upd)"
  using assms by (auto simp: quiet_client_def keeps_def mem_client_def mem_put_def split: option.split)

lemma list_obs_status:
  "list_obs kt_meta (map (\<lambda>y. if meta_key (kt_meta y) = k then y\<lparr>kt_status := s\<rparr> else y) xs) k'
     = map_option (\<lambda>y. if k' = k then y\<lparr>kt_status := s\<rparr> else y) (list_obs kt_meta xs k')"
  by (induction xs) (auto simp: list_obs_def)

lemma ex_finalizer_store: "finalizer_store ex_decoy_client ex_fins"
  unfolding finalizer_store_def
proof (intro conjI allI)
  show "ex_fins (snd (kc_get ex_decoy_client k w)) = ex_fins w" for k w
    by (simp add: ex_decoy_client_def mem_client_def)
  show "case fst (kc_get ex_decoy_client k w) of Inr kt \<Rightarrow> meta_key (kt_meta kt) = k \<and> ex_fins w k = Some (m_finalizers (kt_meta kt)) | Inl e \<Rightarrow> True" for k w
    by (auto simp: ex_decoy_client_def mem_client_def ex_fins_def dest: list_obs_mem split: option.split)
  show "keeps ex_fins (kc_list ex_decoy_client opts)" for opts
    by (simp add: keeps_def ex_decoy_client_def mem_client_def)
  show "keeps ex_fins (kc_update_status ex_decoy_client x)" for x
    by (auto simp: keeps_def ex_decoy_client_def ex_decoy_status_def ex_fins_def fun_eq_iff option.map_comp comp_def
        list_obs_status [where k = "meta_key (kt_meta x)", simplified] intro!: option.map_cong split: option.split)
  show "case fst (kc_update ex_decoy_client x w) of
          Inr y \<Rightarrow> meta_key (kt_meta y) = meta_key (kt_meta x) \<and> m_finalizers (kt_meta y) = m_finalizers (kt_meta x)
            \<and> ex_fins (snd (kc_update ex_decoy_client x w)) = (ex_fins w)(meta_key (kt_meta x) :=
                 (if m_deletionTimestamp (kt_meta x) \<noteq> None \<and> m_finalizers (kt_meta x) = [] then None
                  else Some (m_finalizers (kt_meta x))))
        | Inl e \<Rightarrow> ex_fins (snd (kc_update ex_decoy_client x w)) = ex_fins w" for x w
    by (auto simp: ex_decoy_client_def ex_decoy_update_def ex_fins_def [abs_def] list_obs_replace [simplified] list_obs_filter [simplified] fun_eq_iff)
qed

lemma ex_sel:
  "rc_decoys ex_reconciler = ex_kind ex_decoy_client"
  "rc_secrets ex_reconciler = ex_kind (mem_client sec_meta xw_secrets xw_secrets_update)"
  "rc_retry_failed ex_reconciler = retry_times 4"
  by (simp_all add: ex_reconciler_def)

lemma ex_mirror_world: "mirror_world ex_reconciler ex_secs ex_fins"
proof -
  have s: "object_store (mem_client sec_meta xw_secrets xw_secrets_update) sec_meta same_secret ex_secs"
    by (rule mem_object_store) (simp_all add: same_secret_def)
  have qs: "quiet_client ex_fins (mem_client sec_meta xw_secrets xw_secrets_update)"
    by (rule mem_quiet) (simp add: ex_fins_def fun_eq_iff)
  have qd: "quiet_client ex_secs ex_decoy_client"
    by (auto simp: quiet_client_def keeps_def ex_decoy_client_def mem_client_def ex_decoy_update_def ex_decoy_status_def split: option.split)
  have lib: "finalizer_lib ex_reconciler" "setref_lib ex_reconciler"
    by (simp_all add: finalizer_lib_def setref_lib_def ex_reconciler_def)
  have env: "quiet_env (\<lambda>w. (ex_secs w, ex_fins w)) ex_reconciler"
    unfolding quiet_env_def quiet_kind_def
    by (simp add: ex_reconciler_def retry_times_contract keeps_def ex_crypto_quiet del: retry_times.simps)
      (intro conjI; rule mem_quiet; simp add: ex_fins_def fun_eq_iff)
  show ?thesis
    unfolding mirror_world_def ex_sel rkind.simps
    by (intro conjI allI s qs qd lib env ex_finalizer_store list_obs_keyed retry_times_contract)
qed

definition ex_world :: "Decoy \<Rightarrow> Secret list \<Rightarrow> Pod list \<Rightarrow> exw" where
  "ex_world kt secrets pods =
     \<lparr>xw_decoys = [kt], xw_secrets = secrets, xw_pods = pods, xw_services = [], xw_configmaps = [],
      xw_deployments = [], xw_netpols = [], xw_pvcs = []\<rparr>"

section \<open>Properties\<close>




definition ex_dying :: Decoy where
  "ex_dying = ex_decoy\<lparr>kt_meta := (kt_meta ex_decoy)\<lparr>m_deletionTimestamp := Some 1, m_finalizers := [mirroredSecretsFinalizer]\<rparr>\<rparr>"


end
