(* ===== verification/Activity_Tracker.thy ===== *)
theory Activity_Tracker
  imports Api_Types Metrics
begin

text \<open>
  \<^verbatim>\<open>src/internal/activity/tracker.go\<close>: counting attacker requests in memory and adding the
  counts to the Decoys' status. \<open>Record\<close> runs on the audit path while a flush is writing
  without the lock, so besides the sequential \<open>flush\<close> there is a step relation in which
  calls of \<open>Record\<close> fall anywhere between the steps of a flush.
\<close>

section \<open>Counters\<close>

record counter =
  cn_firstSeen :: int
  cn_lastSeen :: int
  cn_count :: int64
  cn_flushed :: int64
  cn_lastSourceIP :: string
  cn_dirty :: bool

type_synonym counters = "(nsname, counter) gomap"

definition new_counter :: "int \<Rightarrow> counter" where
  "new_counter when =
     \<lparr>cn_firstSeen = when, cn_lastSeen = 0, cn_count = 0, cn_flushed = 0, cn_lastSourceIP = '''', cn_dirty = False\<rparr>"

definition bump :: "string \<Rightarrow> int \<Rightarrow> counter \<Rightarrow> counter" where
  "bump sourceIP when c =
     c\<lparr>cn_firstSeen := (if cn_firstSeen c = 0 then when else cn_firstSeen c),
       cn_lastSeen := (if when > cn_lastSeen c then when else cn_lastSeen c),
       cn_count := cn_count c + 1,
       cn_lastSourceIP := (if sourceIP \<noteq> '''' then sourceIP else cn_lastSourceIP c),
       cn_dirty := True\<rparr>"

definition Record :: "string \<Rightarrow> string \<Rightarrow> string \<Rightarrow> int \<Rightarrow> counters \<Rightarrow> counters \<times> metric_op list" where
  "Record namespace name sourceIP when t =
     (let key = (namespace, name);
          c = (case gm_get t key of None \<Rightarrow> new_counter when | Some c \<Rightarrow> c) in
      (gm_set key (bump sourceIP when c) t, [AddCounter AttackerRequests [namespace, name] 1]))"

section \<open>Writing the status\<close>

definition next_activity :: "counter \<Rightarrow> IntrusionActivity option \<Rightarrow> IntrusionActivity" where
  "next_activity c prev =
     (let delta = cn_count c - cn_flushed c in
      \<lparr>ia_firstSeen =
         (case prev of
            None \<Rightarrow> Some (cn_firstSeen c)
          | Some p \<Rightarrow> (case ia_firstSeen p of None \<Rightarrow> Some (cn_firstSeen c) | Some f \<Rightarrow> Some f)),
       ia_lastSeen = Some (cn_lastSeen c),
       ia_requestCount = (case prev of None \<Rightarrow> delta | Some p \<Rightarrow> delta + ia_requestCount p),
       ia_lastSourceIP = cn_lastSourceIP c\<rparr>)"

definition write_once :: "('w, Decoy) kclient \<Rightarrow> nsname \<Rightarrow> counter \<Rightarrow> ('w, unit) call" where
  "write_once client key c =
     and_then (kc_get client key) (\<lambda>kt.
       and_then (kc_update_status client
           (kt\<lparr>kt_status := (kt_status kt)
              \<lparr>st_intrusionActivity := Some (next_activity c (st_intrusionActivity (kt_status kt)))\<rparr>\<rparr>))
         (\<lambda>_. ok ()))"

definition writeStatus ::
  "('w, Decoy) kclient \<Rightarrow> ('w, unit) retry \<Rightarrow> nsname \<Rightarrow> counter \<Rightarrow> ('w, unit) call" where
  "writeStatus client RetryOnConflict key c = RetryOnConflict (write_once client key c)"

section \<open>Flushing\<close>

type_synonym pending = "nsname \<times> counter"

definition snapshot :: "counters \<Rightarrow> pending list \<times> counters" where
  "snapshot t = (filter (\<lambda>(k, c). cn_dirty c) t, map (\<lambda>(k, c). (k, c\<lparr>cn_dirty := False\<rparr>)) t)"

text \<open>What a flush does with the result of one write, under the lock again.\<close>

definition settle :: "pending \<Rightarrow> go_error + unit \<Rightarrow> counters \<Rightarrow> counters \<times> metric_op list" where
  "settle p r t =
     (case r of
        Inr _ \<Rightarrow>
          ((case gm_get t (fst p) of None \<Rightarrow> t | Some cur \<Rightarrow> gm_set (fst p) (cur\<lparr>cn_flushed := cn_count (snd p)\<rparr>) t), [])
      | Inl e \<Rightarrow>
          if IsNotFound e then (gm_del (fst p) t, [])
          else
            ((case gm_get t (fst p) of None \<Rightarrow> t | Some cur \<Rightarrow> gm_set (fst p) (cur\<lparr>cn_dirty := True\<rparr>) t),
             [AddCounter ActivityFlushErrors [] 1]))"

fun flush_todo ::
  "('w, Decoy) kclient \<Rightarrow> ('w, unit) retry \<Rightarrow> pending list \<Rightarrow> counters \<times> 'w \<Rightarrow> (counters \<times> metric_op list) \<times> 'w" where
  "flush_todo client RetryOnConflict [] (t, w) = ((t, []), w)"
| "flush_todo client RetryOnConflict (p # ps) (t, w) =
     (case writeStatus client RetryOnConflict (fst p) (snd p) w of
        (r, w') \<Rightarrow>
          (case settle p r t of
             (t', ops) \<Rightarrow>
               (case flush_todo client RetryOnConflict ps (t', w') of
                  ((t'', ops'), w'') \<Rightarrow> ((t'', ops @ ops'), w''))))"

definition flush ::
  "('w, Decoy) kclient \<Rightarrow> ('w, unit) retry \<Rightarrow> counters \<times> 'w \<Rightarrow> (counters \<times> metric_op list) \<times> 'w" where
  "flush client RetryOnConflict = (\<lambda>(t, w).
     (case snapshot t of (todo, t') \<Rightarrow> flush_todo client RetryOnConflict todo (t', w)))"

text \<open>
  \<^verbatim>\<open>Run\<close>: the loop flushes on every tick, flushes once more when the context is done, and
  ends. Between the events it waits for, the rest of the program changes counters and world.
\<close>

datatype run_event = Tick | Done

text \<open>
  \<open>meanwhile\<close> is what happens to the counters and the world while the loop waits for the
  given event; ticks the loop never gets to after \<open>Done\<close> are ignored.
\<close>

fun Run ::
  "('w, Decoy) kclient \<Rightarrow> ('w, unit) retry \<Rightarrow> (run_event \<times> (counters \<times> 'w \<Rightarrow> counters \<times> 'w)) list
     \<Rightarrow> counters \<times> 'w \<Rightarrow> counters \<times> 'w" where
  "Run client retry [] s = s"
| "Run client retry ((ev, meanwhile) # evs) s =
     (case flush client retry (meanwhile s) of
        ((t, _), w) \<Rightarrow> (case ev of Done \<Rightarrow> (t, w) | Tick \<Rightarrow> Run client retry evs (t, w)))"

section \<open>Flushing while requests arrive\<close>

record 'w tracker_state =
  ts_counters :: counters
  ts_todo :: "pending list"
  ts_inflight :: "(pending \<times> (go_error + unit)) option"
  ts_ops :: "metric_op list"
  ts_world :: 'w

inductive tracker_step ::
  "('w, Decoy) kclient \<Rightarrow> ('w, unit) retry \<Rightarrow> ('w \<Rightarrow> 'w \<Rightarrow> bool) \<Rightarrow> 'w tracker_state \<Rightarrow> 'w tracker_state \<Rightarrow> bool"
  for client retry others where
  arrive: "Record ns name ip when (ts_counters s) = (t, ops) \<Longrightarrow>
     tracker_step client retry others s (s\<lparr>ts_counters := t, ts_ops := ts_ops s @ ops\<rparr>)"
| take_snapshot: "ts_todo s = [] \<Longrightarrow> ts_inflight s = None \<Longrightarrow> snapshot (ts_counters s) = (todo, t) \<Longrightarrow>
     tracker_step client retry others s (s\<lparr>ts_counters := t, ts_todo := todo\<rparr>)"
| write_one: "ts_inflight s = None \<Longrightarrow> ts_todo s = p # ps \<Longrightarrow>
     writeStatus client retry (fst p) (snd p) (ts_world s) = (r, w) \<Longrightarrow>
     tracker_step client retry others s (s\<lparr>ts_todo := ps, ts_inflight := Some (p, r), ts_world := w\<rparr>)"
| settle_one: "ts_inflight s = Some (p, r) \<Longrightarrow> settle p r (ts_counters s) = (t, ops) \<Longrightarrow>
     tracker_step client retry others s (s\<lparr>ts_counters := t, ts_inflight := None, ts_ops := ts_ops s @ ops\<rparr>)"
| elsewhere: "others (ts_world s) w \<Longrightarrow>
     tracker_step client retry others s (s\<lparr>ts_world := w\<rparr>)"

inductive_cases tracker_stepE: "tracker_step client retry others s s'"

definition initial_tracker :: "'w \<Rightarrow> 'w tracker_state" where
  "initial_tracker w = \<lparr>ts_counters = [], ts_todo = [], ts_inflight = None, ts_ops = [], ts_world = w\<rparr>"

section \<open>What the API server promises\<close>

definition status_count :: "Decoy \<Rightarrow> int64" where
  "status_count kt = (case st_intrusionActivity (kt_status kt) of None \<Rightarrow> 0 | Some a \<Rightarrow> ia_requestCount a)"

text \<open>
  \<open>obs\<close> reads the persisted request count of every Decoy. A read returns the stored object, a
  status write that succeeds stores the object, and a call that reports an error has changed
  no count.
\<close>

definition status_store :: "('w, Decoy) kclient \<Rightarrow> ('w \<Rightarrow> nsname \<Rightarrow> int64) \<Rightarrow> bool" where
  "status_store client obs \<longleftrightarrow>
     (\<forall>k w r w'. kc_get client k w = (r, w') \<longrightarrow> obs w' = obs w)
     \<and> (\<forall>k w kt w'. kc_get client k w = (Inr kt, w') \<longrightarrow> meta_key (kt_meta kt) = k \<and> status_count kt = obs w k)
     \<and> (\<forall>kt w x w'. kc_update_status client kt w = (Inr x, w') \<longrightarrow>
          obs w' = (obs w)(meta_key (kt_meta kt) := status_count kt))
     \<and> (\<forall>kt w e w'. kc_update_status client kt w = (Inl e, w') \<longrightarrow> obs w' = obs w)"

text \<open>The Decoy \<open>k\<close> is not deleted: no call for it ever answers \<^verbatim>\<open>NotFound\<close>.\<close>

definition decoy_stays :: "('w, Decoy) kclient \<Rightarrow> nsname \<Rightarrow> bool" where
  "decoy_stays client k \<longleftrightarrow>
     (\<forall>w e w'. kc_get client k w = (Inl e, w') \<longrightarrow> \<not> IsNotFound e)
     \<and> (\<forall>kt w e w'. meta_key (kt_meta kt) = k \<longrightarrow> kc_update_status client kt w = (Inl e, w') \<longrightarrow> \<not> IsNotFound e)"

section \<open>The counting interface\<close>

text \<open>Requests counted for a decoy and not yet known to be in its status.\<close>

definition outstanding :: "counters \<Rightarrow> nsname \<Rightarrow> int64" where
  "outstanding t k = (case gm_get t k of None \<Rightarrow> 0 | Some c \<Rightarrow> cn_count c - cn_flushed c)"

locale request_ledger =
  fixes note_one :: "'k \<Rightarrow> 'x \<Rightarrow> 's \<Rightarrow> 's"
    and owed :: "'s \<Rightarrow> 'k \<Rightarrow> int64"
  assumes owed_note: "owed (note_one k x s) k' = owed s k' + (if k' = k then 1 else 0)"
begin

lemma owed_notes:
  "owed (fold (\<lambda>(k, x). note_one k x) kxs s) k' = owed s k' + of_nat (length (filter (\<lambda>(k, x). k = k') kxs))"
proof (induction kxs arbitrary: s)
  case (Cons kx kxs)
  then show ?case by (cases kx) (simp add: owed_note)
qed simp

text \<open>A batch for one decoy adds its length to that decoy and nothing to others.\<close>

lemma owed_batch:
  "owed (fold (note_one k) xs s) k' = owed s k' + (if k' = k then of_nat (length xs) else 0)"
  by (induction xs arbitrary: s) (simp_all add: owed_note)

end

interpretation tracker: request_ledger
  "\<lambda>k x t. fst (Record (fst k) (snd k) (fst x) (snd x) t)" outstanding
  by unfold_locales
    (auto simp: Record_def Let_def outstanding_def gm.get_set bump_def new_counter_def split: option.splits)

section \<open>Facts about single operations\<close>

declare split_paired_All [simp del] split_paired_Ex [simp del]

lemma status_storeD:
  assumes "status_store client obs"
  shows "kc_get client k w = (r, w') \<Longrightarrow> obs w' = obs w"
    and "kc_get client k w = (Inr kt, w') \<Longrightarrow> meta_key (kt_meta kt) = k \<and> status_count kt = obs w k"
    and "kc_update_status client kt w = (Inr x, w') \<Longrightarrow> obs w' = (obs w)(meta_key (kt_meta kt) := status_count kt)"
    and "kc_update_status client kt w = (Inl e, w') \<Longrightarrow> obs w' = obs w"
  using assms unfolding status_store_def by blast+

lemma decoy_staysD:
  assumes "decoy_stays client k"
  shows "kc_get client k w = (Inl e, w') \<Longrightarrow> \<not> IsNotFound e"
    and "meta_key (kt_meta kt) = k \<Longrightarrow> kc_update_status client kt w = (Inl e, w') \<Longrightarrow> \<not> IsNotFound e"
  using assms unfolding decoy_stays_def by blast+

lemma next_activity_count:
  "ia_requestCount (next_activity c prev) =
     (case prev of None \<Rightarrow> 0 | Some p \<Rightarrow> ia_requestCount p) + (cn_count c - cn_flushed c)"
  by (simp add: next_activity_def Let_def split: option.splits)

lemma write_once_count:
  assumes store: "status_store client obs" and w: "write_once client k c w = (r, w')"
  shows "obs w' = (case r of Inr _ \<Rightarrow> (obs w)(k := obs w k + (cn_count c - cn_flushed c)) | Inl _ \<Rightarrow> obs w)"
proof -
  obtain r1 w1 where g: "kc_get client k w = (r1, w1)" by fastforce
  have o1: "obs w1 = obs w" by (rule status_storeD(1) [OF store g])
  show ?thesis
  proof (cases r1)
    case (Inl e)
    with g w o1 show ?thesis by (auto simp: write_once_def)
  next
    case (Inr kt)
    define kt' where "kt' = kt\<lparr>kt_status := (kt_status kt)
              \<lparr>st_intrusionActivity := Some (next_activity c (st_intrusionActivity (kt_status kt)))\<rparr>\<rparr>"
    have k: "meta_key (kt_meta kt) = k" "status_count kt = obs w k"
      using status_storeD(2) [OF store] g Inr by blast+
    have k': "meta_key (kt_meta kt') = k" "status_count kt' = obs w k + (cn_count c - cn_flushed c)"
      using k by (simp_all add: kt'_def status_count_def next_activity_count)
    obtain r2 w2 where u: "kc_update_status client kt' w1 = (r2, w2)" by fastforce
    have "obs w2 = (case r2 of Inr _ \<Rightarrow> (obs w1)(meta_key (kt_meta kt') := status_count kt') | Inl _ \<Rightarrow> obs w1)"
      using status_storeD(3,4) [OF store] u by (cases r2) auto
    with w g Inr u o1 k' show ?thesis
      by (cases r2) (auto simp: write_once_def kt'_def)
  qed
qed

lemma writeStatus_count:
  assumes "retry_contract retry" and store: "status_store client obs"
    and w: "writeStatus client retry k c w = (r, w')"
  shows "obs w' = (case r of Inr _ \<Rightarrow> (obs w)(k := obs w k + (cn_count c - cn_flushed c)) | Inl _ \<Rightarrow> obs w)"
proof (rule retry_invariant [OF assms(1), where I = "\<lambda>v. obs v = obs w" and f = "write_once client k c"
      and Q = "\<lambda>r v'. obs v' = (case r of Inr _ \<Rightarrow> (obs w)(k := obs w k + (cn_count c - cn_flushed c)) | Inl _ \<Rightarrow> obs w)"])
  fix v e v' assume "obs v = obs w" "write_once client k c v = (Inl e, v')"
  then show "obs v' = obs w" using write_once_count [OF store, of k c v "Inl e" v'] by simp
next
  fix v r v' assume "obs v = obs w" "write_once client k c v = (r, v')"
  then show "obs v' = (case r of Inr _ \<Rightarrow> (obs w)(k := obs w k + (cn_count c - cn_flushed c)) | Inl _ \<Rightarrow> obs w)"
    using write_once_count [OF store, of k c v r v'] by (simp split: sum.splits)
qed (use w in \<open>simp_all add: writeStatus_def\<close>)

lemma write_once_found:
  assumes "status_store client obs" and "decoy_stays client k" and w: "write_once client k c w = (Inl e, w')"
  shows "\<not> IsNotFound e"
proof -
  obtain r1 w1 where g: "kc_get client k w = (r1, w1)" by fastforce
  show ?thesis
  proof (cases r1)
    case (Inl e')
    with g w show ?thesis using decoy_staysD(1) [OF assms(2) g [unfolded Inl]] by (simp add: write_once_def)
  next
    case (Inr kt)
    with g status_storeD(2) [OF assms(1)] have "meta_key (kt_meta kt) = k" by blast
    then show ?thesis
      using g w Inr decoy_staysD(2) [OF assms(2), of "kt\<lparr>kt_status := (kt_status kt)
              \<lparr>st_intrusionActivity := Some (next_activity c (st_intrusionActivity (kt_status kt)))\<rparr>\<rparr>" w1]
      by (auto simp: write_once_def and_then_def split: prod.splits sum.splits)
  qed
qed

lemma writeStatus_found:
  assumes "retry_contract retry" and "status_store client obs" and "decoy_stays client k"
    and "writeStatus client retry k c w = (Inl e, w')"
  shows "\<not> IsNotFound e"
proof -
  have "\<forall>e'. (Inl e :: go_error + unit) = Inl e' \<longrightarrow> \<not> IsNotFound e'"
  proof (rule retry_invariant [OF assms(1), where I = "\<lambda>_. True" and f = "write_once client k c"
        and Q = "\<lambda>r _. \<forall>e'. r = Inl e' \<longrightarrow> \<not> IsNotFound e'"])
    show "retry (write_once client k c) w = (Inl e, w')" using assms(4) by (simp add: writeStatus_def)
  qed (use write_once_found [OF assms(2,3)] in blast)+
  then show ?thesis by simp
qed

lemma gm_get_map_snd: "gm_get (map (\<lambda>(k, c). (k, f c)) t) k = map_option f (gm_get t k)"
  unfolding gm_get_def by (induction t) auto

lemma snapshot_get: "snapshot t = (todo, t') \<Longrightarrow> gm_get t' k = map_option (\<lambda>c. c\<lparr>cn_dirty := False\<rparr>) (gm_get t k)"
  by (auto simp: snapshot_def gm_get_map_snd)

lemma snapshot_wf: "snapshot t = (todo, t') \<Longrightarrow> wf_map t \<Longrightarrow> wf_map t' \<and> wf_map todo"
  by (auto simp: snapshot_def comp_def case_prod_unfold intro: distinct_map_filter)

lemma snapshot_todo: "snapshot t = (todo, t') \<Longrightarrow> wf_map t \<Longrightarrow> (k, c) \<in> set todo \<Longrightarrow> gm_get t k = Some c"
  by (auto simp: snapshot_def gm_get_wf_iff)

lemma settle_get:
  assumes "settle (k, c) r t = (t', ops)"
  shows "gm_get t' k' =
     (if k' \<noteq> k then gm_get t k'
      else case r of
        Inr _ \<Rightarrow> map_option (\<lambda>cur. cur\<lparr>cn_flushed := cn_count c\<rparr>) (gm_get t k)
      | Inl e \<Rightarrow> if IsNotFound e then None else map_option (\<lambda>cur. cur\<lparr>cn_dirty := True\<rparr>) (gm_get t k))"
  using assms by (auto simp: settle_def gm.get_set gm.get_del split: sum.splits if_splits option.splits)

lemma settle_wf: "settle p r t = (t', ops) \<Longrightarrow> wf_map t \<Longrightarrow> wf_map t'"
  by (auto simp: settle_def intro: gm.wf_set gm.wf_del split: sum.splits if_splits option.splits)

lemma Record_get:
  assumes "Record ns name ip when t = (t', ops)"
  shows "gm_get t' k =
     (if k = (ns, name) then Some (bump ip when (case gm_get t k of None \<Rightarrow> new_counter when | Some c \<Rightarrow> c)) else gm_get t k)"
  using assms by (auto simp: Record_def Let_def gm.get_set)

section \<open>The invariant of the interleaved tracker\<close>

definition pendings :: "'w tracker_state \<Rightarrow> pending list" where
  "pendings s = (case ts_inflight s of None \<Rightarrow> [] | Some (p, r) \<Rightarrow> [p]) @ ts_todo s"

definition tracker_inv :: "'w tracker_state \<Rightarrow> bool" where
  "tracker_inv s \<longleftrightarrow> wf_map (ts_counters s) \<and> wf_map (pendings s)
     \<and> (\<forall>(k, c) \<in> set (pendings s). \<exists>cur. gm_get (ts_counters s) k = Some cur \<and> cn_flushed cur = cn_flushed c)"

lemma tracker_invD:
  "tracker_inv s \<Longrightarrow> (k, c) \<in> set (pendings s) \<Longrightarrow> \<exists>cur. gm_get (ts_counters s) k = Some cur \<and> cn_flushed cur = cn_flushed c"
  unfolding tracker_inv_def by blast

lemma tracker_inv_step:
  assumes "tracker_step client retry others s s'" and inv: "tracker_inv s"
  shows "tracker_inv s'"
  using assms(1)
proof cases
  case (arrive ns name ip "when" t ops)
  then have "\<exists>cur. gm_get t k = Some cur \<and> cn_flushed cur = cn_flushed c" if "(k, c) \<in> set (pendings s)" for k c
    using tracker_invD [OF inv that] Record_get [OF arrive(2), of k] by (auto simp: bump_def)
  moreover have "wf_map t"
    using arrive(2) inv by (auto simp: Record_def Let_def tracker_inv_def intro: gm.wf_set)
  moreover have "pendings s' = pendings s" "ts_counters s' = t"
    using arrive(1) by (simp_all add: pendings_def)
  ultimately show ?thesis using inv by (auto simp: tracker_inv_def)
next
  case (take_snapshot todo t)
  have "\<exists>cur. gm_get t k = Some cur \<and> cn_flushed cur = cn_flushed c" if "(k, c) \<in> set todo" for k c
    using snapshot_get [OF take_snapshot(4), of k] snapshot_todo [OF take_snapshot(4) _ that] inv
    by (auto simp: tracker_inv_def)
  then show ?thesis
    using take_snapshot snapshot_wf [OF take_snapshot(4)] inv by (auto simp: tracker_inv_def pendings_def)
next
  case (write_one p ps r w)
  then show ?thesis using inv by (auto simp: tracker_inv_def pendings_def)
next
  case (settle_one p r t ops)
  obtain k c where p: "p = (k, c)" by (cases p)
  have "\<exists>cur. gm_get t k' = Some cur \<and> cn_flushed cur = cn_flushed c'" if m: "(k', c') \<in> set (ts_todo s)" for k' c'
  proof -
    have "k' \<noteq> k" using inv settle_one(2) m p by (force simp: tracker_inv_def pendings_def)
    then show ?thesis
      using tracker_invD [OF inv, of k' c'] m settle_get [OF settle_one(3) [unfolded p], of k']
      by (auto simp: pendings_def)
  qed
  then show ?thesis
    using settle_one settle_wf [OF settle_one(3)] inv by (auto simp: tracker_inv_def pendings_def)
next
  case (elsewhere w)
  then show ?thesis using inv by (auto simp: tracker_inv_def pendings_def)
qed

section \<open>Conservation of requests\<close>

text \<open>The value of the metric \<^verbatim>\<open>honeypod_attacker_requests_total\<close> of a decoy.\<close>

definition attacker_requests :: "metric_op list \<Rightarrow> nsname \<Rightarrow> int64" where
  "attacker_requests ops k =
     (case sample ops AttackerRequests [fst k, snd k] of None \<Rightarrow> 0 | Some n \<Rightarrow> word_of_int n)"

text \<open>
  The requests of a decoy that are counted and not in its status. While a successful write is
  not settled yet, what it wrote is in the status although \<open>cn_flushed\<close> does not say so.
\<close>

definition unpersisted :: "'w tracker_state \<Rightarrow> nsname \<Rightarrow> int64" where
  "unpersisted s k =
     (case ts_inflight s of
        Some ((k', c), Inr _) \<Rightarrow>
          if k' = k then (case gm_get (ts_counters s) k of None \<Rightarrow> 0 | Some cur \<Rightarrow> cn_count cur - cn_count c)
          else outstanding (ts_counters s) k
      | _ \<Rightarrow> outstanding (ts_counters s) k)"

definition balance :: "('w \<Rightarrow> nsname \<Rightarrow> int64) \<Rightarrow> nsname \<Rightarrow> 'w tracker_state \<Rightarrow> int64" where
  "balance obs k s = obs (ts_world s) k + unpersisted s k - attacker_requests (ts_ops s) k"

lemma attacker_requests_add:
  "attacker_requests (ops @ [AddCounter AttackerRequests [ns, n] 1]) k =
     attacker_requests ops k + (if k = (ns, n) then 1 else 0)"
  by (cases k) (auto simp: attacker_requests_def sample_append split: option.splits)

lemma attacker_requests_settle:
  "settle p r t = (t', ops') \<Longrightarrow> attacker_requests (ops @ ops') k = attacker_requests ops k"
  by (auto simp: settle_def attacker_requests_def sample_append split: sum.splits if_splits)

lemma unpersisted_Record:
  assumes "Record ns n ip when (ts_counters s) = (t, ops)" and "tracker_inv s"
  shows "unpersisted (s\<lparr>ts_counters := t, ts_ops := ops'\<rparr>) k = unpersisted s k + (if k = (ns, n) then 1 else 0)"
proof -
  have o: "outstanding t k = outstanding (ts_counters s) k + (if k = (ns, n) then 1 else 0)"
    using tracker.owed_note [of "(ns, n)" "(ip, when)" "ts_counters s" k] assms(1) by simp
  show ?thesis
  proof (cases "\<exists>c u. ts_inflight s = Some ((k, c), Inr u)")
    case True
    then obtain c u where i: "ts_inflight s = Some ((k, c), Inr u)" by blast
    then obtain cur where "gm_get (ts_counters s) k = Some cur"
      using tracker_invD [OF assms(2), of k c] by (auto simp: pendings_def)
    with i show ?thesis
      using Record_get [OF assms(1), of k] by (auto simp: unpersisted_def bump_def)
  next
    case False
    then show ?thesis using o by (auto simp: unpersisted_def split: option.splits sum.splits)
  qed
qed

lemma balance_step:
  assumes "tracker_step client retry others s s'" and inv: "tracker_inv s"
    and retry: "retry_contract retry" and store: "status_store client obs" and stays: "decoy_stays client k"
    and quiet: "\<And>w w'. others w w' \<Longrightarrow> obs w' k = obs w k"
    and fits: "\<And>p e. ts_inflight s = Some (p, Inl e) \<Longrightarrow> fst p = k \<Longrightarrow> \<not> IsNotFound e"
  shows "balance obs k s' = balance obs k s"
  using assms(1)
proof cases
  case (arrive ns name ip "when" t ops)
  have "ops = [AddCounter AttackerRequests [ns, name] 1]"
    using arrive(2) by (auto simp: Record_def Let_def)
  then show ?thesis
    using arrive(1) unpersisted_Record [OF arrive(2) inv, of _ k]
    by (simp add: balance_def attacker_requests_add)
next
  case (take_snapshot todo t)
  then show ?thesis
    using snapshot_get [OF take_snapshot(4), of k]
    by (auto simp: balance_def unpersisted_def outstanding_def split: option.splits)
next
  case (write_one p ps r w)
  obtain k' c where p: "p = (k', c)" by (cases p)
  obtain cur where cur: "gm_get (ts_counters s) k' = Some cur" "cn_flushed cur = cn_flushed c"
    using tracker_invD [OF inv, of k' c] write_one p by (auto simp: pendings_def)
  show ?thesis
    using write_one p cur writeStatus_count [OF retry store write_one(4)]
    by (auto simp: balance_def unpersisted_def outstanding_def split: sum.splits)
next
  case (settle_one p r t ops)
  obtain k' c where p: "p = (k', c)" by (cases p)
  obtain cur where cur: "gm_get (ts_counters s) k' = Some cur" "cn_flushed cur = cn_flushed c"
    using tracker_invD [OF inv, of k' c] settle_one p by (auto simp: pendings_def)
  have "r = Inl e \<Longrightarrow> k' = k \<Longrightarrow> \<not> IsNotFound e" for e
    using fits [of p e] settle_one(2) p by simp
  then show ?thesis
    using settle_one p cur settle_get [OF settle_one(3) [unfolded p], of k] attacker_requests_settle [OF settle_one(3)]
    by (auto simp: balance_def unpersisted_def outstanding_def split: sum.splits)
next
  case (elsewhere w)
  then show ?thesis
    using quiet by (auto simp: balance_def unpersisted_def split: option.splits sum.splits)
qed

definition found_inflight :: "nsname \<Rightarrow> 'w tracker_state \<Rightarrow> bool" where
  "found_inflight k s \<longleftrightarrow> (\<forall>p e. ts_inflight s = Some (p, Inl e) \<longrightarrow> fst p = k \<longrightarrow> \<not> IsNotFound e)"

lemma found_inflight_step:
  assumes "tracker_step client retry others s s'" and "found_inflight k s"
    and "retry_contract retry" and "status_store client obs" and "decoy_stays client k"
  shows "found_inflight k s'"
  using assms(1)
proof cases
  case (write_one p ps r w)
  then show ?thesis
    using writeStatus_found [OF assms(3-5), of "snd p" "ts_world s"] by (auto simp: found_inflight_def)
qed (use assms(2) in \<open>auto simp: found_inflight_def\<close>)

lemma tracker_reachable:
  assumes "(tracker_step client retry others)\<^sup>*\<^sup>* (initial_tracker w) s"
    and "retry_contract retry" and "status_store client obs" and "decoy_stays client k"
    and "\<And>w w'. others w w' \<Longrightarrow> obs w' k = obs w k"
  shows "tracker_inv s \<and> found_inflight k s \<and> balance obs k s = obs w k"
  using assms(1)
proof (induction rule: rtranclp_induct)
  case base
  show ?case
    by (simp add: initial_tracker_def tracker_inv_def pendings_def found_inflight_def balance_def
        unpersisted_def outstanding_def gm_get_def attacker_requests_def sample_def)
next
  case (step s s')
  from step.IH have inv: "tracker_inv s" and fi: "found_inflight k s" and b: "balance obs k s = obs w k"
    by blast+
  have "balance obs k s' = balance obs k s"
    by (rule balance_step [OF step.hyps(2) inv assms(2-5)]) (use fi in \<open>auto simp: found_inflight_def\<close>)
  then show ?case
    using tracker_inv_step [OF step.hyps(2) inv] found_inflight_step [OF step.hyps(2) fi assms(2-4)] b by simp
qed

text \<open>A flush that nothing interrupts is a run of the step relation.\<close>

lemma flush_todo_steps:
  "flush_todo client retry todo (t, w) = ((t', ops'), w') \<Longrightarrow>
   (tracker_step client retry others)\<^sup>*\<^sup>*
     \<lparr>ts_counters = t, ts_todo = todo, ts_inflight = None, ts_ops = ops, ts_world = w\<rparr>
     \<lparr>ts_counters = t', ts_todo = [], ts_inflight = None, ts_ops = ops @ ops', ts_world = w'\<rparr>"
proof (induction todo arbitrary: t w ops ops')
  case (Cons p ps)
  obtain r w1 where w1: "writeStatus client retry (fst p) (snd p) w = (r, w1)" by fastforce
  obtain t1 ops1 where t1: "settle p r t = (t1, ops1)" by fastforce
  obtain ops2 where f: "flush_todo client retry ps (t1, w1) = ((t', ops2), w')" and "ops' = ops1 @ ops2"
    using Cons.prems w1 t1 by (auto split: prod.splits)
  have a: "tracker_step client retry others
      \<lparr>ts_counters = t, ts_todo = p # ps, ts_inflight = None, ts_ops = ops, ts_world = w\<rparr>
      \<lparr>ts_counters = t, ts_todo = ps, ts_inflight = Some (p, r), ts_ops = ops, ts_world = w1\<rparr>"
    using tracker_step.write_one [of "\<lparr>ts_counters = t, ts_todo = p # ps, ts_inflight = None, ts_ops = ops, ts_world = w\<rparr>" p ps client retry r w1 others] w1
    by simp
  have b: "tracker_step client retry others
      \<lparr>ts_counters = t, ts_todo = ps, ts_inflight = Some (p, r), ts_ops = ops, ts_world = w1\<rparr>
      \<lparr>ts_counters = t1, ts_todo = ps, ts_inflight = None, ts_ops = ops @ ops1, ts_world = w1\<rparr>"
    using tracker_step.settle_one [of "\<lparr>ts_counters = t, ts_todo = ps, ts_inflight = Some (p, r), ts_ops = ops, ts_world = w1\<rparr>" p r t1 ops1 client retry others] t1
    by simp
  show ?case
    using a b Cons.IH [OF f, of "ops @ ops1"] \<open>ops' = ops1 @ ops2\<close>
    by (simp add: converse_rtranclp_into_rtranclp)
qed simp

section \<open>Nothing counted is forgotten\<close>

text \<open>
  A counter with requests that are not in the status is dirty, so that the next snapshot takes
  it, or belongs to a write under way.
\<close>

definition tracked_inv :: "'w tracker_state \<Rightarrow> bool" where
  "tracked_inv s \<longleftrightarrow>
     (\<forall>k c cur. (k, c) \<in> set (pendings s) \<longrightarrow> gm_get (ts_counters s) k = Some cur \<longrightarrow> cn_dirty cur \<or> cn_count cur = cn_count c)
     \<and> (\<forall>k cur. gm_get (ts_counters s) k = Some cur \<longrightarrow>
          cn_dirty cur \<or> k \<in> fst ` set (pendings s) \<or> cn_count cur = cn_flushed cur)"

lemma tracked_invI:
  assumes "\<And>k c cur. (k, c) \<in> set (pendings s) \<Longrightarrow> gm_get (ts_counters s) k = Some cur \<Longrightarrow> cn_dirty cur \<or> cn_count cur = cn_count c"
    and "\<And>k cur. gm_get (ts_counters s) k = Some cur \<Longrightarrow> \<not> cn_dirty cur \<Longrightarrow> k \<notin> fst ` set (pendings s) \<Longrightarrow> cn_count cur = cn_flushed cur"
  shows "tracked_inv s"
  using assms unfolding tracked_inv_def by blast

lemma tracked_invD:
  assumes "tracked_inv s" and "gm_get (ts_counters s) k = Some cur"
  shows "(k, c) \<in> set (pendings s) \<Longrightarrow> cn_dirty cur \<or> cn_count cur = cn_count c"
    and "cn_dirty cur \<or> k \<in> fst ` set (pendings s) \<or> cn_count cur = cn_flushed cur"
  using assms unfolding tracked_inv_def by blast+

lemma tracked_inv_step:
  assumes "tracker_step client retry others s s'" and inv: "tracker_inv s" and tr: "tracked_inv s"
  shows "tracked_inv s'"
  using assms(1)
proof cases
  case (arrive ns name ip "when" t ops)
  have "pendings s' = pendings s" "ts_counters s' = t" using arrive(1) by (simp_all add: pendings_def)
  then show ?thesis
    using tr Record_get [OF arrive(2)] unfolding tracked_inv_def by (auto simp: bump_def)
next
  case (take_snapshot todo t)
  have p: "pendings s' = todo" "ts_counters s' = t" "pendings s = []"
    using take_snapshot by (simp_all add: pendings_def)
  have wf: "wf_map (ts_counters s)" using inv by (simp add: tracker_inv_def)
  have todo: "set todo = {(k, c). gm_get (ts_counters s) k = Some c \<and> cn_dirty c}"
    using take_snapshot(4) wf by (auto simp: snapshot_def gm_get_wf_iff)
  show ?thesis
    using tr p(3) unfolding tracked_inv_def p(1,2) todo snapshot_get [OF take_snapshot(4)] by force
next
  case (write_one p ps r w)
  then have "pendings s' = pendings s" "ts_counters s' = ts_counters s" by (simp_all add: pendings_def)
  then show ?thesis using tr unfolding tracked_inv_def by simp
next
  case (settle_one p r t ops)
  obtain k c where p: "p = (k, c)" by (cases p)
  have q: "pendings s = (k, c) # pendings s'" "ts_counters s' = t"
    using settle_one p by (simp_all add: pendings_def)
  then have new: "k \<notin> fst ` set (pendings s')" using inv by (auto simp: tracker_inv_def)
  note get = settle_get [OF settle_one(3) [unfolded p]]
  show ?thesis
  proof (rule tracked_invI, unfold q(2))
    fix k' c' cur assume m: "(k', c') \<in> set (pendings s')" and g: "gm_get t k' = Some cur"
    have "k' \<noteq> k" using m new by force
    then show "cn_dirty cur \<or> cn_count cur = cn_count c'"
      using g get [of k'] tracked_invD(1) [OF tr, of k' cur c'] m q(1) by simp
  next
    fix k' cur assume g: "gm_get t k' = Some cur" "\<not> cn_dirty cur" "k' \<notin> fst ` set (pendings s')"
    show "cn_count cur = cn_flushed cur"
    proof (cases "k' = k")
      case True
      then obtain old where "gm_get (ts_counters s) k = Some old" "cur = old\<lparr>cn_flushed := cn_count c\<rparr>"
        using g get [of k'] by (cases "gm_get (ts_counters s) k") (auto split: sum.splits if_splits)
      then show ?thesis using g tracked_invD(1) [OF tr, of k old c] q(1) by simp
    next
      case False
      then show ?thesis using g get [of k'] tracked_invD(2) [OF tr, of k' cur] q(1) by simp
    qed
  qed
next
  case (elsewhere w)
  then have "pendings s' = pendings s" "ts_counters s' = ts_counters s" by (simp_all add: pendings_def)
  then show ?thesis using tr unfolding tracked_inv_def by simp
qed

lemma tracked_reachable:
  assumes "(tracker_step client retry others)\<^sup>*\<^sup>* (initial_tracker w) s"
  shows "tracker_inv s \<and> tracked_inv s"
  using assms
proof (induction rule: rtranclp_induct)
  case base
  show ?case by (simp add: initial_tracker_def tracker_inv_def tracked_inv_def pendings_def gm_get_def)
next
  case (step s s')
  then show ?case using tracker_inv_step tracked_inv_step by blast
qed

section \<open>A flush with the API server available\<close>

lemma gm_get_Cons: "gm_get ((k, v) # m) k' = (if k' = k then Some v else gm_get m k')"
  by (simp add: gm_get_def)

lemma gm_get_filter_snd:
  "wf_map m \<Longrightarrow> gm_get (filter (\<lambda>(k, v). P v) m) k =
     (case gm_get m k of Some v \<Rightarrow> if P v then Some v else None | None \<Rightarrow> None)"
proof (induction m)
  case (Cons kv m)
  obtain k1 v1 where [simp]: "kv = (k1, v1)" by (cases kv)
  have "gm_get m k1 = None" using Cons.prems by (auto simp: gm_get_None_iff)
  then show ?case using Cons by (cases "k = k1") (simp_all add: gm_get_Cons)
qed (simp add: gm_get_def)

lemma flush_todo_ok:
  assumes "retry_contract retry" and "status_store client obs"
    and avail: "\<And>k c w. k \<in> fst ` set todo \<Longrightarrow> fst (writeStatus client retry k c w) = Inr ()"
    and "wf_map todo" and "\<And>k c. (k, c) \<in> set todo \<Longrightarrow> gm_get t k = Some (c\<lparr>cn_dirty := False\<rparr>)"
    and "flush_todo client retry todo (t, w) = ((t', ops), w')"
  shows "gm_get t' k = (case gm_get todo k of None \<Rightarrow> gm_get t k | Some c \<Rightarrow> Some (c\<lparr>cn_dirty := False, cn_flushed := cn_count c\<rparr>))
    \<and> obs w' k = obs w k + (case gm_get todo k of None \<Rightarrow> 0 | Some c \<Rightarrow> cn_count c - cn_flushed c)"
  using assms(3-)
proof (induction todo arbitrary: t w ops)
  case Nil
  then show ?case by (simp add: gm_get_def)
next
  case (Cons p ps)
  obtain k1 c1 where p: "p = (k1, c1)" by (cases p)
  obtain w1 where w1: "writeStatus client retry k1 c1 w = (Inr (), w1)"
    using Cons.prems(1) [of k1 c1 w] p by (cases "writeStatus client retry k1 c1 w") auto
  obtain t1 ops1 where t1: "settle (k1, c1) (Inr ()) t = (t1, ops1)" by fastforce
  obtain ops2 where f: "flush_todo client retry ps (t1, w1) = ((t', ops2), w')"
    using Cons.prems(4) w1 t1 p by (auto split: prod.splits)
  have new: "gm_get ps k1 = None" using Cons.prems(2) p by (auto simp: gm_get_None_iff)
  have get1: "gm_get t1 k' = (if k' \<noteq> k1 then gm_get t k' else Some (c1\<lparr>cn_dirty := False, cn_flushed := cn_count c1\<rparr>))" for k'
    using settle_get [OF t1] Cons.prems(3) [of k1 c1] p by simp
  have "gm_get t' k = (case gm_get ps k of None \<Rightarrow> gm_get t1 k | Some c \<Rightarrow> Some (c\<lparr>cn_dirty := False, cn_flushed := cn_count c\<rparr>))
    \<and> obs w' k = obs w1 k + (case gm_get ps k of None \<Rightarrow> 0 | Some c \<Rightarrow> cn_count c - cn_flushed c)"
  proof (rule Cons.IH [OF _ _ _ f])
    show "gm_get t1 k' = Some (c'\<lparr>cn_dirty := False\<rparr>)" if "(k', c') \<in> set ps" for k' c'
    proof -
      have "k' \<noteq> k1" using Cons.prems(2) that p by force
      then show ?thesis using get1 [of k'] Cons.prems(3) [of k' c'] that by simp
    qed
  qed (use Cons.prems(1,2) in simp_all)
  moreover have "obs w1 k = obs w k + (if k = k1 then cn_count c1 - cn_flushed c1 else 0)"
    using writeStatus_count [OF assms(1,2) w1] by simp
  ultimately show ?case
    using get1 [of k] new p by (cases "k = k1"; cases "gm_get ps k") (simp_all add: gm_get_Cons)
qed

section \<open>Properties\<close>


text \<open>An API server that holds the activity of the single decoy \<^verbatim>\<open>ns/d\<close>.\<close>

definition one_decoy :: "IntrusionActivity option \<Rightarrow> Decoy" where
  "one_decoy a =
     \<lparr>kt_meta = new_meta ''d'' ''ns'' [],
      kt_spec = undefined,
      kt_status = \<lparr>st_phase = Ready, st_endpoint = '''', st_credentialsSecret = '''', st_observedGeneration = 0,
        st_joinedPods = [], st_intrusionActivity = a, st_conditions = []\<rparr>\<rparr>"

definition one_client :: "(IntrusionActivity option, Decoy) kclient" where
  "one_client =
     \<lparr>kc_get = (\<lambda>k a. if k = (''ns'', ''d'') then (Inr (one_decoy a), a) else (Inl (GoError NotFound [] ''''), a)),
      kc_list = (\<lambda>_ a. (Inr [one_decoy a], a)),
      kc_create = (\<lambda>kt a. (Inl (GoError AlreadyExists [] ''''), a)),
      kc_update = (\<lambda>kt a. (Inr kt, a)),
      kc_update_status = (\<lambda>kt a. if meta_key (kt_meta kt) = (''ns'', ''d'')
         then (Inr kt, st_intrusionActivity (kt_status kt)) else (Inl (GoError NotFound [] ''''), a)),
      kc_delete = (\<lambda>_ a. (Inr (), a))\<rparr>"

definition one_count :: "IntrusionActivity option \<Rightarrow> nsname \<Rightarrow> int64" where
  "one_count a k = (if k = (''ns'', ''d'') then (case a of None \<Rightarrow> 0 | Some x \<Rightarrow> ia_requestCount x) else 0)"

lemma one_client_store: "status_store one_client one_count" "decoy_stays one_client (''ns'', ''d'')"
  by (auto simp: status_store_def decoy_stays_def one_client_def one_count_def one_decoy_def status_count_def
      fun_eq_iff split: if_splits)

text \<open>One request arrives, the flush snapshots and writes it, a second one arrives in flight.\<close>

definition ex_tracker :: "IntrusionActivity option tracker_state" where
  "ex_tracker =
     (let t1 = fst (Record ''ns'' ''d'' ''10.0.0.9'' 5 []);
          c = bump ''10.0.0.9'' 5 (new_counter 5);
          op = AddCounter AttackerRequests [''ns'', ''d''] 1 in
      \<lparr>ts_counters = fst (Record ''ns'' ''d'' '''' 6 (snd (snapshot t1))), ts_todo = [],
       ts_inflight = Some (((''ns'', ''d''), c), Inr ()), ts_ops = [op, op],
       ts_world = Some (next_activity c None)\<rparr>)"

lemma ex_tracker_reachable:
  "(tracker_step one_client (retry_times 4) (\<lambda>_ _. False))\<^sup>*\<^sup>* (initial_tracker None) ex_tracker"
proof -
  let ?st = "tracker_step one_client (retry_times 4) (\<lambda>_ _. False)"
  let ?c = "bump ''10.0.0.9'' 5 (new_counter 5)"
  let ?op = "AddCounter AttackerRequests [''ns'', ''d''] 1"
  let ?t1 = "[((''ns'', ''d''), ?c)]" and ?t2 = "[((''ns'', ''d''), ?c\<lparr>cn_dirty := False\<rparr>)]"
  have 1: "?st (initial_tracker None) \<lparr>ts_counters = ?t1, ts_todo = [], ts_inflight = None, ts_ops = [?op], ts_world = None\<rparr>"
    using tracker_step.arrive [of "''ns''" "''d''" "''10.0.0.9''" 5 "initial_tracker None"]
    by (fastforce simp: initial_tracker_def Record_def gm_get_def gm_set_def)
  have 2: "?st \<lparr>ts_counters = ?t1, ts_todo = [], ts_inflight = None, ts_ops = [?op], ts_world = None\<rparr>
      \<lparr>ts_counters = ?t2, ts_todo = ?t1, ts_inflight = None, ts_ops = [?op], ts_world = None\<rparr>"
    using tracker_step.take_snapshot [of "\<lparr>ts_counters = ?t1, ts_todo = [], ts_inflight = None, ts_ops = [?op], ts_world = None\<rparr>"]
    by (fastforce simp: snapshot_def bump_def)
  have w: "writeStatus one_client (retry_times 4) (''ns'', ''d'') ?c None = (Inr (), Some (next_activity ?c None))"
    by (simp add: writeStatus_def numeral_eq_Suc write_once_def and_then_def one_client_def one_decoy_def)
  have 3: "?st \<lparr>ts_counters = ?t2, ts_todo = ?t1, ts_inflight = None, ts_ops = [?op], ts_world = None\<rparr>
      \<lparr>ts_counters = ?t2, ts_todo = [], ts_inflight = Some (((''ns'', ''d''), ?c), Inr ()), ts_ops = [?op],
       ts_world = Some (next_activity ?c None)\<rparr>"
    using tracker_step.write_one [of "\<lparr>ts_counters = ?t2, ts_todo = ?t1, ts_inflight = None, ts_ops = [?op], ts_world = None\<rparr>"
        "((''ns'', ''d''), ?c)" "[]" one_client "retry_times 4" "Inr ()"] w by simp
  have 4: "?st \<lparr>ts_counters = ?t2, ts_todo = [], ts_inflight = Some (((''ns'', ''d''), ?c), Inr ()), ts_ops = [?op],
       ts_world = Some (next_activity ?c None)\<rparr> ex_tracker"
    using tracker_step.arrive [of "''ns''" "''d''" "''''" 6 "\<lparr>ts_counters = ?t2, ts_todo = [],
        ts_inflight = Some (((''ns'', ''d''), ?c), Inr ()), ts_ops = [?op], ts_world = Some (next_activity ?c None)\<rparr>"]
    by (fastforce simp: ex_tracker_def Let_def Record_def gm_get_def gm_set_def snapshot_def)
  show ?thesis
    using 1 2 3 4 by (meson r_into_rtranclp rtranclp_trans)
qed


text \<open>
  A request that is not in the status yet is never forgotten: in every reachable state its
  counter is marked dirty, so that the next flush takes it up, or a write for it is under way.
\<close>

theorem tracker_never_forgets:
  assumes "(tracker_step client retry others)\<^sup>*\<^sup>* (initial_tracker w) s"
    and "outstanding (ts_counters s) k \<noteq> 0"
  shows "(\<exists>c. gm_get (ts_counters s) k = Some c \<and> cn_dirty c) \<or> k \<in> fst ` set (pendings s)"
proof -
  obtain c where c: "gm_get (ts_counters s) k = Some c" "cn_count c \<noteq> cn_flushed c"
    using assms(2) by (auto simp: outstanding_def split: option.splits)
  then show ?thesis
    using tracked_invD(2) [OF _ c(1)] tracked_reachable [OF assms(1)] by blast
qed

theorem tracker_never_forgets_witness:
  "(\<exists>c. gm_get (ts_counters ex_tracker) (''ns'', ''d'') = Some c \<and> cn_dirty c)
   \<or> (''ns'', ''d'') \<in> fst ` set (pendings ex_tracker)"
  by (rule tracker_never_forgets [OF ex_tracker_reachable])
    (simp add: ex_tracker_def Let_def outstanding_def Record_def snapshot_def gm_get_def gm_set_def bump_def new_counter_def)

text \<open>
  C33 A flush with the API server available persists everything: for every decoy that was dirty
  the status grows by exactly the outstanding requests, afterwards none are outstanding, and
  no counter is dirty. Decoys that were clean are not written.
\<close>

theorem flush_complete:
  assumes "retry_contract retry" and "status_store client obs"
    and "\<And>k c w. k \<in> fst ` set t \<Longrightarrow> fst (writeStatus client retry k c w) = Inr ()"
    and "wf_map t" and "flush client retry (t, w) = ((t', ops), w')"
  shows "(case gm_get t k of
      Some c \<Rightarrow> if cn_dirty c then obs w' k = obs w k + outstanding t k \<and> outstanding t' k = 0
               else obs w' k = obs w k \<and> gm_get t' k = Some c
    | None \<Rightarrow> obs w' k = obs w k \<and> gm_get t' k = None)
    \<and> (\<forall>c. gm_get t' k = Some c \<longrightarrow> \<not> cn_dirty c)"
proof -
  obtain todo t1 where s: "snapshot t = (todo, t1)" by fastforce
  have todo: "gm_get todo k' = (case gm_get t k' of Some c \<Rightarrow> if cn_dirty c then Some c else None | None \<Rightarrow> None)" for k'
    using s gm_get_filter_snd [OF assms(4), of cn_dirty k'] by (simp add: snapshot_def)
  have "gm_get t' k = (case gm_get todo k of None \<Rightarrow> gm_get t1 k | Some c \<Rightarrow> Some (c\<lparr>cn_dirty := False, cn_flushed := cn_count c\<rparr>))
    \<and> obs w' k = obs w k + (case gm_get todo k of None \<Rightarrow> 0 | Some c \<Rightarrow> cn_count c - cn_flushed c)"
  proof (rule flush_todo_ok [OF assms(1,2)])
    show "fst (writeStatus client retry k' c v) = Inr ()" if "k' \<in> fst ` set todo" for k' c v
    proof -
      have "k' \<in> fst ` set t" using that s by (auto simp: snapshot_def image_iff)
      then show ?thesis by (rule assms(3))
    qed
    show "wf_map todo" using snapshot_wf [OF s assms(4)] by simp
    show "flush_todo client retry todo (t1, w) = ((t', ops), w')" using assms(5) s by (simp add: flush_def)
    show "gm_get t1 k' = Some (c\<lparr>cn_dirty := False\<rparr>)" if "(k', c) \<in> set todo" for k' c
      using snapshot_todo [OF s assms(4) that] snapshot_get [OF s, of k'] by simp
  qed
  then show ?thesis
    using todo [of k] snapshot_get [OF s, of k] by (auto simp: outstanding_def split: option.splits if_splits)
qed

theorem flush_complete_witness:
  "one_count (snd (flush one_client (retry_times 4) (fst (Record ''ns'' ''d'' '''' 5 []), None))) (''ns'', ''d'') = 1"
proof -
  let ?t = "fst (Record ''ns'' ''d'' '''' 5 [])"
  have t: "?t = [((''ns'', ''d''), bump '''' 5 (new_counter 5))]"
    by (simp add: Record_def gm_get_def gm_set_def)
  have avail: "fst (writeStatus one_client (retry_times 4) k c w) = Inr ()" if "k \<in> fst ` set ?t" for k c w
    using that unfolding t by (simp add: writeStatus_def numeral_eq_Suc write_once_def and_then_def one_client_def one_decoy_def)
  obtain t' ops w' where f: "flush one_client (retry_times 4) (?t, None) = ((t', ops), w')"
    by (metis prod.exhaust)
  show ?thesis
    using flush_complete [OF retry_times_contract one_client_store(1) avail _ f, of "(''ns'', ''d'')"]
    unfolding f unfolding t by (simp add: gm_get_Cons bump_def new_counter_def outstanding_def one_count_def)
qed

text \<open>
  The status write adds the requests since the last successful write to the persisted total,
  keeps the first-seen time already recorded, and moves last-seen to the counter's; a conflict
  makes it start over from the object as stored.
\<close>

theorem writeStatus_adds_delta:
  assumes "retry_contract retry" and "status_store client obs"
    and "writeStatus client retry k c w = (Inr (), w')"
  shows "obs w' = (obs w)(k := obs w k + (cn_count c - cn_flushed c))
    \<and> ia_firstSeen (next_activity c (Some a)) = (if ia_firstSeen a = None then Some (cn_firstSeen c) else ia_firstSeen a)
    \<and> ia_lastSeen (next_activity c (Some a)) = Some (cn_lastSeen c)"
  using writeStatus_count [OF assms] by (auto simp: next_activity_def Let_def split: option.splits)

theorem writeStatus_adds_delta_witness:
  "one_count (snd (writeStatus one_client (retry_times 4) (''ns'', ''d'') (bump '''' 7 (new_counter 7))
       (Some \<lparr>ia_firstSeen = Some 1, ia_lastSeen = Some 2, ia_requestCount = 41, ia_lastSourceIP = ''10.0.0.9''\<rparr>))) (''ns'', ''d'') = 42"
proof -
  let ?w = "Some \<lparr>ia_firstSeen = Some 1, ia_lastSeen = Some 2, ia_requestCount = 41, ia_lastSourceIP = ''10.0.0.9''\<rparr>"
  let ?c = "bump '''' 7 (new_counter 7)"
  have w: "writeStatus one_client (retry_times 4) (''ns'', ''d'') ?c ?w = (Inr (), Some (next_activity ?c ?w))"
    by (simp add: writeStatus_def numeral_eq_Suc write_once_def and_then_def one_client_def one_decoy_def)
  show ?thesis
    using writeStatus_adds_delta [OF retry_times_contract one_client_store(1) w] w
    by (simp add: one_count_def bump_def new_counter_def)
qed

text \<open>
  After a restart the counter starts with no source address. A request without one then makes
  the next write replace the address of the last attacker by the empty string.
\<close>

lemma writeStatus_loses_source_ip:
  "ia_lastSourceIP (next_activity (bump '''' t (new_counter t)) (Some a)) = ''''"
  by (simp add: next_activity_def Let_def bump_def new_counter_def)

end
