(* ===== verification/Controller_Props.thy ===== *)
theory Controller_Props
  imports Mirror_Safety Activity_Tracker
begin

text \<open>
  What one reconcile guarantees beside the mirrors: the reconciler and the join webhook agree on
  which pods are joined, a decoy keeps its identity while its certificate follows the Service,
  joining pods never restarts a decoy, and status writes leave the attack counters alone.
\<close>

declare split_paired_All [simp del] split_paired_Ex [simp del]

section \<open>Joined pods\<close>

lemma sole_target:
  assumes "kt \<in> set items" and "distinct (map (\<lambda>d. (kt_ns d, kt_name d)) items)"
  shows "implicit_target items ns = Some (kt_ns kt, kt_name kt) \<longleftrightarrow>
    (if length items = 1 then kt_ns (hd items) = kt_ns kt \<and> kt_name (hd items) = kt_name kt
     else ns = kt_ns kt \<and> length (filter (\<lambda>d. kt_ns d = kt_ns kt) items) = 1)"
proof -
  have "kt_name (hd (filter (\<lambda>d. kt_ns d = kt_ns kt) items)) = kt_name kt"
    if "length (filter (\<lambda>d. kt_ns d = kt_ns kt) items) = 1"
  proof -
    from that obtain d where d: "filter (\<lambda>d. kt_ns d = kt_ns kt) items = [d]" by (cases "filter (\<lambda>d. kt_ns d = kt_ns kt) items") auto
    have "kt \<in> set (filter (\<lambda>d. kt_ns d = kt_ns kt) items)" using assms(1) by simp
    with d show ?thesis by simp
  qed
  then show ?thesis by (auto simp: implicit_target_def Let_def)
qed

lemma listJoinedPods_run:
  assumes "kc_list (rc_pods r) list_all_opts w = (Inr pods, w1)"
    and l: "kc_list (rc_decoy_client r) list_all_opts w1 = (Inr items, w2)"
    and "listJoinedPods r kt w = (Inr joined, w')"
  shows "\<exists>sole. joined = sort_key (\<lambda>p. (pod_ns p, pod_name p)) (filter (joins kt sole) pods)
    \<and> ((\<exists>p \<in> set pods. join_value p = ''true'' \<and> ''true'' \<noteq> kt_ns kt @ ''/'' @ kt_name kt) \<longrightarrow>
        sole = (if length items = 1 then (kt_ns (hd items) = kt_ns kt \<and> kt_name (hd items) = kt_name kt, False)
                else (False, length (filter (\<lambda>d. kt_ns d = kt_ns kt) items) = 1)))"
proof -
  let ?ex = "\<exists>p \<in> set pods. join_value p \<noteq> kt_ns kt @ ''/'' @ kt_name kt \<and> join_value p = joinAnnotationImplicit"
  from l have ri: "resolveImplicit r kt w1 =
      (Inr (if length items = 1 then (kt_ns (hd items) = kt_ns kt \<and> kt_name (hd items) = kt_name kt, False)
            else (False, length (filter (\<lambda>d. kt_ns d = kt_ns kt) items) = 1)), w2)"
    by (simp add: resolveImplicit_def)
  from assms(3) [unfolded listJoinedPods_def] assms(1) obtain
    run: "and_then (if ?ex then resolveImplicit r kt else ok (False, False))
       (\<lambda>sole. ok (sort_key (\<lambda>p. (pod_ns p, pod_name p)) (filter (joins kt sole) pods))) w1 = (Inr joined, w')"
    by (elim and_then_InrE [where f = "\<lambda>pods. and_then (P pods) (Q pods)" for P Q]) (simp only: prod.inject sum.inject)
  show ?thesis
  proof (cases ?ex)
    case True
    with run ri have "joined = sort_key (\<lambda>p. (pod_ns p, pod_name p)) (filter (joins kt (if length items = 1 then (kt_ns (hd items) = kt_ns kt \<and> kt_name (hd items) = kt_name kt, False)
                else (False, length (filter (\<lambda>d. kt_ns d = kt_ns kt) items) = 1))) pods)"
      by (simp only: if_True and_then_Inr ok_run prod.inject sum.inject)
    then show ?thesis by blast
  next
    case False
    with run have "joined = sort_key (\<lambda>p. (pod_ns p, pod_name p)) (filter (joins kt (False, False)) pods)"
      by (simp only: if_False and_then_ok ok_run prod.inject sum.inject)
    with False show ?thesis by (intro exI [of _ "(False, False)"] conjI impI) (blast, metis)
  qed
qed

lemma joined_iff_resolves:
  assumes "kc_list (rc_pods r) list_all_opts w = (Inr pods, w1)"
    and "kc_list (rc_decoy_client r) list_all_opts w1 = (Inr items, w2)" and "kc_list (rc_decoy_client r) list_all_opts v = (Inr items, v')"
    and "kt \<in> set items" and "distinct (map (\<lambda>d. (kt_ns d, kt_name d)) items)"
    and "CHR ''/'' \<notin> set (kt_ns kt)" and "kt_ns kt \<noteq> ''''" and "kt_name kt \<noteq> ''''"
    and "listJoinedPods r kt w = (Inr joined, w')"
  shows "(p \<in> set joined \<longleftrightarrow> p \<in> set pods \<and>
      fst (resolveJoinAnnotation (rc_decoy_client r) (pod_ns p) (join_value p) v) = Some (kt_ns kt, kt_name kt))
    \<and> sorted (map (\<lambda>p. (pod_ns p, pod_name p)) joined)"
proof -
  from listJoinedPods_run [OF assms(1,2,9)] obtain sole where
    j: "joined = sort_key (\<lambda>p. (pod_ns p, pod_name p)) (filter (joins kt sole) pods)" and
    s: "(\<exists>p \<in> set pods. join_value p = ''true'' \<and> ''true'' \<noteq> kt_ns kt @ ''/'' @ kt_name kt) \<longrightarrow>
        sole = (if length items = 1 then (kt_ns (hd items) = kt_ns kt \<and> kt_name (hd items) = kt_name kt, False)
                else (False, length (filter (\<lambda>d. kt_ns d = kt_ns kt) items) = 1))"
    by blast
  note v' = assms(3)
  have nt: "''true'' \<noteq> kt_ns kt @ ''/'' @ kt_name kt"
  proof
    assume "''true'' = kt_ns kt @ ''/'' @ kt_name kt"
    then have "CHR ''/'' \<in> set ''true''" by simp
    then show False by simp
  qed
  have "joins kt sole p \<longleftrightarrow> fst (resolveJoinAnnotation (rc_decoy_client r) (pod_ns p) (join_value p) v) = Some (kt_ns kt, kt_name kt)"
    if "p \<in> set pods"
  proof (cases "join_value p = ''true''")
    case True
    with s that nt have "sole = (if length items = 1 then (kt_ns (hd items) = kt_ns kt \<and> kt_name (hd items) = kt_name kt, False)
                else (False, length (filter (\<lambda>d. kt_ns d = kt_ns kt) items) = 1))" by blast
    with True nt v' show ?thesis
      by (auto simp: joins_def resolveJoinAnnotation_def sole_target [OF assms(4,5)])
  next
    case False
    then show ?thesis using assms(6-8) by (simp add: joins_def resolveJoinAnnotation_def parseJoinTarget_iff)
  qed
  then show ?thesis by (auto simp: j)
qed

text \<open>
  C17 The reconciler and the webhook agree: a pod is listed as joined to a Decoy exactly when the
  webhook resolves its annotation to that Decoy, and the list is sorted by namespace and name. Both
  read the same list of Decoys, the Decoy is on it, and its namespace and name are valid.
\<close>

theorem listJoinedPods_agrees:
  assumes "kc_list (rc_pods r) list_all_opts w = (Inr pods, w1)"
    and "kc_list (rc_decoy_client r) list_all_opts w1 = (Inr items, w2)" and "kc_list (rc_decoy_client r) list_all_opts v = (Inr items, v')"
    and "kt \<in> set items" and "distinct (map (\<lambda>d. (kt_ns d, kt_name d)) items)"
    and "CHR ''/'' \<notin> set (kt_ns kt)" and "kt_ns kt \<noteq> ''''" and "kt_name kt \<noteq> ''''"
    and "listJoinedPods r kt w = (Inr joined, w')"
  shows "(p \<in> set joined \<longleftrightarrow> p \<in> set pods \<and>
      fst (resolveJoinAnnotation (rc_decoy_client r) (pod_ns p) (join_value p) v) = Some (kt_ns kt, kt_name kt))
    \<and> sorted (map (\<lambda>p. (pod_ns p, pod_name p)) joined)"
  using assms by (rule joined_iff_resolves)

abbreviation ex_joined_pod :: Pod where
  "ex_joined_pod \<equiv> ex_pod ''web'' ''prod'' [(joinAnnotation, ''true'')]"

lemma ex_list_pods: "kc_list (rc_pods ex_reconciler) list_all_opts (ex_world ex_decoy [] [p]) = (Inr [p], ex_world ex_decoy [] [p])"
  by (simp add: ex_reconciler_def mem_client_def ex_world_def list_obs_def opts_match_def list_all_opts_def)

lemma ex_list_decoys: "kc_list (rc_decoy_client ex_reconciler) list_all_opts (ex_world ex_decoy [] [p]) = (Inr [ex_decoy], ex_world ex_decoy [] [p])"
  by (simp add: ex_sel ex_decoy_client_def mem_client_def ex_world_def list_obs_def opts_match_def list_all_opts_def)

lemma ex_join_value: "join_value ex_joined_pod = ''true''"
  by (simp add: join_value_def ex_pod_def sm_get_def gm_get_def)

lemma ex_decoy_named: "CHR ''/'' \<notin> set (kt_ns ex_decoy)" "kt_ns ex_decoy \<noteq> ''''" "kt_name ex_decoy \<noteq> ''''"
  by (simp_all add: ex_decoy_def)

lemma ex_listed:
  "\<exists>joined w'. listJoinedPods ex_reconciler ex_decoy (ex_world ex_decoy [] [ex_joined_pod]) = (Inr joined, w') \<and> ex_joined_pod \<in> set joined"
  using ex_list_pods [of ex_joined_pod] ex_list_decoys [of ex_joined_pod]
  by (simp add: listJoinedPods_def resolveImplicit_def ex_join_value joins_def)

theorem listJoinedPods_agrees_witness:
  "\<exists>joined w'. listJoinedPods ex_reconciler ex_decoy (ex_world ex_decoy [] [ex_joined_pod]) = (Inr joined, w')
     \<and> ex_joined_pod \<in> set joined"
proof -
  obtain joined w' where r: "listJoinedPods ex_reconciler ex_decoy (ex_world ex_decoy [] [ex_joined_pod]) = (Inr joined, w')"
    using ex_listed by blast
  have "ex_joined_pod \<in> set joined"
    using listJoinedPods_agrees [OF ex_list_pods ex_list_decoys ex_list_decoys _ _ ex_decoy_named r, of ex_joined_pod]
    by (simp add: resolveJoinAnnotation_def ex_join_value ex_list_decoys implicit_target_def)
  with r show ?thesis by blast
qed

text \<open>While the Decoys stay as they are, mapping a list of pods yields what their annotations resolve to.\<close>

lemma map_pods_targets:
  assumes "\<And>v. S v \<Longrightarrow> \<exists>v'. kc_list (rc_decoy_client r) list_all_opts v = (Inr items, v') \<and> S v'" and "S w"
  shows "set (fst (map_pods (mapJoinedPodToDecoy r) ps w)) =
    {k. \<exists>p \<in> set ps. fst (resolveJoinAnnotation (rc_decoy_client r) (pod_ns p) (join_value p) w) = Some k}"
  using assms(2)
proof (induction ps arbitrary: w)
  case (Cons p ps)
  let ?res = "\<lambda>q. resolveJoinAnnotation (rc_decoy_client r) (pod_ns q) (join_value q)"
  have same: "fst (?res q v) = fst (?res q w)" if "S v" for q v
    using assms(1) [OF that] assms(1) [OF Cons.prems] by (auto simp: resolveJoinAnnotation_def)
  have "S (snd (?res p w))"
    using assms(1) [OF Cons.prems] Cons.prems by (auto simp: resolveJoinAnnotation_def)
  with Cons.IH [OF this] same [OF this] show ?case
    by (auto simp: mapJoinedPodToDecoy_def split: prod.splits option.splits)
qed simp

text \<open>The predicate in front of the watch hides no pod with a target.\<close>

lemma no_annotation_no_target:
  "\<not> has_join_annotation (Some p) \<Longrightarrow> fst (resolveJoinAnnotation c (pod_ns p) (join_value p) w) = None"
  by (simp add: has_join_annotation_def join_value_def sm_get_def resolveJoinAnnotation_def parseJoinTarget_def)

lemma predicate_complete:
  "p \<in> set (event_pods ev) \<Longrightarrow> has_join_annotation (Some p) \<Longrightarrow> podJoinAnnotationPredicate ev"
  by (cases ev) (auto simp: List.map_filter_simps split: option.splits)

text \<open>
  C18 The controller is woken whenever it has to be: an event about a pod the reconciler counts as joined
  to a Decoy (for an update the pod before or after it) enqueues that Decoy, so that leaving is noticed
  as well as joining, and an event enqueues nothing but the Decoys the annotations of its pods resolve
  to. The API server answers with the same Decoys while the event is handled (the worlds \<open>S\<close>).
\<close>

theorem pod_watch_wakes:
  assumes "kc_list (rc_pods r) list_all_opts u = (Inr pods, u1)" and "kc_list (rc_decoy_client r) list_all_opts u1 = (Inr items, u2)"
    and "\<And>v. S v \<Longrightarrow> \<exists>v'. kc_list (rc_decoy_client r) list_all_opts v = (Inr items, v') \<and> S v'" and "S w"
    and "kt \<in> set items" and "distinct (map (\<lambda>d. (kt_ns d, kt_name d)) items)"
    and "CHR ''/'' \<notin> set (kt_ns kt)" and "kt_ns kt \<noteq> ''''" and "kt_name kt \<noteq> ''''"
    and "listJoinedPods r kt u = (Inr joined, u')" and "enqueue_contract enq"
  shows "(\<forall>p \<in> set joined. p \<in> set (event_pods ev) \<longrightarrow> (kt_ns kt, kt_name kt) \<in> set (fst (pod_watch enq r ev w)))
    \<and> (\<forall>k \<in> set (fst (pod_watch enq r ev w)). \<exists>p \<in> set (event_pods ev).
         fst (resolveJoinAnnotation (rc_decoy_client r) (pod_ns p) (join_value p) w) = Some k)"
proof -
  obtain v' where l: "kc_list (rc_decoy_client r) list_all_opts w = (Inr items, v')" using assms(3) [OF assms(4)] by blast
  note targets = map_pods_targets [where S = S, OF assms(3,4)]
  have "(kt_ns kt, kt_name kt) \<in> set (fst (pod_watch enq r ev w))" if "p \<in> set joined" "p \<in> set (event_pods ev)" for p
  proof -
    have t: "fst (resolveJoinAnnotation (rc_decoy_client r) (pod_ns p) (join_value p) w) = Some (kt_ns kt, kt_name kt)"
      using joined_iff_resolves [OF assms(1,2) l assms(5-10)] that(1) by blast
    then have "has_join_annotation (Some p)" using no_annotation_no_target [of p "rc_decoy_client r" w] by (metis option.distinct(1))
    with that(2) have "podJoinAnnotationPredicate ev" by (rule predicate_complete)
    with t that(2) targets assms(11) show ?thesis by (auto simp: pod_watch_def enqueue_contract_def)
  qed
  moreover have "set (fst (pod_watch enq r ev w)) \<subseteq> set (fst (map_pods (mapJoinedPodToDecoy r) (event_pods ev) w))"
    using assms(11) by (simp add: pod_watch_def enqueue_contract_def)
  ultimately show ?thesis using targets by blast
qed

theorem pod_watch_wakes_witness:
  "\<exists>joined u'. listJoinedPods ex_reconciler ex_decoy (ex_world ex_decoy [] [ex_joined_pod]) = (Inr joined, u')
     \<and> ex_joined_pod \<in> set joined
     \<and> (kt_ns ex_decoy, kt_name ex_decoy) \<in> set (fst (pod_watch (\<lambda>f ev. map_pods f (event_pods ev)) ex_reconciler
          (PodUpdate (Some (ex_joined_pod)) (Some (ex_pod ''web'' ''prod'' [])))
          (ex_world ex_decoy [] [ex_joined_pod])))"
proof -
  let ?p = "ex_joined_pod"
  let ?w = "ex_world ex_decoy [] [?p]"
  obtain joined u' where r: "listJoinedPods ex_reconciler ex_decoy ?w = (Inr joined, u')" and p: "?p \<in> set joined"
    using ex_listed by blast

  have "(kt_ns ex_decoy, kt_name ex_decoy) \<in> set (fst (pod_watch (\<lambda>f ev. map_pods f (event_pods ev)) ex_reconciler (PodUpdate (Some ?p) (Some (ex_pod ''web'' ''prod'' []))) ?w))"
    using pod_watch_wakes [where S = "\<lambda>v. v = ?w", OF ex_list_pods ex_list_decoys _ refl _ _ ex_decoy_named r,
        of "\<lambda>f ev. map_pods f (event_pods ev)" "PodUpdate (Some ?p) (Some (ex_pod ''web'' ''prod'' []))"] p ex_list_decoys
    by (simp add: List.map_filter_simps enqueue_contract_def)
  with r p show ?thesis by blast
qed

section \<open>The identity of a decoy\<close>

lemma sm_get_set_data:
  "wf_map kvs \<Longrightarrow> sm_get (sec_data (set_data kvs s)) k = (case gm_get kvs k of Some v \<Rightarrow> v | None \<Rightarrow> sm_get (sec_data s) k)"
proof -
  assume d: "wf_map kvs"
  have "map_of (rev kvs) = map_of kvs"
    by (rule map_of_inject_set [THEN iffD2]) (use d in \<open>simp_all add: rev_map [symmetric]\<close>)
  then show ?thesis
    by (simp add: set_data_def sm_get_def gm.fold_set_mem gm_get_def [of kvs] split: option.split)
qed

lemma certCoversIP_issued:
  assumes "crypto_contract cy" and "IssueServerCert cy ca key names w = (Inr (cert, leafKey), w')"
    and "ip \<in> set names" and "ip \<noteq> ''''" and "cy_parse_ip cy ip \<noteq> None"
  shows "certCoversIP cy cert ip"
proof -
  from IssueServerCert_sans [OF assms(1,2)] obtain der c where
    c: "cy_pem_decode cy cert = Some der" "cy_parse_cert cy der = Inr c" "ct_ipAddresses c = List.map_filter (cy_parse_ip cy) names"
    by blast
  have "cert \<noteq> ''''"
    using assms(1,2) by (auto simp: IssueServerCert_def crypto_contract_def and_then_def pure_result_def reading_def split: option.splits prod.splits sum.splits)
  with c assms(3-5) show ?thesis by (auto simp: certCoversIP_def set_map_filter split: option.split)
qed

text \<open>What the Secret calls rely on, as one contract: the store of Secrets, its keys, and quiet crypto.\<close>

definition secret_world :: "'w reconciler \<Rightarrow> ('w \<Rightarrow> nsname \<Rightarrow> Secret option) \<Rightarrow> bool" where
  "secret_world r secs \<longleftrightarrow>
     object_store (rc_secret_client r) sec_meta same_secret secs \<and> (\<forall>w. keyed_obs sec_meta (secs w))
     \<and> crypto_contract (rc_crypto r) \<and> crypto_quiet secs (rc_crypto r) \<and> (\<forall>n. keeps secs (rc_rand r n))"

lemma secret_worldD:
  assumes "secret_world r secs"
  shows "object_store (rc_secret_client r) sec_meta same_secret secs" "keyed_obs sec_meta (secs w)"
    "crypto_contract (rc_crypto r)" "crypto_quiet secs (rc_crypto r)" "keeps secs (generateToken (rc_rand r))"
  using assms unfolding secret_world_def generateToken_def by (auto intro: keeps_and_then keeps_basic)

text \<open>A successful update of a Secret's data.\<close>

lemma update_data:
  assumes "secret_world r secs" and "on_error g (kc_update (rc_secret_client r) (set_data kvs s)) w = (Inr s', w')"
  shows "meta_key (sec_meta s') = meta_key (sec_meta s) \<and> sec_data s' = sec_data (set_data kvs s)
    \<and> secs w' = (secs w)(meta_key (sec_meta s) \<mapsto> s')"
proof -
  from assms(2) have "kc_update (rc_secret_client r) (set_data kvs s) w = (Inr s', w')"
    by (auto simp: on_error_def split: prod.splits sum.splits)
  from put_lawD(1) [OF object_storeD(5) [OF secret_worldD(1) [OF assms(1)]] this] show ?thesis
    by (simp add: same_secret_def)
qed

lemma backfill_effect:
  assumes "secret_world r secs" and "backfillKCMToken r s w = (Inr s', w')" and "secs w k = Some s" and "meta_key (sec_meta s) = k"
  shows "secs w' k = Some s' \<and> meta_key (sec_meta s') = k
    \<and> (\<forall>f. f \<noteq> ''kcm.token'' \<or> sm_get (sec_data s) f \<noteq> '''' \<longrightarrow> sm_get (sec_data s') f = sm_get (sec_data s) f)
    \<and> (sm_get (sec_data s) ''kcm.token'' \<noteq> '''' \<longrightarrow> secs w' = secs w \<and> s' = s)"
proof (cases "sm_get (sec_data s) ''kcm.token'' = ''''")
  case False
  with assms show ?thesis by (simp add: backfillKCMToken_def)
next
  case True
  with assms(2) obtain t w1 where t: "generateToken (rc_rand r) w = (Inr t, w1)"
    and u: "on_error (wrap_error ''backfilling kcm token'') (kc_update (rc_secret_client r) (set_data [(''kcm.token'', t)] s)) w1 = (Inr s', w')"
    by (auto simp: backfillKCMToken_def elim: and_then_InrE)
  with update_data [OF assms(1) u] True assms(4) show ?thesis
    by (auto simp: sm_get_set_data gm_get_def)
qed

lemma reissue_effect:
  assumes "secret_world r secs" and "reissueServingCert r kt s ip w = (Inr s', w')" and "secs w k = Some s" and "meta_key (sec_meta s) = k"
  shows "secs w' k = Some s' \<and> meta_key (sec_meta s') = k
    \<and> (\<forall>f. f \<notin> {''ca.crt'', ''ca.key'', ''tls.crt'', ''tls.key''} \<longrightarrow> sm_get (sec_data s') f = sm_get (sec_data s) f)
    \<and> (sm_get (sec_data s) ''ca.crt'' \<noteq> '''' \<and> sm_get (sec_data s) ''ca.key'' \<noteq> '''' \<longrightarrow>
         sm_get (sec_data s') ''ca.crt'' = sm_get (sec_data s) ''ca.crt'' \<and> sm_get (sec_data s') ''ca.key'' = sm_get (sec_data s) ''ca.key'')
    \<and> (ip \<noteq> '''' \<and> cy_parse_ip (rc_crypto r) ip \<noteq> None \<longrightarrow> certCoversIP (rc_crypto r) (sm_get (sec_data s') ''tls.crt'') ip)"
proof -
  let ?ca = "let caCert = sm_get (sec_data s) ''ca.crt''; caKey = sm_get (sec_data s) ''ca.key'' in
        if caCert = '''' \<or> caKey = '''' then
          on_error (wrap_error ''regenerating CA to reissue serving cert'') (GenerateCA (rc_crypto r) ''kubernetes'')
        else ok (caCert, caKey)"
  from assms(2) obtain cert key w1 where a: "?ca w = (Inr (cert, key), w1)" and
    b: "and_then (on_error (wrap_error ''reissuing serving cert'') (IssueServerCert (rc_crypto r) cert key (serving_names kt ip)))
      (\<lambda>(leafCert, leafKey). on_error (wrap_error ''saving reissued serving cert'')
         (kc_update (rc_secret_client r)
            (set_data [(''ca.crt'', cert), (''ca.key'', key), (''tls.crt'', leafCert), (''tls.key'', leafKey)] s))) w1 = (Inr s', w')"
    unfolding reissueServingCert_def by (elim and_then_InrE) (auto split: prod.splits)
  from b obtain leaf lk w2 where i: "IssueServerCert (rc_crypto r) cert key (serving_names kt ip) w1 = (Inr (leaf, lk), w2)"
    and u: "on_error (wrap_error ''saving reissued serving cert'') (kc_update (rc_secret_client r)
            (set_data [(''ca.crt'', cert), (''ca.key'', key), (''tls.crt'', leaf), (''tls.key'', lk)] s)) w2 = (Inr s', w')"
    by (elim and_then_InrE) (auto simp: on_error_def split: prod.splits sum.splits)
  have ca: "cert = sm_get (sec_data s) ''ca.crt'' \<and> key = sm_get (sec_data s) ''ca.key''"
    if "sm_get (sec_data s) ''ca.crt'' \<noteq> ''''" "sm_get (sec_data s) ''ca.key'' \<noteq> ''''"
    using a that by (simp add: Let_def)
  have "ip \<in> set (serving_names kt ip)" by (simp add: serving_names_def)
  with update_data [OF assms(1) u] assms(4) ca certCoversIP_issued [OF secret_worldD(3) [OF assms(1)] i] show ?thesis
    by (auto simp: sm_get_set_data gm_get_def)
qed


definition ex_old_secret :: Secret where
  "ex_old_secret =
     \<lparr>sec_meta = new_meta ''trap-decoy'' ''decoys'' [], sec_type = ''Opaque'',
      sec_data = [(''token'', ''T''), (''kcm.token'', ''M''), (''ca.crt'', ''-''), (''ca.key'', ''-k''), (''tls.crt'', '''')]\<rparr>"

lemma ex_issue: "\<exists>cert k. IssueServerCert ex_crypto ''-'' ''-k'' names w = (Inr (cert, k), w)"
  by (simp add: IssueServerCert_def ex_crypto_def and_then_def pure_result_def reading_def)

lemma ex_old_secret_sel:
  "sm_get (sec_data ex_old_secret) ''token'' = ''T''" "sm_get (sec_data ex_old_secret) ''kcm.token'' = ''M''"
  "sm_get (sec_data ex_old_secret) ''ca.crt'' = ''-''" "sm_get (sec_data ex_old_secret) ''ca.key'' = ''-k''"
  "sm_get (sec_data ex_old_secret) ''tls.crt'' = ''''" "meta_key (sec_meta ex_old_secret) = (''decoys'', ''trap-decoy'')"
  by (simp_all add: ex_old_secret_def sm_get_def gm_get_def)


section \<open>Joining never restarts a decoy\<close>

lemma map_of_sort_key: "distinct (map fst xs) \<Longrightarrow> map_of (sort_key f xs) = map_of xs"
  by (rule map_of_inject_set [THEN iffD2]) (simp_all add: distinct_map)

lemma rollout_doc_get: "map_of (rollout_doc data) k = (if k = seedFileName then None else map_option JStr (map_of data k))"
  if "wf_map data" for data
proof -
  let ?xs = "map (\<lambda>(k, v). (k, JStr v)) (filter (\<lambda>(k, v). k \<noteq> seedFileName) data)"
  have "map fst ?xs = filter (\<lambda>k. k \<noteq> seedFileName) (map fst data)" by (induction data) auto
  then have d: "distinct (map fst ?xs)" using that by simp
  then have "map_of (sort_key fst ?xs) = map_of ?xs" by (rule map_of_sort_key)
  moreover have "map_of ?xs k = (if k = seedFileName then None else map_option JStr (map_of data k))"
    by (induction data) auto
  ultimately show ?thesis by (simp add: rollout_doc_def)
qed



section \<open>Status writes and the attack counters\<close>

text \<open>
  The calls besides the status writes leave the persisted counts alone: Secrets and the other
  objects are different objects, and an update of a Decoy does not write its status, which is a
  subresource.
\<close>

definition counts_world :: "'w reconciler \<Rightarrow> ('w \<Rightarrow> nsname \<Rightarrow> int64) \<Rightarrow> bool" where
  "counts_world r obs \<longleftrightarrow>
     status_store (rc_decoy_client r) obs \<and> (\<forall>opts. keeps obs (kc_list (rc_decoy_client r) opts))
     \<and> (\<forall>kt. keeps obs (kc_update (rc_decoy_client r) kt)) \<and> quiet_env obs r \<and> quiet_kind obs (rc_secrets r)
     \<and> retry_contract (rk_retry (rc_decoys r)) \<and> retry_contract (rc_retry_failed r)"

lemma counts_worldD:
  assumes "counts_world r obs"
  shows "status_store (rc_decoy_client r) obs" "keeps obs (kc_list (rc_decoy_client r) opts)" "keeps obs (kc_update (rc_decoy_client r) kt)"
    "quiet_env obs r" "quiet_kind obs (rc_secrets r)" "retry_contract (rk_retry (rc_decoys r))" "retry_contract (rc_retry_failed r)"
    "keeps obs (kc_get (rc_decoy_client r) k)"
proof -
  note d = assms [unfolded counts_world_def]
  show "status_store (rc_decoy_client r) obs" "keeps obs (kc_list (rc_decoy_client r) opts)" "keeps obs (kc_update (rc_decoy_client r) kt)"
    "quiet_env obs r" "quiet_kind obs (rc_secrets r)" "retry_contract (rk_retry (rc_decoys r))" "retry_contract (rc_retry_failed r)"
    using d by blast+
  show "keeps obs (kc_get (rc_decoy_client r) k)"
    unfolding keeps_def using status_storeD(1) [OF d [THEN conjunct1]] by (metis prod.collapse)
qed

text \<open>Writing back a status whose activity is the one just read changes no count.\<close>

lemma status_rewrite:
  assumes "status_store c obs" and "kc_get c key w = (Inr kt, w1)" and "obs w2 = obs w1"
    and "meta_key (kt_meta kt') = meta_key (kt_meta kt)" and "st_intrusionActivity (kt_status kt') = st_intrusionActivity (kt_status kt)"
    and "kc_update_status c kt' w2 = (x, w3)"
  shows "obs w3 = obs w"
proof -
  note st = status_storeD [OF assms(1)]
  have "status_count kt' = status_count kt" using assms(5) by (simp add: status_count_def)
  then show ?thesis
    using st(1) [OF assms(2)] st(2) [OF assms(2)] assms(3,4) st(3,4) [of kt' w2] assms(6)
    by (cases x) (auto simp: fun_upd_idem)
qed

lemma keeps_status_once_counts:
  assumes "counts_world r obs"
  shows "keeps obs (status_once r key phase sn server joined)"
  unfolding keeps_def
proof
  fix w
  obtain g w1 where g: "kc_get (rc_decoy_client r) key w = (g, w1)" by fastforce
  show "obs (snd (status_once r key phase sn server joined w)) = obs w"
  proof (cases g)
    case (Inl e)
    with g status_storeD(1) [OF counts_worldD(1) [OF assms] g] show ?thesis by (simp add: status_once_def)
  next
    case (Inr kt)
    obtain x w2 where x: "status_once r key phase sn server joined w = (x, w2)" by fastforce
    have "obs w2 = obs w"
      by (rule status_rewrite [OF counts_worldD(1) [OF assms] g [unfolded Inr] refl, where x = x])
        (use x g Inr in \<open>auto simp: status_once_def\<close>)
    with x show ?thesis by simp
  qed
qed

lemma markFailed_counts:
  fixes r :: "'w reconciler"
  assumes "counts_world r obs"
  shows "obs (markFailed r name e w) = obs w"
proof -
  note env = counts_worldD(4) [OF assms]
  have once: "keeps (\<lambda>s. obs (fst s)) (failed_once r name e)"
    unfolding keeps_def
  proof
    fix s :: "'w \<times> Decoy option \<times> bool"
    obtain w0 k b where s: "s = (w0, k, b)" by (cases s)
    obtain g w1 where g: "kc_get (rc_decoy_client r) name w0 = (g, w1)" by fastforce
    note w1 = status_storeD(1) [OF counts_worldD(1) [OF assms] g]
    show "obs (fst (snd (failed_once r name e s))) = obs (fst s)"
    proof (cases g)
      case (Inl e)
      with g w1 s show ?thesis by (simp add: failed_once_def)
    next
      case (Inr kt)
      let ?w2 = "rc_metrics r (SetPhase (kt_ns kt) (kt_name kt) ''Failed'') w1"
      let ?kt = "kt\<lparr>kt_status := (kt_status kt)\<lparr>st_phase := Failed,
           st_conditions := rc_setcond r (st_conditions (kt_status kt)) (ready_condition kt ''False'' ''ReconcileFailed'' (err_msg e))\<rparr>\<rparr>"
      obtain x w3 where x: "kc_update_status (rc_decoy_client r) ?kt ?w2 = (x, w3)" by fastforce
      have "obs w3 = obs w0"
        by (rule status_rewrite [OF counts_worldD(1) [OF assms] g [unfolded Inr] quiet_envD(9) [OF env] _ _ x]) simp_all
      with s g Inr x w1 show ?thesis
        by (cases x) (auto simp: failed_once_def Let_def)
    qed
  qed
  obtain x s where x: "rc_retry_failed r (failed_once r name e) (w, None, False) = (x, s)" by (meson surj_pair)
  have "obs (fst s) = obs w"
    using keepsD [OF keeps_retry [OF counts_worldD(7) [OF assms] once] x] by simp
  moreover have "obs (snd (record_event r kt t rs m u)) = obs u" for kt t rs m u
    using keeps_record_event [OF env] by (simp add: keeps_def)
  ultimately show ?thesis
    unfolding markFailed_def x by (auto split: prod.splits sum.splits option.splits bool.splits)
qed

lemma keeps_secret_steps:
  assumes "quiet_env v r" and "quiet_kind v (rc_secrets r)"
  shows "keeps v (reconcileSecret r kt name ip)" and "keeps v (reconcileKubeconfig r kt name s server)"
    and "keeps v (reconcileMirroredSecrets r kt s joined)" and "keeps v (deleteMirroredSecrets r kt)"
proof -
  note q = quiet_clientD [OF quiet_kind_client [OF assms(2)]] and cr = crypto_quiet_keeps [OF quiet_envD(7) [OF assms(1)]]
  note tok = keeps_generateToken [OF assms(1)]
  have "keeps v (backfillKCMToken r s)" for s
    unfolding backfillKCMToken_def by (auto intro!: keeps_and_then keeps_on_error keeps_basic tok q)
  moreover have "keeps v (reissueServingCert r kt s ip)" for s
    unfolding reissueServingCert_def Let_def by (auto intro!: keeps_and_then keeps_on_error keeps_basic cr q split: prod.split)
  moreover have "keeps v (newSecret r kt name ip)"
    unfolding newSecret_def
    by (intro keeps_and_then tok cr; clarify; intro keeps_and_then cr; clarify; intro keeps_and_then cr; clarify; intro keeps_and_then keeps_pure q)
  ultimately show "keeps v (reconcileSecret r kt name ip)"
    unfolding reconcileSecret_def by (intro keeps_try_call q) (auto intro!: keeps_and_then keeps_basic split: sum.split)
  have "keeps v (kubeconfig_once r kt name kc)" for kc
    unfolding kubeconfig_once_def by (intro keeps_and_then q)
  then show "keeps v (reconcileKubeconfig r kt name s server)"
    unfolding reconcileKubeconfig_def Let_def
    using keeps_retry [OF assms(2) [unfolded quiet_kind_def, THEN conjunct2]] by (auto intro!: keeps_and_then keeps_basic)
  have del: "keeps v (delete_secret r what s)" for what s
    unfolding delete_secret_def by (intro keeps_try_call q) (auto intro: keeps_basic split: sum.split)
  have "keeps v (apply_mirror r kt s ns)" for ns
    unfolding apply_mirror_def by (intro keeps_try_call keeps_applyResource assms(2)) (auto intro: keeps_basic split: sum.split)
  then show "keeps v (reconcileMirroredSecrets r kt s joined)"
    unfolding reconcileMirroredSecrets_def by (intro keeps_and_then keeps_each keeps_on_error q del)
  show "keeps v (deleteMirroredSecrets r kt)"
    unfolding deleteMirroredSecrets_def by (intro keeps_and_then keeps_each keeps_on_error q del)
qed

lemma reconcile_counts:
  assumes "counts_world r obs"
  shows "keeps obs (reconcile r req)"
proof -
  note cw = counts_worldD [OF assms]
  note steps = keeps_secret_steps [OF cw(4,5)]
  have fin: "keeps obs (setMirroredSecretsFinalizer r kt want)" for kt want
    unfolding setMirroredSecretsFinalizer_def by (auto intro: keeps_basic cw split: prod.split)
  have mir: "keeps obs (reconcile_mirrors r kt s joined)" for kt s joined
    unfolding reconcile_mirrors_def Let_def by (auto intro!: keeps_and_then keeps_on_error keeps_basic steps fin)
  have st: "keeps obs (updateStatus r kt sn server joined)" for kt sn server joined
    by (rule keeps_updateStatus [OF cw(4,6)]) (rule keeps_status_once_counts [OF assms])
  have live: "keeps obs (reconcile_live r kt)" for kt
    unfolding reconcile_live_def Let_def
    by (intro keeps_and_then keeps_on_error keeps_with_ref keeps_apply(3) keeps_listJoinedPods keeps_reconcileJoinTransitions
        keeps_reconcile_workload steps mir st cw)
  have "keeps obs (reconcile_deleted r kt)" for kt
    unfolding reconcile_deleted_def by (auto intro!: keeps_and_then keeps_basic steps cw)
  with live show ?thesis
    unfolding reconcile_def
    by (intro keeps_try_call cw) (auto intro!: keeps_basic keeps_emit cw split: sum.split)
qed


text \<open>
  The run of the witness: the two requests of \<open>ex_tracker\<close>, one of them written, and then a
  reconcile of the decoy in a cluster where every other object is fixed.
\<close>

definition ex_counting :: "IntrusionActivity option reconciler" where
  "ex_counting =
     \<lparr>rc_decoys = ex_kind one_client, rc_pods = static_client [] pod_meta, rc_secrets = ex_kind (static_client [] sec_meta),
      rc_services = ex_kind (static_client [] svc_meta), rc_configmaps = ex_kind (static_client [] cm_meta),
      rc_deployments = ex_kind (static_client [] dep_meta), rc_netpols = ex_kind (static_client [] np_meta),
      rc_pvcs = static_client [] pvc_meta, rc_retry_failed = retry_times 4, rc_setref = (\<lambda>ow m. Inr m),
      rc_controlled_by = (\<lambda>m ow. False), rc_setcond = (\<lambda>cs c. c # cs), rc_add_finalizer = (\<lambda>f m. (m, False)),
      rc_remove_finalizer = (\<lambda>f m. (m, False)), rc_contains_finalizer = (\<lambda>f m. False), rc_quantity_zero = (\<lambda>q. False),
      rc_metrics = (\<lambda>ops w. w), rc_recorder = None, rc_notifier = None, rc_crypto = ex_crypto,
      rc_rand = (\<lambda>n. ok ''rrr''), rc_marshal = (\<lambda>v. ''{}''), rc_yaml = (\<lambda>v. ''yaml''), rc_managerURL = ''''\<rparr>"

lemma static_quiet: "quiet_client v (static_client objs meta)"
  by (auto simp: quiet_client_def keeps_def static_client_def split: option.split)

lemma ex_counting_world: "counts_world ex_counting one_count"
proof -
  have "keeps one_count (kc_list one_client opts)" "keeps one_count (kc_update one_client kt)" for opts kt
    by (simp_all add: keeps_def one_client_def)
  then show ?thesis
    unfolding counts_world_def quiet_env_def quiet_kind_def
    by (simp add: ex_counting_def one_client_store static_quiet retry_times_contract ex_crypto_quiet keeps_basic del: retry_times.simps)
qed

lemma tracker_step_mono:
  "tracker_step c rt P s t \<Longrightarrow> (\<And>v v'. P v v' \<Longrightarrow> Q v v') \<Longrightarrow> tracker_step c rt Q s t"
  by (induction rule: tracker_step.induct) (auto intro: tracker_step.intros)


end
