(* ===== verification/Shim_Helpers.thy ===== *)
theory Shim_Helpers
  imports Sha256 Seed
begin

text \<open>
  The pure parts of \<^verbatim>\<open>src/internal/kubeletshim\<close>: the stable identifiers of \<^verbatim>\<open>helpers.go\<close>, the
  addresses, statuses, images and custom resource definitions of \<^verbatim>\<open>kubeletshim.go\<close>. Everything
  here depends on names only, so a re-seed computes the same values again.
\<close>

unbundle bit_operations_syntax

section \<open>Stable identifiers\<close>

definition hexBlob :: "string \<Rightarrow> nat \<Rightarrow> string" where
  "hexBlob seed n = hex_encode (take n (sha256 seed))"

text \<open>The slice \<^verbatim>\<open>h[a:b]\<close>.\<close>

definition substr :: "nat \<Rightarrow> nat \<Rightarrow> string \<Rightarrow> string" where
  "substr a b h = drop a (take b h)"

definition uuidFrom :: "string \<Rightarrow> string" where
  "uuidFrom seed =
     (let h = hexBlob seed 16 in
      substr 0 8 h @ ''-'' @ substr 8 12 h @ ''-'' @ substr 12 16 h @ ''-'' @ substr 16 20 h @ ''-'' @ substr 20 32 h)"

text \<open>\<^verbatim>\<open>fnv.New32a\<close>: FNV-1a on 32-bit words, whose multiplication wraps.\<close>

definition fnv_offset :: u32 where
  "fnv_offset = 2166136261"

definition fnv_prime :: u32 where
  "fnv_prime = 16777619"

definition hash32 :: "string \<Rightarrow> u32" where
  "hash32 s = fold (\<lambda>c h. (h XOR of_nat (of_char c)) * fnv_prime) s fnv_offset"

definition replicaSuffix :: "string \<Rightarrow> int \<Rightarrow> string" where
  "replicaSuffix base n = hexBlob (base @ ''-'' @ Itoa n) 5"

definition fakeContainerID :: "string \<Rightarrow> string \<Rightarrow> string" where
  "fakeContainerID podName containerName =
     ''containerd://'' @ hexBlob (''containerid/'' @ podName @ ''/'' @ containerName) 32"

definition fakeImageID :: "string \<Rightarrow> string" where
  "fakeImageID img = img @ ''@sha256:'' @ hexBlob (''imageid/'' @ img) 32"

definition fakeUID :: "string \<Rightarrow> string" where
  "fakeUID key = uuidFrom (''uid/'' @ key)"

definition fakeMachineID :: "string \<Rightarrow> string" where
  "fakeMachineID nodeName = hexBlob (''machine-id/'' @ nodeName) 16"

definition fakeSystemUUID :: "string \<Rightarrow> string" where
  "fakeSystemUUID nodeName = uuidFrom (''system-uuid/'' @ nodeName)"

definition fakeBootID :: "string \<Rightarrow> string" where
  "fakeBootID nodeName = uuidFrom (''boot-id/'' @ nodeName)"

section \<open>Pods\<close>

definition fakePodIP :: "string \<Rightarrow> string \<Rightarrow> string" where
  "fakePodIP nodeName podName =
     (let third = hash32 nodeName mod 200;
          fourth = 2 + hash32 (nodeName @ ''/'' @ podName) mod 250 in
      ''10.244.'' @ Itoa (uint third) @ ''.'' @ Itoa (uint fourth))"

definition stableRestartCount :: "string \<Rightarrow> string \<Rightarrow> int" where
  "stableRestartCount podName containerName =
     (let b = uint (hash32 (podName @ ''/'' @ containerName) mod 32) in
      if b < 24 then 0 else if b < 30 then 1 else 2)"

definition runningContainerStatuses :: "string \<Rightarrow> Container list \<Rightarrow> int \<Rightarrow> ContainerStatus list" where
  "runningContainerStatuses podName containers startedAt =
     map (\<lambda>c. \<lparr>cs_name = c_name c, cs_image = c_image c, cs_ready = True, cs_started = Some True,
               cs_restartCount = stableRestartCount podName (c_name c),
               cs_containerID = fakeContainerID podName (c_name c),
               cs_imageID = fakeImageID (c_image c), cs_startedAt = startedAt\<rparr>) containers"

definition podStatus :: "int \<Rightarrow> string \<Rightarrow> string \<Rightarrow> string \<Rightarrow> ContainerStatus list \<Rightarrow> bool \<Rightarrow> PodStatus" where
  "podStatus startTime podName nodeName hostIP statuses hostNetwork =
     (let podIP = (if hostNetwork then hostIP else fakePodIP nodeName podName) in
      \<lparr>pst_phase = ''Running'', pst_startTime = Some startTime,
       pst_conditions = [\<lparr>pc_type = ''Ready'', pc_status = ''True'', pc_lastTransition = startTime\<rparr>],
       pst_hostIP = hostIP, pst_podIP = podIP, pst_podIPs = [podIP], pst_containerStatuses = statuses\<rparr>)"

text \<open>\<open>now\<close> is what \<^verbatim>\<open>metav1.Now()\<close> returns; \<open>0\<close> is the zero time.\<close>

definition podStartTime :: "int \<Rightarrow> Pod \<Rightarrow> int" where
  "podStartTime now p =
     (if m_creationTimestamp (pod_meta p) \<noteq> 0 then m_creationTimestamp (pod_meta p) else now)"

section \<open>Nodes\<close>

record Taint =
  tn_key :: string
  tn_value :: string
  tn_effect :: string

record ContainerImage =
  ci_names :: "string list"
  ci_sizeBytes :: int

record NodeSystemInfo =
  ni_kubeletVersion :: string
  ni_kernelVersion :: string
  ni_operatingSystem :: string
  ni_architecture :: string
  ni_osImage :: string
  ni_containerRuntimeVersion :: string
  ni_machineID :: string
  ni_systemUUID :: string
  ni_bootID :: string

record NodeCondition =
  nc_type :: string
  nc_status :: string
  nc_reason :: string
  nc_message :: string
  nc_lastHeartbeat :: int
  nc_lastTransition :: int

record NodeStatus =
  ns_info :: NodeSystemInfo
  ns_addresses :: "(string \<times> string) list"
  ns_conditions :: "NodeCondition list"
  ns_kubeletPort :: int
  ns_capacity :: smap
  ns_allocatable :: smap
  ns_images :: "ContainerImage list"

record Node =
  node_meta :: ObjectMeta
  node_taints :: "Taint list"
  node_status :: NodeStatus

definition empty_nodestatus :: NodeStatus where
  "empty_nodestatus =
     \<lparr>ns_info = \<lparr>ni_kubeletVersion = '''', ni_kernelVersion = '''', ni_operatingSystem = '''',
                 ni_architecture = '''', ni_osImage = '''', ni_containerRuntimeVersion = '''',
                 ni_machineID = '''', ni_systemUUID = '''', ni_bootID = ''''\<rparr>,
      ns_addresses = [], ns_conditions = [], ns_kubeletPort = 0, ns_capacity = [], ns_allocatable = [],
      ns_images = []\<rparr>"

definition not_ready_taint :: "Taint \<Rightarrow> bool" where
  "not_ready_taint t \<longleftrightarrow>
     tn_key t = ''node.kubernetes.io/not-ready'' \<or> tn_key t = ''node.kubernetes.io/unreachable''"

fun stripNotReadyTaints :: "Taint list \<Rightarrow> Taint list" where
  "stripNotReadyTaints [] = []"
| "stripNotReadyTaints (t # ts) =
     (if not_ready_taint t then stripNotReadyTaints ts else t # stripNotReadyTaints ts)"

definition node_image :: "string \<Rightarrow> int \<Rightarrow> ContainerImage" where
  "node_image name bytes = \<lparr>ci_names = [name], ci_sizeBytes = bytes\<rparr>"

definition nodeImages :: "string \<Rightarrow> ContainerImage list" where
  "nodeImages version =
     [node_image (''registry.k8s.io/kube-apiserver:'' @ version) 91000000,
      node_image (''registry.k8s.io/kube-controller-manager:'' @ version) 88000000,
      node_image (''registry.k8s.io/kube-scheduler:'' @ version) 67000000,
      node_image (''registry.k8s.io/kube-proxy:'' @ version) 92000000,
      node_image ''registry.k8s.io/etcd:3.5.16-0'' 151000000,
      node_image ''registry.k8s.io/coredns/coredns:v1.11.3'' 61000000,
      node_image ''registry.k8s.io/pause:3.10'' 736000]"

definition kernelRelease :: string where
  "kernelRelease = ''6.8.0-45-generic''"

definition kernelVersionText :: string where
  "kernelVersionText = ''#45-Ubuntu SMP PREEMPT_DYNAMIC Mon Jul 15 12:00:00 UTC 2024''"

section \<open>Custom resource definitions\<close>

record CRDVersion =
  cv_name :: string
  cv_served :: bool
  cv_storage :: bool
  cv_preserveUnknown :: bool

record CRD =
  crdo_meta :: ObjectMeta
  crdo_group :: string
  crdo_plural :: string
  crdo_singular :: string
  crdo_kind :: string
  crdo_listKind :: string
  crdo_shortNames :: "string list"
  crdo_scope :: string
  crdo_versions :: "CRDVersion list"

definition ToLower :: "string \<Rightarrow> string" where
  "ToLower s = map ascii_lower s"

definition crd_versions_from :: "string list \<Rightarrow> CRDVersion list" where
  "crd_versions_from vs =
     map (\<lambda>(i, v). \<lparr>cv_name = v, cv_served = True, cv_storage = (i = 0), cv_preserveUnknown = True\<rparr>) (enumerate 0 vs)"

definition buildCRD :: "SeedCRD \<Rightarrow> CRD" where
  "buildCRD c =
     (let scope = (if crd_scope c = ''Cluster'' then ''Cluster'' else ''Namespaced'');
          singular = (if crd_singular c = '''' then ToLower (crd_kind c) else crd_singular c);
          versions = (if length (crd_versions c) = 0 then [''v1''] else crd_versions c) in
      \<lparr>crdo_meta = new_meta (crd_plural c @ ''.'' @ crd_group c) '''' [], crdo_group = crd_group c,
       crdo_plural = crd_plural c, crdo_singular = singular, crdo_kind = crd_kind c,
       crdo_listKind = crd_kind c @ ''List'', crdo_shortNames = crd_shortNames c, crdo_scope = scope,
       crdo_versions = crd_versions_from versions\<rparr>)"

section \<open>Facts\<close>

lemma length_hexBlob: "n \<le> 32 \<Longrightarrow> length (hexBlob s n) = 2 * n"
  by (simp add: hexBlob_def)

lemma hexBlob_digits: "c \<in> set (hexBlob s n) \<Longrightarrow> is_hex_digit c"
  unfolding hexBlob_def by (rule hex_encode_digits)

lemma length_substr: "a \<le> b \<Longrightarrow> b \<le> length h \<Longrightarrow> length (substr a b h) = b - a"
  by (simp add: substr_def)

lemma set_substr: "set (substr a b h) \<subseteq> set h"
  unfolding substr_def by (meson order_trans set_drop_subset set_take_subset)

lemma substr_hexBlob:
  "b \<le> 32 \<Longrightarrow> a \<le> b \<Longrightarrow> length (substr a b (hexBlob s 16)) = b - a"
  "c \<in> set (substr a b (hexBlob s 16)) \<Longrightarrow> is_hex_digit c"
  by (simp add: length_substr length_hexBlob) (meson hexBlob_digits set_substr subsetD)

text \<open>A dashed UUID: five groups of 8, 4, 4, 4 and 12 lower-case hexadecimal digits.\<close>

definition is_uuid :: "string \<Rightarrow> bool" where
  "is_uuid u \<longleftrightarrow>
     length u = 36 \<and> (\<forall>i < 36. if i \<in> {8, 13, 18, 23} then u ! i = CHR ''-'' else is_hex_digit (u ! i))"

lemma nth_hex_block: "\<forall>c \<in> set xs. is_hex_digit c \<Longrightarrow> i < length xs \<Longrightarrow> is_hex_digit (xs ! i)"
  by simp

lemma is_uuid_groups:
  assumes "length a = 8" "length b = 4" "length c = 4" "length d = 4" "length e = 12"
    and "\<forall>x \<in> set (a @ b @ c @ d @ e). is_hex_digit x"
  shows "is_uuid (a @ ''-'' @ b @ ''-'' @ c @ ''-'' @ d @ ''-'' @ e)"
  unfolding is_uuid_def
proof (intro conjI allI impI)
  fix i :: nat assume "i < 36"
  let ?u = "a @ ''-'' @ b @ ''-'' @ c @ ''-'' @ d @ ''-'' @ e"
  have "is_hex_digit (a ! j)" if "j < 8" for j using that assms by simp
  moreover have "is_hex_digit (b ! j)" "is_hex_digit (c ! j)" "is_hex_digit (d ! j)" if "j < 4" for j
    using that assms by simp_all
  moreover have "is_hex_digit (e ! j)" if "j < 12" for j using that assms by simp
  ultimately show "if i \<in> {8, 13, 18, 23} then ?u ! i = CHR ''-'' else is_hex_digit (?u ! i)"
    using \<open>i < 36\<close> assms(1-5) by (auto simp: nth_append nth_Cons')
qed (use assms in simp)

lemma uuidFrom_is_uuid: "is_uuid (uuidFrom s)"
  unfolding uuidFrom_def Let_def
  by (rule is_uuid_groups) (auto simp: substr_hexBlob(1) dest: substr_hexBlob(2))

lemma stripNotReadyTaints_filter: "stripNotReadyTaints ts = filter (\<lambda>t. \<not> not_ready_taint t) ts"
  by (induction ts) auto

lemma crd_versions_storage:
  assumes "vs \<noteq> []"
  shows "filter cv_storage (crd_versions_from vs) =
     [\<lparr>cv_name = hd vs, cv_served = True, cv_storage = True, cv_preserveUnknown = True\<rparr>]"
proof -
  obtain v rest where vs: "vs = v # rest" using assms by (cases vs) auto
  have "filter cv_storage (map (\<lambda>(i, v). \<lparr>cv_name = v, cv_served = True, cv_storage = (i = 0), cv_preserveUnknown = True\<rparr>) (enumerate (Suc n) xs)) = []" for n xs
    by (induction xs arbitrary: n) auto
  with vs show ?thesis by (simp add: crd_versions_from_def)
qed

lemma u32_mod_less: "0 < n \<Longrightarrow> n < 2 ^ 32 \<Longrightarrow> uint (x mod word_of_int n :: u32) < n"
  by (simp add: uint_mod_distrib uint_word_of_int_eq take_bit_int_eq_self)

end
