(* ===== verification/Shim_Client.thy ===== *)
theory Shim_Client
  imports Shim_Helpers Object_Store
begin

text \<open>
  What kubelet-shim talks to: the typed client of the decoy's own API server, one \<open>tclient\<close>
  record of calls per kind, and the state a \<^verbatim>\<open>Shim\<close> keeps between heartbeats
  (\<^verbatim>\<open>src/internal/kubeletshim/kubeletshim.go\<close>). An operation of the shim is a call on the
  pair of the shim's state and the outside world.
\<close>

section \<open>The kinds of the inner cluster\<close>

record Namespace =
  nsp_meta :: ObjectMeta
  nsp_finalizers :: "string list"

record Lease =
  le_meta :: ObjectMeta
  le_holder :: "string option"
  le_duration :: "int option"
  le_renewTime :: "int option"

record Endpoint =
  ep_addresses :: "string list"
  ep_ready :: "bool option"

record EndpointPort =
  epp_name :: string
  epp_port :: int
  epp_protocol :: string

record EndpointSlice =
  es_meta :: ObjectMeta
  es_addressType :: string
  es_endpoints :: "Endpoint list"
  es_ports :: "EndpointPort list"

text \<open>
  Deployments, ReplicaSets and DaemonSets as the shim builds them: it sets the replica count
  (none for a DaemonSet), the selector, the template and the counters of the status.
\<close>

record WorkloadSpec =
  ws_replicas :: "int option"
  ws_selector :: smap
  ws_template :: PodTemplate

record Workload =
  wl_meta :: ObjectMeta
  wl_spec :: WorkloadSpec
  wl_status :: "(string, int) gomap"

section \<open>The typed client\<close>

record DeleteOptions =
  do_grace :: "int option"
  do_uid :: "string option"

definition no_options :: DeleteOptions where
  "no_options = \<lparr>do_grace = None, do_uid = None\<rparr>"

definition force_delete :: DeleteOptions where
  "force_delete = \<lparr>do_grace = Some 0, do_uid = None\<rparr>"

record ('w, 'o) tclient =
  tc_get :: "nsname \<Rightarrow> ('w, 'o) call"
  tc_list :: "('w, 'o list) call"
  tc_create :: "'o \<Rightarrow> ('w, 'o) call"
  tc_update :: "'o \<Rightarrow> ('w, 'o) call"
  tc_updateStatus :: "'o \<Rightarrow> ('w, 'o) call"
  tc_delete :: "DeleteOptions \<Rightarrow> nsname \<Rightarrow> ('w, unit) call"
  tc_deleteCollection :: "DeleteOptions \<Rightarrow> string \<Rightarrow> ('w, unit) call"

text \<open>
  \<^verbatim>\<open>kubernetes.Interface\<close> and the client of \<^verbatim>\<open>apiextensions.k8s.io\<close> (which may be nil), and the
  clock. Objects without a namespace have the empty one.
\<close>

record 'w inner_api =
  in_nodes :: "('w, Node) tclient"
  in_pods :: "('w, Pod) tclient"
  in_secrets :: "('w, Secret) tclient"
  in_configMaps :: "('w, ConfigMap) tclient"
  in_services :: "('w, Service) tclient"
  in_endpointSlices :: "('w, EndpointSlice) tclient"
  in_leases :: "('w, Lease) tclient"
  in_namespaces :: "('w, Namespace) tclient"
  in_finalize :: "Namespace \<Rightarrow> ('w, Namespace) call"
  in_deployments :: "('w, Workload) tclient"
  in_replicaSets :: "('w, Workload) tclient"
  in_daemonSets :: "('w, Workload) tclient"
  in_crds :: "('w, CRD) tclient option"
  in_now :: "'w \<Rightarrow> int"

section \<open>The state of the shim\<close>

text \<open>\<^verbatim>\<open>Config\<close>, less the connection to the API server.\<close>

record ShimConfig =
  cfg_seed :: Seed
  cfg_seedPath :: string
  cfg_nodeInternalIP :: string
  cfg_kubeletPort :: int
  cfg_kubernetesServicePort :: int
  cfg_execProfile :: string
  cfg_execIsolation :: bool
  cfg_serviceAccountToken :: string
  cfg_serviceAccountDir :: string
  cfg_namespace :: string
  cfg_caBundlePath :: string
  cfg_recordExecSessions :: bool

text \<open>
  A value of \<^verbatim>\<open>seededPrev\<close> or \<^verbatim>\<open>seededCur\<close> is a closure that deletes one object. A closure
  captures the kind and the name only, so it is the datatype \<open>seeded\<close> here; running it is
  \<open>run_delete\<close> in the theory of the seed pass.
\<close>

datatype seeded =
    DelNode string
  | DelLease string
  | DelCRD string
  | DelController string string string
  | DelPod string string
  | DelSecret string string
  | DelConfigMap string string
  | DelService string string

record Shim =
  sh_cfg :: ShimConfig
  sh_logLines :: "(string, string list) gomap"
  sh_installedCRDs :: "string list"
  sh_objectUIDs :: smap
  sh_seededPrev :: "(string, seeded) gomap"
  sh_seededCur :: "(string, seeded) gomap option"

type_synonym ('w, 'a) shim_op = "(Shim \<times> 'w, 'a) call"

text \<open>A call to the outside, a read and an assignment of the shim's own state.\<close>

definition out :: "('w, 'a) call \<Rightarrow> ('w, 'a) shim_op" where
  "out m = (\<lambda>(sh, w). case m w of (r, w') \<Rightarrow> (r, (sh, w')))"

definition reads :: "(Shim \<Rightarrow> 'a) \<Rightarrow> ('w, 'a) shim_op" where
  "reads f = (\<lambda>(sh, w). (Inr (f sh), (sh, w)))"

definition clock :: "('w \<Rightarrow> int) \<Rightarrow> ('w, int) shim_op" where
  "clock f = (\<lambda>(sh, w). (Inr (f w), (sh, w)))"

definition modifies :: "(Shim \<Rightarrow> Shim) \<Rightarrow> ('w, unit) shim_op" where
  "modifies f = (\<lambda>(sh, w). (Inr (), (f sh, w)))"

lemma shim_op_run [simp]:
  "out m (sh, w) = (fst (m w), (sh, snd (m w)))"
  "reads f (sh, w) = (Inr (f sh), (sh, w))"
  "clock g (sh, w) = (Inr (g w), (sh, w))"
  "modifies h (sh, w) = (Inr (), (h sh, w))"
  by (simp_all add: out_def reads_def clock_def modifies_def split: prod.splits)

section \<open>Views of the shim and of the world\<close>

text \<open>\<open>shim_view\<close> looks at the shim's state only, \<open>out_view\<close> at the outside only.\<close>

abbreviation shim_view :: "(Shim \<Rightarrow> 'v) \<Rightarrow> Shim \<times> 'w \<Rightarrow> 'v" where
  "shim_view f \<equiv> (\<lambda>s. f (fst s))"

abbreviation out_view :: "('w \<Rightarrow> 'v) \<Rightarrow> Shim \<times> 'w \<Rightarrow> 'v" where
  "out_view v \<equiv> (\<lambda>s. v (snd s))"

lemma keeps_out [keeps_intros]: "keeps v m \<Longrightarrow> keeps (out_view v) (out m)"
  by (auto simp: keeps_def out_def split: prod.splits) (metis snd_conv)

lemma keeps_out_shim [keeps_intros]: "keeps (shim_view f) (out m)"
  by (auto simp: keeps_def out_def split: prod.splits)

lemma keeps_reads [keeps_intros]: "keeps v (reads f)" "keeps v (clock g)"
  by (auto simp: keeps_def reads_def clock_def)

lemma keeps_modifies_out [keeps_intros]: "keeps (out_view v) (modifies f)"
  by (auto simp: keeps_def modifies_def)

lemma keeps_modifies_shim: "(\<And>sh. f (g sh) = f sh) \<Longrightarrow> keeps (shim_view f) (modifies g)"
  by (auto simp: keeps_def modifies_def)

text \<open>
  \<open>updates v g m\<close>: when \<open>m\<close> succeeds, the view \<open>v\<close> has changed by \<open>g\<close>. Nothing is said about a
  run that fails.
\<close>

definition updates :: "('w \<Rightarrow> 'v) \<Rightarrow> ('v \<Rightarrow> 'v) \<Rightarrow> ('w, 'a) call \<Rightarrow> bool" where
  "updates v g m \<longleftrightarrow> (\<forall>w x w'. m w = (Inr x, w') \<longrightarrow> v w' = g (v w))"

lemma updatesD: "updates v g m \<Longrightarrow> m w = (Inr x, w') \<Longrightarrow> v w' = g (v w)"
  by (simp add: updates_def)

lemma keeps_updates: "keeps v m \<Longrightarrow> updates v id m"
  by (auto simp: updates_def dest: keepsD)

lemma updates_and_then:
  assumes "updates v g m" and "\<And>x. updates v h (f x)"
  shows "updates v (h \<circ> g) (and_then m f)"
  unfolding updates_def
proof (intro allI impI)
  fix w y w'' assume "and_then m f w = (Inr y, w'')"
  then obtain x w' where "m w = (Inr x, w')" "f x w' = (Inr y, w'')" by (rule and_then_InrE)
  with assms show "v w'' = (h \<circ> g) (v w)" by (metis comp_apply updatesD)
qed

lemma updates_on_error: "updates v g m \<Longrightarrow> updates v g (on_error h m)"
  by (auto simp: updates_def on_error_def split: prod.splits sum.splits)

lemma updates_each: "(\<And>x. x \<in> set xs \<Longrightarrow> updates v (g x) (f x)) \<Longrightarrow> updates v (fold g xs) (each xs f)"
proof (induction xs)
  case Nil
  show ?case by (simp add: updates_def)
next
  case (Cons x xs)
  then have "updates v (g x) (f x)" and "updates v (fold g xs) (each xs f)" by simp_all
  from updates_and_then [OF this] show ?case by (simp add: comp_def)
qed

lemma updates_modifies: "(\<And>sh. f (g sh) = h (f sh)) \<Longrightarrow> updates (shim_view f) h (modifies g)"
  by (auto simp: updates_def modifies_def)

end
