(* ===== verification/Kubelet_Shim.thy ===== *)
theory Kubelet_Shim
  imports Shim_Client
begin

text \<open>
  \<^verbatim>\<open>src/internal/kubeletshim/kubeletshim.go\<close> and \<^verbatim>\<open>controllers.go\<close>: the seed pass that keeps the
  inner cluster equal to the seed, one definition per method of \<^verbatim>\<open>Shim\<close>. \<open>api\<close> is the client
  the method calls; log lines are left out.
\<close>

section \<open>Shapes the methods share\<close>

text \<open>
  \<open>lookup get found missing\<close>: \<^verbatim>\<open>x, err := get; if IsNotFound(err) { missing }; if err != nil { return err }; found\<close>.
  \<open>ignoring P m\<close> runs \<open>m\<close> and drops its result and the errors \<open>P\<close> accepts.
\<close>

definition lookup :: "('s, 'o) call \<Rightarrow> ('o \<Rightarrow> ('s, 'b) call) \<Rightarrow> ('s, 'b) call \<Rightarrow> ('s, 'b) call" where
  "lookup get found missing =
     try_call get (\<lambda>r. case r of Inr x \<Rightarrow> found x | Inl e \<Rightarrow> if IsNotFound e then missing else fail e)"

definition ignoring :: "(go_error \<Rightarrow> bool) \<Rightarrow> ('s, 'a) call \<Rightarrow> ('s, unit) call" where
  "ignoring P m = try_call m (\<lambda>r. case r of Inr _ \<Rightarrow> ok () | Inl e \<Rightarrow> if P e then ok () else fail e)"

abbreviation best_effort :: "('s, 'a) call \<Rightarrow> ('s, unit) call" where
  "best_effort m \<equiv> ignoring (\<lambda>_. True) m"

abbreviation discard :: "('s, 'a) call \<Rightarrow> ('s, unit) call" where
  "discard m \<equiv> ignoring (\<lambda>_. False) m"

section \<open>Small methods\<close>

definition setLogLines :: "string \<Rightarrow> string \<Rightarrow> string list \<Rightarrow> ('w, unit) shim_op" where
  "setLogLines ns name lines =
     modifies (\<lambda>sh. sh\<lparr>sh_logLines := gm_set (ns @ ''/'' @ name) lines (sh_logLines sh)\<rparr>)"

definition getLogLines :: "Shim \<Rightarrow> string \<Rightarrow> string \<Rightarrow> string list option" where
  "getLogLines sh ns name = gm_get (sh_logLines sh) (ns @ ''/'' @ name)"

definition recordUID :: "string \<Rightarrow> string \<Rightarrow> ('w, unit) shim_op" where
  "recordUID kindName uid = modifies (\<lambda>sh. sh\<lparr>sh_objectUIDs := gm_set kindName uid (sh_objectUIDs sh)\<rparr>)"

definition resolveOwnerRefs :: "Shim \<Rightarrow> SeedOwnerRef list \<Rightarrow> OwnerReference list" where
  "resolveOwnerRefs sh refs =
     map (\<lambda>r. let key = sor_kind r @ ''/'' @ sor_name r in
        \<lparr>or_apiVersion = sor_apiVersion r, or_kind = sor_kind r, or_name = sor_name r,
         or_uid = (case gm_get (sh_objectUIDs sh) key of Some uid \<Rightarrow> uid | None \<Rightarrow> fakeUID key),
         or_controller = Some True, or_blockOwnerDeletion = Some True\<rparr>) refs"

definition markSeeded :: "string \<Rightarrow> seeded \<Rightarrow> ('w, unit) shim_op" where
  "markSeeded key del =
     modifies (\<lambda>sh. sh\<lparr>sh_seededCur := map_option (gm_set key del) (sh_seededCur sh)\<rparr>)"

definition currentSeed :: "Shim \<Rightarrow> Seed" where
  "currentSeed sh = cfg_seed (sh_cfg sh)"

text \<open>\<open>ReadFile\<close> and \<open>parse\<close> are the parameters of \<^verbatim>\<open>seed.Load\<close>.\<close>

definition reloadSeed :: "(string \<Rightarrow> ('w, string) call) \<Rightarrow> (string \<Rightarrow> json option) \<Rightarrow> ('w, unit) shim_op" where
  "reloadSeed ReadFile parse =
     and_then (reads (\<lambda>sh. cfg_seedPath (sh_cfg sh))) (\<lambda>path.
       if path = '''' then ok ()
       else try_call (out (Load ReadFile parse path)) (\<lambda>r. case r of
              Inl e \<Rightarrow> ok ()
            | Inr s \<Rightarrow> modifies (\<lambda>sh. sh\<lparr>sh_cfg := (sh_cfg sh)\<lparr>cfg_seed := s\<rparr>\<rparr>)))"

definition APIServerReachable :: "'w inner_api \<Rightarrow> 'w \<Rightarrow> bool \<times> 'w" where
  "APIServerReachable api w = (case tc_list (in_namespaces api) w of (r, w') \<Rightarrow> (case r of Inr _ \<Rightarrow> True | Inl _ \<Rightarrow> False, w'))"

section \<open>Namespaces\<close>

definition ensureNamespace :: "'w inner_api \<Rightarrow> string \<Rightarrow> ('w, unit) shim_op" where
  "ensureNamespace api name =
     lookup (out (tc_get (in_namespaces api) ('''', name))) (\<lambda>_. ok ())
       (ignoring IsAlreadyExists
          (out (tc_create (in_namespaces api) \<lparr>nsp_meta = new_meta name '''' [], nsp_finalizers = []\<rparr>)))"

definition purgeNamespace :: "'w inner_api \<Rightarrow> string \<Rightarrow> ('w, unit) shim_op" where
  "purgeNamespace api name =
     each [tc_deleteCollection (in_pods api), tc_deleteCollection (in_secrets api),
           tc_deleteCollection (in_configMaps api), tc_deleteCollection (in_deployments api),
           tc_deleteCollection (in_replicaSets api), tc_deleteCollection (in_daemonSets api)]
       (\<lambda>del. best_effort (out (del force_delete name)))"

definition finalizeTerminatingNamespaces :: "'w inner_api \<Rightarrow> ('w, unit) shim_op" where
  "finalizeTerminatingNamespaces api =
     and_then (out (tc_list (in_namespaces api))) (\<lambda>items.
       each items (\<lambda>ns.
         if m_deletionTimestamp (nsp_meta ns) = None then ok ()
         else and_then (purgeNamespace api (m_name (nsp_meta ns))) (\<lambda>_.
                ignoring (\<lambda>e. IsNotFound e \<or> IsConflict e)
                  (out (in_finalize api (ns\<lparr>nsp_finalizers := []\<rparr>))))))"

section \<open>Nodes and their leases\<close>

definition ready_transition :: "int \<Rightarrow> Node \<Rightarrow> int" where
  "ready_transition now node =
     fold (\<lambda>c t. if nc_type c = ''Ready'' \<and> nc_lastTransition c \<noteq> 0 then nc_lastTransition c else t)
       (ns_conditions (node_status node))
       (if m_creationTimestamp (node_meta node) = 0 then now else m_creationTimestamp (node_meta node))"

definition node_labels :: "string \<Rightarrow> bool \<Rightarrow> smap \<Rightarrow> smap" where
  "node_labels name controlPlane labels =
     (let base = fold (\<lambda>(k, v). gm_set k v)
            [(''kubernetes.io/hostname'', name), (''kubernetes.io/os'', ''linux''),
             (''kubernetes.io/arch'', ''amd64''), (''node.kubernetes.io/instance-type'', ''c2-m4'')] labels in
      if controlPlane
      then gm_set ''node.kubernetes.io/exclude-from-external-load-balancers'' ''''
             (gm_set ''node-role.kubernetes.io/control-plane'' '''' base)
      else base)"

text \<open>The closure \<^verbatim>\<open>build\<close> of \<^verbatim>\<open>upsertNode\<close>; \<open>None\<close> is its nil argument.\<close>

definition build_node :: "ShimConfig \<Rightarrow> int \<Rightarrow> FakeNode \<Rightarrow> bool \<Rightarrow> Node option \<Rightarrow> Node" where
  "build_node cfg now n controlPlane existing =
     (let node = (case existing of
                    Some x \<Rightarrow> x
                  | None \<Rightarrow> \<lparr>node_meta = new_meta (fn_name n) '''' [], node_taints = [], node_status = empty_nodestatus\<rparr>);
          version = (if fn_kubeletVersion n = '''' then ''v1.35.0'' else fn_kubeletVersion n) in
      node\<lparr>node_meta := (node_meta node)\<lparr>m_labels := node_labels (fn_name n) controlPlane (m_labels (node_meta node))\<rparr>,
           node_taints := stripNotReadyTaints (node_taints node),
           node_status :=
             \<lparr>ns_info =
                \<lparr>ni_kubeletVersion = version, ni_kernelVersion = kernelRelease, ni_operatingSystem = ''linux'',
                 ni_architecture = ''amd64'', ni_osImage = ''Ubuntu 24.04.3 LTS'',
                 ni_containerRuntimeVersion = ''containerd://2.2.0'', ni_machineID = fakeMachineID (fn_name n),
                 ni_systemUUID = fakeSystemUUID (fn_name n), ni_bootID = fakeBootID (fn_name n)\<rparr>,
              ns_addresses = [(''InternalIP'', cfg_nodeInternalIP cfg), (''Hostname'', fn_name n)],
              ns_conditions =
                [\<lparr>nc_type = ''Ready'', nc_status = ''True'', nc_reason = ''KubeletReady'',
                  nc_message = ''kubelet is posting ready status'', nc_lastHeartbeat = now,
                  nc_lastTransition = ready_transition now node\<rparr>],
              ns_kubeletPort = cfg_kubeletPort cfg,
              ns_capacity =
                [(''cpu'', ''2''), (''memory'', ''4Gi''), (''pods'', ''110''), (''ephemeral-storage'', ''50620216Ki'')],
              ns_allocatable =
                [(''cpu'', ''2''), (''memory'', ''4093952Ki''), (''pods'', ''110''), (''ephemeral-storage'', ''46663523866'')],
              ns_images = nodeImages version\<rparr>\<rparr>)"

definition upsertNode :: "'w inner_api \<Rightarrow> FakeNode \<Rightarrow> bool \<Rightarrow> ('w, unit) shim_op" where
  "upsertNode api n controlPlane =
     and_then (clock (in_now api)) (\<lambda>now.
     and_then (reads sh_cfg) (\<lambda>cfg.
       lookup (out (tc_get (in_nodes api) ('''', fn_name n)))
         (\<lambda>existing.
            let updated = build_node cfg now n controlPlane (Some existing) in
            and_then (recordUID (''Node/'' @ fn_name n) (m_uid (node_meta existing))) (\<lambda>_.
            and_then (out (tc_update (in_nodes api) updated)) (\<lambda>res.
              discard (out (tc_updateStatus (in_nodes api) (res\<lparr>node_status := node_status updated\<rparr>))))))
         (and_then (out (tc_create (in_nodes api) (build_node cfg now n controlPlane None))) (\<lambda>created.
          and_then (recordUID (''Node/'' @ fn_name n) (m_uid (node_meta created))) (\<lambda>_.
            discard (out (tc_updateStatus (in_nodes api) (build_node cfg now n controlPlane (Some created)))))))))"

definition node_owner :: "Shim \<Rightarrow> string \<Rightarrow> OwnerReference list" where
  "node_owner sh name =
     (case gm_get (sh_objectUIDs sh) (''Node/'' @ name) of
        Some uid \<Rightarrow> [\<lparr>or_apiVersion = ''v1'', or_kind = ''Node'', or_name = name, or_uid = uid,
                      or_controller = None, or_blockOwnerDeletion = None\<rparr>]
      | None \<Rightarrow> [])"

definition renew_lease :: "int \<Rightarrow> string \<Rightarrow> OwnerReference list \<Rightarrow> Lease \<Rightarrow> Lease" where
  "renew_lease now holder owners l =
     l\<lparr>le_renewTime := Some now,
       le_holder := (case le_holder l of None \<Rightarrow> Some holder | Some h \<Rightarrow> Some h),
       le_duration := (case le_duration l of None \<Rightarrow> Some 40 | Some d \<Rightarrow> Some d),
       le_meta := (le_meta l)\<lparr>m_ownerRefs := (if m_ownerRefs (le_meta l) = [] then owners else m_ownerRefs (le_meta l))\<rparr>\<rparr>"

definition ensureNodeLeases :: "'w inner_api \<Rightarrow> FakeNode list \<Rightarrow> ('w, unit) shim_op" where
  "ensureNodeLeases api nodes =
     (if length nodes = 0 then ok ()
      else and_then (ensureNamespace api ''kube-node-lease'') (\<lambda>_.
           and_then (clock (in_now api)) (\<lambda>now.
             each nodes (\<lambda>n.
               and_then (reads (\<lambda>sh. node_owner sh (fn_name n))) (\<lambda>owners.
                 lookup (out (tc_get (in_leases api) (''kube-node-lease'', fn_name n)))
                   (\<lambda>existing. discard (out (tc_update (in_leases api) (renew_lease now (fn_name n) owners existing))))
                   (ignoring IsAlreadyExists (out (tc_create (in_leases api)
                      \<lparr>le_meta = (new_meta (fn_name n) ''kube-node-lease'' [])\<lparr>m_ownerRefs := owners\<rparr>,
                       le_holder = Some (fn_name n), le_duration = Some 40, le_renewTime = Some now\<rparr>))))))))"

section \<open>Custom resource definitions, controllers\<close>

definition createCRDs :: "'w inner_api \<Rightarrow> SeedCRD list \<Rightarrow> ('w, unit) shim_op" where
  "createCRDs api crds =
     (case in_crds api of
        None \<Rightarrow> ok ()
      | Some client \<Rightarrow>
          each crds (\<lambda>c.
            let obj = buildCRD c; name = m_name (crdo_meta obj);
                remember = modifies (\<lambda>sh. sh\<lparr>sh_installedCRDs := List.insert name (sh_installedCRDs sh)\<rparr>) in
            and_then (reads (\<lambda>sh. name \<in> set (sh_installedCRDs sh))) (\<lambda>done.
              if done then ok ()
              else try_call (out (tc_get client ('''', name))) (\<lambda>r. case r of
                     Inr _ \<Rightarrow> remember
                   | Inl e \<Rightarrow>
                       if \<not> IsNotFound e then fail (wrap_error (''getting CRD '' @ Quote name) e)
                       else and_then (on_error (wrap_error (''creating CRD '' @ Quote name))
                              (ignoring IsAlreadyExists (out (tc_create client obj)))) (\<lambda>_. remember)))))"

text \<open>\<^verbatim>\<open>upsertDeployment\<close>, \<^verbatim>\<open>upsertReplicaSet\<close> and \<^verbatim>\<open>upsertDaemonSet\<close> differ in the client only.\<close>

definition upsert_workload :: "('w, Workload) tclient \<Rightarrow> Workload \<Rightarrow> ('w, Workload) call" where
  "upsert_workload client d =
     lookup (tc_get client (meta_key (wl_meta d)))
       (\<lambda>existing. tc_update client
          (existing\<lparr>wl_meta := (wl_meta existing)\<lparr>m_labels := m_labels (wl_meta d), m_ownerRefs := m_ownerRefs (wl_meta d)\<rparr>,
                    wl_spec := wl_spec d\<rparr>))
       (tc_create client d)"

definition upsertDeployment :: "'w inner_api \<Rightarrow> Workload \<Rightarrow> ('w, Workload) call" where
  "upsertDeployment api = upsert_workload (in_deployments api)"

definition upsertReplicaSet :: "'w inner_api \<Rightarrow> Workload \<Rightarrow> ('w, Workload) call" where
  "upsertReplicaSet api = upsert_workload (in_replicaSets api)"

definition upsertDaemonSet :: "'w inner_api \<Rightarrow> Workload \<Rightarrow> ('w, Workload) call" where
  "upsertDaemonSet api = upsert_workload (in_daemonSets api)"

text \<open>
  The three branches of the switch. A failed \<^verbatim>\<open>UpdateStatus\<close> is ignored, and the object it
  returns beside the error is the empty one, whose UID is empty.
\<close>

definition controller_object :: "Shim \<Rightarrow> SeedController \<Rightarrow> int option \<Rightarrow> Workload" where
  "controller_object sh c replicas =
     \<lparr>wl_meta = (new_meta (ctl_name c) (ctl_namespace c) (ctl_labels c))\<lparr>m_ownerRefs := resolveOwnerRefs sh (ctl_ownerRefs c)\<rparr>,
      wl_spec = \<lparr>ws_replicas = replicas, ws_selector = ctl_labels c,
                 ws_template = \<lparr>pt_labels = ctl_labels c, pt_annotations = [],
                                pt_spec = empty_podspec\<lparr>ps_containers := [plain_container (ctl_name c) (ctl_image c)]\<rparr>\<rparr>\<rparr>,
      wl_status = []\<rparr>"

definition create_controller ::
  "('w, Workload) tclient \<Rightarrow> (Workload \<Rightarrow> ('w, Workload) call) \<Rightarrow> SeedController \<Rightarrow> int option \<Rightarrow> string list \<Rightarrow> ('w, unit) shim_op" where
  "create_controller client upsert c replicas counters =
     and_then (reads (\<lambda>sh. controller_object sh c replicas)) (\<lambda>obj.
     and_then (out (upsert obj)) (\<lambda>res.
     try_call (out (tc_updateStatus client (res\<lparr>wl_status := map (\<lambda>k. (k, ctl_replicas c)) counters\<rparr>))) (\<lambda>r.
       recordUID (ctl_kind c @ ''/'' @ ctl_name c) (case r of Inr x \<Rightarrow> m_uid (wl_meta x) | Inl _ \<Rightarrow> ''''))))"

definition createControllers :: "'w inner_api \<Rightarrow> SeedController list \<Rightarrow> ('w, unit) shim_op" where
  "createControllers api controllers =
     each controllers (\<lambda>c.
       if ctl_kind c = ''Deployment'' then
         create_controller (in_deployments api) (upsertDeployment api) c (Some (ctl_replicas c))
           [''replicas'', ''readyReplicas'', ''availableReplicas'', ''updatedReplicas'']
       else if ctl_kind c = ''ReplicaSet'' then
         create_controller (in_replicaSets api) (upsertReplicaSet api) c (Some (ctl_replicas c))
           [''replicas'', ''readyReplicas'', ''availableReplicas'']
       else if ctl_kind c = ''DaemonSet'' then
         create_controller (in_daemonSets api) (upsertDaemonSet api) c None
           [''desiredNumberScheduled'', ''currentNumberScheduled'', ''numberReady'', ''numberAvailable'', ''updatedNumberScheduled'']
       else ok ())"

section \<open>Pods, secrets\<close>

definition pod_requests :: "SeedPod \<Rightarrow> smap" where
  "pod_requests w =
     (if spd_cpuRequest w \<noteq> '''' then [(''cpu'', spd_cpuRequest w)] else [])
     @ (if spd_memoryRequest w \<noteq> '''' then [(''memory'', spd_memoryRequest w)] else [])"

definition pod_containers :: "SeedPod \<Rightarrow> Container list" where
  "pod_containers w =
     map (\<lambda>c. (plain_container (fc_name c) (fc_image c))
            \<lparr>c_resources := \<lparr>rr_requests = pod_requests w, rr_limits = []\<rparr>\<rparr>) (fp_containers (spd_fakePod w))"

definition running_status :: "ShimConfig \<Rightarrow> int \<Rightarrow> string \<Rightarrow> string \<Rightarrow> Container list \<Rightarrow> bool \<Rightarrow> PodStatus" where
  "running_status cfg start name nodeName containers hostNetwork =
     podStatus start name nodeName (cfg_nodeInternalIP cfg) (runningContainerStatuses name containers start) hostNetwork"

text \<open>The fields \<^verbatim>\<open>upsertPod\<close> sets on a new pod, and those it overwrites on an existing one.\<close>

definition new_pod :: "SeedPod \<Rightarrow> string \<Rightarrow> string \<Rightarrow> smap \<Rightarrow> OwnerReference list \<Rightarrow> Pod" where
  "new_pod w name nodeName labels owners =
     \<lparr>pod_meta = (new_meta name (fp_namespace (spd_fakePod w)) labels)
                   \<lparr>m_annotations := spd_annotations w, m_ownerRefs := owners\<rparr>,
      pod_spec = empty_podspec\<lparr>ps_nodeName := nodeName, ps_hostNetwork := spd_hostNetwork w,
                               ps_containers := pod_containers w\<rparr>,
      pod_status = empty_podstatus\<rparr>"

definition overwrite_pod :: "SeedPod \<Rightarrow> string \<Rightarrow> smap \<Rightarrow> OwnerReference list \<Rightarrow> Pod \<Rightarrow> Pod" where
  "overwrite_pod w nodeName labels owners p =
     p\<lparr>pod_meta := (pod_meta p)\<lparr>m_labels := labels, m_annotations := spd_annotations w, m_ownerRefs := owners\<rparr>,
       pod_spec := (pod_spec p)\<lparr>ps_nodeName := nodeName, ps_hostNetwork := spd_hostNetwork w,
                                 ps_containers := pod_containers w\<rparr>\<rparr>"

definition upsertPod :: "'w inner_api \<Rightarrow> SeedPod \<Rightarrow> string \<Rightarrow> string \<Rightarrow> ('w, unit) shim_op" where
  "upsertPod api w name nodeName =
     (let f = spd_fakePod w; ns = fp_namespace f; pods = in_pods api;
          labels = (if length (fp_labels f) = 0 then [(''app'', fp_name f)] else fp_labels f);
          status = (\<lambda>cfg now p. p\<lparr>pod_status :=
             running_status cfg (podStartTime now p) name nodeName (pod_containers w) (spd_hostNetwork w)\<rparr>) in
      and_then (if length (fp_logLines f) > 0 then setLogLines ns name (fp_logLines f) else ok ()) (\<lambda>_.
      and_then (reads (\<lambda>sh. (resolveOwnerRefs sh (spd_ownerRefs w), sh_cfg sh))) (\<lambda>(owners, cfg).
        lookup (out (tc_get pods (ns, name)))
          (\<lambda>existing.
             if m_deletionTimestamp (pod_meta existing) \<noteq> None then
               ignoring (\<lambda>e. IsNotFound e \<or> IsConflict e)
                 (out (tc_delete pods \<lparr>do_grace = Some 0, do_uid = Some (m_uid (pod_meta existing))\<rparr> (ns, name)))
             else
               let updated = overwrite_pod w nodeName labels owners existing in
               and_then (out (tc_update pods updated)) (\<lambda>_.
               and_then (clock (in_now api)) (\<lambda>now.
                 discard (out (tc_updateStatus pods (status cfg now updated))))))
          (and_then (out (tc_create pods (new_pod w name nodeName labels owners))) (\<lambda>created.
           and_then (clock (in_now api)) (\<lambda>now.
             discard (out (tc_updateStatus pods (status cfg now created)))))))))"

definition replica_count :: "SeedPod \<Rightarrow> int" where
  "replica_count w = (if fp_replicas (spd_fakePod w) < 1 then 1 else fp_replicas (spd_fakePod w))"

definition replica_name :: "SeedPod \<Rightarrow> int \<Rightarrow> string" where
  "replica_name w r =
     (if replica_count w > 1 then fp_name (spd_fakePod w) @ ''-'' @ replicaSuffix (fp_name (spd_fakePod w)) r
      else fp_name (spd_fakePod w))"

definition upsertWorkload :: "'w inner_api \<Rightarrow> SeedPod \<Rightarrow> string \<Rightarrow> ('w, unit) shim_op" where
  "upsertWorkload api w nodeName =
     each [0..replica_count w - 1] (\<lambda>r.
       let name = replica_name w r; ns = fp_namespace (spd_fakePod w) in
       and_then (upsertPod api w name nodeName) (\<lambda>_.
         markSeeded (''Pod|'' @ ns @ ''|'' @ name) (DelPod ns name)))"

definition upsertSecret :: "'w inner_api \<Rightarrow> FakeSecret \<Rightarrow> ('w, unit) shim_op" where
  "upsertSecret api s =
     lookup (out (tc_get (in_secrets api) (fs_namespace s, fs_name s)))
       (\<lambda>existing. discard (out (tc_update (in_secrets api) (existing\<lparr>sec_data := fs_data s\<rparr>))))
       (discard (out (tc_create (in_secrets api)
          \<lparr>sec_meta = new_meta (fs_name s) (fs_namespace s) [], sec_type = ''Opaque'', sec_data = fs_data s\<rparr>)))"

section \<open>ConfigMaps, services\<close>

definition createConfigMaps :: "'w inner_api \<Rightarrow> SeedConfigMap list \<Rightarrow> ('w, unit) shim_op" where
  "createConfigMaps api cms =
     each cms (\<lambda>c.
       and_then (ensureNamespace api (scm_namespace c)) (\<lambda>_.
         lookup (out (tc_get (in_configMaps api) (scm_namespace c, scm_name c)))
           (\<lambda>existing. discard (out (tc_update (in_configMaps api)
              (existing\<lparr>cm_data := scm_data c, cm_meta := (cm_meta existing)\<lparr>m_labels := scm_labels c\<rparr>\<rparr>))))
           (ignoring IsAlreadyExists (out (tc_create (in_configMaps api)
              \<lparr>cm_meta = new_meta (scm_name c) (scm_namespace c) (scm_labels c), cm_data = scm_data c\<rparr>)))))"

definition seed_protocol :: "SeedServicePort \<Rightarrow> string" where
  "seed_protocol p = (if ssp_protocol p = ''UDP'' then ''UDP'' else ''TCP'')"

definition seed_service :: "SeedService \<Rightarrow> Service" where
  "seed_service s =
     \<lparr>svc_meta = new_meta (ssv_name s) (ssv_namespace s) (ssv_labels s), svc_selector = ssv_selector s,
      svc_ports = map (\<lambda>p. \<lparr>svp_name = ssp_name p, svp_port = ssp_port p,
                           svp_targetPort = (if ssp_targetPort p \<noteq> 0 then Some (PortInt (ssp_targetPort p)) else None),
                           svp_protocol = seed_protocol p\<rparr>) (ssv_ports s),
      svc_clusterIP = ssv_clusterIP s\<rparr>"

definition ensureEndpointSlice :: "'w inner_api \<Rightarrow> SeedService \<Rightarrow> ('w, unit) shim_op" where
  "ensureEndpointSlice api s =
     lookup (out (tc_get (in_endpointSlices api) (ssv_namespace s, ssv_name s))) (\<lambda>_. ok ())
       (ignoring IsAlreadyExists (out (tc_create (in_endpointSlices api)
          \<lparr>es_meta = new_meta (ssv_name s) (ssv_namespace s) [(''kubernetes.io/service-name'', ssv_name s)],
           es_addressType = ''IPv4'',
           es_endpoints = map (\<lambda>ip. \<lparr>ep_addresses = [ip], ep_ready = Some True\<rparr>) (ssv_endpointIPs s),
           es_ports = map (\<lambda>p. \<lparr>epp_name = ssp_name p, epp_port = ssp_port p, epp_protocol = seed_protocol p\<rparr>) (ssv_ports s)\<rparr>)))"

definition IsInvalid :: "go_error \<Rightarrow> bool" where
  "IsInvalid e \<longleftrightarrow> err_reason e = InvalidObject"

definition createServices :: "'w inner_api \<Rightarrow> SeedService list \<Rightarrow> ('w, unit) shim_op" where
  "createServices api svcs =
     each svcs (\<lambda>s.
       and_then (ensureNamespace api (ssv_namespace s)) (\<lambda>_.
       and_then (lookup (out (tc_get (in_services api) (ssv_namespace s, ssv_name s))) (\<lambda>_. ok ())
         (ignoring IsAlreadyExists
            (try_call (out (tc_create (in_services api) (seed_service s))) (\<lambda>r. case r of
               Inl e \<Rightarrow> if IsInvalid e then out (tc_create (in_services api) ((seed_service s)\<lparr>svc_clusterIP := ''''\<rparr>))
                        else fail e
             | Inr x \<Rightarrow> ok x)))) (\<lambda>_.
         if ssv_clusterIP s \<noteq> '''' \<and> length (ssv_endpointIPs s) > 0 then ensureEndpointSlice api s else ok ())))"

section \<open>Adopting scheduled pods\<close>

definition adoptScheduledPods :: "'w inner_api \<Rightarrow> string list \<Rightarrow> ('w, unit) shim_op" where
  "adoptScheduledPods api nodeNames =
     (if length nodeNames = 0 then ok ()
      else and_then (out (tc_list (in_pods api))) (\<lambda>items.
           and_then (reads sh_cfg) (\<lambda>cfg.
             each items (\<lambda>p.
               let node = ps_nodeName (pod_spec p) in
               if node \<notin> set nodeNames then ok ()
               else if pst_phase (pod_status p) = ''Running'' then ok ()
               else and_then (clock (in_now api)) (\<lambda>now.
                      best_effort (out (tc_updateStatus (in_pods api)
                        (p\<lparr>pod_status := running_status cfg (podStartTime now p) (pod_name p) node
                              (ps_containers (pod_spec p)) (ps_hostNetwork (pod_spec p))\<rparr>))))))))"

section \<open>Pruning\<close>

definition run_delete :: "'w inner_api \<Rightarrow> seeded \<Rightarrow> ('w, unit) call" where
  "run_delete api d =
     (case d of
        DelNode name \<Rightarrow> tc_delete (in_nodes api) no_options ('''', name)
      | DelLease name \<Rightarrow> tc_delete (in_leases api) no_options (''kube-node-lease'', name)
      | DelCRD name \<Rightarrow> (case in_crds api of None \<Rightarrow> ok () | Some c \<Rightarrow> tc_delete c no_options ('''', name))
      | DelController kind ns name \<Rightarrow>
          if kind = ''Deployment'' then tc_delete (in_deployments api) no_options (ns, name)
          else if kind = ''ReplicaSet'' then tc_delete (in_replicaSets api) no_options (ns, name)
          else if kind = ''DaemonSet'' then tc_delete (in_daemonSets api) no_options (ns, name)
          else ok ()
      | DelPod ns name \<Rightarrow> tc_delete (in_pods api) force_delete (ns, name)
      | DelSecret ns name \<Rightarrow> tc_delete (in_secrets api) no_options (ns, name)
      | DelConfigMap ns name \<Rightarrow> tc_delete (in_configMaps api) no_options (ns, name)
      | DelService ns name \<Rightarrow>
          and_then (best_effort (tc_delete (in_endpointSlices api) no_options (ns, name))) (\<lambda>_.
            tc_delete (in_services api) no_options (ns, name)))"

text \<open>One round of the loop of \<^verbatim>\<open>pruneSeeded\<close>; the map \<^verbatim>\<open>next\<close> is \<^verbatim>\<open>sh.seededCur\<close> itself.\<close>

definition prune_entry :: "'w inner_api \<Rightarrow> string \<times> seeded \<Rightarrow> ('w, unit) shim_op" where
  "prune_entry api = (\<lambda>(key, del).
     and_then (reads (\<lambda>sh. case sh_seededCur sh of None \<Rightarrow> False | Some m \<Rightarrow> gm_get m key \<noteq> None)) (\<lambda>desired.
       if desired then ok ()
       else try_call (out (run_delete api del)) (\<lambda>r. case r of
              Inl e \<Rightarrow> if \<not> IsNotFound e then markSeeded key del else ok ()
            | Inr _ \<Rightarrow> ok ())))"

definition pruneSeeded :: "'w inner_api \<Rightarrow> ('w, unit) shim_op" where
  "pruneSeeded api =
     and_then (reads sh_seededPrev) (\<lambda>prev.
     and_then (each prev (prune_entry api)) (\<lambda>_.
       modifies (\<lambda>sh. sh\<lparr>sh_seededPrev := (case sh_seededCur sh of None \<Rightarrow> [] | Some m \<Rightarrow> m)\<rparr>)))"

section \<open>The seed pass\<close>

definition seed_fakeNodes :: "'w inner_api \<Rightarrow> FakeNode list \<Rightarrow> ('w, unit) shim_op" where
  "seed_fakeNodes api nodes =
     each (enumerate 0 nodes) (\<lambda>(i, n).
       and_then (on_error (wrap_error (''seeding node '' @ Quote (fn_name n))) (upsertNode api n (i = 0))) (\<lambda>_.
       and_then (markSeeded (''Node|'' @ fn_name n) (DelNode (fn_name n))) (\<lambda>_.
         markSeeded (''Lease|kube-node-lease|'' @ fn_name n) (DelLease (fn_name n)))))"

text \<open>The map \<^verbatim>\<open>nsSeen\<close> only saves a call, so it is part of the loop's state.\<close>

fun seed_pods :: "'w inner_api \<Rightarrow> string \<Rightarrow> string list \<Rightarrow> SeedPod list \<Rightarrow> ('w, string list) shim_op" where
  "seed_pods api defaultNode nsSeen [] = ok nsSeen"
| "seed_pods api defaultNode nsSeen (w # ws) =
     (let f = spd_fakePod w; ns = fp_namespace f;
          nodeName = (if fp_nodeName f = '''' then defaultNode else fp_nodeName f) in
      and_then (if ns \<in> set nsSeen then ok () else ensureNamespace api ns) (\<lambda>_.
      and_then (on_error (wrap_error (''seeding workload '' @ Quote (fp_name f))) (upsertWorkload api w nodeName)) (\<lambda>_.
        seed_pods api defaultNode (List.insert ns nsSeen) ws)))"

fun seed_secrets :: "'w inner_api \<Rightarrow> string list \<Rightarrow> FakeSecret list \<Rightarrow> ('w, unit) shim_op" where
  "seed_secrets api nsSeen [] = ok ()"
| "seed_secrets api nsSeen (s # ss) =
     (let ns = fs_namespace s; name = fs_name s in
      and_then (if ns \<in> set nsSeen then ok () else ensureNamespace api ns) (\<lambda>_.
      and_then (on_error (wrap_error (''seeding secret '' @ Quote name)) (upsertSecret api s)) (\<lambda>_.
      and_then (markSeeded (''Secret|'' @ ns @ ''|'' @ name) (DelSecret ns name)) (\<lambda>_.
        seed_secrets api (List.insert ns nsSeen) ss))))"

definition mark_all :: "(string \<times> seeded) list \<Rightarrow> ('w, unit) shim_op" where
  "mark_all kds = each kds (\<lambda>(k, d). markSeeded k d)"

definition crd_mark :: "SeedCRD \<Rightarrow> string \<times> seeded" where
  "crd_mark c = (''CRD|'' @ crd_plural c @ ''.'' @ crd_group c, DelCRD (crd_plural c @ ''.'' @ crd_group c))"

definition controller_mark :: "SeedController \<Rightarrow> string \<times> seeded" where
  "controller_mark c =
     (ctl_kind c @ ''|'' @ ctl_namespace c @ ''|'' @ ctl_name c, DelController (ctl_kind c) (ctl_namespace c) (ctl_name c))"

definition configMap_mark :: "SeedConfigMap \<Rightarrow> string \<times> seeded" where
  "configMap_mark c = (''ConfigMap|'' @ scm_namespace c @ ''|'' @ scm_name c, DelConfigMap (scm_namespace c) (scm_name c))"

definition service_mark :: "SeedService \<Rightarrow> string \<times> seeded" where
  "service_mark s = (''Service|'' @ ssv_namespace s @ ''|'' @ ssv_name s, DelService (ssv_namespace s) (ssv_name s))"

text \<open>The name \<^verbatim>\<open>defaultNode\<close> is that of the first fake node.\<close>

definition defaultNode :: "Seed \<Rightarrow> string" where
  "defaultNode s = (case sd_fakeNodes s of [] \<Rightarrow> '''' | n # _ \<Rightarrow> fn_name n)"

text \<open>The objects of one seed, up to the point where pruning starts.\<close>

definition apply_seed :: "'w inner_api \<Rightarrow> Seed \<Rightarrow> ('w, unit) shim_op" where
  "apply_seed api s =
     and_then (seed_fakeNodes api (sd_fakeNodes s)) (\<lambda>_.
     and_then (on_error (wrap_error ''seeding node leases'') (ensureNodeLeases api (sd_fakeNodes s))) (\<lambda>_.
     and_then (on_error (wrap_error ''seeding CRDs'') (createCRDs api (sd_crds s))) (\<lambda>_.
     and_then (mark_all (map crd_mark (sd_crds s))) (\<lambda>_.
     and_then (on_error (wrap_error ''seeding controllers'') (createControllers api (sd_controllers s))) (\<lambda>_.
     and_then (mark_all (map controller_mark (sd_controllers s))) (\<lambda>_.
     and_then (seed_pods api (defaultNode s) [] (sd_fakePods s)) (\<lambda>nsSeen.
     and_then (seed_secrets api nsSeen (sd_fakeSecrets s)) (\<lambda>_.
     and_then (on_error (wrap_error ''seeding configmaps'') (createConfigMaps api (sd_configMaps s))) (\<lambda>_.
     and_then (mark_all (map configMap_mark (sd_configMaps s))) (\<lambda>_.
     and_then (on_error (wrap_error ''seeding services'') (createServices api (sd_services s))) (\<lambda>_.
     and_then (mark_all (map service_mark (sd_services s))) (\<lambda>_.
       best_effort (adoptScheduledPods api (map fn_name (sd_fakeNodes s)))))))))))))))"

definition Shim_Seed :: "'w inner_api \<Rightarrow> ('w, unit) shim_op" where
  "Shim_Seed api =
     and_then (reads currentSeed) (\<lambda>current.
     and_then (modifies (\<lambda>sh. sh\<lparr>sh_objectUIDs := []\<rparr>)) (\<lambda>_.
     and_then (on_error (wrap_error ''finalizing terminating namespaces'') (finalizeTerminatingNamespaces api)) (\<lambda>_.
     and_then (modifies (\<lambda>sh. sh\<lparr>sh_seededCur := Some []\<rparr>)) (\<lambda>_.
     and_then (apply_seed api current) (\<lambda>_.
       pruneSeeded api)))))"

text \<open>
  The heartbeat loop: what its \<^verbatim>\<open>select\<close> receives is a list of ticks that ends when the context
  is cancelled.
\<close>

datatype heartbeat_event = Tick | CtxDone

fun RunHeartbeat ::
  "'w inner_api \<Rightarrow> (string \<Rightarrow> ('w, string) call) \<Rightarrow> (string \<Rightarrow> json option) \<Rightarrow> heartbeat_event list \<Rightarrow> ('w, unit) shim_op" where
  "RunHeartbeat api ReadFile parse [] = ok ()"
| "RunHeartbeat api ReadFile parse (CtxDone # evs) = ok ()"
| "RunHeartbeat api ReadFile parse (Tick # evs) =
     and_then (reloadSeed ReadFile parse) (\<lambda>_.
     and_then (best_effort (Shim_Seed api)) (\<lambda>_.
       RunHeartbeat api ReadFile parse evs))"

end
