(* ===== verification/Shim_Calm.thy ===== *)
theory Shim_Calm
  imports Kubelet_Shim
begin

text \<open>
  Which methods of the shim leave a view of the shim and the world alone. \<open>calm V api\<close> says that
  no call on a kind other than secrets changes the view \<open>V\<close>, and that the view looks at nothing
  of the shim's state but the two maps of seeded objects and the configuration. One lemma per
  method then carries the view through the seed pass.
\<close>

definition tracking :: "Shim \<Rightarrow> (string, seeded) gomap \<times> (string, seeded) gomap option \<times> ShimConfig" where
  "tracking sh = (sh_seededPrev sh, sh_seededCur sh, sh_cfg sh)"

definition quiet_tc :: "(Shim \<times> 'w \<Rightarrow> 'v) \<Rightarrow> ('w, 'o) tclient \<Rightarrow> bool" where
  "quiet_tc V c \<longleftrightarrow>
     (\<forall>k. keeps V (out (tc_get c k))) \<and> keeps V (out (tc_list c)) \<and> (\<forall>x. keeps V (out (tc_create c x)))
     \<and> (\<forall>x. keeps V (out (tc_update c x))) \<and> (\<forall>x. keeps V (out (tc_updateStatus c x)))
     \<and> (\<forall>d k. keeps V (out (tc_delete c d k))) \<and> (\<forall>d ns. keeps V (out (tc_deleteCollection c d ns)))"

definition calm :: "(Shim \<times> 'w \<Rightarrow> 'v) \<Rightarrow> 'w inner_api \<Rightarrow> bool" where
  "calm V api \<longleftrightarrow>
     quiet_tc V (in_nodes api) \<and> quiet_tc V (in_pods api) \<and> quiet_tc V (in_configMaps api)
     \<and> quiet_tc V (in_services api) \<and> quiet_tc V (in_endpointSlices api) \<and> quiet_tc V (in_leases api)
     \<and> quiet_tc V (in_namespaces api) \<and> (\<forall>x. keeps V (out (in_finalize api x)))
     \<and> quiet_tc V (in_deployments api) \<and> quiet_tc V (in_replicaSets api) \<and> quiet_tc V (in_daemonSets api)
     \<and> (\<forall>c. in_crds api = Some c \<longrightarrow> quiet_tc V c)
     \<and> (\<forall>f. (\<forall>sh. tracking (f sh) = tracking sh) \<longrightarrow> keeps V (modifies f))"

named_theorems calm_intros \<open>methods that leave a calm view alone\<close>

lemma quiet_tcD:
  assumes "quiet_tc V c"
  shows "keeps V (out (tc_get c k))" "keeps V (out (tc_list c))" "keeps V (out (tc_create c x))"
    "keeps V (out (tc_update c x))" "keeps V (out (tc_updateStatus c x))"
    "keeps V (out (tc_delete c d k))" "keeps V (out (tc_deleteCollection c d ns))"
  using assms unfolding quiet_tc_def by blast+

lemma calm_clients [calm_intros]:
  assumes "calm V api"
  shows "quiet_tc V (in_nodes api)" "quiet_tc V (in_pods api)" "quiet_tc V (in_configMaps api)"
    "quiet_tc V (in_services api)" "quiet_tc V (in_endpointSlices api)" "quiet_tc V (in_leases api)"
    "quiet_tc V (in_namespaces api)" "quiet_tc V (in_deployments api)" "quiet_tc V (in_replicaSets api)"
    "quiet_tc V (in_daemonSets api)" "in_crds api = Some c \<Longrightarrow> quiet_tc V c"
    "keeps V (out (in_finalize api x))"
  using assms by (auto simp: calm_def)

lemma calm_modifies: "calm V api \<Longrightarrow> (\<And>sh. tracking (f sh) = tracking sh) \<Longrightarrow> keeps V (modifies f)"
  by (auto simp: calm_def)

lemma keeps_lookup [keeps_intros]:
  "keeps V get \<Longrightarrow> (\<And>x. keeps V (found x)) \<Longrightarrow> keeps V missing \<Longrightarrow> keeps V (lookup get found missing)"
  unfolding lookup_def by (auto intro!: keeps_intros split: sum.split)

lemma keeps_ignoring [keeps_intros]: "keeps V m \<Longrightarrow> keeps V (ignoring P m)"
  unfolding ignoring_def by (auto intro!: keeps_intros split: sum.split)

lemmas calm_rules = keeps_intros quiet_tcD calm_clients

text \<open>The shim's own view is calm whatever the API server does.\<close>

lemma calm_tracking: "calm (shim_view tracking) api"
  unfolding calm_def quiet_tc_def by (intro conjI allI impI keeps_out_shim keeps_modifies_shim) auto

lemma quiet_out:
  assumes "\<And>k. keeps v (tc_get c k)" "keeps v (tc_list c)" "\<And>x. keeps v (tc_create c x)"
    "\<And>x. keeps v (tc_update c x)" "\<And>x. keeps v (tc_updateStatus c x)" "\<And>d k. keeps v (tc_delete c d k)"
    "\<And>d ns. keeps v (tc_deleteCollection c d ns)"
  shows "quiet_tc (out_view v) c"
  unfolding quiet_tc_def by (intro conjI allI keeps_out assms)

section \<open>One lemma per method\<close>

lemma calm_state_ops [calm_intros]:
  assumes "calm V api"
  shows "keeps V (setLogLines ns n ls)" and "keeps V (recordUID k u)"
  unfolding setLogLines_def recordUID_def by (rule calm_modifies [OF assms]; simp add: tracking_def)+

lemma calm_ensureNamespace [calm_intros]: "calm V api \<Longrightarrow> keeps V (ensureNamespace api n)"
  unfolding ensureNamespace_def by (intro calm_rules; assumption)

lemma calm_upsertNode [calm_intros]: "calm V api \<Longrightarrow> keeps V (upsertNode api n b)"
  unfolding upsertNode_def Let_def by (intro calm_rules calm_state_ops; assumption)

lemma calm_ensureNodeLeases [calm_intros]: "calm V api \<Longrightarrow> keeps V (ensureNodeLeases api ns)"
  unfolding ensureNodeLeases_def by (auto intro!: calm_rules calm_ensureNamespace)

lemma calm_createCRDs [calm_intros]: "calm V api \<Longrightarrow> keeps V (createCRDs api cs)"
  unfolding createCRDs_def Let_def
  by (auto intro!: calm_rules calm_modifies [of V api] simp: tracking_def split: option.split sum.split)

lemma calm_create_controller:
  "calm V api \<Longrightarrow> quiet_tc V c \<Longrightarrow> keeps V (create_controller c (upsert_workload c) ctl r ks)"
proof -
  assume calm: "calm V api" and c: "quiet_tc V c"
  have "keeps V (out (upsert_workload c d))" for d
    using c unfolding quiet_tc_def upsert_workload_def lookup_def keeps_def try_call_def out_def
    by (fastforce split: prod.splits sum.splits)
  then show ?thesis
    unfolding create_controller_def using calm c by (intro calm_rules calm_state_ops) auto
qed

lemma calm_createControllers [calm_intros]: "calm V api \<Longrightarrow> keeps V (createControllers api cs)"
  unfolding createControllers_def upsertDeployment_def upsertReplicaSet_def upsertDaemonSet_def
  by (auto intro!: keeps_intros calm_create_controller calm_clients)

lemma calm_upsertPod [calm_intros]: "calm V api \<Longrightarrow> keeps V (upsertPod api w n nn)"
  unfolding upsertPod_def Let_def by (auto intro!: calm_rules calm_state_ops)

lemma calm_createConfigMaps [calm_intros]: "calm V api \<Longrightarrow> keeps V (createConfigMaps api cs)"
  unfolding createConfigMaps_def by (auto intro!: calm_rules calm_ensureNamespace)

lemma calm_createServices [calm_intros]: "calm V api \<Longrightarrow> keeps V (createServices api cs)"
  unfolding createServices_def ensureEndpointSlice_def
  by (auto intro!: calm_rules calm_ensureNamespace split: sum.split)

lemma calm_adoptScheduledPods [calm_intros]: "calm V api \<Longrightarrow> keeps V (adoptScheduledPods api ns)"
  unfolding adoptScheduledPods_def Let_def by (auto intro!: calm_rules)

end
