(* ===== verification/Shim_Tracking.thy ===== *)
theory Shim_Tracking
  imports Shim_Calm
begin

text \<open>
  What the shim remembers of its own objects across seed passes. \<open>seed_refs\<close> is the list of
  objects a seed names, \<open>tracked_ok\<close> the well-formedness of the maps \<^verbatim>\<open>seededPrev\<close> and
  \<^verbatim>\<open>seededCur\<close>. The facts: a pass marks exactly the objects of its seed, a pass that fails leaves
  the map of the previous pass as it was, pruning keeps an entry exactly while its object has
  to be deleted again.
\<close>

section \<open>Keys and references\<close>

fun seeded_key :: "seeded \<Rightarrow> string" where
  "seeded_key (DelNode n) = ''Node|'' @ n"
| "seeded_key (DelLease n) = ''Lease|kube-node-lease|'' @ n"
| "seeded_key (DelCRD n) = ''CRD|'' @ n"
| "seeded_key (DelController k ns n) = k @ ''|'' @ ns @ ''|'' @ n"
| "seeded_key (DelPod ns n) = ''Pod|'' @ ns @ ''|'' @ n"
| "seeded_key (DelSecret ns n) = ''Secret|'' @ ns @ ''|'' @ n"
| "seeded_key (DelConfigMap ns n) = ''ConfigMap|'' @ ns @ ''|'' @ n"
| "seeded_key (DelService ns n) = ''Service|'' @ ns @ ''|'' @ n"

definition controller_kinds :: "string list" where
  "controller_kinds = [''Deployment'', ''ReplicaSet'', ''DaemonSet'']"

text \<open>
  A plain reference: a namespace without the separator (API names never contain one) and a kind
  of controller the shim knows.
\<close>

fun plain_ref :: "seeded \<Rightarrow> bool" where
  "plain_ref (DelController k ns n) \<longleftrightarrow> k \<in> set controller_kinds \<and> CHR ''|'' \<notin> set ns"
| "plain_ref (DelPod ns n) \<longleftrightarrow> CHR ''|'' \<notin> set ns"
| "plain_ref (DelSecret ns n) \<longleftrightarrow> CHR ''|'' \<notin> set ns"
| "plain_ref (DelConfigMap ns n) \<longleftrightarrow> CHR ''|'' \<notin> set ns"
| "plain_ref (DelService ns n) \<longleftrightarrow> CHR ''|'' \<notin> set ns"
| "plain_ref _ \<longleftrightarrow> True"

lemma split_bar:
  "CHR ''|'' \<notin> set a \<Longrightarrow> CHR ''|'' \<notin> set b \<Longrightarrow> a @ CHR ''|'' # x = b @ CHR ''|'' # y \<longleftrightarrow> a = b \<and> x = y"
  by (metis Cut_append prod.inject)

lemma seeded_key_inj: "plain_ref a \<Longrightarrow> plain_ref b \<Longrightarrow> seeded_key a = seeded_key b \<Longrightarrow> a = b"
  by (cases a; cases b) (auto simp: controller_kinds_def split_bar)

fun pod_refs :: "SeedPod \<Rightarrow> seeded list" where
  "pod_refs w = map (\<lambda>r. DelPod (fp_namespace (spd_fakePod w)) (replica_name w r)) [0..replica_count w - 1]"

definition seed_refs :: "Seed \<Rightarrow> seeded list" where
  "seed_refs s =
     concat (map (\<lambda>n. [DelNode (fn_name n), DelLease (fn_name n)]) (sd_fakeNodes s))
     @ map (snd \<circ> crd_mark) (sd_crds s) @ map (snd \<circ> controller_mark) (sd_controllers s)
     @ concat (map pod_refs (sd_fakePods s))
     @ map (\<lambda>x. DelSecret (fs_namespace x) (fs_name x)) (sd_fakeSecrets s)
     @ map (snd \<circ> configMap_mark) (sd_configMaps s) @ map (snd \<circ> service_mark) (sd_services s)"

definition mark_ref :: "seeded \<Rightarrow> (string, seeded) gomap \<Rightarrow> (string, seeded) gomap" where
  "mark_ref d = gm_set (seeded_key d) d"

abbreviation mark_refs :: "seeded list \<Rightarrow> (string, seeded) gomap \<Rightarrow> (string, seeded) gomap" where
  "mark_refs \<equiv> fold mark_ref"

definition tracked_ok :: "(string, seeded) gomap \<Rightarrow> bool" where
  "tracked_ok m \<longleftrightarrow> wf_map m \<and> (\<forall>(k, d) \<in> set m. k = seeded_key d \<and> plain_ref d)"

abbreviation refs_of :: "(string, seeded) gomap \<Rightarrow> seeded set" where
  "refs_of m \<equiv> snd ` set m"

lemma tracked_ok_Nil [simp]: "tracked_ok []"
  by (simp add: tracked_ok_def)

lemma tracked_ok_get:
  assumes "tracked_ok m" and "plain_ref d"
  shows "gm_get m (seeded_key d) = (if d \<in> refs_of m then Some d else None)"
proof (cases "d \<in> refs_of m")
  case True
  with assms show ?thesis by (auto simp: tracked_ok_def gm_get_wf_iff)
next
  case False
  have "gm_get m (seeded_key d) \<noteq> Some x" for x
  proof
    assume "gm_get m (seeded_key d) = Some x"
    then have mem: "(seeded_key d, x) \<in> set m" by (rule gm_get_mem)
    with assms have "x = d" by (auto simp: tracked_ok_def dest: seeded_key_inj)
    with mem False show False by force
  qed
  with False show ?thesis by (cases "gm_get m (seeded_key d)") auto
qed

lemma tracked_ok_mark:
  assumes "tracked_ok m" and "plain_ref d"
  shows "tracked_ok (mark_ref d m)" and "refs_of (mark_ref d m) = insert d (refs_of m)"
proof -
  have wf: "wf_map (mark_ref d m)" using assms(1) by (simp add: mark_ref_def tracked_ok_def gm.wf_set)
  have mem: "(k, x) \<in> set (mark_ref d m) \<longleftrightarrow> (k, x) = (seeded_key d, d) \<or> (k, x) \<in> set m \<and> k \<noteq> seeded_key d" for k x
  proof -
    have "(k, x) \<in> set (mark_ref d m) \<longleftrightarrow> gm_get (mark_ref d m) k = Some x" by (simp add: gm_get_wf_iff [OF wf])
    also have "\<dots> \<longleftrightarrow> (k, x) = (seeded_key d, d) \<or> gm_get m k = Some x \<and> k \<noteq> seeded_key d"
      by (auto simp: mark_ref_def gm.get_set)
    finally show ?thesis using assms(1) by (simp add: tracked_ok_def gm_get_wf_iff)
  qed
  then show "tracked_ok (mark_ref d m)"
    using assms wf by (auto simp: tracked_ok_def)
  have "x = d" if "(seeded_key d, x) \<in> set m" for x
    using assms that by (auto simp: tracked_ok_def dest: seeded_key_inj)
  then show "refs_of (mark_ref d m) = insert d (refs_of m)"
    using mem by (auto simp: image_iff) (metis snd_conv)+
qed

lemma tracked_ok_marks:
  assumes "tracked_ok m" and "\<forall>d \<in> set ds. plain_ref d"
  shows "tracked_ok (mark_refs ds m)" and "refs_of (mark_refs ds m) = set ds \<union> refs_of m"
  using assms by (induction ds arbitrary: m) (auto simp: tracked_ok_mark)

section \<open>What a pass marks\<close>

abbreviation cur_view :: "Shim \<times> 'w \<Rightarrow> (string, seeded) gomap option" where
  "cur_view \<equiv> shim_view sh_seededCur"

abbreviation prev_view :: "Shim \<times> 'w \<Rightarrow> (string, seeded) gomap" where
  "prev_view \<equiv> shim_view sh_seededPrev"

text \<open>\<open>marks ds m\<close>: a successful run of \<open>m\<close> marks the objects \<open>ds\<close>, in that order.\<close>

definition marks :: "seeded list \<Rightarrow> ('w, 'a) shim_op \<Rightarrow> bool" where
  "marks ds m \<longleftrightarrow> updates cur_view (map_option (mark_refs ds)) m"

lemma keeps_tracking_cur: "keeps (shim_view tracking) m \<Longrightarrow> keeps cur_view m"
  and keeps_tracking_prev: "keeps (shim_view tracking) m \<Longrightarrow> keeps prev_view m"
  by (auto simp: keeps_def tracking_def)

lemma marks_none: "keeps (shim_view tracking) m \<Longrightarrow> marks [] m"
  by (auto simp: marks_def updates_def option.map_ident id_def dest: keepsD [OF keeps_tracking_cur])

lemma marks_then: "marks ds m \<Longrightarrow> (\<And>x. marks es (f x)) \<Longrightarrow> marks (ds @ es) (and_then m f)"
  using updates_and_then [of cur_view "map_option (mark_refs ds)" m "map_option (mark_refs es)" f]
  by (simp add: marks_def updates_def option.map_comp comp_def)

lemma marks_quiet_then: "keeps (shim_view tracking) m \<Longrightarrow> (\<And>x. marks es (f x)) \<Longrightarrow> marks es (and_then m f)"
  using marks_then [OF marks_none] by fastforce

lemma marks_on_error: "marks ds m \<Longrightarrow> marks ds (on_error g m)"
  unfolding marks_def by (rule updates_on_error)

lemma marks_mark: "k = seeded_key d \<Longrightarrow> marks [d] (markSeeded k d)"
  unfolding markSeeded_def marks_def by (rule updates_modifies) (simp add: mark_ref_def)

lemma marks_mark_then:
  "k = seeded_key d \<Longrightarrow> (\<And>x. marks ds (f x)) \<Longrightarrow> marks (d # ds) (and_then (markSeeded k d) f)"
  using marks_then [OF marks_mark] by fastforce

lemma marks_ok: "marks [] (ok x)"
  by (intro marks_none keeps_intros)

lemma marks_each: "(\<And>x. x \<in> set xs \<Longrightarrow> marks (g x) (f x)) \<Longrightarrow> marks (concat (map g xs)) (each xs f)"
  by (induction xs) (auto intro: marks_then simp: marks_ok)

lemmas quiet_method = calm_intros [OF calm_tracking]

lemma marks_seed_fakeNodes: "marks (concat (map (\<lambda>n. [DelNode (fn_name n), DelLease (fn_name n)]) ns)) (seed_fakeNodes api ns)"
proof -
  have "marks (concat (map (\<lambda>(i, n). [DelNode (fn_name n), DelLease (fn_name n)]) (enumerate k ns)))
     (each (enumerate k ns) (\<lambda>(i, n).
       and_then (on_error (wrap_error (''seeding node '' @ Quote (fn_name n))) (upsertNode api n (i = 0))) (\<lambda>_.
       and_then (markSeeded (''Node|'' @ fn_name n) (DelNode (fn_name n))) (\<lambda>_.
         markSeeded (''Lease|kube-node-lease|'' @ fn_name n) (DelLease (fn_name n))))))" for k
    by (rule marks_each)
      (auto intro!: marks_quiet_then [OF keeps_on_error] quiet_method marks_mark_then marks_mark)
  moreover have "map (\<lambda>(i, n). [DelNode (fn_name n), DelLease (fn_name n)]) (enumerate k ns)
      = map (\<lambda>n. [DelNode (fn_name n), DelLease (fn_name n)]) ns" for k
    by (induction ns arbitrary: k) auto
  ultimately show ?thesis unfolding seed_fakeNodes_def by simp
qed

lemma marks_mark_all: "(\<And>x. x \<in> set xs \<Longrightarrow> fst (f x) = seeded_key (snd (f x))) \<Longrightarrow> marks (map (snd \<circ> f) xs) (mark_all (map f xs))"
proof -
  assume "\<And>x. x \<in> set xs \<Longrightarrow> fst (f x) = seeded_key (snd (f x))"
  then have "marks (concat (map (\<lambda>kd. [snd kd]) (map f xs))) (mark_all (map f xs))"
    unfolding mark_all_def by (intro marks_each) (metis (mono_tags, lifting) case_prod_beta imageE list.set_map marks_mark)
  moreover have "concat (map (\<lambda>kd. [snd kd]) (map f xs)) = map (snd \<circ> f) xs"
    by (induction xs) auto
  ultimately show ?thesis by simp
qed

lemma marks_upsertWorkload: "marks (pod_refs w) (upsertWorkload api w n)"
proof -
  have "marks (concat (map (\<lambda>r. [DelPod (fp_namespace (spd_fakePod w)) (replica_name w r)]) [0..replica_count w - 1]))
     (upsertWorkload api w n)"
    unfolding upsertWorkload_def Let_def
    by (intro marks_each marks_quiet_then quiet_method marks_mark) auto
  moreover have "concat (map (\<lambda>r. [g r]) xs) = map g xs" for g :: "int \<Rightarrow> seeded" and xs
    by (induction xs) auto
  ultimately show ?thesis by simp
qed

lemma marks_seed_pods: "marks (concat (map pod_refs ws)) (seed_pods api dn seen ws)"
proof (induction ws arbitrary: seen)
  case Nil
  show ?case by (simp only: seed_pods.simps list.map concat.simps marks_ok)
next
  case (Cons w ws)
  have "keeps (shim_view tracking) (if b then ok () else ensureNamespace api ns)" for b ns
    by (auto intro: keeps_intros quiet_method)
  then show ?case
    unfolding seed_pods.simps Let_def list.map concat.simps
    by (rule marks_quiet_then [OF _ marks_then [OF marks_on_error [OF marks_upsertWorkload] Cons.IH]])
qed

lemma calm_upsertSecret: "calm V api \<Longrightarrow> quiet_tc V (in_secrets api) \<Longrightarrow> keeps V (upsertSecret api s)"
  unfolding upsertSecret_def by (intro calm_rules; assumption)

lemma quiet_secrets_tracking: "quiet_tc (shim_view tracking) (in_secrets api)"
  unfolding quiet_tc_def by (intro conjI allI keeps_out_shim)

lemma marks_seed_secrets:
  "marks (map (\<lambda>x. DelSecret (fs_namespace x) (fs_name x)) ss) (seed_secrets api seen ss)"
proof (induction ss arbitrary: seen)
  case Nil
  show ?case by (simp only: seed_secrets.simps list.map marks_ok)
next
  case (Cons s ss)
  have "keeps (shim_view tracking) (if b then ok () else ensureNamespace api ns)" for b ns
    by (auto intro: keeps_intros quiet_method)
  then show ?case
    using Cons unfolding seed_secrets.simps Let_def list.map
    by (intro marks_quiet_then marks_mark_then keeps_on_error calm_upsertSecret [OF calm_tracking quiet_secrets_tracking]) auto
qed

lemma marks_last: "marks ds m \<Longrightarrow> (\<And>x. keeps (shim_view tracking) (f x)) \<Longrightarrow> marks ds (and_then m f)"
  using marks_then [OF _ marks_none] by fastforce

lemma marks_apply_seed: "marks (seed_refs s) (apply_seed api s)"
proof -
  note tables = crd_mark_def controller_mark_def configMap_mark_def service_mark_def
  have all: "marks (map (snd \<circ> crd_mark) cs) (mark_all (map crd_mark cs))"
    "marks (map (snd \<circ> controller_mark) ctls) (mark_all (map controller_mark ctls))"
    "marks (map (snd \<circ> configMap_mark) cms) (mark_all (map configMap_mark cms))"
    "marks (map (snd \<circ> service_mark) svs) (mark_all (map service_mark svs))" for cs ctls cms svs
    by (rule marks_mark_all, simp add: tables)+
  note quiet = marks_quiet_then [OF keeps_on_error]
  show ?thesis
    unfolding apply_seed_def seed_refs_def
    apply (rule marks_then [OF marks_seed_fakeNodes])
    apply (rule quiet, rule calm_ensureNodeLeases [OF calm_tracking])
    apply (rule quiet, rule calm_createCRDs [OF calm_tracking])
    apply (rule marks_then [OF all(1)])
    apply (rule quiet, rule calm_createControllers [OF calm_tracking])
    apply (rule marks_then [OF all(2)])
    apply (rule marks_then [OF marks_seed_pods])
    apply (rule marks_then [OF marks_seed_secrets])
    apply (rule quiet, rule calm_createConfigMaps [OF calm_tracking])
    apply (rule marks_then [OF all(3)])
    apply (rule quiet, rule calm_createServices [OF calm_tracking])
    apply (rule marks_last [OF all(4)])
    apply (rule keeps_ignoring, rule calm_adoptScheduledPods [OF calm_tracking])
    done
qed

end
