(* ===== verification/Shim_Sync.thy ===== *)
theory Shim_Sync
  imports Shim_Tracking
begin

text \<open>
  The seed pass against its contract: it brings the secrets of the inner cluster in line with
  the seed and touches no other secret (\<open>sync_step\<close> is the abstract specification), it forgets
  no object it still has to delete, and a pass that fails keeps the memory of the previous one.
\<close>

section \<open>Carrying a view through a pass\<close>

lemma keeps_seed_fakeNodes:
  assumes "calm V api" and "\<And>k d. keeps V (markSeeded k d)"
  shows "keeps V (seed_fakeNodes api ns)"
  unfolding seed_fakeNodes_def using assms by (auto intro!: keeps_intros calm_intros)

lemma keeps_mark_all: "(\<And>k d. keeps V (markSeeded k d)) \<Longrightarrow> keeps V (mark_all kds)"
  unfolding mark_all_def by (auto intro!: keeps_intros)

lemma keeps_seed_pods:
  assumes "calm V api" and "\<And>k d. keeps V (markSeeded k d)"
  shows "keeps V (seed_pods api dn seen ws)"
proof (induction ws arbitrary: seen)
  case Nil
  show ?case by (simp only: seed_pods.simps keeps_basic)
next
  case (Cons w ws)
  have "keeps V (upsertWorkload api w n)" for n
    unfolding upsertWorkload_def Let_def using assms by (intro keeps_intros calm_upsertPod) auto
  with Cons assms show ?case
    unfolding seed_pods.simps Let_def
    by (intro keeps_and_then keeps_on_error) (auto intro: keeps_basic calm_ensureNamespace)
qed

lemma keeps_seed_secrets:
  assumes "calm V api" and "\<And>k d. keeps V (markSeeded k d)" and "\<And>x. x \<in> set ss \<Longrightarrow> keeps V (upsertSecret api x)"
  shows "keeps V (seed_secrets api seen ss)"
  using assms(3)
proof (induction ss arbitrary: seen)
  case Nil
  show ?case by (simp only: seed_secrets.simps keeps_basic)
next
  case (Cons s ss)
  then have "keeps V (upsertSecret api s)" and "\<And>seen. keeps V (seed_secrets api seen ss)" by simp_all
  with assms(1,2) show ?case
    unfolding seed_secrets.simps Let_def
    by (intro keeps_and_then keeps_on_error) (auto intro: keeps_basic calm_ensureNamespace)
qed

lemma keeps_apply_seed:
  assumes "calm V api" and "\<And>k d. keeps V (markSeeded k d)"
    and "\<And>x. x \<in> set (sd_fakeSecrets s) \<Longrightarrow> keeps V (upsertSecret api x)"
  shows "keeps V (apply_seed api s)"
  unfolding apply_seed_def using assms
  by (intro keeps_and_then keeps_on_error keeps_ignoring keeps_seed_fakeNodes keeps_mark_all keeps_seed_pods keeps_seed_secrets
      calm_ensureNodeLeases calm_createCRDs calm_createControllers calm_createConfigMaps calm_createServices
      calm_adoptScheduledPods) auto

text \<open>When only the secrets of the seed change the view, a successful pass changes it by them.\<close>

lemma updates_quiet_then: "keeps V m \<Longrightarrow> (\<And>x. updates V g (f x)) \<Longrightarrow> updates V g (and_then m f)"
  using updates_and_then [OF keeps_updates, of V m g f] by simp

lemma updates_last: "updates V g m \<Longrightarrow> (\<And>x. keeps V (f x)) \<Longrightarrow> updates V g (and_then m f)"
  using updates_and_then [OF _ keeps_updates, of V g m f] by simp

lemma updates_seed_secrets:
  assumes "calm V api" and "\<And>k d. keeps V (markSeeded k d)" and "\<And>x. updates V (g x) (upsertSecret api x)"
  shows "updates V (fold g ss) (seed_secrets api seen ss)"
proof (induction ss arbitrary: seen)
  case Nil
  show ?case by (simp add: updates_def)
next
  case (Cons s ss)
  have first: "keeps V (if b then ok () else ensureNamespace api ns)" for b ns
    using assms(1) by (auto intro: keeps_basic calm_ensureNamespace)
  have rest: "updates V (fold g ss) (and_then (markSeeded k d) (\<lambda>_. seed_secrets api seen ss))" for k d seen
    by (rule updates_quiet_then [OF assms(2) Cons.IH])
  show ?case
    unfolding seed_secrets.simps Let_def fold_Cons
    by (rule updates_quiet_then [OF first updates_and_then [OF updates_on_error [OF assms(3)] rest]])
qed

lemma updates_apply_seed:
  assumes "calm V api" and "\<And>k d. keeps V (markSeeded k d)" and "\<And>x. updates V (g x) (upsertSecret api x)"
  shows "updates V (fold g (sd_fakeSecrets s)) (apply_seed api s)"
  unfolding apply_seed_def
  apply (rule updates_quiet_then [OF keeps_seed_fakeNodes [OF assms(1,2)]])
  apply (rule updates_quiet_then [OF keeps_on_error [OF calm_ensureNodeLeases [OF assms(1)]]])
  apply (rule updates_quiet_then [OF keeps_on_error [OF calm_createCRDs [OF assms(1)]]])
  apply (rule updates_quiet_then [OF keeps_mark_all [OF assms(2)]])
  apply (rule updates_quiet_then [OF keeps_on_error [OF calm_createControllers [OF assms(1)]]])
  apply (rule updates_quiet_then [OF keeps_mark_all [OF assms(2)]])
  apply (rule updates_quiet_then [OF keeps_seed_pods [OF assms(1,2)]])
  apply (rule updates_last [OF updates_seed_secrets [OF assms]])
  using assms(1,2)
  by (intro keeps_and_then keeps_on_error keeps_ignoring keeps_mark_all calm_createConfigMaps calm_createServices
      calm_adoptScheduledPods) auto

section \<open>The previous pass\<close>

lemma prev_marks: "keeps prev_view (markSeeded k d)"
  unfolding markSeeded_def by (rule keeps_modifies_shim) simp

lemma calm_prev: "calm prev_view api"
  unfolding calm_def quiet_tc_def
  by (intro conjI allI impI keeps_out_shim keeps_modifies_shim) (simp add: tracking_def)

lemma prev_apply_seed: "keeps prev_view (apply_seed api s)"
  by (rule keeps_apply_seed [OF calm_prev prev_marks])
    (simp add: calm_upsertSecret [OF calm_prev] quiet_tc_def keeps_out_shim)

lemma tracking_finalize: "keeps (shim_view tracking) (finalizeTerminatingNamespaces api)"
  unfolding finalizeTerminatingNamespaces_def purgeNamespace_def
  by (auto intro!: keeps_intros)

lemma prune_entry_total: "\<exists>s'. prune_entry api kd s = (Inr (), s')"
  by (cases s; cases kd)
    (auto simp: prune_entry_def markSeeded_def and_then_run try_call_def split: option.splits sum.splits)

lemma prune_entries_total: "\<exists>s'. each kds (prune_entry api) s = (Inr (), s')"
proof (induction kds arbitrary: s)
  case (Cons kd kds)
  obtain s1 where "prune_entry api kd s = (Inr (), s1)" using prune_entry_total by blast
  with Cons show ?case by simp
qed simp

lemma pruneSeeded_total: "\<exists>s'. pruneSeeded api s = (Inr (), s')"
proof -
  obtain sh w where s: "s = (sh, w)" by (cases s)
  obtain sh1 w1 where "each (sh_seededPrev sh) (prune_entry api) (sh, w) = (Inr (), (sh1, w1))"
    using prune_entries_total by (metis surj_pair)
  with s show ?thesis by (simp add: pruneSeeded_def)
qed

lemma and_then_Inl_total:
  assumes "and_then m f w = (Inl e, w')" and "\<And>x s. \<exists>y s'. f x s = (Inr y, s')"
  shows "m w = (Inl e, w')"
proof (cases "m w")
  case (Pair r s)
  show ?thesis
  proof (cases r)
    case (Inr x)
    obtain y s' where "f x s = (Inr y, s')" using assms(2) by blast
    with assms(1) Pair Inr show ?thesis by simp
  qed (use assms(1) Pair in simp)
qed

lemma calm_cfg: "calm (shim_view sh_cfg) api"
  unfolding calm_def quiet_tc_def
  by (intro conjI allI impI keeps_out_shim keeps_modifies_shim) (simp add: tracking_def)

lemma cfg_marks: "keeps (shim_view sh_cfg) (markSeeded k d)"
  unfolding markSeeded_def by (rule keeps_modifies_shim) simp

lemma cfg_prune_entry: "keeps (shim_view sh_cfg) (prune_entry api kd)"
  unfolding prune_entry_def case_prod_beta by (auto intro!: keeps_intros cfg_marks split: sum.split)

lemma cfg_Shim_Seed: "keeps (shim_view sh_cfg) (Shim_Seed api)"
  unfolding Shim_Seed_def pruneSeeded_def finalizeTerminatingNamespaces_def purgeNamespace_def
  by (auto intro!: keeps_and_then keeps_on_error keeps_reads keeps_each keeps_ignoring keeps_out_shim keeps_basic
      cfg_prune_entry keeps_modifies_shim keeps_apply_seed calm_cfg cfg_marks calm_upsertSecret [OF calm_cfg]
      simp: quiet_tc_def)

text \<open>What remains of the pass once its first two assignments are made.\<close>

lemma Shim_Seed_run:
  "Shim_Seed api (sh, w) =
     and_then (on_error (wrap_error ''finalizing terminating namespaces'') (finalizeTerminatingNamespaces api)) (\<lambda>_.
     and_then (modifies (\<lambda>sh. sh\<lparr>sh_seededCur := Some []\<rparr>)) (\<lambda>_.
     and_then (apply_seed api (currentSeed sh)) (\<lambda>_. pruneSeeded api))) (sh\<lparr>sh_objectUIDs := []\<rparr>, w)"
  by (simp add: Shim_Seed_def and_then_run)

lemma Shim_Seed_error_prev:
  assumes "Shim_Seed api (sh, w) = (Inl e, (sh', w'))"
  shows "sh_seededPrev sh' = sh_seededPrev sh"
proof -
  let ?fin = "on_error (wrap_error ''finalizing terminating namespaces'') (finalizeTerminatingNamespaces api)"
  let ?mid = "and_then (modifies (\<lambda>sh. sh\<lparr>sh_seededCur := Some []\<rparr>)) (\<lambda>_. apply_seed api (currentSeed sh))"
  let ?sh = "sh\<lparr>sh_objectUIDs := []\<rparr>"
  have keep: "keeps prev_view (and_then ?fin (\<lambda>_. ?mid))"
    by (intro keeps_and_then keeps_on_error keeps_tracking_prev [OF tracking_finalize] prev_apply_seed keeps_modifies_shim) simp
  have "Shim_Seed api (sh, w) = and_then (and_then ?fin (\<lambda>_. ?mid)) (\<lambda>_. pruneSeeded api) (?sh, w)"
    unfolding Shim_Seed_run by (auto simp: and_then_run split: prod.splits sum.splits)
  with assms have "and_then (and_then ?fin (\<lambda>_. ?mid)) (\<lambda>_. pruneSeeded api) (?sh, w) = (Inl e, (sh', w'))" by simp
  then have "and_then ?fin (\<lambda>_. ?mid) (?sh, w) = (Inl e, (sh', w'))"
    by (rule and_then_Inl_total) (use pruneSeeded_total in blast)
  from keepsD [OF keep this] show ?thesis by simp
qed

lemma Shim_Seed_okE:
  assumes "Shim_Seed api (sh, w) = (Inr u, (sh', w'))"
  obtains sh2 w2 sh4 w4 where
    "finalizeTerminatingNamespaces api (sh\<lparr>sh_objectUIDs := []\<rparr>, w) = (Inr (), (sh2, w2))"
    "apply_seed api (currentSeed sh) (sh2\<lparr>sh_seededCur := Some []\<rparr>, w2) = (Inr (), (sh4, w4))"
    "pruneSeeded api (sh4, w4) = (Inr (), (sh', w'))"
    "sh_seededPrev sh4 = sh_seededPrev sh"
    "sh_seededCur sh4 = Some (mark_refs (seed_refs (currentSeed sh)) [])"
proof -
  from assms obtain x sh2 w2 where fin: "finalizeTerminatingNamespaces api (sh\<lparr>sh_objectUIDs := []\<rparr>, w) = (Inr x, (sh2, w2))"
    and rest: "and_then (apply_seed api (currentSeed sh)) (\<lambda>_. pruneSeeded api) (sh2\<lparr>sh_seededCur := Some []\<rparr>, w2) = (Inr u, (sh', w'))"
    unfolding Shim_Seed_run by (auto simp: and_then_run on_error_def split: prod.splits sum.splits)
  from rest obtain y sh4 w4 where ap: "apply_seed api (currentSeed sh) (sh2\<lparr>sh_seededCur := Some []\<rparr>, w2) = (Inr y, (sh4, w4))"
    and pr: "pruneSeeded api (sh4, w4) = (Inr u, (sh', w'))"
    by (auto simp: and_then_run split: prod.splits sum.splits)
  have "sh_seededPrev sh4 = sh_seededPrev sh"
    using keepsD [OF prev_apply_seed ap] keepsD [OF keeps_tracking_prev [OF tracking_finalize] fin] by simp
  moreover have "sh_seededCur sh4 = Some (mark_refs (seed_refs (currentSeed sh)) [])"
    using updatesD [OF marks_apply_seed [unfolded marks_def] ap] by simp
  ultimately show ?thesis using that fin ap pr by auto
qed

section \<open>The store of secrets\<close>

text \<open>
  What the pass relies on of the API server, for secrets: reading returns what is stored, a
  create or update that succeeds stores the data it was given under the object's own name, a
  delete that succeeds removes the object, \<open>NotFound\<close> means there is none, a call that fails has
  no effect, and a call on another kind leaves the secrets alone. \<open>obs w\<close> is what is stored.
\<close>

definition writes_secret :: "('w \<Rightarrow> nsname \<Rightarrow> Secret option) \<Rightarrow> (Secret \<Rightarrow> ('w, Secret) call) \<Rightarrow> bool" where
  "writes_secret obs put \<longleftrightarrow>
     (\<forall>x w. case put x w of
        (Inr y, w') \<Rightarrow> sec_data y = sec_data x \<and> obs w' = (obs w)(meta_key (sec_meta x) \<mapsto> y)
      | (Inl e, w') \<Rightarrow> obs w' = obs w)"

definition reads_secret :: "('w \<Rightarrow> nsname \<Rightarrow> Secret option) \<Rightarrow> (nsname \<Rightarrow> ('w, Secret) call) \<Rightarrow> bool" where
  "reads_secret obs get \<longleftrightarrow>
     (\<forall>k w. case get k w of
        (Inr x, w') \<Rightarrow> obs w' = obs w \<and> obs w k = Some x \<and> meta_key (sec_meta x) = k
      | (Inl e, w') \<Rightarrow> obs w' = obs w)"

definition deletes_secret :: "('w \<Rightarrow> nsname \<Rightarrow> Secret option) \<Rightarrow> (nsname \<Rightarrow> ('w, unit) call) \<Rightarrow> bool" where
  "deletes_secret obs del \<longleftrightarrow>
     (\<forall>k w. case del k w of
        (Inr _, w') \<Rightarrow> obs w' = (obs w)(k := None)
      | (Inl e, w') \<Rightarrow> obs w' = obs w \<and> (IsNotFound e \<longrightarrow> obs w k = None))"

definition purges_secret :: "('w \<Rightarrow> nsname \<Rightarrow> Secret option) \<Rightarrow> (string \<Rightarrow> ('w, unit) call) \<Rightarrow> bool" where
  "purges_secret obs purge \<longleftrightarrow> (\<forall>ns k. fst k \<noteq> ns \<longrightarrow> keeps (\<lambda>w. obs w k) (purge ns))"

definition secret_api :: "('w \<Rightarrow> nsname \<Rightarrow> Secret option) \<Rightarrow> 'w inner_api \<Rightarrow> bool" where
  "secret_api obs api \<longleftrightarrow>
     calm (out_view obs) api
     \<and> reads_secret obs (tc_get (in_secrets api))
     \<and> writes_secret obs (tc_create (in_secrets api)) \<and> writes_secret obs (tc_update (in_secrets api))
     \<and> (\<forall>opts. deletes_secret obs (tc_delete (in_secrets api) opts))
     \<and> (\<forall>opts. purges_secret obs (tc_deleteCollection (in_secrets api) opts))"

text \<open>The data of the secrets is the view the specification is about.\<close>

definition secret_data :: "('w \<Rightarrow> nsname \<Rightarrow> Secret option) \<Rightarrow> 'w \<Rightarrow> nsname \<Rightarrow> smap option" where
  "secret_data obs w k = map_option sec_data (obs w k)"

lemma secret_apiD:
  assumes "secret_api obs api"
  shows "calm (out_view obs) api" and "reads_secret obs (tc_get (in_secrets api))"
    and "writes_secret obs (tc_create (in_secrets api))" and "writes_secret obs (tc_update (in_secrets api))"
    and "deletes_secret obs (tc_delete (in_secrets api) opts)"
    and "purges_secret obs (tc_deleteCollection (in_secrets api) opts)"
  using assms unfolding secret_api_def by blast+

lemma reads_secretD:
  assumes "reads_secret obs get"
  shows "get k w = (r, w') \<Longrightarrow> obs w' = obs w"
    and "get k w = (Inr x, w') \<Longrightarrow> obs w k = Some x \<and> meta_key (sec_meta x) = k"
proof -
  have "case get k w of (Inr x, w') \<Rightarrow> obs w' = obs w \<and> obs w k = Some x \<and> meta_key (sec_meta x) = k | (Inl e, w') \<Rightarrow> obs w' = obs w"
    using assms unfolding reads_secret_def by (elim allE)
  then show "get k w = (r, w') \<Longrightarrow> obs w' = obs w"
    and "get k w = (Inr x, w') \<Longrightarrow> obs w k = Some x \<and> meta_key (sec_meta x) = k"
    by (auto split: sum.splits)
qed

lemma writes_secretD:
  assumes "writes_secret obs put"
  shows "put x w = (Inr y, w') \<Longrightarrow> sec_data y = sec_data x \<and> obs w' = (obs w)(meta_key (sec_meta x) \<mapsto> y)"
    and "put x w = (Inl e, w') \<Longrightarrow> obs w' = obs w"
  using assms unfolding writes_secret_def by (auto dest!: spec [of _ x] spec [of _ w])

lemma deletes_secretD:
  assumes "deletes_secret obs del"
  shows "del k w = (Inr u, w') \<Longrightarrow> obs w' = (obs w)(k := None)"
    and "del k w = (Inl e, w') \<Longrightarrow> obs w' = obs w \<and> (IsNotFound e \<longrightarrow> obs w k = None)"
proof -
  have "case del k w of (Inr _, w') \<Rightarrow> obs w' = (obs w)(k := None) | (Inl e, w') \<Rightarrow> obs w' = obs w \<and> (IsNotFound e \<longrightarrow> obs w k = None)"
    using assms unfolding deletes_secret_def by (elim allE)
  then show "del k w = (Inr u, w') \<Longrightarrow> obs w' = (obs w)(k := None)"
    and "del k w = (Inl e, w') \<Longrightarrow> obs w' = obs w \<and> (IsNotFound e \<longrightarrow> obs w k = None)"
    by auto
qed

text \<open>A calm view of the store is calm for everything computed from it.\<close>

lemma keeps_weaken: "keeps V m \<Longrightarrow> keeps (\<lambda>s. g (V s)) m"
  by (simp add: keeps_def)

lemma quiet_weaken: "quiet_tc V c \<Longrightarrow> quiet_tc (\<lambda>s. g (V s)) c"
  unfolding quiet_tc_def by (simp add: keeps_weaken)

lemma calm_weaken: "calm V api \<Longrightarrow> calm (\<lambda>s. g (V s)) api"
  unfolding calm_def by (simp add: keeps_weaken quiet_weaken)

text \<open>The two branches of \<^verbatim>\<open>upsertSecret\<close>: both end in one write under the secret's own name.\<close>

lemma upsertSecret_run:
  assumes "secret_api obs api"
  obtains
    (failed) e w1 where "upsertSecret api x (sh, w) = (Inl e, (sh, w1))" "obs w1 = obs w"
  | (wrote) put y w1 where "writes_secret obs put" "obs w1 = obs w"
      "meta_key (sec_meta y) = (fs_namespace x, fs_name x)" "sec_data y = fs_data x"
      "upsertSecret api x (sh, w) = discard (out (put y)) (sh, w1)"
proof -
  obtain r w1 where get: "tc_get (in_secrets api) (fs_namespace x, fs_name x) w = (r, w1)" by (metis surj_pair)
  note law = secret_apiD [OF assms] and same = reads_secretD(1) [OF secret_apiD(2) [OF assms] get]
  show ?thesis
  proof (cases r)
    case (Inr z)
    with get have key: "meta_key (sec_meta z) = (fs_namespace x, fs_name x)"
      using reads_secretD(2) [OF law(2)] by blast
    show ?thesis
      by (rule wrote [OF law(4) same, of "z\<lparr>sec_data := fs_data x\<rparr>"])
        (use key get Inr in \<open>simp_all add: upsertSecret_def lookup_def try_call_def\<close>)
  next
    case (Inl e)
    show ?thesis
    proof (cases "IsNotFound e")
      case True
      show ?thesis
        by (rule wrote [OF law(3) same, of "\<lparr>sec_meta = new_meta (fs_name x) (fs_namespace x) [], sec_type = ''Opaque'', sec_data = fs_data x\<rparr>"])
          (use True get Inl in \<open>simp_all add: upsertSecret_def lookup_def try_call_def\<close>)
    next
      case False
      show ?thesis
        by (rule failed [OF _ same]) (use False get Inl in \<open>simp add: upsertSecret_def lookup_def try_call_def\<close>)
    qed
  qed
qed

lemma discard_run: "discard (out m) (sh, w) = (case m w of (Inr _, w') \<Rightarrow> (Inr (), (sh, w')) | (Inl e, w') \<Rightarrow> (Inl e, (sh, w')))"
  by (simp add: ignoring_def try_call_def split: prod.splits sum.splits)

lemma upsertSecret_frame:
  assumes "secret_api obs api" and "k \<noteq> (fs_namespace x, fs_name x)"
  shows "keeps (out_view (\<lambda>w. obs w k)) (upsertSecret api x)"
proof -
  have "obs (snd (snd (upsertSecret api x (sh, w)))) k = obs w k" for sh w
  proof (cases rule: upsertSecret_run [OF assms(1), of x sh w, case_names failed wrote])
    case (wrote put y w1)
    then show ?thesis
      using assms(2) writes_secretD [OF wrote(1), of y w1]
      by (auto simp: discard_run split: prod.splits sum.splits)
  qed auto
  then show ?thesis by (simp add: keeps_def)
qed

lemma upsertSecret_writes:
  assumes "secret_api obs api"
  shows "updates (out_view (secret_data obs)) (\<lambda>m. m((fs_namespace x, fs_name x) \<mapsto> fs_data x)) (upsertSecret api x)"
proof -
  have "secret_data obs (snd s') = (secret_data obs w)((fs_namespace x, fs_name x) \<mapsto> fs_data x)"
    if run: "upsertSecret api x (sh, w) = (Inr u, s')" for sh w u s'
  proof (cases rule: upsertSecret_run [OF assms, of x sh w, case_names failed wrote])
    case (wrote put y w1)
    then obtain z w2 where z: "put y w1 = (Inr z, w2)" "s' = (sh, w2)"
      using run by (auto simp: discard_run split: prod.splits sum.splits)
    have "obs w2 = (obs w)((fs_namespace x, fs_name x) \<mapsto> z)" "sec_data z = fs_data x"
      using writes_secretD(1) [OF wrote(1) z(1)] wrote by simp_all
    then show ?thesis using z(2) by (simp add: secret_data_def fun_eq_iff)
  qed (use run in auto)
  then show ?thesis by (auto simp: updates_def)
qed

section \<open>Pruning\<close>

lemma prune_entry_run:
  assumes "sh_seededCur sh = Some m" and "tracked_ok m" and "plain_ref d"
  shows "prune_entry api (seeded_key d, d) (sh, w) =
     (if d \<in> refs_of m then (Inr (), (sh, w))
      else case run_delete api d w of
             (Inl e, w') \<Rightarrow> (Inr (), (if IsNotFound e then sh else sh\<lparr>sh_seededCur := Some (mark_ref d m)\<rparr>, w'))
           | (Inr _, w') \<Rightarrow> (Inr (), (sh, w')))"
  using assms
  by (auto simp: prune_entry_def and_then_run try_call_def markSeeded_def mark_ref_def tracked_ok_get
      split: prod.splits sum.splits)

lemma keeps_out_iff: "keeps (out_view v) (out m) \<longleftrightarrow> keeps v m"
  by (simp add: keeps_def)

lemma quiet_delete: "quiet_tc (out_view v) c \<Longrightarrow> keeps v (tc_delete c opts k)"
  by (rule keeps_out_iff [THEN iffD1, OF quiet_tcD(6)])

lemma run_delete_other:
  assumes "secret_api obs api" and "\<And>ns n. d \<noteq> DelSecret ns n"
  shows "keeps obs (run_delete api d)"
  using assms(2) calm_clients [OF secret_apiD(1) [OF assms(1)]]
  by (cases d) (auto simp: run_delete_def intro!: keeps_intros quiet_delete split: option.split)

text \<open>One entry: a desired object stays, another one is gone or stays tracked, its peers stay.\<close>

lemma prune_entry_secrets:
  assumes "secret_api obs api" and "sh_seededCur sh = Some m" and "tracked_ok m" and "plain_ref d"
    and run: "prune_entry api (seeded_key d, d) (sh, w) = (Inr (), (sh', w'))"
  obtains m' where "sh_seededCur sh' = Some m'" "tracked_ok m'" "sh_seededPrev sh' = sh_seededPrev sh"
    "refs_of m' = refs_of m \<or> d \<notin> refs_of m \<and> refs_of m' = insert d (refs_of m)"
    "\<And>ns n. obs w' (ns, n) = obs w (ns, n) \<or> (d = DelSecret ns n \<and> d \<notin> refs_of m')"
    "\<And>ns n. d = DelSecret ns n \<Longrightarrow> d \<notin> refs_of m' \<Longrightarrow> obs w' (ns, n) = None"
proof (cases "d \<in> refs_of m")
  case True
  with run assms(2-4) show ?thesis by (intro that [of m]) (auto simp: prune_entry_run)
next
  case False
  obtain r w1 where del: "run_delete api d w = (r, w1)" by (metis surj_pair)
  have other: "obs w1 = obs w" if "\<And>ns n. d \<noteq> DelSecret ns n"
    by (rule keepsD [OF run_delete_other [OF assms(1) that] del])
  note law = deletes_secretD [OF secret_apiD(5) [OF assms(1)]]
  have same: "obs w1 (ns, n) = obs w (ns, n) \<or> d = DelSecret ns n \<and> (\<exists>u. r = Inr u)" for ns n
  proof (cases "\<exists>ns' n'. d = DelSecret ns' n'")
    case True
    then obtain ns' n' where d: "d = DelSecret ns' n'" by blast
    show ?thesis
    proof (cases r)
      case (Inr u)
      with law(1) del d have "obs w1 = (obs w)((ns', n') := None)" by (auto simp: run_delete_def)
      with Inr d show ?thesis by auto
    next
      case (Inl e)
      with law(2) del d have "obs w1 = obs w" by (auto simp: run_delete_def)
      then show ?thesis by simp
    qed
  qed (use other in auto)
  have gone: "obs w1 (ns, n) = None" if "d = DelSecret ns n" and "(\<exists>u. r = Inr u) \<or> (\<exists>e. r = Inl e \<and> IsNotFound e)" for ns n
    using that del law by (fastforce simp: run_delete_def)
  show ?thesis
  proof (cases "(\<exists>u. r = Inr u) \<or> (\<exists>e. r = Inl e \<and> IsNotFound e)")
    case True
    with run del False assms(2-4) have s': "sh' = sh" "w' = w1" by (auto simp: prune_entry_run)
    show ?thesis
      by (rule that [of m]) (use s' assms(2,3) same gone [OF _ True] False in auto)
  next
    case kept: False
    with run del False assms(2-4) have s': "sh' = sh\<lparr>sh_seededCur := Some (mark_ref d m)\<rparr>" "w' = w1"
      by (auto simp: prune_entry_run split: sum.splits)
    show ?thesis
      by (rule that [of "mark_ref d m"]) (use s' kept same False tracked_ok_mark [OF assms(3,4)] in auto)
  qed
qed

lemma grown_set:
  "B = A \<or> d \<notin> A \<and> B = insert d A \<Longrightarrow> B \<subseteq> C \<Longrightarrow> C \<subseteq> B \<union> K \<Longrightarrow> A \<subseteq> C \<and> C \<subseteq> A \<union> insert d K"
  by blast

text \<open>The whole loop, for entries whose objects are all different.\<close>

lemma prune_entries_secrets:
  assumes "secret_api obs api"
    and "sh_seededCur sh = Some m" and "tracked_ok m" and "\<forall>(k, d) \<in> set kds. k = seeded_key d \<and> plain_ref d"
    and "distinct (map snd kds)" and "each kds (prune_entry api) (sh, w) = (Inr (), (sh', w'))"
  shows "\<exists>m'. sh_seededCur sh' = Some m' \<and> tracked_ok m' \<and> sh_seededPrev sh' = sh_seededPrev sh
     \<and> refs_of m \<subseteq> refs_of m' \<and> refs_of m' \<subseteq> refs_of m \<union> refs_of kds
     \<and> (\<forall>ns n. obs w' (ns, n) = obs w (ns, n) \<or> DelSecret ns n \<in> refs_of kds \<and> DelSecret ns n \<notin> refs_of m')
     \<and> (\<forall>ns n. DelSecret ns n \<in> refs_of kds \<longrightarrow> DelSecret ns n \<notin> refs_of m' \<longrightarrow> obs w' (ns, n) = None)"
  using assms(2-)
proof (induction kds arbitrary: sh w m)
  case Nil
  then show ?case by auto
next
  case (Cons kd kds)
  obtain d where kd: "kd = (seeded_key d, d)" "plain_ref d" using Cons.prems by (cases kd) auto
  obtain sh1 w1 where one: "prune_entry api kd (sh, w) = (Inr (), (sh1, w1))"
    using prune_entry_total by (metis surj_pair)
  with Cons.prems have rest: "each kds (prune_entry api) (sh1, w1) = (Inr (), (sh', w'))" by simp
  obtain m1 where m1: "sh_seededCur sh1 = Some m1" "tracked_ok m1" "sh_seededPrev sh1 = sh_seededPrev sh"
    "refs_of m1 = refs_of m \<or> d \<notin> refs_of m \<and> refs_of m1 = insert d (refs_of m)"
    "\<And>ns n. obs w1 (ns, n) = obs w (ns, n) \<or> (d = DelSecret ns n \<and> d \<notin> refs_of m1)"
    "\<And>ns n. d = DelSecret ns n \<Longrightarrow> d \<notin> refs_of m1 \<Longrightarrow> obs w1 (ns, n) = None"
    using prune_entry_secrets [OF assms(1) Cons.prems(1,2) kd(2) one [unfolded kd(1)]] by metis
  have "\<exists>m'. sh_seededCur sh' = Some m' \<and> tracked_ok m' \<and> sh_seededPrev sh' = sh_seededPrev sh1
     \<and> refs_of m1 \<subseteq> refs_of m' \<and> refs_of m' \<subseteq> refs_of m1 \<union> refs_of kds
     \<and> (\<forall>ns n. obs w' (ns, n) = obs w1 (ns, n) \<or> DelSecret ns n \<in> refs_of kds \<and> DelSecret ns n \<notin> refs_of m')
     \<and> (\<forall>ns n. DelSecret ns n \<in> refs_of kds \<longrightarrow> DelSecret ns n \<notin> refs_of m' \<longrightarrow> obs w' (ns, n) = None)"
    by (rule Cons.IH [OF m1(1,2) _ _ rest]) (use Cons.prems in auto)
  then obtain m' where m': "sh_seededCur sh' = Some m'" "tracked_ok m'" "sh_seededPrev sh' = sh_seededPrev sh1"
    "refs_of m1 \<subseteq> refs_of m'" "refs_of m' \<subseteq> refs_of m1 \<union> refs_of kds"
    "\<And>ns n. obs w' (ns, n) = obs w1 (ns, n) \<or> DelSecret ns n \<in> refs_of kds \<and> DelSecret ns n \<notin> refs_of m'"
    "\<And>ns n. DelSecret ns n \<in> refs_of kds \<Longrightarrow> DelSecret ns n \<notin> refs_of m' \<Longrightarrow> obs w' (ns, n) = None" by blast
  have d: "d \<notin> refs_of kds" using Cons.prems(4) kd by auto
  have one_way: "obs w' (ns, n) = obs w (ns, n) \<or> DelSecret ns n \<in> refs_of (kd # kds) \<and> DelSecret ns n \<notin> refs_of m'" for ns n
    using m1(5) [of ns n] m'(6) [of ns n] m'(5) d kd(1) by auto
  have other_way: "obs w' (ns, n) = None" if "DelSecret ns n \<in> refs_of (kd # kds)" "DelSecret ns n \<notin> refs_of m'" for ns n
  proof (cases "DelSecret ns n = d")
    case True
    with that m'(4) d m1(6) m'(6) [of ns n] show ?thesis by (metis subsetD)
  qed (use that kd m'(7) in auto)
  have "refs_of (kd # kds) = insert d (refs_of kds)" using kd by simp
  then have "refs_of m \<subseteq> refs_of m'" "refs_of m' \<subseteq> refs_of m \<union> refs_of (kd # kds)"
    using grown_set [OF m1(4) m'(4,5)] by simp_all
  then show ?case using m'(1-3) m1(3) one_way other_way by (intro exI [of _ m']) simp
qed

section \<open>The abstract specification\<close>

text \<open>
  A store with an owner. One round with the desired content \<open>want\<close>: every desired object is there
  and owned; an object the owner no longer wants is gone and forgotten, or it could not be
  deleted and is still owned, as it was; what the owner never owned is as before and stays
  foreign.
\<close>

definition sync_step :: "('k \<Rightarrow> 'd option) \<Rightarrow> 'k set \<times> ('k \<Rightarrow> 'd option) \<Rightarrow> 'k set \<times> ('k \<Rightarrow> 'd option) \<Rightarrow> bool" where
  "sync_step want = (\<lambda>(owned, store) (owned', store').
     (\<forall>k d. want k = Some d \<longrightarrow> store' k = Some d \<and> k \<in> owned')
     \<and> (\<forall>k. want k = None \<and> k \<in> owned \<longrightarrow> store' k = None \<and> k \<notin> owned' \<or> store' k = store k \<and> k \<in> owned')
     \<and> (\<forall>k. want k = None \<and> k \<notin> owned \<longrightarrow> store' k = store k \<and> k \<notin> owned'))"

definition owned_secrets :: "(string, seeded) gomap \<Rightarrow> nsname set" where
  "owned_secrets m = {(ns, n). DelSecret ns n \<in> refs_of m}"

definition wanted_secrets :: "Seed \<Rightarrow> nsname \<Rightarrow> smap option" where
  "wanted_secrets s = fold (\<lambda>x m. m((fs_namespace x, fs_name x) \<mapsto> fs_data x)) (sd_fakeSecrets s) Map.empty"

definition none_terminating :: "'w inner_api \<Rightarrow> 'w \<Rightarrow> bool" where
  "none_terminating api w \<longleftrightarrow>
     (\<forall>items w'. tc_list (in_namespaces api) w = (Inr items, w') \<longrightarrow>
        (\<forall>ns \<in> set items. m_deletionTimestamp (nsp_meta ns) = None))"

lemma fold_wanted:
  "fold (\<lambda>x m. m(f x \<mapsto> g x)) xs m0 k =
     (case fold (\<lambda>x m. m(f x \<mapsto> g x)) xs Map.empty k of None \<Rightarrow> m0 k | Some d \<Rightarrow> Some d)"
proof (induction xs arbitrary: m0)
  case (Cons x xs)
  show ?case
    using Cons [of "m0(f x \<mapsto> g x)"] Cons [of "Map.empty(f x \<mapsto> g x)"] by (auto split: option.splits)
qed simp

lemma wanted_iff: "wanted_secrets s k \<noteq> None \<longleftrightarrow> k \<in> (\<lambda>x. (fs_namespace x, fs_name x)) ` set (sd_fakeSecrets s)"
proof -
  have "(\<exists>d. fold (\<lambda>x m. m(f x \<mapsto> g x)) xs m0 k = Some d) \<longleftrightarrow> k \<in> f ` set xs \<or> m0 k \<noteq> None"
    for f :: "FakeSecret \<Rightarrow> nsname" and g :: "FakeSecret \<Rightarrow> smap" and xs m0
    by (induction xs arbitrary: m0) auto
  then show ?thesis by (auto simp: wanted_secrets_def)
qed

lemma finalize_none_terminating:
  assumes "none_terminating api w" and "calm (out_view obs) api"
    and "finalizeTerminatingNamespaces api (sh, w) = (Inr u, (sh', w'))"
  shows "obs w' = obs w"
proof -
  obtain items w1 where l: "tc_list (in_namespaces api) w = (Inr items, w1)"
    using assms(3) unfolding finalizeTerminatingNamespaces_def
    by (elim and_then_InrE) (auto simp: prod_eq_iff)
  let ?f = "\<lambda>ns. if m_deletionTimestamp (nsp_meta ns) = None then ok ()
         else and_then (purgeNamespace api (m_name (nsp_meta ns))) (\<lambda>_.
                ignoring (\<lambda>e. IsNotFound e \<or> IsConflict e) (out (in_finalize api (ns\<lparr>nsp_finalizers := []\<rparr>))))"
  have "each xs ?f s = (Inr (), s)" if "\<forall>ns \<in> set xs. m_deletionTimestamp (nsp_meta ns) = None" for xs s
    using that by (induction xs) auto
  with assms(1,3) l have "w' = w1"
    by (auto simp: finalizeTerminatingNamespaces_def and_then_run none_terminating_def)
  moreover have "keeps (out_view obs) (out (tc_list (in_namespaces api)))"
    by (rule quiet_tcD(2) [OF calm_clients(7) [OF assms(2)]])
  then have "obs w1 = obs w" using l by (auto simp: keeps_out_iff dest: keepsD)
  ultimately show ?thesis by simp
qed

lemma seed_refs_secret: "DelSecret ns n \<in> set (seed_refs s) \<longleftrightarrow> wanted_secrets s (ns, n) \<noteq> None"
  unfolding wanted_iff
  by (auto simp: seed_refs_def crd_mark_def controller_mark_def configMap_mark_def service_mark_def)

lemma tracked_distinct: "tracked_ok m \<Longrightarrow> distinct (map snd m)"
proof -
  assume ok: "tracked_ok m"
  then have "map fst m = map seeded_key (map snd m)" by (auto simp: tracked_ok_def)
  with ok show ?thesis by (metis distinct_map tracked_ok_def)
qed

end
