(* ===== verification/Shim_Props.thy ===== *)
theory Shim_Props
  imports Shim_Sync
begin

text \<open>
  The properties of the seed pass of kubelet-shim, and a small API server in memory on which
  their hypotheses hold.
\<close>

section \<open>The pass and the store of secrets\<close>

lemma out_marks: "keeps (out_view v) (markSeeded k d)"
  unfolding markSeeded_def by (rule keeps_modifies_out)

lemma pruneSeeded_secrets:
  assumes "secret_api obs api" and "sh_seededCur sh = Some m" and "tracked_ok m" and "tracked_ok (sh_seededPrev sh)"
    and "pruneSeeded api (sh, w) = (Inr (), (sh', w'))"
  shows "tracked_ok (sh_seededPrev sh')"
    and "refs_of m \<subseteq> refs_of (sh_seededPrev sh')"
    and "refs_of (sh_seededPrev sh') \<subseteq> refs_of m \<union> refs_of (sh_seededPrev sh)"
    and "obs w' (ns, n) = obs w (ns, n)
       \<or> DelSecret ns n \<in> refs_of (sh_seededPrev sh) \<and> DelSecret ns n \<notin> refs_of (sh_seededPrev sh')"
    and "DelSecret ns n \<in> refs_of (sh_seededPrev sh) \<Longrightarrow> DelSecret ns n \<notin> refs_of (sh_seededPrev sh')
       \<Longrightarrow> obs w' (ns, n) = None"
proof -
  obtain sh1 w1 where loop: "each (sh_seededPrev sh) (prune_entry api) (sh, w) = (Inr (), (sh1, w1))"
    using prune_entries_total by (metis surj_pair)
  have plain: "\<forall>(k, d) \<in> set (sh_seededPrev sh). k = seeded_key d \<and> plain_ref d"
    using assms(4) by (simp add: tracked_ok_def)
  from prune_entries_secrets [OF assms(1-3) plain tracked_distinct [OF assms(4)] loop]
  obtain m' where m': "sh_seededCur sh1 = Some m'" "tracked_ok m'"
    "refs_of m \<subseteq> refs_of m'" "refs_of m' \<subseteq> refs_of m \<union> refs_of (sh_seededPrev sh)"
    "\<And>ns n. obs w1 (ns, n) = obs w (ns, n) \<or> DelSecret ns n \<in> refs_of (sh_seededPrev sh) \<and> DelSecret ns n \<notin> refs_of m'"
    "\<And>ns n. DelSecret ns n \<in> refs_of (sh_seededPrev sh) \<Longrightarrow> DelSecret ns n \<notin> refs_of m' \<Longrightarrow> obs w1 (ns, n) = None"
    by blast
  have s': "sh_seededPrev sh' = m'" "w' = w1"
    using assms(5) loop m'(1) by (auto simp: pruneSeeded_def)
  show "tracked_ok (sh_seededPrev sh')" unfolding s' by (fact m'(2))
  show "refs_of m \<subseteq> refs_of (sh_seededPrev sh')" unfolding s' by (fact m'(3))
  show "refs_of (sh_seededPrev sh') \<subseteq> refs_of m \<union> refs_of (sh_seededPrev sh)" unfolding s' by (fact m'(4))
  show "obs w' (ns, n) = obs w (ns, n) \<or> DelSecret ns n \<in> refs_of (sh_seededPrev sh) \<and> DelSecret ns n \<notin> refs_of (sh_seededPrev sh')"
    unfolding s' by (fact m'(5))
  show "DelSecret ns n \<in> refs_of (sh_seededPrev sh) \<Longrightarrow> DelSecret ns n \<notin> refs_of (sh_seededPrev sh') \<Longrightarrow> obs w' (ns, n) = None"
    unfolding s' by (fact m'(6))
qed

lemma apply_seed_secrets:
  assumes "secret_api obs api" and "apply_seed api s (sh, w) = (Inr u, (sh', w'))"
  shows "secret_data obs w' k = (case wanted_secrets s k of None \<Rightarrow> secret_data obs w k | Some d \<Rightarrow> Some d)"
proof -
  have calm: "calm (out_view (secret_data obs)) api"
    unfolding secret_data_def [abs_def]
    by (rule calm_weaken [of "out_view obs", where g = "\<lambda>m k. map_option sec_data (m k)", OF secret_apiD(1) [OF assms(1)]])
  from updatesD [OF updates_apply_seed [OF calm out_marks upsertSecret_writes [OF assms(1)]] assms(2)]
  show ?thesis by (simp add: wanted_secrets_def fold_wanted [of _ _ _ "secret_data obs w"])
qed

text \<open>Pruning leaves every secret alone whose name no tracked entry carries, whatever happens.\<close>

lemma run_delete_frame:
  assumes "secret_api obs api" and "d \<noteq> DelSecret ns n"
  shows "keeps (\<lambda>w. obs w (ns, n)) (run_delete api d)"
proof (cases "\<exists>ns' n'. d = DelSecret ns' n'")
  case True
  then obtain ns' n' where d: "d = DelSecret ns' n'" "(ns', n') \<noteq> (ns, n)" using assms(2) by auto
  have "obs (snd (tc_delete (in_secrets api) no_options (ns', n') w)) (ns, n) = obs w (ns, n)" for w
  proof (cases "tc_delete (in_secrets api) no_options (ns', n') w")
    case (Pair r w1)
    with d(2) deletes_secretD [OF secret_apiD(5) [OF assms(1)], of no_options "(ns', n')" w] show ?thesis
      by (cases r) auto
  qed
  with d show ?thesis by (simp add: keeps_def run_delete_def)
next
  case False
  then show ?thesis using keeps_weaken [OF run_delete_other [OF assms(1)], of d "\<lambda>m. m (ns, n)"] by blast
qed

lemma prune_frame:
  assumes "secret_api obs api" and "DelSecret ns n \<notin> refs_of (sh_seededPrev sh)"
  shows "obs (snd (snd (pruneSeeded api (sh, w)))) (ns, n) = obs w (ns, n)"
proof -
  have entry: "keeps (out_view (\<lambda>w. obs w (ns, n))) (prune_entry api kd)" if "kd \<in> set (sh_seededPrev sh)" for kd
  proof -
    have "snd kd \<noteq> DelSecret ns n" using assms(2) that by (metis image_eqI)
    then show ?thesis
      unfolding prune_entry_def case_prod_beta
      by (auto intro!: keeps_intros out_marks run_delete_frame [OF assms(1)] split: sum.split)
  qed
  have "keeps (out_view (\<lambda>w. obs w (ns, n))) (each (sh_seededPrev sh) (prune_entry api))"
    by (rule keeps_each) (rule entry)
  moreover obtain sh1 w1 where loop: "each (sh_seededPrev sh) (prune_entry api) (sh, w) = (Inr (), (sh1, w1))"
    using prune_entries_total by (metis surj_pair)
  ultimately have "obs w1 (ns, n) = obs w (ns, n)" by (auto dest: keepsD)
  with loop show ?thesis by (simp add: pruneSeeded_def)
qed

text \<open>The namespace is not one of those the API server lists as being deleted.\<close>

definition namespace_stays :: "'w inner_api \<Rightarrow> 'w \<Rightarrow> string \<Rightarrow> bool" where
  "namespace_stays api w ns \<longleftrightarrow>
     (\<forall>items w1. tc_list (in_namespaces api) w = (Inr items, w1) \<longrightarrow>
        (\<forall>x \<in> set items. m_deletionTimestamp (nsp_meta x) \<noteq> None \<longrightarrow> m_name (nsp_meta x) \<noteq> ns))"

lemma finalize_frame:
  assumes "secret_api obs api"
    and "namespace_stays api w ns"
  shows "obs (snd (snd (finalizeTerminatingNamespaces api (sh, w)))) (ns, n) = obs w (ns, n)"
proof -
  let ?V = "out_view (\<lambda>w. obs w (ns, n))"
  have calm: "calm ?V api" by (rule calm_weaken [OF secret_apiD(1) [OF assms(1)]])
  obtain r w1 where l: "tc_list (in_namespaces api) w = (r, w1)" by (metis surj_pair)
  have "keeps (\<lambda>w. obs w (ns, n)) (tc_list (in_namespaces api))"
    by (rule keeps_out_iff [THEN iffD1, OF quiet_tcD(2) [OF calm_clients(7) [OF calm]]])
  with l have w1: "obs w1 (ns, n) = obs w (ns, n)" by (auto dest: keepsD)
  have purge: "keeps ?V (purgeNamespace api x)" if "x \<noteq> ns" for x
  proof -
    have "keeps (\<lambda>w. obs w (ns, n)) (tc_deleteCollection (in_secrets api) force_delete x)"
      using secret_apiD(6) [OF assms(1), of force_delete] that by (simp add: purges_secret_def)
    then have "keeps ?V (out (tc_deleteCollection (in_secrets api) force_delete x))"
      by (rule keeps_out)
    then show ?thesis
      unfolding purgeNamespace_def using calm by (auto intro!: keeps_intros calm_rules)
  qed
  show ?thesis
  proof (cases r)
    case (Inl e)
    with l w1 show ?thesis by (simp add: finalizeTerminatingNamespaces_def and_then_run)
  next
    case (Inr items)
    let ?f = "\<lambda>x. if m_deletionTimestamp (nsp_meta x) = None then ok ()
         else and_then (purgeNamespace api (m_name (nsp_meta x))) (\<lambda>_.
                ignoring (\<lambda>e. IsNotFound e \<or> IsConflict e) (out (in_finalize api (x\<lparr>nsp_finalizers := []\<rparr>))))"
    have "keeps ?V (each items ?f)"
      using assms(2) l Inr calm unfolding namespace_stays_def by (auto intro!: keeps_intros purge calm_clients)
    then have "obs (snd (snd (each items ?f (sh, w1)))) (ns, n) = obs w1 (ns, n)" by (simp add: keeps_def)
    with l Inr w1 show ?thesis by (simp add: finalizeTerminatingNamespaces_def and_then_run)
  qed
qed

lemma Seed_sync_step:
  assumes "secret_api obs api" and "tracked_ok (sh_seededPrev sh)"
    and "\<forall>d \<in> set (seed_refs (currentSeed sh)). plain_ref d" and "none_terminating api w"
    and "Shim_Seed api (sh, w) = (Inr (), (sh', w'))"
  shows "sync_step (wanted_secrets (currentSeed sh))
     (owned_secrets (sh_seededPrev sh), secret_data obs w)
     (owned_secrets (sh_seededPrev sh'), secret_data obs w')"
proof -
  let ?s = "currentSeed sh"
  obtain sh2 w2 sh4 w4 where run:
    "finalizeTerminatingNamespaces api (sh\<lparr>sh_objectUIDs := []\<rparr>, w) = (Inr (), (sh2, w2))"
    "apply_seed api ?s (sh2\<lparr>sh_seededCur := Some []\<rparr>, w2) = (Inr (), (sh4, w4))"
    "pruneSeeded api (sh4, w4) = (Inr (), (sh', w'))" "sh_seededPrev sh4 = sh_seededPrev sh"
    "sh_seededCur sh4 = Some (mark_refs (seed_refs ?s) [])"
    using Shim_Seed_okE [OF assms(5)] by metis
  note marks = tracked_ok_marks [OF tracked_ok_Nil assms(3)]
  note pr = pruneSeeded_secrets [OF assms(1) run(5) marks(1) _ run(3), unfolded run(4), OF assms(2)]
  have w2: "secret_data obs w2 = secret_data obs w"
    using finalize_none_terminating [OF assms(4) secret_apiD(1) [OF assms(1)] run(1)] by (simp add: secret_data_def fun_eq_iff)
  have w4: "secret_data obs w4 k = (case wanted_secrets ?s k of None \<Rightarrow> secret_data obs w k | Some d \<Rightarrow> Some d)" for k
    by (rule apply_seed_secrets [OF assms(1) run(2), unfolded w2])
  have kept: "DelSecret ns n \<in> refs_of (sh_seededPrev sh')" if "wanted_secrets ?s (ns, n) \<noteq> None" for ns n
    using that pr(2) marks(2) seed_refs_secret [of ns n ?s] by auto
  have old: "DelSecret ns n \<in> refs_of (sh_seededPrev sh)"
    if "DelSecret ns n \<in> refs_of (sh_seededPrev sh')" "wanted_secrets ?s (ns, n) = None" for ns n
    using that pr(3) marks(2) seed_refs_secret [of ns n ?s] by auto
  have data: "obs w' k = obs w4 k \<Longrightarrow> secret_data obs w' k = secret_data obs w4 k"
    "obs w' k = None \<Longrightarrow> secret_data obs w' k = None" for k
    by (simp_all add: secret_data_def)
  show ?thesis
    unfolding sync_step_def owned_secrets_def split
  proof (intro conjI allI impI)
    fix k d assume want: "wanted_secrets ?s k = Some d"
    then have "DelSecret (fst k) (snd k) \<in> refs_of (sh_seededPrev sh')" using kept [of "fst k" "snd k"] by simp
    with want pr(4) [of "fst k" "snd k"] data(1) [of k] w4 [of k]
    show "secret_data obs w' k = Some d" and "k \<in> {(ns, n). DelSecret ns n \<in> refs_of (sh_seededPrev sh')}"
      by (auto simp: case_prod_beta)
  next
    fix k assume want: "wanted_secrets ?s k = None \<and> k \<in> {(ns, n). DelSecret ns n \<in> refs_of (sh_seededPrev sh)}"
    then show "secret_data obs w' k = None \<and> k \<notin> {(ns, n). DelSecret ns n \<in> refs_of (sh_seededPrev sh')}
        \<or> secret_data obs w' k = secret_data obs w k \<and> k \<in> {(ns, n). DelSecret ns n \<in> refs_of (sh_seededPrev sh')}"
      using pr(4,5) [of "fst k" "snd k"] data [of k] w4 [of k] by (auto simp: case_prod_beta)
  next
    fix k assume want: "wanted_secrets ?s k = None \<and> k \<notin> {(ns, n). DelSecret ns n \<in> refs_of (sh_seededPrev sh)}"
    then show "secret_data obs w' k = secret_data obs w k" and "k \<notin> {(ns, n). DelSecret ns n \<in> refs_of (sh_seededPrev sh')}"
      using pr(4) [of "fst k" "snd k"] data(1) [of k] w4 [of k] old [of "fst k" "snd k"] by (auto simp: case_prod_beta)
  qed
qed

section \<open>Properties\<close>


text \<open>
  C15 Safety: whatever its outcome, a seed pass leaves a secret untouched that neither the seed nor
  the memory of the shim names, unless the secret's namespace is being deleted. An attacker's
  own objects are never overwritten and never pruned.
\<close>

theorem Seed_spares_foreign:
  assumes "secret_api obs api" and "wanted_secrets (currentSeed sh) (ns, n) = None"
    and "DelSecret ns n \<notin> refs_of (sh_seededPrev sh)"
    and "namespace_stays api w ns"
  shows "obs (snd (snd (Shim_Seed api (sh, w)))) (ns, n) = obs w (ns, n)"
proof -
  let ?V = "out_view (\<lambda>w. obs w (ns, n))" and ?sh = "sh\<lparr>sh_objectUIDs := []\<rparr>"
  obtain r sh2 w2 where fin: "finalizeTerminatingNamespaces api (?sh, w) = (r, (sh2, w2))" by (metis surj_pair)
  have w2: "obs w2 (ns, n) = obs w (ns, n)" using finalize_frame [OF assms(1,4), of ?sh n] fin by simp
  have prev2: "sh_seededPrev sh2 = sh_seededPrev sh"
    using keepsD [OF keeps_tracking_prev [OF tracking_finalize] fin] by simp
  obtain q sh4 w4 where ap: "apply_seed api (currentSeed sh) (sh2\<lparr>sh_seededCur := Some []\<rparr>, w2) = (q, (sh4, w4))"
    by (metis surj_pair)
  have "(ns, n) \<notin> (\<lambda>x. (fs_namespace x, fs_name x)) ` set (sd_fakeSecrets (currentSeed sh))"
    using assms(2) wanted_iff [of "currentSeed sh" "(ns, n)"] by simp
  then have "(ns, n) \<noteq> (fs_namespace x, fs_name x)" if "x \<in> set (sd_fakeSecrets (currentSeed sh))" for x
    using that by auto
  then have "keeps ?V (apply_seed api (currentSeed sh))"
    by (intro keeps_apply_seed calm_weaken [OF secret_apiD(1) [OF assms(1)]] out_marks upsertSecret_frame [OF assms(1)])
  with ap w2 have w4: "obs w4 (ns, n) = obs w (ns, n)" by (auto dest: keepsD)
  have prev4: "sh_seededPrev sh4 = sh_seededPrev sh" using keepsD [OF prev_apply_seed ap] prev2 by simp
  show ?thesis
    using fin ap w2 w4 prune_frame [OF assms(1), of ns n sh4 w4] assms(3) prev4
    unfolding Shim_Seed_run by (auto simp: and_then_run on_error_def split: sum.splits)
qed

text \<open>The delete of an object went through at some point: it succeeded, or there was nothing to delete.\<close>

definition deleted_ref :: "'w inner_api \<Rightarrow> seeded \<Rightarrow> bool" where
  "deleted_ref api d \<longleftrightarrow> (\<exists>w r w'. run_delete api d w = (r, w') \<and> (case r of Inr _ \<Rightarrow> True | Inl e \<Rightarrow> IsNotFound e))"

lemma prune_entry_forget:
  assumes "sh_seededCur sh = Some m" and "tracked_ok m" and "plain_ref d"
    and run: "prune_entry api (seeded_key d, d) (sh, w) = (Inr (), (sh', w'))"
  obtains m' where "sh_seededCur sh' = Some m'" "tracked_ok m'" "refs_of m \<subseteq> refs_of m'" "refs_of m' \<subseteq> insert d (refs_of m)"
    "d \<in> refs_of m' \<or> deleted_ref api d"
proof -
  obtain r w1 where del: "run_delete api d w = (r, w1)" by (metis surj_pair)
  note step = run [unfolded prune_entry_run [OF assms(1-3)] del]
  consider (desired) "d \<in> refs_of m" | (gone) "d \<notin> refs_of m" "case r of Inr _ \<Rightarrow> True | Inl e \<Rightarrow> IsNotFound e"
    | (kept) e where "d \<notin> refs_of m" "r = Inl e" "\<not> IsNotFound e"
    by (cases r) auto
  then show ?thesis
  proof cases
    case desired
    with step assms(1,2) show ?thesis by (intro that [of m]) auto
  next
    case gone
    then have "deleted_ref api d" using del by (auto simp: deleted_ref_def)
    moreover have "sh' = sh" using step gone by (cases r) auto
    ultimately show ?thesis using assms(1,2) by (intro that [of m]) auto
  next
    case kept
    with step have "sh' = sh\<lparr>sh_seededCur := Some (mark_ref d m)\<rparr>" by simp
    then show ?thesis using tracked_ok_mark [OF assms(2,3)] by (intro that [of "mark_ref d m"]) auto
  qed
qed

lemma between_set:
  "A \<subseteq> B \<Longrightarrow> B \<subseteq> insert d A \<Longrightarrow> B \<subseteq> C \<Longrightarrow> C \<subseteq> B \<union> K \<Longrightarrow> A \<subseteq> C \<and> C \<subseteq> A \<union> insert d K"
  by blast

lemma prune_entries_forget:
  assumes "sh_seededCur sh = Some m" and "tracked_ok m" and "\<forall>(k, d) \<in> set kds. k = seeded_key d \<and> plain_ref d"
    and "each kds (prune_entry api) (sh, w) = (Inr (), (sh', w'))"
  shows "\<exists>m'. sh_seededCur sh' = Some m' \<and> tracked_ok m' \<and> refs_of m \<subseteq> refs_of m' \<and> refs_of m' \<subseteq> refs_of m \<union> refs_of kds
     \<and> (\<forall>d \<in> refs_of kds. d \<in> refs_of m' \<or> deleted_ref api d)"
  using assms
proof (induction kds arbitrary: sh w m)
  case (Cons kd kds)
  obtain d where kd: "kd = (seeded_key d, d)" "plain_ref d" using Cons.prems by (cases kd) auto
  obtain sh1 w1 where one: "prune_entry api kd (sh, w) = (Inr (), (sh1, w1))"
    using prune_entry_total by (metis surj_pair)
  obtain m1 where m1: "sh_seededCur sh1 = Some m1" "tracked_ok m1" "refs_of m \<subseteq> refs_of m1" "refs_of m1 \<subseteq> insert d (refs_of m)"
    "d \<in> refs_of m1 \<or> deleted_ref api d"
    using prune_entry_forget [OF Cons.prems(1,2) kd(2) one [unfolded kd(1)]] by metis
  from Cons.prems one have rest: "each kds (prune_entry api) (sh1, w1) = (Inr (), (sh', w'))" by simp
  obtain m' where m': "sh_seededCur sh' = Some m'" "tracked_ok m'" "refs_of m1 \<subseteq> refs_of m'" "refs_of m' \<subseteq> refs_of m1 \<union> refs_of kds"
    "\<forall>d \<in> refs_of kds. d \<in> refs_of m' \<or> deleted_ref api d"
    using Cons.IH [OF m1(1,2) _ rest] Cons.prems(3) by auto
  have "refs_of (kd # kds) = insert d (refs_of kds)" using kd by simp
  moreover have "refs_of m \<subseteq> refs_of m' \<and> refs_of m' \<subseteq> refs_of m \<union> insert d (refs_of kds)"
    by (rule between_set [OF m1(3,4) m'(3,4)])
  moreover have "d \<in> refs_of m' \<or> deleted_ref api d" using m1(5) m'(3) by (metis subsetD)
  ultimately show ?case using m'(1,2,5) by (intro exI [of _ m']) simp
qed auto

lemma pruneSeeded_forget:
  assumes "sh_seededCur sh = Some m" and "tracked_ok m" and "tracked_ok (sh_seededPrev sh)"
    and "pruneSeeded api (sh, w) = (Inr (), (sh', w'))"
  shows "tracked_ok (sh_seededPrev sh')" and "refs_of m \<subseteq> refs_of (sh_seededPrev sh')"
    and "refs_of (sh_seededPrev sh') \<subseteq> refs_of m \<union> refs_of (sh_seededPrev sh)"
    and "d \<in> refs_of (sh_seededPrev sh) \<Longrightarrow> d \<in> refs_of (sh_seededPrev sh') \<or> deleted_ref api d"
proof -
  obtain sh1 w1 where loop: "each (sh_seededPrev sh) (prune_entry api) (sh, w) = (Inr (), (sh1, w1))"
    using prune_entries_total by (metis surj_pair)
  have plain: "\<forall>(k, d) \<in> set (sh_seededPrev sh). k = seeded_key d \<and> plain_ref d"
    using assms(3) by (simp add: tracked_ok_def)
  from prune_entries_forget [OF assms(1,2) plain loop] obtain m' where m': "sh_seededCur sh1 = Some m'" "tracked_ok m'"
    "refs_of m \<subseteq> refs_of m'" "refs_of m' \<subseteq> refs_of m \<union> refs_of (sh_seededPrev sh)"
    "\<forall>d \<in> refs_of (sh_seededPrev sh). d \<in> refs_of m' \<or> deleted_ref api d" by blast
  have s': "sh_seededPrev sh' = m'" using assms(4) loop m'(1) by (auto simp: pruneSeeded_def)
  show "tracked_ok (sh_seededPrev sh')" unfolding s' by (fact m'(2))
  show "refs_of m \<subseteq> refs_of (sh_seededPrev sh')" unfolding s' by (fact m'(3))
  show "refs_of (sh_seededPrev sh') \<subseteq> refs_of m \<union> refs_of (sh_seededPrev sh)" unfolding s' by (fact m'(4))
  show "d \<in> refs_of (sh_seededPrev sh) \<Longrightarrow> d \<in> refs_of (sh_seededPrev sh') \<or> deleted_ref api d"
    unfolding s' using m'(5) by (rule bspec)
qed

definition plain_seed :: "Seed \<Rightarrow> bool" where
  "plain_seed s \<longleftrightarrow> (\<forall>d \<in> set (seed_refs s). plain_ref d)"

text \<open>One pass: the memory stays well formed, covers the seed, and forgets only what was deleted.\<close>

lemma Seed_memory:
  assumes "tracked_ok (sh_seededPrev sh)" and "plain_seed (currentSeed sh)"
    and "Shim_Seed api (sh, w) = (r, (sh', w'))"
  shows "tracked_ok (sh_seededPrev sh')"
    and "refs_of (sh_seededPrev sh') \<subseteq> set (seed_refs (currentSeed sh)) \<union> refs_of (sh_seededPrev sh)"
    and "r = Inr () \<Longrightarrow> set (seed_refs (currentSeed sh)) \<subseteq> refs_of (sh_seededPrev sh')"
    and "d \<in> refs_of (sh_seededPrev sh) \<Longrightarrow> d \<in> refs_of (sh_seededPrev sh') \<or> deleted_ref api d"
proof -
  have ok_case: "tracked_ok (sh_seededPrev sh') \<and> refs_of (sh_seededPrev sh') \<subseteq> set (seed_refs (currentSeed sh)) \<union> refs_of (sh_seededPrev sh)
      \<and> set (seed_refs (currentSeed sh)) \<subseteq> refs_of (sh_seededPrev sh')
      \<and> (d \<in> refs_of (sh_seededPrev sh) \<longrightarrow> d \<in> refs_of (sh_seededPrev sh') \<or> deleted_ref api d)" if "r = Inr ()" for d
  proof -
    have seed: "Shim_Seed api (sh, w) = (Inr (), (sh', w'))" using assms(3) that by simp
    obtain sh4 w4 where run: "pruneSeeded api (sh4, w4) = (Inr (), (sh', w'))" "sh_seededPrev sh4 = sh_seededPrev sh"
      "sh_seededCur sh4 = Some (mark_refs (seed_refs (currentSeed sh)) [])"
      using Shim_Seed_okE [OF seed] by metis
    note marks = tracked_ok_marks [OF tracked_ok_Nil, of "seed_refs (currentSeed sh)"]
    have plain: "\<forall>d \<in> set (seed_refs (currentSeed sh)). plain_ref d" using assms(2) by (simp add: plain_seed_def)
    note pr = pruneSeeded_forget [OF run(3) marks(1) [OF plain] _ run(1), unfolded run(2) marks(2) [OF plain], OF assms(1)]
    from pr show ?thesis by (metis Un_empty_right image_empty list.set(1))
  qed
  have err_case: "sh_seededPrev sh' = sh_seededPrev sh" if "r = Inl e" for e
    by (rule Shim_Seed_error_prev [of api sh w e]) (use assms(3) that in simp)
  show "tracked_ok (sh_seededPrev sh')"
    "refs_of (sh_seededPrev sh') \<subseteq> set (seed_refs (currentSeed sh)) \<union> refs_of (sh_seededPrev sh)"
    "d \<in> refs_of (sh_seededPrev sh) \<Longrightarrow> d \<in> refs_of (sh_seededPrev sh') \<or> deleted_ref api d"
    using ok_case err_case assms(1) by (cases r; auto)+
  show "r = Inr () \<Longrightarrow> set (seed_refs (currentSeed sh)) \<subseteq> refs_of (sh_seededPrev sh')" using ok_case by blast
qed

lemma reloadSeed_run:
  assumes "reloadSeed ReadFile parse (sh, w) = (r, (sh', w'))"
  shows "r = Inr ()" and "sh_seededPrev sh' = sh_seededPrev sh"
    and "currentSeed sh' = currentSeed sh \<or> (\<exists>path w1. Load ReadFile parse path w = (Inr (currentSeed sh'), w1))"
proof -
  consider (skip) "sh' = sh" "r = Inr ()"
    | (swap) s w1 where "Load ReadFile parse (cfg_seedPath (sh_cfg sh)) w = (Inr s, w1)"
        "sh' = sh\<lparr>sh_cfg := (sh_cfg sh)\<lparr>cfg_seed := s\<rparr>\<rparr>" "r = Inr ()"
    using assms
    by (cases "Load ReadFile parse (cfg_seedPath (sh_cfg sh)) w"; cases "fst (Load ReadFile parse (cfg_seedPath (sh_cfg sh)) w)")
      (auto simp: reloadSeed_def and_then_run try_call_def split: if_splits)
  then show "r = Inr ()" and "sh_seededPrev sh' = sh_seededPrev sh"
    and "currentSeed sh' = currentSeed sh \<or> (\<exists>path w1. Load ReadFile parse path w = (Inr (currentSeed sh'), w1))"
    by (cases; auto simp: currentSeed_def)+
qed

text \<open>
  Every seed that can be read has plain names, as the operator renders them.
\<close>

definition plain_seeds :: "(string \<Rightarrow> ('w, string) call) \<Rightarrow> (string \<Rightarrow> json option) \<Rightarrow> bool" where
  "plain_seeds ReadFile parse \<longleftrightarrow> (\<forall>path w s w'. Load ReadFile parse path w = (Inr s, w') \<longrightarrow> plain_seed s)"

lemma heartbeat_tick:
  assumes "plain_seeds ReadFile parse" and "tracked_ok (sh_seededPrev sh)" and "plain_seed (currentSeed sh)"
  obtains sh' w' where
    "RunHeartbeat api ReadFile parse (Tick # evs) (sh, w) = RunHeartbeat api ReadFile parse evs (sh', w')"
    "tracked_ok (sh_seededPrev sh')" "plain_seed (currentSeed sh')"
    "\<And>d. d \<in> refs_of (sh_seededPrev sh) \<Longrightarrow> d \<in> refs_of (sh_seededPrev sh') \<or> deleted_ref api d"
proof -
  obtain r sh1 w1 where re: "reloadSeed ReadFile parse (sh, w) = (r, (sh1, w1))" by (metis surj_pair)
  obtain q sh2 w2 where seed: "Shim_Seed api (sh1, w1) = (q, (sh2, w2))" by (metis surj_pair)
  have plain1: "plain_seed (currentSeed sh1)"
    using reloadSeed_run(3) [OF re] assms(1,3) unfolding plain_seeds_def by metis
  have ok1: "tracked_ok (sh_seededPrev sh1)" using reloadSeed_run(2) [OF re] assms(2) by simp
  note mem = Seed_memory [OF ok1 plain1 seed, unfolded reloadSeed_run(2) [OF re]]
  have "currentSeed sh2 = currentSeed sh1"
    using keepsD [OF cfg_Shim_Seed seed] by (simp add: currentSeed_def)
  moreover have "RunHeartbeat api ReadFile parse (Tick # evs) (sh, w) = RunHeartbeat api ReadFile parse evs (sh2, w2)"
    using re seed reloadSeed_run(1) [OF re]
    by (cases q) (simp_all add: and_then_run ignoring_def try_call_def)
  ultimately show ?thesis using that [of sh2 w2] mem(1,4) plain1 by metis
qed



section \<open>An API server in memory\<close>

text \<open>
  The witnesses run against this world: a list of secrets and the names whose delete fails. The
  other kinds accept every write and store nothing.
\<close>

record memw =
  mw_secrets :: "Secret list"
  mw_stuck :: "nsname list"

definition null_client :: "('w, 'o) tclient" where
  "null_client =
     \<lparr>tc_get = (\<lambda>k. fail not_found), tc_list = ok [], tc_create = ok, tc_update = ok, tc_updateStatus = ok,
      tc_delete = (\<lambda>d k. ok ()), tc_deleteCollection = (\<lambda>d ns. ok ())\<rparr>"

abbreviation mem_obs :: "memw \<Rightarrow> nsname \<Rightarrow> Secret option" where
  "mem_obs w \<equiv> list_obs sec_meta (mw_secrets w)"

definition mem_secrets :: "(memw, Secret) tclient" where
  "mem_secrets =
     (let c = mem_client sec_meta mw_secrets mw_secrets_update in
      \<lparr>tc_get = kc_get c, tc_list = kc_list c list_all_opts, tc_create = kc_create c, tc_update = kc_update c,
       tc_updateStatus = kc_update_status c,
       tc_delete = (\<lambda>d k w.
          if k \<in> set (mw_stuck w) then (Inl (errorf ''timeout''), w)
          else if mem_obs w k = None then (Inl not_found, w)
          else (Inr (), w\<lparr>mw_secrets := filter (\<lambda>s. meta_key (sec_meta s) \<noteq> k) (mw_secrets w)\<rparr>)),
       tc_deleteCollection = (\<lambda>d ns w.
          (Inr (), w\<lparr>mw_secrets := filter (\<lambda>s. m_namespace (sec_meta s) \<noteq> ns) (mw_secrets w)\<rparr>))\<rparr>)"

definition mem_api :: "memw inner_api" where
  "mem_api =
     \<lparr>in_nodes = null_client, in_pods = null_client, in_secrets = mem_secrets, in_configMaps = null_client,
      in_services = null_client, in_endpointSlices = null_client, in_leases = null_client,
      in_namespaces = null_client, in_finalize = ok, in_deployments = null_client,
      in_replicaSets = null_client, in_daemonSets = null_client, in_crds = None, in_now = (\<lambda>w. 1000)\<rparr>"

lemma quiet_null: "quiet_tc (out_view v) null_client"
  unfolding null_client_def by (rule quiet_out) (simp_all add: keeps_basic)

lemma calm_mem: "calm (out_view v) mem_api"
  unfolding calm_def mem_api_def
  by (auto simp: quiet_null intro!: keeps_out keeps_modifies_out keeps_basic)

lemma list_obs_filter_key: "list_obs sec_meta (filter (\<lambda>s. meta_key (sec_meta s) \<noteq> k) xs) = (list_obs sec_meta xs)(k := None)"
  by (induction xs) (auto simp: list_obs_def fun_eq_iff)

lemma list_obs_filter_ns: "ns' \<noteq> ns \<Longrightarrow> list_obs sec_meta (filter (\<lambda>s. m_namespace (sec_meta s) \<noteq> ns) xs) (ns', n) = list_obs sec_meta xs (ns', n)"
  by (induction xs) (auto simp: list_obs_def)

lemma secret_api_mem: "secret_api mem_obs mem_api"
  unfolding secret_api_def
proof (intro conjI allI)
  let ?c = "mem_client sec_meta mw_secrets mw_secrets_update"
  have store: "object_store ?c sec_meta (\<lambda>x y. y = x) mem_obs"
    by (rule mem_object_store) simp_all
  show "calm (out_view mem_obs) mem_api" by (rule calm_mem)
  show "reads_secret mem_obs (tc_get (in_secrets mem_api))"
    by (auto simp: reads_secret_def mem_api_def mem_secrets_def mem_client_def Let_def split: option.split dest: list_obs_mem)
  have put: "writes_secret mem_obs p" if "put_law p sec_meta (\<lambda>x y. y = x) mem_obs" for p
    using put_lawD [OF that] unfolding writes_secret_def by (auto split: prod.split sum.split)
  show "writes_secret mem_obs (tc_create (in_secrets mem_api))" "writes_secret mem_obs (tc_update (in_secrets mem_api))"
    using put object_storeD(3,5) [OF store] by (simp_all add: mem_api_def mem_secrets_def Let_def)
  fix opts
  show "deletes_secret mem_obs (tc_delete (in_secrets mem_api) opts)"
    by (auto simp: deletes_secret_def mem_api_def mem_secrets_def Let_def list_obs_filter_key [of "(a, b)" for a b, simplified] errorf_def IsNotFound_def)
  show "purges_secret mem_obs (tc_deleteCollection (in_secrets mem_api) opts)"
    by (auto simp: purges_secret_def keeps_def mem_api_def mem_secrets_def Let_def list_obs_filter_ns)
qed

text \<open>A shim that seeded \<^verbatim>\<open>app/old\<close> in its last pass and whose seed now names \<^verbatim>\<open>app/db\<close>.\<close>

definition ex_secret :: "string \<Rightarrow> string \<Rightarrow> smap \<Rightarrow> Secret" where
  "ex_secret ns n d = \<lparr>sec_meta = new_meta n ns [], sec_type = ''Opaque'', sec_data = d\<rparr>"

definition empty_seed :: Seed where
  "empty_seed = \<lparr>sd_fakeNodes = [], sd_fakePods = [], sd_fakeSecrets = [], sd_controllers = [], sd_crds = [],
                 sd_services = [], sd_configMaps = []\<rparr>"

definition ex_seed :: Seed where
  "ex_seed = empty_seed\<lparr>sd_fakeSecrets := [\<lparr>fs_name = ''db'', fs_namespace = ''app'', fs_data = [(''password'', ''hunter2'')]\<rparr>]\<rparr>"

definition ex_cfg :: ShimConfig where
  "ex_cfg = \<lparr>cfg_seed = ex_seed, cfg_seedPath = '''', cfg_nodeInternalIP = ''10.96.0.7'', cfg_kubeletPort = 10250,
             cfg_kubernetesServicePort = 6443, cfg_execProfile = ''shell'', cfg_execIsolation = False,
             cfg_serviceAccountToken = ''tok'', cfg_serviceAccountDir = ''/sa'', cfg_namespace = ''app'',
             cfg_caBundlePath = '''', cfg_recordExecSessions = True\<rparr>"

definition ex_shim :: Shim where
  "ex_shim = \<lparr>sh_cfg = ex_cfg, sh_logLines = [], sh_installedCRDs = [], sh_objectUIDs = [],
              sh_seededPrev = mark_refs [DelSecret ''app'' ''old''] [], sh_seededCur = None\<rparr>"

definition ex_memw :: memw where
  "ex_memw = \<lparr>mw_secrets = [ex_secret ''app'' ''old'' [], ex_secret ''app'' ''mine'' [(''k'', ''v'')]], mw_stuck = []\<rparr>"

lemmas ex_defs = ex_secret_def empty_seed_def ex_seed_def ex_cfg_def ex_shim_def ex_memw_def

lemmas run_defs = Shim_Seed_def apply_seed_def pruneSeeded_def prune_entry_def run_delete_def
  finalizeTerminatingNamespaces_def seed_fakeNodes_def ensureNodeLeases_def createCRDs_def createControllers_def
  mark_all_def createConfigMaps_def createServices_def adoptScheduledPods_def ensureNamespace_def upsertSecret_def
  lookup_def ignoring_def try_call_def and_then_def on_error_def markSeeded_def currentSeed_def defaultNode_def
  mem_api_def mem_secrets_def mem_client_def mem_put_def null_client_def list_obs_def

definition ex_shim' :: Shim where
  "ex_shim' = ex_shim\<lparr>sh_seededPrev := mark_refs [DelSecret ''app'' ''db''] [], sh_seededCur := Some (mark_refs [DelSecret ''app'' ''db''] [])\<rparr>"

definition ex_memw' :: memw where
  "ex_memw' = \<lparr>mw_secrets = [ex_secret ''app'' ''mine'' [(''k'', ''v'')], ex_secret ''app'' ''db'' [(''password'', ''hunter2'')]], mw_stuck = []\<rparr>"

lemma ex_run: "Shim_Seed mem_api (ex_shim, ex_memw) = (Inr (), (ex_shim', ex_memw'))"
  by (simp add: run_defs Let_def ex_defs ex_shim'_def ex_memw'_def gm_get_def gm_set_def mark_ref_def not_found_def IsNotFound_def)

lemma ex_plain: "plain_seed ex_seed" "tracked_ok (sh_seededPrev ex_shim)" "currentSeed ex_shim = ex_seed"
  "none_terminating mem_api w" "namespace_stays mem_api w ns"
  by (simp_all add: plain_seed_def seed_refs_def ex_defs tracked_ok_def mark_ref_def gm_set_def currentSeed_def
      none_terminating_def namespace_stays_def mem_api_def null_client_def)


theorem Seed_spares_foreign_witness:
  "mem_obs (snd (snd (Shim_Seed mem_api (ex_shim, ex_memw)))) (''app'', ''mine'') = Some (ex_secret ''app'' ''mine'' [(''k'', ''v'')])"
proof -
  have "wanted_secrets (currentSeed ex_shim) (''app'', ''mine'') = None" "DelSecret ''app'' ''mine'' \<notin> refs_of (sh_seededPrev ex_shim)"
    by (simp_all add: currentSeed_def wanted_secrets_def ex_defs mark_ref_def gm_set_def)
  from Seed_spares_foreign [OF secret_api_mem this ex_plain(5), of ex_memw] show ?thesis
    by (simp add: ex_memw_def ex_secret_def list_obs_def)
qed


section \<open>What a failed pass forgets\<close>

definition failing_api :: "memw inner_api" where
  "failing_api = mem_api\<lparr>in_configMaps := null_client\<lparr>tc_get := (\<lambda>k. fail (errorf ''timeout''))\<rparr>\<rparr>"

definition strand_seed :: Seed where
  "strand_seed = ex_seed\<lparr>sd_configMaps := [\<lparr>scm_name = ''c'', scm_namespace = ''app'', scm_labels = [], scm_data = []\<rparr>]\<rparr>"

definition strand_shim :: "Seed \<Rightarrow> Shim" where
  "strand_shim s = ex_shim\<lparr>sh_cfg := ex_cfg\<lparr>cfg_seed := s\<rparr>, sh_seededPrev := []\<rparr>"

definition strand_step :: "memw inner_api \<Rightarrow> Seed \<Rightarrow> Shim \<times> memw \<Rightarrow> (go_error + unit) \<times> Shim \<times> memw" where
  "strand_step api s st = (case st of (sh, w) \<Rightarrow> Shim_Seed api (sh\<lparr>sh_cfg := (sh_cfg sh)\<lparr>cfg_seed := s\<rparr>\<rparr>, w))"


end
