(* ===== verification/Shim_Objects.thy ===== *)
theory Shim_Objects
  imports Shim_Props
begin

text \<open>
  Properties of single objects kubelet-shim writes: nodes stay put across heartbeats, pods get
  addresses of their node's subnet, custom resource definitions have one storage version, a pod
  on its way out is completed rather than rewritten.
\<close>

section \<open>Nodes\<close>

lemma gm_set_same: "gm_get m k = Some v \<Longrightarrow> gm_set k v m = m"
  unfolding gm_get_def gm_set_def by (induction m) (auto split: if_splits)

lemma gm_get_set_other: "gm_get (gm_set k v m) k' = (if k' = k then Some v else gm_get m k')"
  by (rule gm.get_set)

lemma node_labels_again: "node_labels name cp (node_labels name cp ls) = node_labels name cp ls"
  by (simp add: node_labels_def Let_def gm_set_same gm_get_set_other)

lemma ready_transition_nonzero: "now \<noteq> 0 \<Longrightarrow> ready_transition now node \<noteq> 0"
proof -
  assume "now \<noteq> 0"
  have "fold (\<lambda>c t. if nc_type c = ''Ready'' \<and> nc_lastTransition c \<noteq> 0 then nc_lastTransition c else t) cs t \<noteq> (0::int)"
    if "t \<noteq> 0" for cs :: "NodeCondition list" and t
    using that by (induction cs arbitrary: t) auto
  with \<open>now \<noteq> 0\<close> show ?thesis unfolding ready_transition_def by simp
qed

definition set_heartbeat :: "int \<Rightarrow> Node \<Rightarrow> Node" where
  "set_heartbeat t node =
     node\<lparr>node_status := (node_status node)\<lparr>ns_conditions := map (nc_lastHeartbeat_update (\<lambda>_. t)) (ns_conditions (node_status node))\<rparr>\<rparr>"

text \<open>
  C23 Invariant: building a node again at a later heartbeat changes its heartbeat time and nothing
  else. The Ready transition time, the labels, the machine identity and the addresses stay as the
  first build made them.
\<close>

theorem node_heartbeat_stable:
  assumes "t1 \<noteq> 0"
  shows "build_node cfg t2 n cp (Some (build_node cfg t1 n cp x)) = set_heartbeat t2 (build_node cfg t1 n cp x)"
  using ready_transition_nonzero [OF assms]
  by (simp add: build_node_def set_heartbeat_def Let_def node_labels_again stripNotReadyTaints_filter
      ready_transition_def [of t2] split: option.split)

theorem node_heartbeat_stable_witness:
  "build_node ex_cfg 2000 \<lparr>fn_name = ''node-a'', fn_internalIP = '''', fn_kubeletVersion = ''''\<rparr> True
     (Some (build_node ex_cfg 1000 \<lparr>fn_name = ''node-a'', fn_internalIP = '''', fn_kubeletVersion = ''''\<rparr> True None))
   = set_heartbeat 2000 (build_node ex_cfg 1000 \<lparr>fn_name = ''node-a'', fn_internalIP = '''', fn_kubeletVersion = ''''\<rparr> True None)"
  by (rule node_heartbeat_stable) simp

section \<open>Addresses, restart counts, definitions\<close>

text \<open>
  Bounds: a pod's address lies in the subnet its node determines, away from the network, gateway
  and broadcast addresses; a container reports between zero and two restarts.
\<close>

theorem pod_addresses:
  "\<exists>t f. fakePodIP node pod = ''10.244.'' @ Itoa t @ ''.'' @ Itoa f \<and> 0 \<le> t \<and> t < 200 \<and> 2 \<le> f \<and> f \<le> 251
     \<and> (\<forall>pod'. \<exists>f'. fakePodIP node pod' = ''10.244.'' @ Itoa t @ ''.'' @ Itoa f')
     \<and> stableRestartCount pod c \<in> {0, 1, 2}"
proof (intro exI conjI allI)
  let ?t = "uint (hash32 node mod 200)" and ?f = "\<lambda>pod. uint (2 + hash32 (node @ ''/'' @ pod) mod 250)"
  show "fakePodIP node pod = ''10.244.'' @ Itoa ?t @ ''.'' @ Itoa (?f pod)" by (simp add: fakePodIP_def Let_def)
  show "fakePodIP node pod' = ''10.244.'' @ Itoa ?t @ ''.'' @ Itoa (?f pod')" for pod' by (simp add: fakePodIP_def Let_def)
  show "0 \<le> ?t" by simp
  show "?t < 200" using u32_mod_less [of 200 "hash32 node"] by simp
  have "uint (hash32 (node @ ''/'' @ pod) mod 250) < 250" using u32_mod_less [of 250 "hash32 (node @ ''/'' @ pod)"] by simp
  then have "?f pod = 2 + uint (hash32 (node @ ''/'' @ pod) mod 250)"
    by (simp add: uint_plus_if')
  then show "2 \<le> ?f pod" "?f pod \<le> 251"
    using \<open>uint (hash32 (node @ ''/'' @ pod) mod 250) < 250\<close> by simp_all
  show "stableRestartCount pod c \<in> {0, 1, 2}" by (simp add: stableRestartCount_def Let_def)
qed

text \<open>
  Two pods of one node can still report the same address: there are 250 host numbers and the
  number is a hash of the name.
\<close>

theorem pod_addresses_collide: "\<exists>p q. p \<noteq> q \<and> fakePodIP node p = fakePodIP node q"
proof (rule ccontr)
  assume "\<not> ?thesis"
  then have inj: "inj (fakePodIP node)" by (auto simp: inj_def)
  have "range (fakePodIP node) \<subseteq> (\<lambda>h. ''10.244.'' @ Itoa (uint (hash32 node mod 200)) @ ''.'' @ Itoa (uint (2 + h mod 250 :: u32))) ` UNIV"
    by (auto simp: fakePodIP_def Let_def)
  then have "finite (range (fakePodIP node))" by (rule finite_subset) simp
  with inj have "finite (UNIV :: string set)" by (rule finite_imageD [rotated])
  then show False by (simp add: infinite_UNIV_listI)
qed

text \<open>
  Every custom resource definition the shim installs is served in all its versions, keeps unknown
  fields and has exactly one storage version, the first; it is named after its plural and group.
\<close>

theorem buildCRD_valid:
  "m_name (crdo_meta (buildCRD c)) = crd_plural c @ ''.'' @ crd_group c
   \<and> map cv_name (filter cv_storage (crdo_versions (buildCRD c))) = [if crd_versions c = [] then ''v1'' else hd (crd_versions c)]
   \<and> list_all (\<lambda>v. cv_served v \<and> cv_preserveUnknown v) (crdo_versions (buildCRD c))
   \<and> crdo_scope (buildCRD c) \<in> {''Cluster'', ''Namespaced''}"
proof -
  have "list_all (\<lambda>v. cv_served v \<and> cv_preserveUnknown v) (crd_versions_from vs)" for vs
    by (auto simp: crd_versions_from_def list_all_iff)
  then show ?thesis by (simp add: buildCRD_def Let_def crd_versions_storage)
qed

section \<open>Pods\<close>

abbreviation logged :: "SeedPod \<Rightarrow> string \<Rightarrow> Shim \<Rightarrow> Shim" where
  "logged w name sh \<equiv>
     (if fp_logLines (spd_fakePod w) = [] then sh
      else sh\<lparr>sh_logLines := gm_set (fp_namespace (spd_fakePod w) @ ''/'' @ name) (fp_logLines (spd_fakePod w)) (sh_logLines sh)\<rparr>)"

lemma upsertPod_found:
  assumes "tc_get (in_pods api) (fp_namespace (spd_fakePod w), name) x = (Inr p, x1)"
    and "owners = resolveOwnerRefs (logged w name sh) (spd_ownerRefs w)" and "cfg = sh_cfg (logged w name sh)"
    and "labels = (if length (fp_labels (spd_fakePod w)) = 0 then [(''app'', fp_name (spd_fakePod w))] else fp_labels (spd_fakePod w))"
  shows "upsertPod api w name nodeName (sh, x) =
     (if m_deletionTimestamp (pod_meta p) \<noteq> None then
        ignoring (\<lambda>e. IsNotFound e \<or> IsConflict e)
          (out (tc_delete (in_pods api) \<lparr>do_grace = Some 0, do_uid = Some (m_uid (pod_meta p))\<rparr> (fp_namespace (spd_fakePod w), name)))
          (logged w name sh, x1)
      else
        and_then (out (tc_update (in_pods api) (overwrite_pod w nodeName labels owners p))) (\<lambda>_.
        and_then (clock (in_now api)) (\<lambda>now.
          discard (out (tc_updateStatus (in_pods api)
            ((overwrite_pod w nodeName labels owners p)\<lparr>pod_status :=
               running_status cfg (podStartTime now (overwrite_pod w nodeName labels owners p)) name nodeName (pod_containers w) (spd_hostNetwork w)\<rparr>)))))
          (logged w name sh, x1))"
proof -
  have logs: "and_then (if length (fp_logLines (spd_fakePod w)) > 0
        then setLogLines (fp_namespace (spd_fakePod w)) name (fp_logLines (spd_fakePod w)) else ok ()) f (sh, x)
      = f () (logged w name sh, x)" for f :: "unit \<Rightarrow> ('a, unit) shim_op"
    by (simp add: setLogLines_def)
  have rd: "and_then (reads g) f s = f (g (fst s)) s" for g :: "Shim \<Rightarrow> 'c" and f :: "'c \<Rightarrow> ('a, unit) shim_op" and s
    by (cases s) simp
  have found: "lookup (out (tc_get (in_pods api) (fp_namespace (spd_fakePod w), name))) f m (s, x) = f p (s, x1)"
    for f :: "Pod \<Rightarrow> ('a, unit) shim_op" and m s
    using assms(1) by (simp add: lookup_def try_call_def)
  show ?thesis
    unfolding assms(2-4) upsertPod_def Let_def logs rd fst_conv prod.case found by simp
qed

text \<open>
  A pod that is being deleted is completed the way a kubelet does it: one delete with grace period
  zero, bound to the very object that was read by its UID. It is not rewritten and not created again
  in this pass, and it does not matter if it is gone or replaced in the meantime.
\<close>

theorem upsertPod_completes_deletion:
  assumes "tc_get (in_pods api) (fp_namespace (spd_fakePod w), name) x = (Inr p, x1)"
    and "m_deletionTimestamp (pod_meta p) = Some t"
    and "tc_delete (in_pods api) \<lparr>do_grace = Some 0, do_uid = Some (m_uid (pod_meta p))\<rparr>
           (fp_namespace (spd_fakePod w), name) x1 = (r, x2)"
  shows "upsertPod api w name nodeName (sh, x) =
     (case r of Inr _ \<Rightarrow> Inr () | Inl e \<Rightarrow> if IsNotFound e \<or> IsConflict e then Inr () else Inl e, (logged w name sh, x2))"
  using upsertPod_found [OF assms(1) refl refl refl, of nodeName] assms(2,3)
  by (simp add: ignoring_def try_call_def split: sum.splits)


text \<open>A server with one pod and a resource version that every update moves on.\<close>

definition ex_seed_pod :: SeedPod where
  "ex_seed_pod = plain_seed_pod \<lparr>fp_name = ''web'', fp_namespace = ''app'', fp_replicas = 1,
     fp_containers = [\<lparr>fc_name = ''web'', fc_image = ''nginx''\<rparr>], fp_nodeName = '''', fp_logLines = [], fp_labels = []\<rparr>"

definition ex_pod :: Pod where
  "ex_pod = (new_pod ex_seed_pod ''web'' ''node-a'' [] [])\<lparr>pod_meta := (new_meta ''web'' ''app'' [])\<lparr>m_resourceVersion := ''1'', m_uid := ''u1''\<rparr>\<rparr>"

definition version_pods :: "(string, Pod) tclient" where
  "version_pods = null_client
     \<lparr>tc_get := (\<lambda>k. ok ex_pod),
      tc_update := (\<lambda>q rv. (Inr (q\<lparr>pod_meta := (pod_meta q)\<lparr>m_resourceVersion := CHR ''1'' # rv\<rparr>\<rparr>), CHR ''1'' # rv)),
      tc_updateStatus := (\<lambda>q rv. if rv = m_resourceVersion (pod_meta q) then (Inr q, CHR ''1'' # rv)
                             else (Inl (GoError Conflict [] ''the object has been modified''), rv))\<rparr>"

definition version_api :: "string inner_api" where
  "version_api =
     \<lparr>in_nodes = null_client, in_pods = version_pods, in_secrets = null_client, in_configMaps = null_client,
      in_services = null_client, in_endpointSlices = null_client, in_leases = null_client,
      in_namespaces = null_client, in_finalize = ok, in_deployments = null_client,
      in_replicaSets = null_client, in_daemonSets = null_client, in_crds = None, in_now = (\<lambda>w. 1000)\<rparr>"


theorem upsertPod_completes_deletion_witness:
  "upsertPod (version_api\<lparr>in_pods := null_client\<lparr>tc_get := (\<lambda>k. ok (ex_pod\<lparr>pod_meta := (pod_meta ex_pod)\<lparr>m_deletionTimestamp := Some 5\<rparr>\<rparr>))\<rparr>\<rparr>)
     ex_seed_pod ''web'' ''node-a'' (ex_shim, ''1'') = (Inr (), (ex_shim, ''1''))"
proof -
  let ?p = "ex_pod\<lparr>pod_meta := (pod_meta ex_pod)\<lparr>m_deletionTimestamp := Some 5\<rparr>\<rparr>"
  let ?api = "version_api\<lparr>in_pods := null_client\<lparr>tc_get := (\<lambda>k. ok ?p)\<rparr>\<rparr>"
  have "tc_get (in_pods ?api) (fp_namespace (spd_fakePod ex_seed_pod), ''web'') ''1'' = (Inr ?p, ''1'')"
    and "m_deletionTimestamp (pod_meta ?p) = Some 5"
    and "tc_delete (in_pods ?api) \<lparr>do_grace = Some 0, do_uid = Some (m_uid (pod_meta ?p))\<rparr>
       (fp_namespace (spd_fakePod ex_seed_pod), ''web'') ''1'' = (Inr (), ''1'')"
    by (simp_all add: null_client_def)
  from upsertPod_completes_deletion [OF this, of "''node-a''" ex_shim] show ?thesis
    by (simp add: ex_seed_pod_def plain_seed_pod_def)
qed

end
