(* ===== verification/Session_Log.thy ===== *)
theory Session_Log
  imports Go_Time
begin

text \<open>
  \<^verbatim>\<open>src/internal/kubeletshim/sessionlog.go\<close>: the recorder of an exec session's output. Its
  methods return the messages they print, in order. The facts: the buffer stays bounded, how the
  output is cut into writes does not matter while no line is too long, and nothing visible that
  was written is missing from the log.
\<close>

section \<open>The recorder\<close>

record sessionLog =
  sl_target :: string
  sl_prefix :: string
  sl_start :: int
  sl_pending :: string
  sl_bytes :: nat

abbreviation carriage_return :: char where
  "carriage_return \<equiv> CHR 0x0D"

definition maxPendingLine :: nat where
  "maxPendingLine = 8192"

definition newSessionLog :: "int \<Rightarrow> string \<Rightarrow> string \<Rightarrow> string \<Rightarrow> bool \<Rightarrow> string list \<Rightarrow> sessionLog \<times> string list" where
  "newSessionLog now ns pod container tty command =
     (let shape = (if tty then ''exec-tty'' else ''exec''); target = ns @ ''/'' @ pod in
      (\<lparr>sl_target = target, sl_prefix = ''[honeypod exec] '' @ target @ '' | '', sl_start = now, sl_pending = '''', sl_bytes = 0\<rparr>,
       [''[honeypod exec] session start '' @ target @ '' ('' @ container @ '') '' @ shape @ '' command='' @ Quote (Join command '' '')]))"

text \<open>The loop of \<^verbatim>\<open>Write\<close>: the lines completed so far, and what is left of the buffer.\<close>

function drain :: "string \<Rightarrow> string list \<times> string" where
  "drain pending =
     (if newline \<in> set pending then
        (case drain (tl (dropWhile (\<lambda>c. c \<noteq> newline) pending)) of
           (ls, rest) \<Rightarrow>
             (let line = TrimRight (takeWhile (\<lambda>c. c \<noteq> newline) pending) [carriage_return] in
              ((if line \<noteq> '''' then [line] else []) @ ls, rest)))
      else ([], pending))"
  by pat_completeness auto
termination
proof (relation "measure length")
  fix pending :: string assume "newline \<in> set pending"
  then have "dropWhile (\<lambda>c. c \<noteq> newline) pending \<noteq> []" by auto
  moreover have "length (dropWhile (\<lambda>c. c \<noteq> newline) pending) \<le> length pending" by (rule length_dropWhile_le)
  ultimately show "(tl (dropWhile (\<lambda>c. c \<noteq> newline) pending), pending) \<in> measure length"
    by (cases "dropWhile (\<lambda>c. c \<noteq> newline) pending") auto
qed simp

declare drain.simps [simp del]

definition Write :: "sessionLog \<Rightarrow> string \<Rightarrow> sessionLog \<times> string list" where
  "Write s p =
     (case drain (sl_pending s @ p) of
        (ls, rest) \<Rightarrow>
          if length rest > maxPendingLine
          then (s\<lparr>sl_bytes := sl_bytes s + length p, sl_pending := ''''\<rparr>,
                map ((@) (sl_prefix s)) ls @ [sl_prefix s @ TrimRight rest [carriage_return]])
          else (s\<lparr>sl_bytes := sl_bytes s + length p, sl_pending := rest\<rparr>, map ((@) (sl_prefix s)) ls))"

text \<open>\<open>duration\<close> renders \<^verbatim>\<open>time.Since(s.start).Round(time.Millisecond)\<close>.\<close>

definition session_end :: "(int \<Rightarrow> string) \<Rightarrow> int \<Rightarrow> sessionLog \<Rightarrow> int \<Rightarrow> string" where
  "session_end duration now s exitCode =
     ''[honeypod exec] session end '' @ sl_target s @ '' exit='' @ Itoa exitCode @ '' bytes='' @ Itoa (int (sl_bytes s))
     @ '' duration='' @ duration (now - sl_start s)"

definition session_done :: "(int \<Rightarrow> string) \<Rightarrow> int \<Rightarrow> sessionLog \<Rightarrow> int \<Rightarrow> string list" where
  "session_done duration now s exitCode =
     (let tail = TrimRight (sl_pending s) [carriage_return, newline] in
      (if tail \<noteq> '''' then [sl_prefix s @ tail] else []) @ [session_end duration now s exitCode])"

text \<open>The recorder over all writes of a session.\<close>

fun write_all :: "sessionLog \<Rightarrow> string list \<Rightarrow> sessionLog \<times> string list" where
  "write_all s [] = (s, [])"
| "write_all s (p # ps) = (case Write s p of (s1, ls) \<Rightarrow> case write_all s1 ps of (s2, ls') \<Rightarrow> (s2, ls @ ls'))"

section \<open>Draining\<close>

lemma drain_none: "newline \<notin> set s \<Longrightarrow> drain s = ([], s)"
  by (subst drain.simps) simp

lemma drain_line:
  "newline \<notin> set a \<Longrightarrow> drain (a @ newline # b) =
     (case drain b of (ls, rest) \<Rightarrow> ((if TrimRight a [carriage_return] \<noteq> '''' then [TrimRight a [carriage_return]] else []) @ ls, rest))"
proof -
  assume a: "newline \<notin> set a"
  then have "takeWhile (\<lambda>c. c \<noteq> newline) (a @ newline # b) = a" "dropWhile (\<lambda>c. c \<noteq> newline) (a @ newline # b) = newline # b"
    by (auto simp: takeWhile_append dropWhile_append)
  then show ?thesis by (subst drain.simps) (simp add: Let_def)
qed

lemma drain_induct [case_names last line]:
  assumes "\<And>s. newline \<notin> set s \<Longrightarrow> P s" and "\<And>a b. newline \<notin> set a \<Longrightarrow> P b \<Longrightarrow> P (a @ newline # b)"
  shows "P s"
proof (induction "length s" arbitrary: s rule: less_induct)
  case less
  show ?case
  proof (cases "newline \<in> set s")
    case True
    then obtain a b where "s = a @ newline # b" "newline \<notin> set a" by (meson split_list_first)
    with less assms(2) show ?thesis by auto
  qed (use assms(1) in simp)
qed

lemma drain_rest: "drain s = (ls, rest) \<Longrightarrow> newline \<notin> set rest"
proof (induction s arbitrary: ls rule: drain_induct)
  case (line a b)
  then show ?case by (auto simp: drain_line split: prod.splits)
qed (auto simp: drain_none)

lemma drain_append:
  "drain (s @ p) = (case drain s of (ls, rest) \<Rightarrow> case drain (rest @ p) of (ls', rest') \<Rightarrow> (ls @ ls', rest'))"
proof (induction s rule: drain_induct)
  case (last s)
  then show ?case by (simp add: drain_none split: prod.split)
next
  case (line a b)
  then show ?case by (simp add: drain_line split: prod.splits)
qed

text \<open>What is left of a text without line ends.\<close>

definition visible :: "string \<Rightarrow> string" where
  "visible s = filter (\<lambda>c. c \<noteq> newline \<and> c \<noteq> carriage_return) s"

lemma visible_append [simp]: "visible (a @ b) = visible a @ visible b"
  by (simp add: visible_def)

lemma visible_Nil [simp]: "visible [] = []"
  by (simp add: visible_def)

lemma visible_TrimRight: "set cset \<subseteq> {newline, carriage_return} \<Longrightarrow> visible (TrimRight s cset) = visible s"
proof -
  assume cset: "set cset \<subseteq> {newline, carriage_return}"
  have "filter P (dropWhile Q xs) = filter P xs" if "\<And>x. Q x \<Longrightarrow> \<not> P x" for P Q and xs :: string
    using that by (induction xs) auto
  from this [of "\<lambda>c. c \<in> set cset" "\<lambda>c. c \<noteq> newline \<and> c \<noteq> carriage_return" "rev s"] cset
  have "filter (\<lambda>c. c \<noteq> newline \<and> c \<noteq> carriage_return) (dropWhile (\<lambda>c. c \<in> set cset) (rev s)) =
      filter (\<lambda>c. c \<noteq> newline \<and> c \<noteq> carriage_return) (rev s)" by blast
  then show ?thesis by (simp add: visible_def TrimRight_def flip: rev_filter)
qed

lemma drain_visible: "drain s = (ls, rest) \<Longrightarrow> visible (concat ls) @ visible rest = visible s"
proof (induction s arbitrary: ls rule: drain_induct)
  case (last s)
  then show ?case by (simp add: drain_none)
next
  case (line a b)
  obtain ls' where b: "drain b = (ls', rest)" and ls: "ls = (if TrimRight a [carriage_return] \<noteq> '''' then [TrimRight a [carriage_return]] else []) @ ls'"
    using line by (auto simp: drain_line split: prod.splits)
  have "visible (TrimRight a [carriage_return]) = visible a" by (rule visible_TrimRight) simp
  then have "visible (concat ls) = visible a @ visible (concat ls')" using ls by (auto split: if_splits)
  moreover have "visible (newline # b) = visible b" by (simp add: visible_def)
  ultimately show ?case using line(2) [OF b] by simp
qed

section \<open>Properties\<close>

text \<open>
  Bounds: whatever is written, the recorder buffers at most \<^verbatim>\<open>maxPendingLine\<close> bytes and no
  line end, and it counts every byte.
\<close>

theorem Write_bounded:
  "length (sl_pending (fst (Write s p))) \<le> maxPendingLine \<and> newline \<notin> set (sl_pending (fst (Write s p)))
   \<and> sl_bytes (fst (Write s p)) = sl_bytes s + length p"
  using drain_rest by (auto simp: Write_def split: prod.split)

text \<open>The messages of a session without their prefix.\<close>

definition payloads :: "sessionLog \<Rightarrow> string list \<Rightarrow> string list" where
  "payloads s ls = map (drop (length (sl_prefix s))) ls"

lemma Write_payloads:
  assumes "Write s p = (s', ls)"
  shows "visible (concat (payloads s ls)) @ visible (sl_pending s') = visible (sl_pending s) @ visible p"
    and "sl_prefix s' = sl_prefix s"
proof -
  obtain ds rest where d: "drain (sl_pending s @ p) = (ds, rest)" by (cases "drain (sl_pending s @ p)")
  have strip: "map (drop (length (sl_prefix s))) (map ((@) (sl_prefix s)) xs) = xs" for xs
    by (simp add: comp_def)
  have "visible (TrimRight rest [carriage_return]) = visible rest" by (rule visible_TrimRight) simp
  then show "visible (concat (payloads s ls)) @ visible (sl_pending s') = visible (sl_pending s) @ visible p"
    using assms d drain_visible [OF d] by (auto simp: Write_def payloads_def comp_def split: if_splits)
  show "sl_prefix s' = sl_prefix s" using assms d by (auto simp: Write_def split: if_splits)
qed

text \<open>
  The contract of a recorder: one write hands on what it shows and holds back the rest, nothing is lost
  or made up in between. Over a whole sequence of writes the same holds.
\<close>

locale recorder =
  fixes step :: "'s \<Rightarrow> 'p \<Rightarrow> 's \<times> 'l list"
    and run :: "'s \<Rightarrow> 'p list \<Rightarrow> 's \<times> 'l list"
    and shown :: "'s \<Rightarrow> 'l list \<Rightarrow> 'c list"
    and held :: "'s \<Rightarrow> 'c list"
    and content :: "'p \<Rightarrow> 'c list"
  assumes run_Nil: "run s [] = (s, [])"
    and run_Cons: "run s (p # ps) = (case step s p of (s1, ls) \<Rightarrow> case run s1 ps of (s2, ls') \<Rightarrow> (s2, ls @ ls'))"
    and shown_Nil: "shown s [] = []"
    and shown_append: "shown s (ls @ ls') = shown s ls @ shown s ls'"
    and shown_step: "step s p = (s', ls) \<Longrightarrow> shown s' = shown s"
    and conserves: "step s p = (s', ls) \<Longrightarrow> shown s ls @ held s' = held s @ content p"
begin

lemma run_conserves:
  "run s ps = (s', ls) \<Longrightarrow> shown s ls @ held s' = held s @ concat (map content ps) \<and> shown s' = shown s"
proof (induction ps arbitrary: s ls)
  case Nil
  then show ?case by (simp add: run_Nil shown_Nil)
next
  case (Cons p ps)
  then obtain s1 l1 l2 where w: "step s p = (s1, l1)" "run s1 ps = (s', l2)" "ls = l1 @ l2"
    by (auto simp: run_Cons split: prod.splits)
  with Cons.IH [OF w(2)] conserves [OF w(1)] shown_step [OF w(1)] show ?case
    by (simp add: shown_append)
qed

end

interpretation transcript: recorder Write write_all
    "\<lambda>s ls. visible (concat (payloads s ls))" "\<lambda>s. visible (sl_pending s)" visible
  by unfold_locales (use Write_payloads in \<open>auto simp: payloads_def fun_eq_iff\<close>)

lemma visible_concat: "visible (concat ps) = concat (map visible ps)"
  by (induction ps) simp_all

text \<open>
  C25 The transcript is complete: for every sequence of writes, the messages printed by the writes and
  by the end of the session contain, prefix and line ends aside, exactly the bytes that were
  written, in order.
\<close>

theorem session_transcript_complete:
  assumes "newSessionLog now ns pod container tty command = (s, started)"
    and "write_all s ps = (s', ls)"
  shows "visible (concat (payloads s (ls @ butlast (session_done duration later s' exitCode)))) = visible (concat ps)"
proof -
  have s: "sl_pending s = ''''" using assms(1) by (auto simp: newSessionLog_def Let_def)
  note all = transcript.run_conserves [OF assms(2)]
  have "visible (TrimRight (sl_pending s') [carriage_return, newline]) = visible (sl_pending s')"
    by (rule visible_TrimRight) auto
  then have "visible (concat (payloads s' (butlast (session_done duration later s' exitCode)))) = visible (sl_pending s')"
    by (auto simp: session_done_def payloads_def Let_def)
  then have "visible (concat (payloads s (butlast (session_done duration later s' exitCode)))) = visible (sl_pending s')"
    using all by metis
  then show ?thesis using all s by (simp add: visible_concat transcript.shown_append [unfolded visible_concat])
qed

theorem session_transcript_complete_witness:
  "\<exists>ls s'. write_all (fst (newSessionLog 0 ''app'' ''web'' ''c'' True [''sh''])) [''ls'', [newline], ''a b''] = (s', ls)
     \<and> visible (concat (payloads (fst (newSessionLog 0 ''app'' ''web'' ''c'' True [''sh'']))
          (ls @ butlast (session_done (\<lambda>d. ''1s'') 9 s' 0)))) = ''lsa b''"
proof -
  obtain s st where new: "newSessionLog 0 ''app'' ''web'' ''c'' True [''sh''] = (s, st)" by (metis surj_pair)
  obtain s' ls where all: "write_all s [''ls'', [newline], ''a b''] = (s', ls)" by (metis surj_pair)
  from session_transcript_complete [OF new all, of "\<lambda>d. ''1s''" 9 0] new all show ?thesis
    by (auto simp: visible_def)
qed

text \<open>
  C12 Equivalence with the one-shot rendering: as long as no unfinished line outgrows the buffer, the
  lines printed do not depend on how the output was cut into writes.
\<close>

theorem write_chunks_equivalent:
  assumes "length (snd (drain (sl_pending s @ p))) \<le> maxPendingLine"
  shows "snd (Write s (p @ q)) = snd (Write s p) @ snd (Write (fst (Write s p)) q)
   \<and> fst (Write s (p @ q)) = fst (Write (fst (Write s p)) q)"
proof -
  obtain ls rest where one: "drain (sl_pending s @ p) = (ls, rest)" by (cases "drain (sl_pending s @ p)")
  obtain ls' rest' where two: "drain (rest @ q) = (ls', rest')" by (cases "drain (rest @ q)")
  have "drain (sl_pending s @ p @ q) = (ls @ ls', rest')"
    using drain_append [of "sl_pending s @ p" q] one two by simp
  with one two assms show ?thesis by (simp add: Write_def)
qed

theorem write_chunks_equivalent_witness:
  "snd (Write (fst (newSessionLog 0 ''app'' ''web'' ''c'' False [''id''])) (''uid=1000'' @ [newline])) =
     snd (Write (fst (newSessionLog 0 ''app'' ''web'' ''c'' False [''id''])) ''uid=1000'')
     @ snd (Write (fst (Write (fst (newSessionLog 0 ''app'' ''web'' ''c'' False [''id''])) ''uid=1000'')) [newline])"
proof -
  let ?s = "fst (newSessionLog 0 ''app'' ''web'' ''c'' False [''id''])"
  have "length (snd (drain (sl_pending ?s @ ''uid=1000''))) \<le> maxPendingLine"
    by (simp add: newSessionLog_def Let_def drain_none maxPendingLine_def)
  from write_chunks_equivalent [OF this, of "[newline]"] show ?thesis by simp
qed

end
