(* ===== verification/Shim_Exec.thy ===== *)
theory Shim_Exec
  imports Session_Log Kubelet_Shim
begin

text \<open>
  \<^verbatim>\<open>src/internal/kubeletshim/exec.go\<close>, \<^verbatim>\<open>exec_isolation_linux.go\<close>, \<^verbatim>\<open>kubeletserver.go\<close>: the
  kubelet endpoint. Logs and attach are fabricated, exec runs a real command in a prepared
  environment. What the operating system, the SPDY library and the API server do are the
  parameters of the record \<open>exec_env\<close>.
\<close>

section \<open>HTTP responses\<close>

text \<open>
  A response writer of \<^verbatim>\<open>net/http\<close>: the first \<^verbatim>\<open>WriteHeader\<close> fixes the status and sends the
  headers set so far; later changes to the header map are not sent.
\<close>

record ApiStatus =
  as_status :: string
  as_message :: string
  as_reason :: string
  as_code :: int

datatype body = BodyText string | BodyStatus ApiStatus | BodyJson json | BodyPods "Pod list"

record Response =
  rs_headers :: smap
  rs_status :: "nat option"
  rs_sent :: smap
  rs_body :: "body list"

definition fresh_response :: Response where
  "fresh_response = \<lparr>rs_headers = [], rs_status = None, rs_sent = [], rs_body = []\<rparr>"

definition set_header :: "string \<Rightarrow> string \<Rightarrow> Response \<Rightarrow> Response" where
  "set_header k v r = r\<lparr>rs_headers := gm_set k v (rs_headers r)\<rparr>"

definition WriteHeader :: "nat \<Rightarrow> Response \<Rightarrow> Response" where
  "WriteHeader code r = (if rs_status r = None then r\<lparr>rs_status := Some code, rs_sent := rs_headers r\<rparr> else r)"

definition write_body :: "body \<Rightarrow> Response \<Rightarrow> Response" where
  "write_body b r = (let r' = WriteHeader 200 r in r'\<lparr>rs_body := rs_body r' @ [b]\<rparr>)"

definition writeStatus :: "nat \<Rightarrow> string \<Rightarrow> string \<Rightarrow> Response \<Rightarrow> Response" where
  "writeStatus code reason message r =
     write_body (BodyStatus \<lparr>as_status = ''Failure'', as_message = (if message = '''' then reason else message),
                             as_reason = reason, as_code = int code\<rparr>)
       (set_header ''Content-Type'' ''application/json'' r)"

definition refuse :: "nat \<Rightarrow> string \<Rightarrow> string \<Rightarrow> Response \<Rightarrow> Response" where
  "refuse code reason message r = writeStatus code reason message (WriteHeader code r)"

definition handlePortForward :: "Response \<Rightarrow> Response" where
  "handlePortForward r = refuse 501 ''MethodNotAllowed'' ''unable to do port forwarding: socat not found'' r"

section \<open>Pods\<close>

definition hasContainer :: "Pod \<Rightarrow> string \<Rightarrow> bool" where
  "hasContainer p name = (\<exists>c \<in> set (ps_containers (pod_spec p)). c_name c = name)"

definition podLogLines :: "Shim \<Rightarrow> Pod \<Rightarrow> string list" where
  "podLogLines sh p =
     (case getLogLines sh (pod_ns p) (pod_name p) of
        Some (l # ls) \<Rightarrow> l # ls
      | _ \<Rightarrow>
          (case ps_containers (pod_spec p) of
             c # _ \<Rightarrow> if c_image c \<noteq> '''' then [''Starting '' @ c_image c @ ''...''] else [pod_name p @ '': no output produced'']
           | [] \<Rightarrow> [pod_name p @ '': no output produced'']))"

definition shellLessImages :: "string list" where
  "shellLessImages =
     [''registry.k8s.io/etcd'', ''registry.k8s.io/kube-apiserver'', ''registry.k8s.io/kube-controller-manager'',
      ''registry.k8s.io/kube-scheduler'', ''registry.k8s.io/coredns'', ''registry.k8s.io/pause'',
      ''registry.k8s.io/metrics-server'', ''gcr.io/distroless/'', ''coredns/coredns'']"

fun lacks_shell :: "string \<Rightarrow> Container list \<Rightarrow> bool" where
  "lacks_shell container [] = False"
| "lacks_shell container (c # cs) =
     (if container \<noteq> '''' \<and> c_name c \<noteq> container then lacks_shell container cs
      else (\<exists>prefix \<in> set shellLessImages. HasPrefix (c_image c) prefix))"

definition containerLacksShell :: "Pod \<Rightarrow> string \<Rightarrow> bool" where
  "containerLacksShell p container = lacks_shell container (ps_containers (pod_spec p))"

section \<open>The environment of a session\<close>

abbreviation "execProfileMinimal \<equiv> ''minimal''"
abbreviation "execProfileDistroless \<equiv> ''distroless''"
abbreviation "shellPath \<equiv> ''/bin/sh''"
abbreviation "busyboxBinDir \<equiv> ''/usr/lib/busybox''"

definition busyboxShellPath :: string where
  "busyboxShellPath = busyboxBinDir @ ''/sh''"

definition shellFor :: "ShimConfig \<Rightarrow> string" where
  "shellFor cfg = (if cfg_execProfile cfg = execProfileMinimal then busyboxShellPath else shellPath)"

definition decoyExecEnv :: "ShimConfig \<Rightarrow> string \<Rightarrow> string \<Rightarrow> string list" where
  "decoyExecEnv cfg sandboxDir podName =
     (let base = (if cfg_execProfile cfg = execProfileMinimal then busyboxBinDir
                  else ''/usr/local/sbin:/usr/local/bin:/usr/sbin:/usr/bin:/sbin:/bin'');
          path = (if sandboxDir \<noteq> '''' then sandboxDir @ '':'' @ base else base);
          ip = cfg_nodeInternalIP cfg in
      [''PATH='' @ path, ''HOME=/root'', ''HOSTNAME='' @ podName, ''TERM=xterm'', ''KUBERNETES_SERVICE_HOST='' @ ip]
      @ (if cfg_kubernetesServicePort cfg > 0 then
           (let port = Itoa (cfg_kubernetesServicePort cfg); tcpAddr = ''tcp://'' @ ip @ '':'' @ port in
            [''KUBERNETES_SERVICE_PORT='' @ port, ''KUBERNETES_SERVICE_PORT_HTTPS='' @ port, ''KUBERNETES_PORT='' @ tcpAddr,
             ''KUBERNETES_PORT_'' @ port @ ''_TCP='' @ tcpAddr, ''KUBERNETES_PORT_'' @ port @ ''_TCP_PROTO=tcp'',
             ''KUBERNETES_PORT_'' @ port @ ''_TCP_PORT='' @ port, ''KUBERNETES_PORT_'' @ port @ ''_TCP_ADDR='' @ ip])
         else []))"

text \<open>The scripts that stand in for \<^verbatim>\<open>hostname\<close> and \<^verbatim>\<open>uname\<close>.\<close>

definition script_lines :: "string list \<Rightarrow> string" where
  "script_lines ls = concat (map (\<lambda>l. l @ [newline]) ls)"

definition hostnameScript :: "string \<Rightarrow> string" where
  "hostnameScript podName = script_lines [''#!/bin/sh'', ''printf '' @ [CHR 0x27] @ ''%s'' @ [CHR 0x5C] @ ''n'' @ [CHR 0x27] @ '' '' @ Quote podName]"

definition unameScript :: "string \<Rightarrow> string" where
  "unameScript podName =
     script_lines
       [''#!/bin/sh'', ''case '' @ Quote ''$1'' @ '' in'', Quote '''' @ ''|-s) echo Linux ;;'',
        ''-r) echo '' @ Quote kernelRelease @ '' ;;'', ''-m|-p|-i) echo x86_64 ;;'', ''-o) echo GNU/Linux ;;'',
        ''-n) echo '' @ Quote podName @ '' ;;'', ''-v) echo '' @ Quote kernelVersionText @ '' ;;'',
        ''-a) echo '' @ [CHR 0x22] @ ''Linux '' @ podName @ '' '' @ kernelRelease @ '' '' @ kernelVersionText
          @ '' x86_64 x86_64 x86_64 GNU/Linux'' @ [CHR 0x22] @ '' ;;'',
        ''*) echo Linux ;;'', ''esac'']"

record execSandbox =
  sb_env :: "string list"
  sb_dir :: string
  sb_overrides :: "string list"

text \<open>
  A command as \<^verbatim>\<open>os/exec\<close> runs it: the path is the first argument, found by the ambient \<^verbatim>\<open>PATH\<close>,
  unless it was replaced.
\<close>

record Cmd =
  cmd_path :: "string option"
  cmd_args :: "string list"
  cmd_env :: "string list"
  cmd_namespaces :: bool

text \<open>How starting or running a command fails.\<close>

datatype run_error = ExitError int | CommandNotFound string | OtherError string

definition exitCodeFor :: "run_error option \<Rightarrow> int" where
  "exitCodeFor err =
     (case err of
        None \<Rightarrow> 0
      | Some (ExitError n) \<Rightarrow> n
      | Some (CommandNotFound _) \<Rightarrow> 127
      | Some (OtherError _) \<Rightarrow> 1)"

definition isCommandNotFound :: "run_error \<Rightarrow> bool" where
  "isCommandNotFound err = (case err of CommandNotFound _ \<Rightarrow> True | _ \<Rightarrow> False)"

definition execErrorMessage :: "run_error \<Rightarrow> string" where
  "execErrorMessage err =
     (case err of CommandNotFound _ \<Rightarrow> ''command not found''
                | OtherError m \<Rightarrow> m
                | ExitError n \<Rightarrow> ''exit status '' @ Itoa n)"

definition applyOverride :: "execSandbox \<Rightarrow> string \<Rightarrow> Cmd \<Rightarrow> Cmd" where
  "applyOverride s name cmd =
     (if name \<in> set (sb_overrides s) then cmd\<lparr>cmd_path := Some (sb_dir s @ ''/'' @ name)\<rparr> else cmd)"

section \<open>What lies outside\<close>

text \<open>
  A piece of output a running command hands to one of its writers, and whether the client's
  stream took it.
\<close>

datatype dest = ToStdout | ToStderr

record chunk =
  ch_dest :: dest
  ch_bytes :: string
  ch_delivered :: bool

text \<open>
  \<open>xe_streams\<close> gives the types of the streams the client opens before the deadline, in order.
  \<open>xe_pty\<close> starts a command under a terminal: an error of the start, or its output and the result
  of \<^verbatim>\<open>Wait\<close>. \<open>xe_run\<close> is \<^verbatim>\<open>cmd.Run\<close>, told which of stdin, stdout and stderr are connected.
  \<open>xe_accepts\<close> says whether a stream of the client takes a message the shim itself writes.
\<close>

record 'w exec_env =
  xe_getPod :: "nsname \<Rightarrow> ('w, Pod) call"
  xe_handshake :: "('w, unit) call"
  xe_upgrade :: "('w, unit) call"
  xe_streams :: "'w \<Rightarrow> string list"
  xe_mkdirTemp :: "('w, string) call"
  xe_chmod :: "string \<Rightarrow> nat \<Rightarrow> ('w, unit) call"
  xe_writeFile :: "string \<Rightarrow> string \<Rightarrow> nat \<Rightarrow> ('w, unit) call"
  xe_removeAll :: "string \<Rightarrow> ('w, unit) call"
  xe_pty :: "Cmd \<Rightarrow> bool \<Rightarrow> bool \<Rightarrow> bool \<Rightarrow> 'w \<Rightarrow> (run_error + (chunk list \<times> run_error option)) \<times> 'w"
  xe_run :: "Cmd \<Rightarrow> bool \<Rightarrow> bool \<Rightarrow> bool \<Rightarrow> 'w \<Rightarrow> (chunk list \<times> run_error option) \<times> 'w"
  xe_accepts :: "dest \<Rightarrow> string \<Rightarrow> 'w \<Rightarrow> bool"
  xe_now :: "'w \<Rightarrow> int"
  xe_duration :: "int \<Rightarrow> string"

text \<open>The permission bits \<^verbatim>\<open>0o755\<close> and \<^verbatim>\<open>0o644\<close>.\<close>

abbreviation "mode_0755 \<equiv> 493 :: nat"
abbreviation "mode_0644 \<equiv> 420 :: nat"

definition newExecSandbox :: "ShimConfig \<Rightarrow> 'w exec_env \<Rightarrow> string \<Rightarrow> 'w \<Rightarrow> (execSandbox \<times> bool) \<times> 'w" where
  "newExecSandbox cfg xe podName w =
     (case xe_mkdirTemp xe w of
        (Inl e, w1) \<Rightarrow> ((\<lparr>sb_env = decoyExecEnv cfg '''' podName, sb_dir = '''', sb_overrides = []\<rparr>, False), w1)
      | (Inr dir, w1) \<Rightarrow>
          (case xe_writeFile xe (dir @ ''/hostname'') (hostnameScript podName) mode_0755 (snd (xe_chmod xe dir mode_0755 w1)) of
             (Inl e, w2) \<Rightarrow>
               ((\<lparr>sb_env = decoyExecEnv cfg '''' podName, sb_dir = '''', sb_overrides = []\<rparr>, False),
                snd (xe_removeAll xe dir w2))
           | (Inr _, w2) \<Rightarrow>
               (case xe_writeFile xe (dir @ ''/uname'') (unameScript podName) mode_0755 w2 of
                  (r, w3) \<Rightarrow>
                    ((\<lparr>sb_env = decoyExecEnv cfg dir podName, sb_dir = dir,
                       sb_overrides = ''hostname'' # (case r of Inr _ \<Rightarrow> [''uname''] | Inl _ \<Rightarrow> [])\<rparr>, True), w3))))"

text \<open>The marker variables of the re-executed process.\<close>

abbreviation "hostnameMarker \<equiv> ''HONEYPOD_EXEC_HOSTNAME=''"
abbreviation "osreleaseMarker \<equiv> ''HONEYPOD_EXEC_OSRELEASE=''"

definition alpineOSRelease :: string where
  "alpineOSRelease =
     script_lines
       [''NAME='' @ Quote ''Alpine Linux'', ''ID=alpine'', ''VERSION_ID=3.20.3'', ''PRETTY_NAME='' @ Quote ''Alpine Linux v3.20'',
        ''HOME_URL='' @ Quote ''https://alpinelinux.org/'',
        ''BUG_REPORT_URL='' @ Quote ''https://gitlab.alpinelinux.org/alpine/aports/-/issues'']"

definition isolatedCmd :: "ShimConfig \<Rightarrow> 'w exec_env \<Rightarrow> string list \<Rightarrow> execSandbox \<Rightarrow> string \<Rightarrow> 'w \<Rightarrow> Cmd \<times> 'w" where
  "isolatedCmd cfg xe args sandbox podName w =
     (let args' = (case args of
                     [] \<Rightarrow> []
                   | a # as \<Rightarrow> (if a \<in> set (sb_overrides sandbox) then sb_dir sandbox @ ''/'' @ a else a) # as);
          env = sb_env sandbox @ [hostnameMarker @ podName];
          cmd = (\<lambda>env. \<lparr>cmd_path = Some ''/proc/self/exe'', cmd_args = ''/proc/self/exe'' # ''--exec-init'' # args', cmd_env = env, cmd_namespaces = True\<rparr>) in
      if cfg_execProfile cfg = execProfileMinimal \<and> sb_dir sandbox \<noteq> '''' then
        (let osrel = sb_dir sandbox @ ''/os-release'' in
         case xe_writeFile xe osrel alpineOSRelease mode_0644 w of
           (Inr _, w') \<Rightarrow> (cmd (env @ [osreleaseMarker @ osrel]), w')
         | (Inl _, w') \<Rightarrow> (cmd env, w'))
      else (cmd env, w))"

definition buildExecCmd :: "ShimConfig \<Rightarrow> 'w exec_env \<Rightarrow> string list \<Rightarrow> execSandbox \<Rightarrow> string \<Rightarrow> 'w \<Rightarrow> Cmd \<times> 'w" where
  "buildExecCmd cfg xe args sandbox podName w =
     (if cfg_execIsolation cfg then isolatedCmd cfg xe args sandbox podName w
      else (applyOverride sandbox (hd args)
              \<lparr>cmd_path = None, cmd_args = args, cmd_env = sb_env sandbox, cmd_namespaces = False\<rparr>, w))"

section \<open>Running a session\<close>

text \<open>
  What a session leaves behind: the pieces written to the client's streams, the log lines, the
  completion status on the error stream, the streams closed.
\<close>

record ExecStatus =
  xs_status :: string
  xs_message :: string
  xs_reason :: string
  xs_causes :: "(string \<times> string) list"

record session =
  se_stdout :: "string list"
  se_stderr :: "string list"
  se_log :: "string list"
  se_status :: "ExecStatus option"
  se_closed :: "string list"

definition written :: "dest \<Rightarrow> chunk list \<Rightarrow> string list" where
  "written d cs = map ch_bytes (filter (\<lambda>c. ch_dest c = d \<and> ch_delivered c) cs)"

text \<open>\<^verbatim>\<open>io.MultiWriter\<close> writes to the stream first and to the recorder only if that worked.\<close>

definition recorded :: "chunk list \<Rightarrow> string list" where
  "recorded cs = map ch_bytes (filter ch_delivered cs)"

text \<open>
  Beside a terminal session, window sizes read from the resize stream are set on the terminal until
  one does not decode; the list holds what the decoder yields.
\<close>

record terminalSize =
  sz_Width :: "16 word"
  sz_Height :: "16 word"

record Winsize =
  ws_Rows :: "16 word"
  ws_Cols :: "16 word"

fun applyResizes :: "terminalSize option list \<Rightarrow> Winsize list" where
  "applyResizes [] = []"
| "applyResizes (None # sizes) = []"
| "applyResizes (Some s # sizes) = \<lparr>ws_Rows = sz_Height s, ws_Cols = sz_Width s\<rparr> # applyResizes sizes"

definition runPTYSession ::
  "ShimConfig \<Rightarrow> 'w exec_env \<Rightarrow> string list \<Rightarrow> execSandbox \<Rightarrow> string \<Rightarrow> bool \<Rightarrow> bool \<Rightarrow> bool \<Rightarrow> 'w \<Rightarrow> (int \<times> chunk list) \<times> 'w" where
  "runPTYSession cfg xe args sandbox podName stdin stdout resize w =
     (case buildExecCmd cfg xe args sandbox podName w of
        (cmd, w1) \<Rightarrow>
          (case xe_pty xe cmd stdin stdout resize w1 of
             (Inl err, w2) \<Rightarrow>
               ((exitCodeFor (Some err),
                 if stdout then
                   (let msg = hd args @ '': '' @ execErrorMessage err @ [carriage_return, newline] in
                    [\<lparr>ch_dest = ToStdout, ch_bytes = msg, ch_delivered = xe_accepts xe ToStdout msg w2\<rparr>])
                 else []), w2)
           | (Inr (outp, err), w2) \<Rightarrow> ((exitCodeFor err, outp), w2)))"

definition runPipeSession ::
  "ShimConfig \<Rightarrow> 'w exec_env \<Rightarrow> string list \<Rightarrow> execSandbox \<Rightarrow> string \<Rightarrow> bool \<Rightarrow> bool \<Rightarrow> bool \<Rightarrow> 'w \<Rightarrow> (int \<times> chunk list) \<times> 'w" where
  "runPipeSession cfg xe args sandbox podName stdin stdout stderr w =
     (case buildExecCmd cfg xe args sandbox podName w of
        (cmd, w1) \<Rightarrow>
          (case xe_run xe cmd stdin stdout stderr w1 of
             ((outp, err), w2) \<Rightarrow>
               ((exitCodeFor err,
                 outp @ (if (case err of Some e \<Rightarrow> isCommandNotFound e | None \<Rightarrow> False) \<and> stderr
                        then
                          (let msg = hd args @ '': command not found'' @ [newline] in
                           [\<lparr>ch_dest = ToStderr, ch_bytes = msg, ch_delivered = xe_accepts xe ToStderr msg w2\<rparr>])
                        else [])), w2)))"

definition attach_session :: "Shim \<Rightarrow> Pod \<Rightarrow> bool \<Rightarrow> session" where
  "attach_session sh p stdout =
     \<lparr>se_stdout = (if stdout then [Join (podLogLines sh p) [newline] @ [newline]] else []), se_stderr = [], se_log = [],
      se_status = None, se_closed = []\<rparr>"

definition exec_args :: "ShimConfig \<Rightarrow> string list \<Rightarrow> string list" where
  "exec_args cfg command = (if length command = 0 then [shellFor cfg] else command)"

definition runSession ::
  "Shim \<Rightarrow> 'w exec_env \<Rightarrow> Pod \<Rightarrow> string \<Rightarrow> string \<Rightarrow> string list \<Rightarrow> bool \<Rightarrow> bool \<Rightarrow> bool \<Rightarrow> bool \<Rightarrow> bool \<Rightarrow> 'w \<Rightarrow> (int \<times> session) \<times> 'w" where
  "runSession sh xe p container mode command tty stdin stdout stderr resize w =
     (if mode = ''attach'' then ((0, attach_session sh p stdout), w)
      else
        (let cfg = sh_cfg sh; args = exec_args cfg command in
         case newExecSandbox cfg xe (pod_name p) w of
           ((sandbox, made), w1) \<Rightarrow>
             (let (rec, started) = newSessionLog (xe_now xe w1) (pod_ns p) (pod_name p) container tty args;
                  ((code, outp), w2) =
                    (if tty then runPTYSession cfg xe args sandbox (pod_name p) stdin stdout resize w1
                     else runPipeSession cfg xe args sandbox (pod_name p) stdin stdout stderr w1);
                  (rec', ls) = write_all rec (recorded outp);
                  w3 = (if made then snd (xe_removeAll xe (sb_dir sandbox) w2) else w2) in
              ((code,
                \<lparr>se_stdout = written ToStdout outp, se_stderr = written ToStderr outp,
                 se_log = (if cfg_recordExecSessions cfg
                           then started @ ls @ session_done (xe_duration xe) (xe_now xe w2) rec' code else []),
                 se_status = None, se_closed = []\<rparr>), w3))))"

definition writeExecStatus :: "int \<Rightarrow> ExecStatus" where
  "writeExecStatus exitCode =
     (if exitCode = 0 then \<lparr>xs_status = ''Success'', xs_message = '''', xs_reason = '''', xs_causes = []\<rparr>
      else \<lparr>xs_status = ''Failure'', xs_message = ''command terminated with non-zero exit code: '' @ Itoa exitCode,
            xs_reason = ''NonZeroExitCode'', xs_causes = [(''ExitCode'', Itoa exitCode)]\<rparr>)"

definition writeExecNotFound :: "string \<Rightarrow> ExecStatus" where
  "writeExecNotFound cmd =
     \<lparr>xs_status = ''Failure'',
      xs_message = ''error executing command in container: failed to exec in container: failed to start exec: ''
        @ ''OCI runtime exec failed: exec failed: unable to start container process: exec: '' @ Quote cmd
        @ '': executable file not found in $PATH: unknown'',
      xs_reason = ''InternalError'', xs_causes = []\<rparr>"

section \<open>The handlers\<close>

record request =
  rq_ns :: string
  rq_pod :: string
  rq_container :: string
  rq_query :: "(string, string list) gomap"

definition query_get :: "request \<Rightarrow> string \<Rightarrow> string" where
  "query_get r k = (case gm_get (rq_query r) k of Some (v # _) \<Rightarrow> v | _ \<Rightarrow> '''')"

definition query_all :: "request \<Rightarrow> string \<Rightarrow> string list" where
  "query_all r k = (case gm_get (rq_query r) k of Some vs \<Rightarrow> vs | None \<Rightarrow> [])"

definition expected_streams :: "bool \<Rightarrow> bool \<Rightarrow> bool \<Rightarrow> bool \<Rightarrow> nat" where
  "expected_streams wantStdin wantStdout wantStderr tty =
     1 + (if wantStdin then 1 else 0) + (if wantStdout then 1 else 0) + (if wantStderr \<and> \<not> tty then 1 else 0)
     + (if tty then 1 else 0)"

text \<open>
  The loop \<^verbatim>\<open>collect\<close>: streams arrive until as many different types as expected are there or the
  deadline ends the list. A second stream of a type replaces the first.
\<close>

fun collect :: "nat \<Rightarrow> string list \<Rightarrow> string list \<Rightarrow> string list" where
  "collect expected streams [] = streams"
| "collect expected streams (t # ts) =
     (if length streams < expected then collect expected (List.insert t streams) ts else streams)"

definition closed_streams :: "string list \<Rightarrow> string list" where
  "closed_streams streams = filter (\<lambda>t. t \<in> set streams) [''stdout'', ''stderr'', ''error'']"

definition answer_missing :: "string \<Rightarrow> go_error \<Rightarrow> Response \<Rightarrow> Response" where
  "answer_missing name e r =
     (if IsNotFound e then refuse 404 ''NotFound'' (''pods '' @ Quote name @ '' not found'') r
      else refuse 500 ''InternalError'' (err_msg e) r)"

definition stream_session ::
  "Shim \<Rightarrow> 'w exec_env \<Rightarrow> string \<Rightarrow> request \<Rightarrow> Pod \<Rightarrow> string \<Rightarrow> 'w \<Rightarrow> session \<times> 'w" where
  "stream_session sh xe mode rq p container w =
     (let wantStdin = (query_get rq ''input'' = ''1'' \<or> query_get rq ''stdin'' = ''true'');
          wantStdout = (query_get rq ''output'' = ''1'' \<or> query_get rq ''stdout'' = ''true'');
          wantStderr = (query_get rq ''stderr'' = ''true'' \<or> query_get rq ''error'' = ''1'');
          tty = (query_get rq ''tty'' = ''1'' \<or> query_get rq ''tty'' = ''true'');
          command = query_all rq ''command'';
          streams = collect (expected_streams wantStdin wantStdout wantStderr tty) [] (xe_streams xe w);
          has = (\<lambda>t. t \<in> set streams) in
      if mode = ''exec'' \<and> (cfg_execProfile (sh_cfg sh) = execProfileDistroless \<or> containerLacksShell p container) then
        (let cmdName = (case command of [] \<Rightarrow> ''sh'' | c # _ \<Rightarrow> c) in
         (\<lparr>se_stdout = [], se_stderr = [], se_log = [],
           se_status = (if has ''error'' then Some (writeExecNotFound cmdName) else None),
           se_closed = closed_streams streams\<rparr>, w))
      else
        (case runSession sh xe p container mode command tty (has ''stdin'') (has ''stdout'') (has ''stderr'') (has ''resize'') w of
           ((exitCode, s), w') \<Rightarrow>
             (s\<lparr>se_status := (if has ''error'' then Some (writeExecStatus exitCode) else None),
                se_closed := closed_streams streams\<rparr>, w')))"

text \<open>The container a session is for: the one named, or the first of the pod.\<close>

definition addressed :: "request \<Rightarrow> Pod \<Rightarrow> string" where
  "addressed rq p =
     (if rq_container rq = '''' \<and> length (ps_containers (pod_spec p)) > 0 then c_name (hd (ps_containers (pod_spec p)))
      else rq_container rq)"

definition handleStream ::
  "Shim \<Rightarrow> 'w exec_env \<Rightarrow> string \<Rightarrow> request \<Rightarrow> 'w \<Rightarrow> (Response \<times> session option) \<times> 'w" where
  "handleStream sh xe mode rq w =
     (case xe_getPod xe (rq_ns rq, rq_pod rq) w of
        (Inl e, w1) \<Rightarrow> ((answer_missing (rq_pod rq) e fresh_response, None), w1)
      | (Inr p, w1) \<Rightarrow>
          if rq_container rq \<noteq> '''' \<and> \<not> hasContainer p (rq_container rq) then
            ((refuse 400 ''BadRequest''
                (''container '' @ Quote (rq_container rq) @ '' not found in pod '' @ Quote (rq_pod rq)) fresh_response, None), w1)
          else
            (case xe_handshake xe w1 of
               (Inl _, w2) \<Rightarrow> ((fresh_response, None), w2)
             | (Inr _, w2) \<Rightarrow>
                 (case xe_upgrade xe w2 of
                    (Inl _, w3) \<Rightarrow> ((fresh_response, None), w3)
                  | (Inr _, w3) \<Rightarrow>
                      (case stream_session sh xe mode rq p (addressed rq p) w3 of
                         (s, w4) \<Rightarrow> ((fresh_response, Some s), w4)))))"

definition handleExec :: "Shim \<Rightarrow> 'w exec_env \<Rightarrow> request \<Rightarrow> 'w \<Rightarrow> (Response \<times> session option) \<times> 'w" where
  "handleExec sh xe = handleStream sh xe ''exec''"

definition handleAttach :: "Shim \<Rightarrow> 'w exec_env \<Rightarrow> request \<Rightarrow> 'w \<Rightarrow> (Response \<times> session option) \<times> 'w" where
  "handleAttach sh xe = handleStream sh xe ''attach''"

definition handleLogs :: "Shim \<Rightarrow> 'w exec_env \<Rightarrow> request \<Rightarrow> 'w \<Rightarrow> Response \<times> 'w" where
  "handleLogs sh xe rq w =
     (case xe_getPod xe (rq_ns rq, rq_pod rq) w of
        (Inl e, w1) \<Rightarrow> (answer_missing (rq_pod rq) e fresh_response, w1)
      | (Inr p, w1) \<Rightarrow>
          (fold (\<lambda>l. write_body (BodyText (l @ [newline]))) (podLogLines sh p)
             (set_header ''Content-Type'' ''text/plain'' fresh_response), w1))"

end
