(* ===== verification/Exec_Init.thy ===== *)
theory Exec_Init
  imports Shim_Exec
begin

text \<open>
  \<^verbatim>\<open>RunExecInit\<close> of \<^verbatim>\<open>src/internal/kubeletshim/exec_isolation_linux.go\<close>, the child side of an
  isolated session, and the process title of \<^verbatim>\<open>proctitle.go\<close> and \<^verbatim>\<open>proctitle_linux.go\<close>, with
  the stand-ins for other operating systems. The system calls are the parameter \<open>kernel\<close>.
\<close>

section \<open>The child of an isolated session\<close>

record 'w kernel =
  k_sethostname :: "string \<Rightarrow> ('w, unit) call"
  k_mount :: "string \<Rightarrow> string \<Rightarrow> string \<Rightarrow> string list \<Rightarrow> ('w, unit) call"
  k_setgroups :: "int list \<Rightarrow> ('w, unit) call"
  k_setgid :: "int \<Rightarrow> ('w, unit) call"
  k_setuid :: "int \<Rightarrow> ('w, unit) call"
  k_lookPath :: "string \<Rightarrow> ('w, string) call"
  k_exec :: "string \<Rightarrow> string list \<Rightarrow> string list \<Rightarrow> ('w, unit) call"

text \<open>The process ends with a status, or its image is replaced by a command with an environment.\<close>

datatype init_outcome = Exited int | Replaced string "string list" "string list"

definition getenv :: "string \<Rightarrow> string list \<Rightarrow> string" where
  "getenv key env =
     (case find (\<lambda>kv. HasPrefix kv (key @ ''='')) env of
        Some kv \<Rightarrow> drop (length key + 1) kv
      | None \<Rightarrow> '''')"

definition marker_free :: "string list \<Rightarrow> string list" where
  "marker_free env = filter (\<lambda>kv. \<not> HasPrefix kv ''HONEYPOD_EXEC_'') env"

definition appUID :: int where
  "appUID = 1000"

text \<open>The privileged part: host name, mounts, then the drop to the application's user.\<close>

definition init_setup :: "'w kernel \<Rightarrow> string list \<Rightarrow> 'w \<Rightarrow> 'w" where
  "init_setup k env w =
     (let hn = getenv ''HONEYPOD_EXEC_HOSTNAME'' env;
          osrel = getenv ''HONEYPOD_EXEC_OSRELEASE'' env;
          w = (if hn \<noteq> '''' then snd (k_sethostname k hn w) else w);
          w = snd (k_mount k '''' ''/'' '''' [''MS_REC'', ''MS_PRIVATE''] w);
          w = snd (k_mount k ''proc'' ''/proc'' ''proc'' [] w);
          w = (if osrel \<noteq> '''' then snd (k_mount k osrel ''/etc/os-release'' '''' [''MS_BIND''] w) else w);
          w = snd (k_setgroups k [appUID] w);
          w = snd (k_setgid k appUID w) in
      snd (k_setuid k appUID w))"

definition RunExecInit :: "'w kernel \<Rightarrow> string list \<Rightarrow> string list \<Rightarrow> 'w \<Rightarrow> init_outcome \<times> 'w" where
  "RunExecInit k args env w =
     (case args of
        [] \<Rightarrow> (Exited 1, w)
      | a # as \<Rightarrow>
          (case k_lookPath k a (init_setup k env w) of
             (r, w1) \<Rightarrow>
               (let path = (case r of Inr resolved \<Rightarrow> resolved | Inl _ \<Rightarrow> a) in
                case k_exec k path args (marker_free env) w1 of
                  (Inr _, w2) \<Rightarrow> (Replaced path args (marker_free env), w2)
                | (Inl _, w2) \<Rightarrow> (Exited 127, w2))))"

section \<open>The process title\<close>

abbreviation NUL :: char where
  "NUL \<equiv> CHR 0x00"

definition procTitle :: string where
  "procTitle = ''/pause''"

text \<open>\<^verbatim>\<open>copy\<close> stops at the shorter of its two arguments.\<close>

definition go_copy :: "'a list \<Rightarrow> 'a list \<Rightarrow> 'a list" where
  "go_copy dst src = take (length dst) src @ drop (length src) dst"

definition writeTitle :: "string \<Rightarrow> string \<Rightarrow> string" where
  "writeTitle buf title = go_copy (map (\<lambda>_. NUL) buf) title"

definition argv_region :: "string list \<Rightarrow> string" where
  "argv_region args = concat (map (\<lambda>a. a @ [NUL]) args)"

definition base_name :: "string \<Rightarrow> string" where
  "base_name s = (if CHR ''/'' \<in> set s then rev (takeWhile (\<lambda>c. c \<noteq> CHR ''/'') (rev s)) else s)"

text \<open>The argv region and the name of the process afterwards; \<open>None\<close> when there is no argument.\<close>

definition MaskProcessTitle :: "string list \<Rightarrow> (string \<times> string) option" where
  "MaskProcessTitle args =
     (if length args = 0 then None
      else Some (writeTitle (argv_region args) procTitle, take 15 (base_name procTitle)))"

section \<open>Outside Linux\<close>

text \<open>
  \<^verbatim>\<open>exec_isolation_other.go\<close> and \<^verbatim>\<open>proctitle_other.go\<close>, the same functions in a build for another operating
  system: no namespaces, no child side, no change of the process title (\<open>None\<close>).
\<close>

definition isolatedCmd_other :: "string list \<Rightarrow> execSandbox \<Rightarrow> string \<Rightarrow> Cmd" where
  "isolatedCmd_other args sandbox podName =
     applyOverride sandbox (hd args) \<lparr>cmd_path = None, cmd_args = args, cmd_env = sb_env sandbox, cmd_namespaces = False\<rparr>"

definition RunExecInit_other :: "string list \<Rightarrow> init_outcome" where
  "RunExecInit_other args = Exited 1"

definition MaskProcessTitle_other :: "string list \<Rightarrow> (string \<times> string) option" where
  "MaskProcessTitle_other args = None"

section \<open>Facts\<close>

text \<open>There, asking for isolation builds the command that is built without it.\<close>

lemma isolatedCmd_other_plain:
  "\<not> cfg_execIsolation cfg \<Longrightarrow> buildExecCmd cfg xe args sandbox pod w = (isolatedCmd_other args sandbox pod, w)"
  by (simp add: buildExecCmd_def isolatedCmd_other_def)

lemma decoyExecEnv_marker_free: "marker_free (decoyExecEnv cfg dir pod) = decoyExecEnv cfg dir pod"
  by (simp add: marker_free_def decoyExecEnv_def Let_def HasPrefix_def)

lemma sandbox_env:
  "newExecSandbox cfg xe pod w = ((sb, made), w') \<Longrightarrow> \<exists>dir. sb_env sb = decoyExecEnv cfg dir pod"
  by (auto simp: newExecSandbox_def split: prod.splits sum.splits)

lemma isolated_env:
  "isolatedCmd cfg xe args sb pod w = (cmd, w') \<Longrightarrow> marker_free (cmd_env cmd) = marker_free (sb_env sb)"
  by (auto simp: isolatedCmd_def Let_def marker_free_def HasPrefix_def split: if_splits prod.splits sum.splits)

text \<open>
  C29 Round trip: the environment the target of an isolated session sees is the one a session without
  isolation gets. The markers added for the child are removed again, and nothing of the shim's own
  environment is in it.
\<close>

theorem exec_init_environment:
  assumes "newExecSandbox cfg xe pod w0 = ((sb, made), w1)"
    and "isolatedCmd cfg xe args sb pod w1 = (cmd, w2)"
    and "RunExecInit k as (cmd_env cmd) w = (Replaced path as' env, w')"
  shows "\<exists>dir. env = decoyExecEnv cfg dir pod \<and> sb_env sb = decoyExecEnv cfg dir pod"
proof -
  obtain dir where dir: "sb_env sb = decoyExecEnv cfg dir pod" using sandbox_env [OF assms(1)] by blast
  have "env = marker_free (cmd_env cmd)"
    using assms(3) by (auto simp: RunExecInit_def Let_def split: list.splits prod.splits sum.splits)
  with isolated_env [OF assms(2)] dir show ?thesis by (intro exI [of _ dir]) (simp add: decoyExecEnv_marker_free)
qed

text \<open>
  What the kernel promises about user ids: \<^verbatim>\<open>setuid\<close> that succeeds sets it, one that fails leaves it,
  no other call of the child touches it.
\<close>

definition uid_contract :: "('w \<Rightarrow> int) \<Rightarrow> 'w kernel \<Rightarrow> bool" where
  "uid_contract uid k \<longleftrightarrow>
     (\<forall>h. keeps uid (k_sethostname k h)) \<and> (\<forall>a b c d. keeps uid (k_mount k a b c d))
     \<and> (\<forall>gs. keeps uid (k_setgroups k gs)) \<and> (\<forall>g. keeps uid (k_setgid k g)) \<and> (\<forall>p. keeps uid (k_lookPath k p))
     \<and> (\<forall>u w. case k_setuid k u w of (Inr _, w') \<Rightarrow> uid w' = u | (Inl _, w') \<Rightarrow> uid w' = uid w)"

lemma uid_before_setuid:
  assumes "uid_contract uid k"
  obtains w1 where "uid w1 = uid w" "init_setup k env w = snd (k_setuid k appUID w1)"
proof -
  have k: "uid (snd (k_sethostname k h w)) = uid w" "uid (snd (k_mount k a b c d w)) = uid w"
    "uid (snd (k_setgroups k gs w)) = uid w" "uid (snd (k_setgid k g w)) = uid w" for h a b c d gs g w
    using assms by (simp_all add: uid_contract_def keeps_def)
  have "\<exists>w1. uid w1 = uid w \<and> init_setup k env w = snd (k_setuid k appUID w1)"
    unfolding init_setup_def Let_def by (rule exI, rule conjI [rotated], rule refl) (simp add: k)
  then show ?thesis using that by blast
qed

text \<open>
  The error of \<^verbatim>\<open>setuid\<close> is dropped, so the outcome depends on it silently: when it succeeds the
  command runs as the application's user, when it fails the same command runs as the user the child
  was started as, root.
\<close>

theorem exec_init_user:
  assumes "uid_contract uid k" and "args \<noteq> []"
    and "\<And>u w. uid w = 0 \<Longrightarrow> (\<exists>x. fst (k_setuid k u w) = Inr x) \<longleftrightarrow> allowed"
    and "uid w = 0"
  shows "\<exists>path w1. uid w1 = (if allowed then appUID else 0)
     \<and> RunExecInit k args env w =
         (case k_exec k path args (marker_free env) w1 of
            (Inr _, w2) \<Rightarrow> (Replaced path args (marker_free env), w2) | (Inl _, w2) \<Rightarrow> (Exited 127, w2))"
proof -
  obtain w0 where w0: "uid w0 = 0" "init_setup k env w = snd (k_setuid k appUID w0)"
    using uid_before_setuid [OF assms(1), of w env] assms(4) by metis
  have set: "case k_setuid k appUID w0 of (Inr _, w') \<Rightarrow> uid w' = appUID | (Inl _, w') \<Rightarrow> uid w' = uid w0"
    using assms(1) unfolding uid_contract_def by (elim conjE allE)
  have "uid (init_setup k env w) = (if allowed then appUID else 0)"
    using set assms(3) [OF w0(1), of appUID] w0 by (cases "k_setuid k appUID w0"; cases "fst (k_setuid k appUID w0)") auto
  moreover obtain a as where args: "args = a # as" using assms(2) by (cases args) auto
  moreover obtain r w1 where look: "k_lookPath k a (init_setup k env w) = (r, w1)" by (metis surj_pair)
  moreover have "uid w1 = uid (init_setup k env w)"
    using assms(1) look by (auto simp: uid_contract_def dest: keepsD)
  ultimately show ?thesis
    by (intro exI [of _ "case r of Inr resolved \<Rightarrow> resolved | Inl _ \<Rightarrow> a"] exI [of _ w1]) (simp add: RunExecInit_def Let_def split: prod.split sum.split)
qed

text \<open>
  After masking, the memory that \<^verbatim>\<open>/proc/1/cmdline\<close> shows is the neutral title followed by zero
  bytes: no byte of the real command line survives.
\<close>

theorem MaskProcessTitle_hides:
  assumes "MaskProcessTitle args = Some (region, comm)"
  shows "length region = length (argv_region args) \<and> comm = ''pause''
   \<and> region = take (length (argv_region args)) procTitle @ replicate (length (argv_region args) - length procTitle) NUL"
  using assms
  by (auto simp: MaskProcessTitle_def writeTitle_def go_copy_def procTitle_def base_name_def map_replicate_const
      split: if_splits)

section \<open>Witnesses\<close>

text \<open>A kernel whose world is the user id, and an environment for the sandbox.\<close>

definition ex_kernel :: "int kernel" where
  "ex_kernel =
     \<lparr>k_sethostname = (\<lambda>h. ok ()), k_mount = (\<lambda>a b c d. ok ()), k_setgroups = (\<lambda>gs. ok ()), k_setgid = (\<lambda>g. ok ()),
      k_setuid = (\<lambda>u w. (Inr (), u)), k_lookPath = (\<lambda>p. ok (''/bin/'' @ p)), k_exec = (\<lambda>p as env. ok ())\<rparr>"

definition ex_env :: "unit exec_env" where
  "ex_env =
     \<lparr>xe_getPod = (\<lambda>k. fail not_found), xe_handshake = ok (), xe_upgrade = ok (), xe_streams = (\<lambda>w. []),
      xe_mkdirTemp = ok ''/tmp/1'', xe_chmod = (\<lambda>p m. ok ()), xe_writeFile = (\<lambda>p c m. ok ()), xe_removeAll = (\<lambda>p. ok ()),
      xe_pty = (\<lambda>c a b d w. (Inr ([], None), w)), xe_run = (\<lambda>c a b d w. (([], None), w)), xe_accepts = (\<lambda>d m w. True), xe_now = (\<lambda>w. 0),
      xe_duration = (\<lambda>d. ''0s'')\<rparr>"

definition ex_exec_cfg :: ShimConfig where
  "ex_exec_cfg =
     \<lparr>cfg_seed = \<lparr>sd_fakeNodes = [], sd_fakePods = [], sd_fakeSecrets = [], sd_controllers = [], sd_crds = [],
                  sd_services = [], sd_configMaps = []\<rparr>, cfg_seedPath = '''', cfg_nodeInternalIP = ''10.96.0.7'',
      cfg_kubeletPort = 10250, cfg_kubernetesServicePort = 6443, cfg_execProfile = ''minimal'', cfg_execIsolation = True,
      cfg_serviceAccountToken = ''tok'', cfg_serviceAccountDir = ''/sa'', cfg_namespace = ''app'', cfg_caBundlePath = '''',
      cfg_recordExecSessions = True\<rparr>"

theorem exec_init_environment_witness:
  "\<exists>sb cmd path env. isolatedCmd ex_exec_cfg ex_env [''uname''] sb ''web'' () = (cmd, ())
     \<and> fst (RunExecInit ex_kernel [''uname''] (cmd_env cmd) 0) = Replaced path [''uname''] env
     \<and> (\<exists>dir. env = decoyExecEnv ex_exec_cfg dir ''web'')"
proof -
  obtain sb made where sb: "newExecSandbox ex_exec_cfg ex_env ''web'' () = ((sb, made), ())" by (metis surj_pair unit.exhaust)
  obtain cmd where cmd: "isolatedCmd ex_exec_cfg ex_env [''uname''] sb ''web'' () = (cmd, ())" by (metis surj_pair unit.exhaust)
  have run: "RunExecInit ex_kernel [''uname''] (cmd_env cmd) 0 = (Replaced ''/bin/uname'' [''uname''] (marker_free (cmd_env cmd)), appUID)"
    by (simp add: RunExecInit_def ex_kernel_def init_setup_def Let_def)
  from exec_init_environment [OF sb cmd run] cmd run show ?thesis by (metis fst_conv)
qed

theorem exec_init_user_witness:
  "\<exists>path w1. w1 = appUID \<and> RunExecInit ex_kernel [''id''] [] 0 =
     (case k_exec ex_kernel path [''id''] (marker_free []) w1 of
        (Inr _, w2) \<Rightarrow> (Replaced path [''id''] (marker_free []), w2) | (Inl _, w2) \<Rightarrow> (Exited 127, w2))"
proof -
  have c: "uid_contract (\<lambda>w. w) ex_kernel" by (simp add: uid_contract_def keeps_def ex_kernel_def)
  have "\<exists>path w1. w1 = (if True then appUID else 0) \<and> RunExecInit ex_kernel [''id''] [] 0 =
     (case k_exec ex_kernel path [''id''] (marker_free []) w1 of
        (Inr _, w2) \<Rightarrow> (Replaced path [''id''] (marker_free []), w2) | (Inl _, w2) \<Rightarrow> (Exited 127, w2))"
    by (rule exec_init_user [OF c, where allowed = True]) (simp_all add: ex_kernel_def)
  then show ?thesis by simp
qed

theorem MaskProcessTitle_hides_witness:
  "\<exists>region. MaskProcessTitle [''/kubelet-shim'', ''--seed=x''] = Some (region, ''pause'') \<and> length region = 23"
proof -
  obtain region where m: "MaskProcessTitle [''/kubelet-shim'', ''--seed=x''] = Some (region, ''pause'')"
    by (simp add: MaskProcessTitle_def procTitle_def base_name_def)
  from MaskProcessTitle_hides [OF m] m show ?thesis by (simp add: argv_region_def)
qed

end
