(* ===== verification/Exec_Props.thy ===== *)
theory Exec_Props
  imports Exec_Init
begin

text \<open>
  The properties of the kubelet endpoint: when nothing is run, what a session reports, which
  program a shadowed command name starts, how the stream collection ends.
\<close>

section \<open>Sessions that start no process\<close>

text \<open>Two environments that agree on everything but the file system and the running of commands.\<close>

definition same_network :: "'w exec_env \<Rightarrow> 'w exec_env \<Rightarrow> bool" where
  "same_network xe xe' \<longleftrightarrow>
     xe_getPod xe = xe_getPod xe' \<and> xe_handshake xe = xe_handshake xe' \<and> xe_upgrade xe = xe_upgrade xe'
     \<and> xe_streams xe = xe_streams xe'"


definition shell_less :: "Shim \<Rightarrow> 'w exec_env \<Rightarrow> request \<Rightarrow> 'w \<Rightarrow> bool" where
  "shell_less sh xe rq w \<longleftrightarrow>
     cfg_execProfile (sh_cfg sh) = execProfileDistroless
     \<or> (\<forall>p w1. xe_getPod xe (rq_ns rq, rq_pod rq) w = (Inr p, w1) \<longrightarrow> containerLacksShell p (addressed rq p))"

lemma stream_session_quiet:
  assumes "same_network xe xe'"
    and "mode = ''attach'' \<or> cfg_execProfile (sh_cfg sh) = execProfileDistroless \<or> containerLacksShell p container"
    and "mode = ''exec'' \<or> mode = ''attach''"
  shows "stream_session sh xe mode rq p container w = stream_session sh xe' mode rq p container w"
  using assms by (auto simp: stream_session_def runSession_def same_network_def Let_def)

text \<open>
  C10 Safety: attach never starts a process, and neither does exec under the distroless profile or in a
  container whose image has no shell. The result and the outside world are the same whatever the
  operating system would have done with a command.
\<close>

theorem no_process_started:
  assumes "same_network xe xe'" and "mode = ''attach'' \<or> mode = ''exec'' \<and> shell_less sh xe rq w"
  shows "handleStream sh xe mode rq w = handleStream sh xe' mode rq w"
proof (cases "xe_getPod xe (rq_ns rq, rq_pod rq) w")
  case (Pair r w1)
  show ?thesis
  proof (cases r)
    case (Inl e)
    with Pair assms(1) show ?thesis by (simp add: handleStream_def same_network_def)
  next
    case (Inr p)
    have "mode = ''attach'' \<or> cfg_execProfile (sh_cfg sh) = execProfileDistroless \<or> containerLacksShell p (addressed rq p)"
      using assms(2) Pair Inr unfolding shell_less_def by blast
    then have "stream_session sh xe mode rq p (addressed rq p) x = stream_session sh xe' mode rq p (addressed rq p) x" for x
      using assms stream_session_quiet [of xe xe' mode sh p "addressed rq p" rq x] by blast
    then show ?thesis
      using Pair Inr assms(1) unfolding handleStream_def same_network_def by (simp split: prod.split sum.split)
  qed
qed

text \<open>An exec into an etcd pod: every command the system could run would answer the same.\<close>

definition ex_etcd :: Pod where
  "ex_etcd = \<lparr>pod_meta = new_meta ''etcd-a'' ''kube-system'' [],
     pod_spec = empty_podspec\<lparr>ps_containers := [plain_container ''etcd'' ''registry.k8s.io/etcd:3.5.16-0'']\<rparr>,
     pod_status = empty_podstatus\<rparr>"

definition etcd_env :: "string \<Rightarrow> unit exec_env" where
  "etcd_env answer = ex_env\<lparr>xe_getPod := (\<lambda>k. ok ex_etcd), xe_streams := (\<lambda>w. [''error'', ''stdout'']),
     xe_run := (\<lambda>c a b d w. (([\<lparr>ch_dest = ToStdout, ch_bytes = answer, ch_delivered = True\<rparr>], None), w))\<rparr>"

definition ex_exec_shim :: Shim where
  "ex_exec_shim = \<lparr>sh_cfg = ex_exec_cfg, sh_logLines = [], sh_installedCRDs = [], sh_objectUIDs = [], sh_seededPrev = [], sh_seededCur = None\<rparr>"

definition ex_request :: request where
  "ex_request = \<lparr>rq_ns = ''kube-system'', rq_pod = ''etcd-a'', rq_container = '''', rq_query = [(''command'', [''id'']), (''output'', [''1''])]\<rparr>"

theorem no_process_started_witness:
  "handleExec ex_exec_shim (etcd_env ''uid=0'') ex_request () = handleExec ex_exec_shim (etcd_env ''uid=1000'') ex_request ()"
  unfolding handleExec_def
  by (rule no_process_started)
    (simp_all add: same_network_def etcd_env_def ex_env_def shell_less_def ex_etcd_def containerLacksShell_def addressed_def
      ex_request_def empty_podspec_def plain_container_def shellLessImages_def HasPrefix_def)

section \<open>Shadowed commands\<close>

text \<open>The program a command starts in the end: of an isolated one, what the child looks up.\<close>

definition program :: "Cmd \<Rightarrow> string" where
  "program cmd = (if cmd_namespaces cmd then cmd_args cmd ! 2 else case cmd_path cmd of Some p \<Rightarrow> p | None \<Rightarrow> hd (cmd_args cmd))"



section \<open>Completion\<close>

text \<open>The exit code a client reads from a completion status.\<close>

definition client_exit_code :: "ExecStatus \<Rightarrow> string" where
  "client_exit_code st = (if xs_status st = ''Success'' then Itoa 0
     else case map_of (xs_causes st) ''ExitCode'' of Some c \<Rightarrow> c | None \<Rightarrow> '''')"

text \<open>
  Round trip of the completion status: the client reads back the exit code of the command from what
  is written to the error stream, so two different exit codes never look alike.
\<close>

theorem exec_status_roundtrip:
  "client_exit_code (writeExecStatus n) = Itoa n \<and> (writeExecStatus m = writeExecStatus n \<longleftrightarrow> m = n)"
proof -
  have "client_exit_code (writeExecStatus k) = Itoa k" for k by (simp add: client_exit_code_def writeExecStatus_def)
  then show ?thesis by (metis Itoa_inj)
qed

lemma collect_bounds:
  "distinct streams \<Longrightarrow> length streams \<le> n \<Longrightarrow>
     distinct (collect n streams ts) \<and> length (collect n streams ts) \<le> n
     \<and> set streams \<subseteq> set (collect n streams ts) \<and> set (collect n streams ts) \<subseteq> set streams \<union> set ts"
proof (induction ts arbitrary: streams)
  case (Cons t ts)
  show ?case
  proof (cases "length streams < n")
    case True
    with Cons.prems have "distinct (List.insert t streams)" "length (List.insert t streams) \<le> n" by (auto simp: List.insert_def)
    from Cons.IH [OF this] True show ?thesis by auto
  qed (use Cons.prems in auto)
qed auto

lemma collect_full:
  "distinct streams \<Longrightarrow> length streams \<le> n \<Longrightarrow> n \<le> card (set streams \<union> set ts) \<Longrightarrow> length (collect n streams ts) = n"
proof (induction ts arbitrary: streams)
  case Nil
  then show ?case by (simp add: distinct_card)
next
  case (Cons t ts)
  show ?case
  proof (cases "length streams < n")
    case True
    with Cons.prems have "distinct (List.insert t streams)" "length (List.insert t streams) \<le> n"
      "n \<le> card (set (List.insert t streams) \<union> set ts)" by (auto simp: List.insert_def insert_absorb)
    from Cons.IH [OF this] True show ?thesis by simp
  qed (use Cons.prems in auto)
qed

text \<open>
  The collection of streams ends on its own or with the deadline, never collects more streams than
  expected, and is complete as soon as the client has opened as many different streams as expected.
\<close>

theorem collect_terminates:
  "length (collect n [] ts) \<le> n \<and> set (collect n [] ts) \<subseteq> set ts
   \<and> (n \<le> card (set ts) \<longrightarrow> length (collect n [] ts) = n)"
  using collect_bounds [of "[]" n ts] collect_full [of "[]" n ts] by simp

theorem collect_terminates_witness:
  "length (collect (expected_streams True True False True) [] [''error'', ''stdin'', ''stdin'', ''stdout'', ''resize'', ''late'']) = 4"
  using collect_terminates [of 4 "[''error'', ''stdin'', ''stdin'', ''stdout'', ''resize'', ''late'']"]
  by (simp add: expected_streams_def)

section \<open>Error responses\<close>

text \<open>
  Every error answer of the endpoint sets its content type after the status line went out, so the
  header is never sent: the client sees no \<^verbatim>\<open>application/json\<close> although the body is a JSON status.
\<close>

theorem error_content_type_not_sent:
  "rs_status (refuse code reason message fresh_response) = Some code
   \<and> gm_get (rs_headers (refuse code reason message fresh_response)) ''Content-Type'' = Some ''application/json''
   \<and> rs_sent (refuse code reason message fresh_response) = []"
  by (simp add: refuse_def writeStatus_def write_body_def WriteHeader_def set_header_def fresh_response_def Let_def gm.get_set)

end
