(* ===== verification/Manager.thy ===== *)
theory Manager
  imports Controller_Props Certs
begin

text \<open>
  \<^verbatim>\<open>src/cmd/manager/main.go\<close>: how the manager process puts the components together. The callback
  of the audit receiver feeds metrics, log, activity tracker and notifier; the start-up sequence
  ends the process on the first failure.
\<close>

section \<open>Flags and state\<close>

record manager_flags =
  fl_managerURL :: string
  fl_dnsNames :: string
  fl_configName :: string
  fl_logAuditEvents :: bool
  fl_logAllAuditEvents :: bool
  fl_auditLogFormat :: string

text \<open>The state the receiver shares with the rest of the process.\<close>

record 'w manager_state =
  ms_counters :: counters
  ms_ops :: "metric_op list"
  ms_log :: "string list"
  ms_world :: 'w

text \<open>What the callback uses of other packages: the JSON text layer, the notifier and the clock.\<close>

record 'w manager_env =
  me_Marshal :: "json \<Rightarrow> string option"
  me_notify :: "'w dispatcher"
  me_now :: "'w \<Rightarrow> int \<times> 'w"

definition no_filter :: AuditFilter where
  "no_filter = \<lparr>af_includeAll = False, af_excludeVerbs = [], af_excludeResources = []\<rparr>"

section \<open>The audit callback\<close>

definition log_event :: "manager_flags \<Rightarrow> (json \<Rightarrow> string option) \<Rightarrow> string \<Rightarrow> string \<Rightarrow> Event \<Rightarrow> string list \<Rightarrow> string list" where
  "log_event fl Marshal ns name ev l =
     (if \<not> fl_logAllAuditEvents fl \<and> \<not> IsNotableAuditEvent ev no_filter then l
      else if fl_auditLogFormat fl = ''json'' then LogEventJSON Marshal ns name ev l
      else LogEvent ns name ev l)"

definition log_events :: "manager_flags \<Rightarrow> (json \<Rightarrow> string option) \<Rightarrow> string \<Rightarrow> string \<Rightarrow> Event list \<Rightarrow> string list \<Rightarrow> string list" where
  "log_events fl Marshal ns name events l =
     (if fl_logAuditEvents fl then fold (log_event fl Marshal ns name) events l else l)"

definition source_ip :: "Event \<Rightarrow> string" where
  "source_ip ev = (case ev_sourceIPs ev of [] \<Rightarrow> '''' | ip # _ \<Rightarrow> ip)"

definition record_event :: "('w \<Rightarrow> int \<times> 'w) \<Rightarrow> string \<Rightarrow> string \<Rightarrow> Event \<Rightarrow> 'w manager_state \<Rightarrow> 'w manager_state" where
  "record_event clock ns name ev st =
     (if IsNotableAuditEvent ev no_filter then
        (case clock (ms_world st) of
           (now, w) \<Rightarrow>
             (case Record ns name (source_ip ev) now (ms_counters st) of
                (t, ops) \<Rightarrow> st\<lparr>ms_counters := t, ms_ops := ms_ops st @ ops, ms_world := w\<rparr>))
      else st)"

definition on_events :: "manager_flags \<Rightarrow> 'w manager_env \<Rightarrow> string \<Rightarrow> string \<Rightarrow> Event list \<Rightarrow> 'w manager_state \<Rightarrow> 'w manager_state" where
  "on_events fl me ns name events st =
     (let st1 = st\<lparr>ms_ops := ms_ops st @ [AddCounter AuditEvents [ns, name] (int (length events))],
                   ms_log := log_events fl (me_Marshal me) ns name events (ms_log st)\<rparr>;
          st2 = fold (record_event (me_now me) ns name) events st1;
          kt = \<lparr>dr_namespace = ns, dr_name = name\<rparr>;
          (ls, w) = NotifyAuditActivity (me_notify me) kt events (ms_world st2);
          (ls', w') = ShipAuditLog (me_notify me) kt events w in
      st2\<lparr>ms_log := ms_log st2 @ ls @ ls', ms_world := w'\<rparr>)"

text \<open>A POST to the receiver; a path that is no decoy's is answered 404 by the router.\<close>

definition receive_audit :: "manager_flags \<Rightarrow> 'w manager_env \<Rightarrow> string \<Rightarrow> json option \<Rightarrow> 'w manager_state \<Rightarrow> nat \<times> 'w manager_state" where
  "receive_audit fl me path body st =
     (case audit_route path of
        None \<Rightarrow> (404, st)
      | Some (ns, name) \<Rightarrow> handle_audit (on_events fl me) ns name body st)"

section \<open>Start-up\<close>

abbreviation "webhookCertNamespace \<equiv> ''honeypod''"
abbreviation "webhookCertSecretName \<equiv> ''honeypod-webhook-tls''"

definition valid_flags :: "manager_flags \<Rightarrow> bool" where
  "valid_flags fl \<longleftrightarrow> \<not> (fl_auditLogFormat fl \<noteq> ''text'' \<and> fl_auditLogFormat fl \<noteq> ''json'')"

definition webhook_dns_names :: "manager_flags \<Rightarrow> string list" where
  "webhook_dns_names fl = Split (fl_dnsNames fl) CHR '','' @ [''localhost'', ''127.0.0.1'']"

text \<open>
  \<open>su_backoff\<close> is \<^verbatim>\<open>wait.ExponentialBackoff\<close>: it calls the closure, which either has a result or
  asks for another try, and fails when the tries are used up. The other fields are calls of
  controller-runtime.
\<close>

record ('w, 'c) startup =
  su_newClient :: "('w, unit) call"
  su_newManager :: "('w, unit) call"
  su_setupDecoy :: "('w, unit) call"
  su_backoff :: "('w, ('c \<times> string) option) call \<Rightarrow> ('w, 'c \<times> string) call"
  su_setupCA :: "string \<Rightarrow> string \<Rightarrow> ('w, unit) call"
  su_healthz :: "('w, unit) call"
  su_readyz :: "('w, unit) call"
  su_start :: "('w, unit) call"
  su_crypto :: "'w crypto"
  su_keypair :: "string \<Rightarrow> string \<Rightarrow> go_error + 'c"
  su_secrets :: "('w, Secret) kclient"

text \<open>The closure of the retry loop: an error is logged and asks for another try.\<close>

definition try_cert :: "('w, 'c) startup \<Rightarrow> manager_flags \<Rightarrow> ('w, ('c \<times> string) option) call" where
  "try_cert su fl =
     try_call (EnsureWebhookServingCert (su_crypto su) (su_keypair su) (su_secrets su)
                 webhookCertNamespace webhookCertSecretName (webhook_dns_names fl))
       (\<lambda>r. case r of Inl _ \<Rightarrow> ok None | Inr c \<Rightarrow> ok (Some c))"

text \<open>The exit code of the process, and whether it came as far as running the manager.\<close>

definition manager_main :: "('w, 'c) startup \<Rightarrow> manager_flags \<Rightarrow> 'w \<Rightarrow> nat \<times> 'w" where
  "manager_main su fl w =
     (if \<not> valid_flags fl then (1, w)
      else
        (case and_then (su_newClient su) (\<lambda>_.
              and_then (su_newManager su) (\<lambda>_.
              and_then (su_setupDecoy su) (\<lambda>_.
              and_then (su_backoff su (try_cert su fl)) (\<lambda>(cert, ca).
              and_then (su_setupCA su (fl_configName fl) ca) (\<lambda>_.
              and_then (su_healthz su) (\<lambda>_.
              and_then (su_readyz su) (\<lambda>_. su_start su))))))) w of
           (Inl _, w') \<Rightarrow> (1, w')
         | (Inr _, w') \<Rightarrow> (0, w')))"

section \<open>Facts\<close>

text \<open>The value of a counter series after a list of operations.\<close>

definition counted :: "metric_op list \<Rightarrow> metric \<Rightarrow> nsname \<Rightarrow> int" where
  "counted ops m k = (case sample ops m [fst k, snd k] of None \<Rightarrow> 0 | Some x \<Rightarrow> x)"

lemma counted_add:
  "counted (ops @ [AddCounter m' [ns, name] x]) m k = counted ops m k + (if m' = m \<and> k = (ns, name) then x else 0)"
  by (cases k) (simp add: counted_def sample_append split: option.splits)

definition notable :: "Event \<Rightarrow> bool" where
  "notable ev = IsNotableAuditEvent ev no_filter"

lemma notable_iff:
  "notable ev \<longleftrightarrow> \<not> HasPrefix (ev_username ev) ''system:''
     \<and> (\<exists>r. ev_objectRef ev = Some r \<and> ref_subresource r \<noteq> ''status'' \<and> ref_resource r \<noteq> ''leases'')"
  by (auto simp: notable_def IsNotableAuditEvent_def no_filter_def builtin_drop_iff)

text \<open>Recording one event, and a batch, through the ledger interface of the tracker.\<close>

lemma record_event_counts:
  "outstanding (ms_counters (record_event clock ns name ev st)) k =
     outstanding (ms_counters st) k + (if notable ev \<and> k = (ns, name) then 1 else 0)"
  "counted (ms_ops (record_event clock ns name ev st)) m k =
     counted (ms_ops st) m k + (if notable ev \<and> m = AttackerRequests \<and> k = (ns, name) then 1 else 0)"
proof -
  obtain now w where c: "clock (ms_world st) = (now, w)" by fastforce
  have "outstanding (fst (Record ns name (source_ip ev) now (ms_counters st))) k =
      outstanding (ms_counters st) k + (if k = (ns, name) then 1 else 0)"
    using tracker.owed_note [of "(ns, name)" "(source_ip ev, now)"] by simp
  then show "outstanding (ms_counters (record_event clock ns name ev st)) k =
      outstanding (ms_counters st) k + (if notable ev \<and> k = (ns, name) then 1 else 0)"
    using c by (auto simp: record_event_def notable_def case_prod_unfold)
  show "counted (ms_ops (record_event clock ns name ev st)) m k =
     counted (ms_ops st) m k + (if notable ev \<and> m = AttackerRequests \<and> k = (ns, name) then 1 else 0)"
    using c by (simp add: record_event_def notable_def Record_def Let_def counted_add)
qed

lemma record_events_counts:
  "outstanding (ms_counters (fold (record_event clock ns name) evs st)) k =
     outstanding (ms_counters st) k + (if k = (ns, name) then of_nat (length (filter notable evs)) else 0)"
  "counted (ms_ops (fold (record_event clock ns name) evs st)) m k =
     counted (ms_ops st) m k + (if m = AttackerRequests \<and> k = (ns, name) then int (length (filter notable evs)) else 0)"
  by (induction evs arbitrary: st) (auto simp: record_event_counts)

lemma on_events_counts:
  "outstanding (ms_counters (on_events fl me ns name evs st)) k =
     outstanding (ms_counters st) k + (if k = (ns, name) then of_nat (length (filter notable evs)) else 0)"
  "counted (ms_ops (on_events fl me ns name evs st)) AttackerRequests k =
     counted (ms_ops st) AttackerRequests k + (if k = (ns, name) then int (length (filter notable evs)) else 0)"
  "counted (ms_ops (on_events fl me ns name evs st)) AuditEvents k =
     counted (ms_ops st) AuditEvents k + (if k = (ns, name) then int (length evs) else 0)"
  by (auto simp: on_events_def Let_def case_prod_unfold record_events_counts counted_add)

text \<open>The path the renderer gives a decoy's API server leads back to that decoy.\<close>

definition manager_base :: "string \<Rightarrow> string" where
  "manager_base url = (if url = '''' then defaultManagerAuditWebhookURL else url)"

definition audit_path :: "Decoy \<Rightarrow> string \<Rightarrow> string" where
  "audit_path kt url = drop (length (manager_base url)) (audit_server kt url)"

definition path_segment :: "string \<Rightarrow> bool" where
  "path_segment s \<longleftrightarrow> s \<noteq> '''' \<and> CHR ''/'' \<notin> set s"

lemma audit_path_routes:
  assumes "path_segment (kt_ns kt)" and "path_segment (kt_name kt)"
  shows "audit_route (audit_path kt url) = Some (kt_ns kt, kt_name kt)"
proof -
  have "audit_path kt url = ''/audit/'' @ kt_ns kt @ CHR ''/'' # kt_name kt"
    by (simp add: audit_path_def audit_server_def manager_base_def)
  then show ?thesis
    using assms Cut_append [of "CHR ''/''" "kt_ns kt" "kt_name kt"]
    by (simp add: audit_route_def path_segment_def HasPrefix_def)
qed

lemma receive_decoded:
  assumes "path_segment (kt_ns kt)" and "path_segment (kt_name kt)" and "dec_eventList body = Some items"
  shows "receive_audit fl me (audit_path kt url) body st =
    (200, if filter keep_stage items = [] then st
          else on_events fl me (kt_ns kt) (kt_name kt) (filter keep_stage items) st)"
  using assms(3) by (simp add: receive_audit_def audit_path_routes [OF assms(1,2)] handle_audit_def Let_def)

section \<open>Properties\<close>

text \<open>
  C5 Accounting from the wire to the counters: a batch of audit events that a decoy's API server
  posts to the URL its configuration was rendered with is answered 200 and attributed to that
  decoy alone. Its completed events are added to its \<^verbatim>\<open>honeypod_audit_events_total\<close>, the notable
  ones to \<^verbatim>\<open>honeypod_attacker_requests_total\<close> and to what the tracker owes its status; no other
  decoy's numbers change, and metric and tracker move in step.
\<close>

theorem audit_accounting:
  assumes "path_segment (kt_ns kt)" and "path_segment (kt_name kt)" and "dec_eventList body = Some items"
    and "receive_audit fl me (audit_path kt url) body st = (code, st')"
  shows "code = 200 \<and>
    outstanding (ms_counters st') k = outstanding (ms_counters st) k
      + (if k = (kt_ns kt, kt_name kt) then of_nat (length (filter notable (filter keep_stage items))) else 0) \<and>
    counted (ms_ops st') AttackerRequests k = counted (ms_ops st) AttackerRequests k
      + (if k = (kt_ns kt, kt_name kt) then int (length (filter notable (filter keep_stage items))) else 0) \<and>
    counted (ms_ops st') AuditEvents k = counted (ms_ops st) AuditEvents k
      + (if k = (kt_ns kt, kt_name kt) then int (length (filter keep_stage items)) else 0)"
proof (cases "filter keep_stage items = []")
  case True
  with assms(4) show ?thesis by (simp add: receive_decoded [OF assms(1-3)])
next
  case False
  with assms(4) show ?thesis by (auto simp: receive_decoded [OF assms(1-3)] on_events_counts)
qed

text \<open>A batch of three: an attacker's exec, the same request when it was received, a lease renewal of the shim.\<close>

definition ex_attack :: Event where
  "ex_attack = sample_event\<lparr>ev_username := decoyUsername,
     ev_objectRef := Some \<lparr>ref_resource = ''pods'', ref_namespace = ''default'', ref_name = ''web'', ref_subresource = ''exec''\<rparr>\<rparr>"

definition ex_renewal :: Event where
  "ex_renewal = sample_event\<lparr>ev_username := ''system:node:worker-1'',
     ev_objectRef := Some \<lparr>ref_resource = ''leases'', ref_namespace = ''kube-node-lease'', ref_name = ''a'', ref_subresource = ''''\<rparr>\<rparr>"

definition ex_batch :: json where
  "ex_batch = JObj [(''items'', JArr [JObj (enc_Event ex_attack), JObj (enc_Event (ex_attack\<lparr>ev_stage := ''RequestReceived''\<rparr>)),
     JObj (enc_Event ex_renewal)])]"

definition ex_flags :: manager_flags where
  "ex_flags = \<lparr>fl_managerURL = '''', fl_dnsNames = ''honeypod-webhook.honeypod.svc'', fl_configName = ''honeypod-pod-join'',
     fl_logAuditEvents = True, fl_logAllAuditEvents = False, fl_auditLogFormat = ''text''\<rparr>"

definition ex_manager :: "(string \<times> json) list manager_env" where
  "ex_manager = \<lparr>me_Marshal = (\<lambda>j. None), me_notify = ex_dispatcher [] [], me_now = (\<lambda>w. (7, w))\<rparr>"

definition ex_manager_state :: "(string \<times> json) list manager_state" where
  "ex_manager_state = \<lparr>ms_counters = [], ms_ops = [], ms_log = [], ms_world = []\<rparr>"

lemma outstanding_Nil: "outstanding [] k = 0"
  by (simp add: outstanding_def gm_get_def)

lemma ex_batch_decodes: "dec_eventList (Some ex_batch) = Some [ex_attack, ex_attack\<lparr>ev_stage := ''RequestReceived''\<rparr>, ex_renewal]"
proof -
  have "dec_Event (enc_Event ev) = Some ev" if "ev_code ev = 200" for ev
    using that by (intro jsonLine_event_roundtrip) simp_all
  then show ?thesis
    by (simp add: ex_batch_def dec_eventList_def field_def member_value_def same_name_def dec_structs_def
        ex_attack_def ex_renewal_def sample_event_def)
qed

theorem audit_accounting_witness:
  "outstanding (ms_counters (snd (receive_audit ex_flags ex_manager (audit_path (one_decoy None) '''') (Some ex_batch) ex_manager_state)))
     (''ns'', ''d'') = 1"
proof -
  obtain code st' where r: "receive_audit ex_flags ex_manager (audit_path (one_decoy None) '''') (Some ex_batch) ex_manager_state = (code, st')"
    by fastforce
  show ?thesis
    using audit_accounting [OF _ _ ex_batch_decodes r, of "(''ns'', ''d'')"] r
    by (simp add: one_decoy_def path_segment_def notable_iff keep_stage_def ex_attack_def ex_renewal_def sample_event_def
        HasPrefix_def outstanding_Nil ex_manager_state_def)
qed

definition attack :: "Event \<Rightarrow> bool" where
  "attack ev \<longleftrightarrow> ev_username ev = decoyUsername
     \<and> (case ev_objectRef ev of None \<Rightarrow> False | Some r \<Rightarrow> ref_subresource r \<noteq> ''status'' \<and> ref_resource r \<noteq> ''leases'')"


definition ex_manager_decoy :: Decoy where
  "ex_manager_decoy = (one_decoy None)\<lparr>kt_spec := (kt_spec (one_decoy None))\<lparr>sp_fakeNodes := []\<rparr>\<rparr>"


end
