(* ===== verification/Go_Float.thy ===== *)
theory Go_Float
  imports Go_Time "HOL-Library.Log_Nat"
begin

text \<open>
  Go's float64 as the rational numbers it represents: every operation is the exact one followed by
  rounding to 53 significant bits, ties to even. The magnitudes that occur are far from overflow and
  from the subnormal range, which are left out.
\<close>

section \<open>Rounding\<close>

definition round_even :: "rat \<Rightarrow> int" where
  "round_even x =
     (let f = floor x; d = x - of_int f in
      if d < 1 / 2 then f else if d > 1 / 2 then f + 1 else if even f then f else f + 1)"

definition pow2 :: "int \<Rightarrow> rat" where
  "pow2 e = (if e \<ge> 0 then 2 ^ nat e else 1 / 2 ^ nat (- e))"

text \<open>The exponent of a positive number: \<open>pow2 e \<le> x < pow2 (e + 1)\<close>.\<close>

definition exponent :: "rat \<Rightarrow> int" where
  "exponent x =
     (case quotient_of x of
        (p, q) \<Rightarrow>
          (let e = int (floorlog 2 (nat p)) - int (floorlog 2 (nat q)) in if pow2 e \<le> x then e else e - 1))"

definition f64 :: "rat \<Rightarrow> rat" where
  "f64 x = (if x = 0 then 0 else let u = pow2 (exponent \<bar>x\<bar> - 52) in of_int (round_even (x / u)) * u)"

text \<open>The conversion \<^verbatim>\<open>int64(x)\<close> cuts off the fraction.\<close>

definition trunc :: "rat \<Rightarrow> int" where
  "trunc x = (if x \<ge> 0 then floor x else ceiling x)"

text \<open>The verb \<^verbatim>\<open>%.6f\<close>.\<close>

definition fixed6 :: "rat \<Rightarrow> string" where
  "fixed6 x =
     (let n = round_even (\<bar>x\<bar> * 1000000) in
      (if x < 0 then ''-'' else '''') @ Itoa (n div 1000000) @ ''.'' @ pad_digits 6 (n mod 1000000))"

section \<open>Durations\<close>

text \<open>\<^verbatim>\<open>t.Sub(u)\<close> is an int64 and stays at its bounds when the difference is too large.\<close>

definition time_sub :: "int \<Rightarrow> int \<Rightarrow> int" where
  "time_sub t u = max (- (2 ^ 63)) (min (2 ^ 63 - 1) (t - u))"

definition Seconds :: "int \<Rightarrow> rat" where
  "Seconds d =
     (let sec = sgn d * (\<bar>d\<bar> div second); nsec = sgn d * (\<bar>d\<bar> mod second) in
      f64 (f64 (of_int sec) + f64 (f64 (of_int nsec) / of_int second)))"

section \<open>Facts\<close>

lemma pow2_pos [simp]: "0 < pow2 e"
  by (simp add: pow2_def)

lemma pow2_power_int: "pow2 e = 2 powi e"
  by (simp add: pow2_def power_int_def divide_simps)

lemma pow2_add: "pow2 (a + b) = pow2 a * pow2 b"
  by (simp add: pow2_power_int power_int_add)

lemma pow2_mono: "a \<le> b \<Longrightarrow> pow2 a \<le> pow2 b"
  by (simp add: pow2_power_int power_int_increasing)

lemma pow2_nat: "pow2 (int n) = 2 ^ n"
  by (simp add: pow2_def)

lemma exponent_bounds:
  assumes "0 < x"
  shows "pow2 (exponent x) \<le> x" and "x < pow2 (exponent x + 1)"
proof -
  obtain p q where pq: "quotient_of x = (p, q)" by fastforce
  then have q: "0 < q" and x: "x = of_int p / of_int q"
    using quotient_of_denom_pos quotient_of_div by auto
  with assms have p: "0 < p" by (simp add: zero_less_divide_iff)
  let ?a = "floorlog 2 (nat p)" and ?b = "floorlog 2 (nat q)"
  have a: "2 ^ (?a - 1) \<le> nat p" "nat p < 2 ^ ?a" and b: "2 ^ (?b - 1) \<le> nat q" "nat q < 2 ^ ?b"
    using floorlog_bounds [of "nat p" 2] floorlog_bounds [of "nat q" 2] p q by auto
  have pos: "0 < ?a" "0 < ?b" using p q by (simp_all add: floorlog_def)
  have a': "2 ^ (?a - 1) \<le> (of_int p :: rat)" "(of_int p :: rat) < 2 ^ ?a"
    and b': "2 ^ (?b - 1) \<le> (of_int q :: rat)" "(of_int q :: rat) < 2 ^ ?b"
    using a b p q by (simp_all add: le_nat_iff nat_less_iff flip: of_int_le_iff of_int_less_iff)
  have lower: "pow2 (int ?a - int ?b - 1) \<le> x"
  proof -
    have "pow2 (int ?a - int ?b - 1) * of_int q \<le> pow2 (int ?a - int ?b - 1) * 2 ^ ?b"
      using b' by (intro mult_left_mono) (simp_all add: less_imp_le)
    also have "\<dots> = pow2 (int (?a - 1))" using pos by (simp flip: pow2_nat pow2_add)
    also have "\<dots> \<le> of_int p" using a'(1) by (simp add: pow2_nat)
    finally show ?thesis using q x by (simp add: pos_le_divide_eq)
  qed
  have upper: "x < pow2 (int ?a - int ?b + 1)"
  proof -
    have "of_int p < pow2 (int ?a)" using a'(2) by (simp add: pow2_nat)
    also have "\<dots> = pow2 (int ?a - int ?b + 1) * 2 ^ (?b - 1)" using pos by (simp flip: pow2_nat pow2_add)
    also have "\<dots> \<le> pow2 (int ?a - int ?b + 1) * of_int q" using b'(1) by (intro mult_left_mono) (simp_all add: less_imp_le)
    finally show ?thesis using q x by (simp add: pos_divide_less_eq)
  qed
  show "pow2 (exponent x) \<le> x" using lower pq by (simp add: exponent_def Let_def)
  show "x < pow2 (exponent x + 1)" using upper pq by (auto simp: exponent_def Let_def not_le)
qed

lemma round_even_bounds: "floor x \<le> round_even x" "round_even x \<le> floor x + 1"
  by (simp_all add: round_even_def Let_def)

lemma round_even_of_int [simp]: "round_even (of_int n) = n"
  by (simp add: round_even_def)

lemma round_even_mono:
  assumes "x \<le> y"
  shows "round_even x \<le> round_even y"
proof (cases "floor x = floor y")
  case True
  then show ?thesis using assms by (auto simp: round_even_def Let_def)
next
  case False
  with assms floor_mono have "floor x + 1 \<le> floor y" by (metis order_le_less add1_zle_eq)
  then show ?thesis using round_even_bounds(2) [of x] round_even_bounds(1) [of y] by linarith
qed

lemma round_even_minus: "round_even (- x) = - round_even x"
proof (cases "x = of_int (floor x)")
  case True
  then have "- x = of_int (- floor x)" by simp
  then show ?thesis using True round_even_of_int [of "floor x"] round_even_of_int [of "- floor x"] by metis
next
  case False
  then have f: "floor (- x) = - floor x - 1"
    by (intro floor_unique) (auto simp: algebra_simps less_le floor_le_iff intro: less_imp_le, linarith+)
  show ?thesis unfolding round_even_def Let_def f using False by (auto simp: algebra_simps)
qed

lemma f64_minus: "f64 (- x) = - f64 x"
  unfolding f64_def Let_def minus_divide_left [symmetric] round_even_minus by simp

lemma f64_0 [simp]: "f64 0 = 0"
  by (simp add: f64_def)

text \<open>A positive number is rounded within its binade.\<close>

lemma f64_binade:
  assumes "0 < x"
  shows "pow2 (exponent x) \<le> f64 x" and "f64 x \<le> pow2 (exponent x + 1)"
proof -
  let ?u = "pow2 (exponent x - 52)"
  have "pow2 52 = of_int (2 ^ 52)" "pow2 53 = of_int (2 ^ 53)" by (simp_all add: pow2_def)
  moreover have "52 + (exponent x - 52) = exponent x" "53 + (exponent x - 52) = exponent x + 1" by simp_all
  ultimately have e: "pow2 (exponent x) = of_int (2 ^ 52) * ?u" "pow2 (exponent x + 1) = of_int (2 ^ 53) * ?u"
    using pow2_add [of 52 "exponent x - 52"] pow2_add [of 53 "exponent x - 52"] by metis+
  have "of_int (2 ^ 52) \<le> x / ?u" "x / ?u \<le> of_int (2 ^ 53)"
    using exponent_bounds [OF assms] e by (simp_all add: pos_le_divide_eq pos_divide_le_eq)
  then have "2 ^ 52 \<le> round_even (x / ?u)" "round_even (x / ?u) \<le> 2 ^ 53"
    using round_even_mono round_even_of_int by metis+
  then have "of_int (2 ^ 52) \<le> (of_int (round_even (x / ?u)) :: rat)" "(of_int (round_even (x / ?u)) :: rat) \<le> of_int (2 ^ 53)"
    by (simp_all only: of_int_le_iff)
  moreover have "f64 x = of_int (round_even (x / ?u)) * ?u" using assms by (simp add: f64_def Let_def)
  ultimately show "pow2 (exponent x) \<le> f64 x" "f64 x \<le> pow2 (exponent x + 1)"
    unfolding e using pow2_pos [of "exponent x - 52"] by (simp_all only: mult_right_mono less_imp_le)
qed

lemma exponent_mono:
  assumes "0 < x" and "x \<le> y"
  shows "exponent x \<le> exponent y"
proof (rule ccontr)
  assume "\<not> exponent x \<le> exponent y"
  then have "pow2 (exponent y + 1) \<le> pow2 (exponent x)" by (intro pow2_mono) simp
  also have "\<dots> \<le> x" by (rule exponent_bounds(1) [OF assms(1)])
  also have "\<dots> < pow2 (exponent y + 1)" using exponent_bounds(2) [of y] assms by simp
  finally show False by simp
qed

lemma f64_mono_pos:
  assumes "0 < x" and "x \<le> y"
  shows "f64 x \<le> f64 y"
proof (cases "exponent x = exponent y")
  case True
  let ?u = "pow2 (exponent y - 52)"
  have "x / ?u \<le> y / ?u" using assms(2) by (simp add: divide_right_mono less_imp_le)
  then have "round_even (x / ?u) \<le> round_even (y / ?u)" by (rule round_even_mono)
  then show ?thesis using assms True by (simp add: f64_def Let_def mult_right_mono less_imp_le)
next
  case False
  with exponent_mono [OF assms] have "exponent x + 1 \<le> exponent y" by simp
  then have "pow2 (exponent x + 1) \<le> pow2 (exponent y)" by (rule pow2_mono)
  then show ?thesis using f64_binade(2) [OF assms(1)] f64_binade(1) [of y] assms by simp
qed

lemma f64_pos: "0 < x \<Longrightarrow> 0 < f64 x"
  using f64_binade(1) [of x] pow2_pos by (metis order_less_le_trans)

lemma f64_mono:
  assumes "x \<le> y"
  shows "f64 x \<le> f64 y"
proof -
  consider "0 < x" | "y < 0" | "x \<le> 0" "0 \<le> y" by linarith
  then show ?thesis
  proof cases
    case 1
    then show ?thesis using assms by (rule f64_mono_pos)
  next
    case 2
    then have "f64 (- y) \<le> f64 (- x)" using assms by (intro f64_mono_pos) simp_all
    then show ?thesis by (simp add: f64_minus)
  next
    case 3
    have "f64 x \<le> 0" using 3(1) f64_pos [of "- x"] by (cases "x = 0") (auto simp: f64_minus)
    moreover have "0 \<le> f64 y" using 3(2) f64_pos [of y] by (cases "y = 0") auto
    ultimately show ?thesis by simp
  qed
qed

text \<open>
  What the callers rely on: rounding is monotone and keeps zero. A running sum that rounds after every
  addition is then monotone in its terms, however many roundings there are.
\<close>

locale monotone_rounding =
  fixes rnd :: "'n::linordered_ab_group_add \<Rightarrow> 'n"
  assumes rnd_mono: "x \<le> y \<Longrightarrow> rnd x \<le> rnd y"
    and rnd_zero: "rnd 0 = 0"
begin

lemma rnd_nonneg: "0 \<le> x \<Longrightarrow> 0 \<le> rnd x"
  using rnd_mono [of 0 x] by (simp add: rnd_zero)

lemma fold_mono:
  assumes "\<And>x. x \<in> set xs \<Longrightarrow> f x \<le> g x" and "a \<le> b"
  shows "fold (\<lambda>x acc. rnd (acc + f x)) xs a \<le> fold (\<lambda>x acc. rnd (acc + g x)) xs b"
  using assms
proof (induction xs arbitrary: a b)
  case (Cons x xs)
  have "rnd (a + f x) \<le> rnd (b + g x)" using Cons.prems by (intro rnd_mono add_mono) simp_all
  with Cons show ?case by simp
qed simp

end

interpretation ieee: monotone_rounding f64
  by unfold_locales (simp_all add: f64_mono)

lemma f64_pow2: "f64 (pow2 e) = pow2 e"
proof -
  have "exponent (pow2 e) = e"
  proof (rule antisym)
    show "exponent (pow2 e) \<le> e"
    proof (rule ccontr)
      assume "\<not> exponent (pow2 e) \<le> e"
      then have "pow2 (e + 1) \<le> pow2 (exponent (pow2 e))" by (intro pow2_mono) simp
      also have "\<dots> \<le> pow2 e" by (rule exponent_bounds(1)) simp
      finally show False by (simp add: pow2_add pow2_def [of 1])
    qed
    show "e \<le> exponent (pow2 e)"
    proof (rule ccontr)
      assume "\<not> e \<le> exponent (pow2 e)"
      then have "pow2 (exponent (pow2 e) + 1) \<le> pow2 e" by (intro pow2_mono) simp
      moreover have "pow2 e < pow2 (exponent (pow2 e) + 1)" by (rule exponent_bounds(2)) simp
      ultimately show False by simp
    qed
  qed
  moreover have "pow2 e / pow2 (e - 52) = of_int (2 ^ 52)"
    using pow2_add [of 52 "e - 52"] pow2_pos [of "e - 52"] by (simp add: pow2_def [of 52] divide_eq_eq less_imp_neq [symmetric])
  then have "round_even (pow2 e / pow2 (e - 52)) = 2 ^ 52" using round_even_of_int by metis
  moreover have "of_int (2 ^ 52) * pow2 (e - 52) = pow2 e"
    using pow2_add [of 52 "e - 52"] by (simp add: pow2_def [of 52])
  moreover have "\<bar>pow2 e\<bar> = pow2 e" "pow2 e \<noteq> 0" by (metis pow2_pos abs_of_pos, metis pow2_pos less_irrefl)
  ultimately show ?thesis by (simp add: f64_def Let_def)
qed

lemma f64_le_pow2: "x \<le> pow2 e \<Longrightarrow> f64 x \<le> pow2 e"
  using f64_mono [of x "pow2 e"] by (simp add: f64_pow2)

lemmas f64_nonneg = ieee.rnd_nonneg

text \<open>The relative error of one rounding.\<close>

lemma round_even_error: "\<bar>of_int (round_even x) - x\<bar> \<le> 1 / 2"
proof -
  have "of_int (floor x) \<le> x" "x < of_int (floor x) + 1" by linarith+
  then show ?thesis by (auto simp: round_even_def Let_def abs_le_iff)
qed

lemma f64_error:
  assumes "0 \<le> x"
  shows "x * (1 - 1 / 2 ^ 53) \<le> f64 x" and "f64 x \<le> x * (1 + 1 / 2 ^ 53)"
proof -
  have "\<bar>f64 x - x\<bar> \<le> x / 2 ^ 53"
  proof (cases "x = 0")
    case False
    with assms have pos: "0 < x" by simp
    let ?u = "pow2 (exponent x - 52)"
    have "f64 x - x = (of_int (round_even (x / ?u)) - x / ?u) * ?u"
      using pos by (simp add: f64_def Let_def left_diff_distrib less_imp_neq [OF pow2_pos, symmetric])
    then have "\<bar>f64 x - x\<bar> = \<bar>of_int (round_even (x / ?u)) - x / ?u\<bar> * ?u"
      by (simp add: abs_mult abs_of_pos)
    also have "\<dots> \<le> 1 / 2 * ?u" using round_even_error by (intro mult_right_mono) (simp_all add: less_imp_le)
    also have "\<dots> = pow2 (exponent x) / 2 ^ 53"
      using pow2_add [of 52 "exponent x - 52"] by (simp add: pow2_def [of 52])
    also have "\<dots> \<le> x / 2 ^ 53" using exponent_bounds(1) [OF pos] by (simp add: divide_right_mono)
    finally show ?thesis .
  qed simp
  then have "x - x / 2 ^ 53 \<le> f64 x" "f64 x \<le> x + x / 2 ^ 53" by linarith+
  then show "x * (1 - 1 / 2 ^ 53) \<le> f64 x" "f64 x \<le> x * (1 + 1 / 2 ^ 53)"
    by (simp_all add: right_diff_distrib distrib_left)
qed

lemma f64_of_nat:
  assumes "0 < n" and "n < 2 ^ 53"
  shows "f64 (of_int n) = of_int n"
proof -
  let ?e = "exponent (of_int n)"
  have n: "0 < (of_int n :: rat)" using assms(1) by simp
  have "pow2 ?e < pow2 53"
  proof -
    have "(of_int n :: rat) < of_int (2 ^ 53)" using assms(2) by (simp only: of_int_less_iff)
    moreover have "pow2 53 = of_int (2 ^ 53)" by (simp add: pow2_def)
    ultimately show ?thesis using exponent_bounds(1) [OF n] by simp
  qed
  then have e: "?e - 52 \<le> 0" using pow2_mono [of 53 ?e] by linarith
  define k where "k = nat (52 - ?e)"
  have u: "pow2 (?e - 52) = 1 / 2 ^ k" using e by (auto simp: pow2_def k_def)
  have "of_int n / pow2 (?e - 52) = of_int (n * 2 ^ k)" unfolding u by simp
  then have "round_even (of_int n / pow2 (?e - 52)) = n * 2 ^ k" using round_even_of_int by metis
  then show ?thesis using assms(1) u by (simp add: f64_def Let_def)
qed

text \<open>The seconds of a longer duration are not fewer.\<close>

lemma Seconds_minus: "Seconds (- d) = - Seconds d"
proof -
  have f: "f64 (- x / y) = - f64 (x / y)" "f64 (- x - y) = - f64 (x + y)" for x y
    using f64_minus [of "x / y"] f64_minus [of "x + y"] by simp_all
  show ?thesis by (simp add: Seconds_def Let_def sgn_minus f64_minus f)
qed

lemma Seconds_nonneg_eq:
  assumes "0 \<le> d" and "d < 2 ^ 64"
  shows "Seconds d = f64 (of_int (d div second) + f64 (f64 (of_int (d mod second)) / of_int second))"
proof -
  have "f64 (of_int (d div second)) = of_int (d div second)"
  proof (cases "d div second = 0")
    case False
    with assms show ?thesis by (intro f64_of_nat) (auto simp: second_def pos_imp_zdiv_pos_iff)
  qed simp
  then show ?thesis using assms by (simp add: Seconds_def Let_def sgn_if)
qed

lemma fraction_bounds:
  "0 \<le> f64 (f64 (of_int (d mod second)) / of_int second)" "f64 (f64 (of_int (d mod second)) / of_int second) \<le> 1"
proof -
  have "0 \<le> d mod second" "d mod second \<le> second" by (simp_all add: second_def)
  then have "0 \<le> f64 (of_int (d mod second))" "f64 (of_int (d mod second)) \<le> f64 (of_int second)"
    by (auto intro: f64_nonneg f64_mono)
  moreover have "f64 (of_int second) = of_int second" by (rule f64_of_nat) (simp_all add: second_def)
  ultimately show "0 \<le> f64 (f64 (of_int (d mod second)) / of_int second)" "f64 (f64 (of_int (d mod second)) / of_int second) \<le> 1"
    using f64_le_pow2 [of "f64 (of_int (d mod second)) / of_int second" 0] by (auto intro!: f64_nonneg simp: second_def pow2_def)
qed

lemma Seconds_le:
  assumes "0 \<le> d" and "d \<le> 2 ^ 63"
  shows "Seconds d \<le> pow2 34"
proof -
  have "d div second \<le> 2 ^ 63 div second" using assms by (simp add: second_def zdiv_mono1)
  then have "d div second + 1 \<le> 2 ^ 34" by (simp add: second_def)
  then have "of_int (d div second + 1) \<le> (of_int (2 ^ 34) :: rat)" by (simp only: of_int_le_iff)
  then have "of_int (d div second) + f64 (f64 (of_int (d mod second)) / of_int second) \<le> pow2 34"
    using fraction_bounds(2) [of d] by (simp add: pow2_def)
  then have "f64 (of_int (d div second) + f64 (f64 (of_int (d mod second)) / of_int second)) \<le> pow2 34" by (rule f64_le_pow2)
  moreover have "d < 2 ^ 64" using assms(2) by simp
  ultimately show ?thesis using Seconds_nonneg_eq [OF assms(1)] by simp
qed

lemma Seconds_mono_nonneg:
  assumes "0 \<le> d" and "d \<le> d'" and "d' < 2 ^ 64"
  shows "Seconds d \<le> Seconds d'"
proof -
  let ?f = "\<lambda>d. f64 (f64 (of_int (d mod second)) / of_int second)"
  note f = fraction_bounds
  have "d div second \<le> d' div second" using assms by (simp add: second_def zdiv_mono1)
  then consider "d div second = d' div second" | "d div second + 1 \<le> d' div second" by linarith
  then have "of_int (d div second) + ?f d \<le> (of_int (d' div second) + ?f d' :: rat)"
  proof cases
    case 1
    then have "d mod second \<le> d' mod second" using assms(2) by (simp add: second_def minus_div_mult_eq_mod [symmetric])
    then have "?f d \<le> ?f d'" by (intro f64_mono divide_right_mono) (simp_all add: second_def f64_mono)
    with 1 show ?thesis by simp
  next
    case 2
    then have "of_int (d div second) + 1 \<le> (of_int (d' div second) :: rat)" by (metis of_int_1 of_int_add of_int_le_iff)
    then show ?thesis using f(2) [of d] f(1) [of d'] by linarith
  qed
  then show ?thesis using assms by (simp add: Seconds_nonneg_eq f64_mono)
qed

lemma Seconds_nonneg: "0 \<le> d \<Longrightarrow> d < 2 ^ 64 \<Longrightarrow> 0 \<le> Seconds d"
  using Seconds_mono_nonneg [of 0 d] by (simp add: Seconds_def)

lemma Seconds_mono:
  assumes "d \<le> d'" and "- (2 ^ 63) \<le> d" and "d' < 2 ^ 63"
  shows "Seconds d \<le> Seconds d'"
proof -
  consider "0 \<le> d" | "d' \<le> 0" | "d < 0" "0 < d'" by linarith
  then show ?thesis
  proof cases
    case 1
    then show ?thesis using assms by (intro Seconds_mono_nonneg) simp_all
  next
    case 2
    then have "Seconds (- d') \<le> Seconds (- d)" using assms by (intro Seconds_mono_nonneg) simp_all
    then show ?thesis by (simp add: Seconds_minus)
  next
    case 3
    then show ?thesis using Seconds_nonneg [of d'] Seconds_nonneg [of "- d"] assms by (simp add: Seconds_minus)
  qed
qed

lemma time_sub_range: "- (2 ^ 63) \<le> time_sub t u" "time_sub t u < 2 ^ 63"
  by (simp_all add: time_sub_def)

lemma time_sub_mono: "t \<le> t' \<Longrightarrow> time_sub t u \<le> time_sub t' u"
  by (simp add: time_sub_def)

end
