(* ===== verification/Kubelet_Stats.thy ===== *)
theory Kubelet_Stats
  imports Go_Float Shim_Exec
begin

text \<open>
  \<^verbatim>\<open>src/internal/kubeletshim/stats.go\<close> and the server of \<^verbatim>\<open>kubeletserver.go\<close>: usage numbers made up
  from hashes, served in the two formats of a kubelet, and the routes of the kubelet endpoint.
\<close>

section \<open>Usage\<close>

definition containerCPUCores :: "string \<Rightarrow> rat" where
  "containerCPUCores key = f64 (f64 (5 / 1000) + f64 (of_nat (unat (hash32 key mod 20)) / 1000))"

definition containerMemBytes :: "string \<Rightarrow> int64" where
  "containerMemBytes key = (16 + of_nat (unat (hash32 key mod 240))) * 1024 * 1024"

definition podStartOrNow :: "int \<Rightarrow> Pod \<Rightarrow> int" where
  "podStartOrNow now p =
     (case pst_startTime (pod_status p) of
        Some t \<Rightarrow> if t \<noteq> 0 then t
                  else if m_creationTimestamp (pod_meta p) \<noteq> 0 then m_creationTimestamp (pod_meta p) else now
      | None \<Rightarrow> if m_creationTimestamp (pod_meta p) \<noteq> 0 then m_creationTimestamp (pod_meta p) else now)"

definition listNodePods :: "'w inner_api \<Rightarrow> ('w, Pod list) call" where
  "listNodePods api =
     and_then (tc_list (in_pods api)) (\<lambda>allPods. ok (filter (\<lambda>p. ps_nodeName (pod_spec p) \<noteq> '''') allPods))"

definition firstNodeName :: "Shim \<Rightarrow> string" where
  "firstNodeName sh = (case sd_fakeNodes (currentSeed sh) of [] \<Rightarrow> '''' | n # _ \<Rightarrow> fn_name n)"

text \<open>A container of a pod with the key its numbers are made from.\<close>

definition usage_key :: "Pod \<Rightarrow> Container \<Rightarrow> string" where
  "usage_key p c = pod_ns p @ ''/'' @ pod_name p @ ''/'' @ c_name c"

definition cpuSeconds :: "int \<Rightarrow> Pod \<Rightarrow> Container \<Rightarrow> rat" where
  "cpuSeconds now p c = f64 (Seconds (time_sub now (podStartOrNow now p)) * containerCPUCores (usage_key p c))"

definition pod_containers_of :: "Pod list \<Rightarrow> (Pod \<times> Container) list" where
  "pod_containers_of pods = concat (map (\<lambda>p. map (Pair p) (ps_containers (pod_spec p))) pods)"

text \<open>The sums over all containers, and the node's own share.\<close>

definition nodeCPU :: "int \<Rightarrow> Pod list \<Rightarrow> rat" where
  "nodeCPU now pods = f64 (fold (\<lambda>(p, c) acc. f64 (acc + cpuSeconds now p c)) (pod_containers_of pods) 0 + f64 (15 / 100))"

definition nodeMem :: "Pod list \<Rightarrow> int64" where
  "nodeMem pods = fold (\<lambda>(p, c) acc. acc + containerMemBytes (usage_key p c)) (pod_containers_of pods) 0 + 1500 * 1024 * 1024"

definition UnixMilli :: "int \<Rightarrow> int" where
  "UnixMilli t = (t - unix_epoch) div 1000000"

section \<open>The metrics endpoint\<close>

definition metric_labels :: "Pod \<Rightarrow> Container \<Rightarrow> string" where
  "metric_labels p c =
     ''{container='' @ Quote (c_name c) @ '',namespace='' @ Quote (pod_ns p) @ '',pod='' @ Quote (pod_name p) @ ''} ''"

definition resource_metrics :: "int \<Rightarrow> Pod list \<Rightarrow> string" where
  "resource_metrics now pods =
     (let ts = '' '' @ Itoa (UnixMilli now) @ [newline]; cs = pod_containers_of pods in
      ''# TYPE container_cpu_usage_seconds_total counter'' @ [newline]
      @ concat (map (\<lambda>(p, c). ''container_cpu_usage_seconds_total'' @ metric_labels p c @ fixed6 (cpuSeconds now p c) @ ts) cs)
      @ ''# TYPE container_memory_working_set_bytes gauge'' @ [newline]
      @ concat (map (\<lambda>(p, c). ''container_memory_working_set_bytes'' @ metric_labels p c
                   @ Itoa (sint (containerMemBytes (usage_key p c))) @ ts) cs)
      @ ''# TYPE node_cpu_usage_seconds_total counter'' @ [newline]
      @ ''node_cpu_usage_seconds_total '' @ fixed6 (nodeCPU now pods) @ ts
      @ ''# TYPE node_memory_working_set_bytes gauge'' @ [newline]
      @ ''node_memory_working_set_bytes '' @ Itoa (sint (nodeMem pods)) @ ts)"

definition handleResourceMetrics :: "'w inner_api \<Rightarrow> 'w \<Rightarrow> Response \<times> 'w" where
  "handleResourceMetrics api w =
     (case listNodePods api w of
        (Inl _, w') \<Rightarrow> (WriteHeader 500 fresh_response, w')
      | (Inr pods, w') \<Rightarrow>
          (write_body (BodyText (resource_metrics (in_now api w') pods))
             (set_header ''Content-Type'' ''text/plain; version=0.0.4'' fresh_response), w'))"

section \<open>The summary endpoint\<close>

definition nanoCores :: "string \<Rightarrow> int" where
  "nanoCores key = trunc (f64 (containerCPUCores key * 1000000000))"

definition coreNanoSeconds :: "int \<Rightarrow> Pod \<Rightarrow> Container \<Rightarrow> int" where
  "coreNanoSeconds now p c = trunc (f64 (cpuSeconds now p c * 1000000000))"

definition nodeCPUNanoCores :: "Pod list \<Rightarrow> int64" where
  "nodeCPUNanoCores pods =
     fold (\<lambda>(p, c) acc. acc + word_of_int (nanoCores (usage_key p c))) (pod_containers_of pods) 0 + 150000000"

text \<open>Go's encoder sorts the keys of a map.\<close>

definition container_stats :: "int \<Rightarrow> Pod \<Rightarrow> Container \<Rightarrow> json" where
  "container_stats now p c =
     JObj [(''cpu'', JObj [(''time'', JStr (rfc3339 now)), (''usageCoreNanoSeconds'', JInt (coreNanoSeconds now p c)),
              (''usageNanoCores'', JInt (nanoCores (usage_key p c)))]),
           (''memory'', JObj [(''time'', JStr (rfc3339 now)), (''workingSetBytes'', JInt (sint (containerMemBytes (usage_key p c))))]),
           (''name'', JStr (c_name c))]"

definition pod_stats :: "int \<Rightarrow> Pod \<Rightarrow> json" where
  "pod_stats now p =
     JObj [(''containers'', JArr (map (container_stats now p) (ps_containers (pod_spec p)))),
           (''podRef'', JObj [(''name'', JStr (pod_name p)), (''namespace'', JStr (pod_ns p)), (''uid'', JStr (m_uid (pod_meta p)))]),
           (''startTime'', JStr (rfc3339 (podStartOrNow now p)))]"

definition stats_summary :: "Shim \<Rightarrow> int \<Rightarrow> Pod list \<Rightarrow> json" where
  "stats_summary sh now pods =
     JObj [(''node'', JObj
             [(''cpu'', JObj [(''time'', JStr (rfc3339 now)), (''usageNanoCores'', JInt (sint (nodeCPUNanoCores pods)))]),
              (''memory'', JObj [(''time'', JStr (rfc3339 now)), (''workingSetBytes'', JInt (sint (nodeMem pods)))]),
              (''nodeName'', JStr (firstNodeName sh))]),
           (''pods'', JArr (map (pod_stats now) pods))]"

definition handleStatsSummary :: "Shim \<Rightarrow> 'w inner_api \<Rightarrow> 'w \<Rightarrow> Response \<times> 'w" where
  "handleStatsSummary sh api w =
     (case listNodePods api w of
        (Inl _, w') \<Rightarrow> (WriteHeader 500 fresh_response, w')
      | (Inr pods, w') \<Rightarrow>
          (write_body (BodyJson (stats_summary sh (in_now api w') pods))
             (set_header ''Content-Type'' ''application/json'' fresh_response), w'))"

definition handlePodsEndpoint :: "'w inner_api \<Rightarrow> 'w \<Rightarrow> Response \<times> 'w" where
  "handlePodsEndpoint api w =
     (case listNodePods api w of
        (Inl _, w') \<Rightarrow> (WriteHeader 500 fresh_response, w')
      | (Inr pods, w') \<Rightarrow>
          (write_body (BodyPods pods) (set_header ''Content-Type'' ''application/json'' fresh_response), w'))"

section \<open>The server\<close>

text \<open>
  The patterns registered with \<^verbatim>\<open>http.ServeMux\<close>: a wildcard stands for one non-empty segment of the
  path. GET patterns also take HEAD. The result is the handler with the methods registered for it.
\<close>

datatype endpoint =
    LogsOf string string string
  | ExecIn string string string
  | AttachTo string string string
  | PortForward
  | SummaryOf
  | MetricsOf
  | PodsOf
  | Healthz

definition get_post :: "string list" where
  "get_post = [''GET'', ''HEAD'', ''POST'']"

definition get_only :: "string list" where
  "get_only = [''GET'', ''HEAD'']"

definition endpoint_of :: "string list \<Rightarrow> (endpoint \<times> string list) option" where
  "endpoint_of segs =
     (if '''' \<in> set segs then None
      else case segs of
        [a] \<Rightarrow> if a = ''pods'' then Some (PodsOf, get_only) else if a = ''healthz'' then Some (Healthz, get_only) else None
      | [a, b] \<Rightarrow>
          if a = ''stats'' \<and> b = ''summary'' then Some (SummaryOf, get_post)
          else if a = ''metrics'' \<and> b = ''resource'' then Some (MetricsOf, get_only) else None
      | [a, ns, pod] \<Rightarrow> if a = ''portForward'' then Some (PortForward, get_post) else None
      | [a, ns, pod, c] \<Rightarrow>
          if a = ''containerLogs'' then Some (LogsOf ns pod c, get_only)
          else if a = ''exec'' then Some (ExecIn ns pod c, get_post)
          else if a = ''attach'' then Some (AttachTo ns pod c, get_post) else None
      | _ \<Rightarrow> None)"

definition route :: "string \<Rightarrow> string \<Rightarrow> nat + endpoint" where
  "route httpMethod path =
     (case path of
        c # rest \<Rightarrow>
          if c \<noteq> CHR ''/'' then Inl 404
          else (case endpoint_of (Split rest CHR ''/'') of
                  None \<Rightarrow> Inl 404
                | Some (e, httpMethods) \<Rightarrow> if httpMethod \<in> set httpMethods then Inr e else Inl 405)
      | [] \<Rightarrow> Inl 404)"

definition session_request :: "string \<Rightarrow> string \<Rightarrow> string \<Rightarrow> (string, string list) gomap \<Rightarrow> request" where
  "session_request ns pod c q = \<lparr>rq_ns = ns, rq_pod = pod, rq_container = c, rq_query = q\<rparr>"

definition no_session :: "Response \<times> 'w \<Rightarrow> (Response \<times> session option) \<times> 'w" where
  "no_session r = ((fst r, None), snd r)"

definition serve_kubelet ::
  "Shim \<Rightarrow> 'w exec_env \<Rightarrow> 'w inner_api \<Rightarrow> string \<Rightarrow> string \<Rightarrow> (string, string list) gomap \<Rightarrow> 'w \<Rightarrow> (Response \<times> session option) \<times> 'w" where
  "serve_kubelet sh xe api httpMethod path q w =
     (case route httpMethod path of
        Inl code \<Rightarrow> no_session (WriteHeader code fresh_response, w)
      | Inr (LogsOf ns pod c) \<Rightarrow> no_session (handleLogs sh xe (session_request ns pod c q) w)
      | Inr (ExecIn ns pod c) \<Rightarrow> handleExec sh xe (session_request ns pod c q) w
      | Inr (AttachTo ns pod c) \<Rightarrow> handleAttach sh xe (session_request ns pod c q) w
      | Inr PortForward \<Rightarrow> no_session (handlePortForward fresh_response, w)
      | Inr SummaryOf \<Rightarrow> no_session (handleStatsSummary sh api w)
      | Inr MetricsOf \<Rightarrow> no_session (handleResourceMetrics api w)
      | Inr PodsOf \<Rightarrow> no_session (handlePodsEndpoint api w)
      | Inr Healthz \<Rightarrow> no_session (WriteHeader 200 fresh_response, w))"

record 'c Server =
  sv_certificates :: "'c list"
  sv_minVersion :: nat

text \<open>\<open>LoadX509KeyPair\<close> reads the certificate and its key; TLS 1.2 is version 0x0303.\<close>

definition NewServer :: "(string \<Rightarrow> string \<Rightarrow> ('w, 'c) call) \<Rightarrow> string \<Rightarrow> string \<Rightarrow> ('w, 'c Server) call" where
  "NewServer LoadX509KeyPair certFile keyFile =
     and_then (LoadX509KeyPair certFile keyFile) (\<lambda>cert. ok \<lparr>sv_certificates = [cert], sv_minVersion = 0x0303\<rparr>)"

section \<open>Facts\<close>

lemma hash_mod: "unat (hash32 key mod 20) < 20" "unat (hash32 key mod 240) < 240"
  by (simp_all add: unat_mod)

text \<open>What the container is meant to use, in millicores, and the rounding on the way.\<close>

definition milliCores :: "string \<Rightarrow> nat" where
  "milliCores key = 5 + unat (hash32 key mod 20)"

lemma milliCores_range: "5 \<le> milliCores key" "milliCores key \<le> 24"
  using hash_mod(1) [of key] by (simp_all add: milliCores_def)

lemma containerCPUCores_error:
  "of_nat (milliCores key) / 1000 * (1 - 1 / 2 ^ 53) ^ 2 \<le> containerCPUCores key"
  "containerCPUCores key \<le> of_nat (milliCores key) / 1000 * (1 + 1 / 2 ^ 53) ^ 2"
proof -
  obtain j where j: "unat (hash32 key mod 20) = j" by blast
  let ?k = "of_nat j :: rat" and ?l = "1 - 1 / 2 ^ 53 :: rat" and ?h = "1 + 1 / 2 ^ 53 :: rat"
  let ?s = "f64 (5 / 1000) + f64 (?k / 1000)"
  have m: "of_nat (milliCores key) / 1000 = 5 / 1000 + ?k / 1000" by (simp add: milliCores_def j add_divide_distrib)
  have lo: "(5 / 1000 + ?k / 1000) * ?l \<le> ?s" and hi: "?s \<le> (5 / 1000 + ?k / 1000) * ?h"
    using f64_error [of "5 / 1000"] f64_error [of "?k / 1000"] by (simp_all only: distrib_right add_mono divide_nonneg_nonneg of_nat_0_le_iff zero_le_numeral)
  have "0 \<le> ?s" by (intro add_nonneg_nonneg f64_nonneg) simp_all
  then have s: "?s * ?l \<le> f64 ?s" "f64 ?s \<le> ?s * ?h" by (rule f64_error)+
  have "(5 / 1000 + ?k / 1000) * ?l * ?l \<le> ?s * ?l" "?s * ?h \<le> (5 / 1000 + ?k / 1000) * ?h * ?h"
    using lo hi by (intro mult_right_mono; simp)+
  with s show "of_nat (milliCores key) / 1000 * ?l ^ 2 \<le> containerCPUCores key"
      "containerCPUCores key \<le> of_nat (milliCores key) / 1000 * ?h ^ 2"
    unfolding m containerCPUCores_def j power2_eq_square mult.assoc [symmetric] by linarith+
qed

lemma containerCPUCores_range: "4 / 1000 \<le> containerCPUCores key" "containerCPUCores key \<le> 25 / 1000"
proof -
  have "(5 :: rat) \<le> of_nat (milliCores key)" "of_nat (milliCores key) \<le> (24 :: rat)" using milliCores_range [of key] by simp_all
  then have "5 / 1000 * (1 - 1 / 2 ^ 53) ^ 2 \<le> of_nat (milliCores key) / 1000 * (1 - 1 / 2 ^ 53 :: rat) ^ 2"
      "of_nat (milliCores key) / 1000 * (1 + 1 / 2 ^ 53) ^ 2 \<le> 24 / 1000 * (1 + 1 / 2 ^ 53 :: rat) ^ 2"
    by (intro mult_right_mono divide_right_mono; simp)+
  moreover have "4 / 1000 \<le> 5 / 1000 * (1 - 1 / 2 ^ 53 :: rat) ^ 2" "24 / 1000 * (1 + 1 / 2 ^ 53) ^ 2 \<le> (25 / 1000 :: rat)"
    by (simp_all add: power2_eq_square)
  ultimately show "4 / 1000 \<le> containerCPUCores key" "containerCPUCores key \<le> 25 / 1000"
    using containerCPUCores_error [of key] by linarith+
qed

lemma nanoCores_value: "nanoCores key \<in> {1000000 * int (milliCores key) - 1, 1000000 * int (milliCores key)}"
proof -
  let ?n = "1000000 * of_nat (milliCores key) :: rat" and ?c = "containerCPUCores key * 1000000000"
  have n: "(5000000 :: rat) \<le> ?n" "?n \<le> (24000000 :: rat)" using milliCores_range [of key] by simp_all
  have c: "?n * (1 - 1 / 2 ^ 53) ^ 2 \<le> ?c" "?c \<le> ?n * (1 + 1 / 2 ^ 53) ^ 2" using containerCPUCores_error [of key] by (simp_all add: field_simps)
  have "0 \<le> ?c" using containerCPUCores_range(1) [of key] by simp
  then have e: "?c * (1 - 1 / 2 ^ 53) \<le> f64 ?c" "f64 ?c \<le> ?c * (1 + 1 / 2 ^ 53)" by (rule f64_error)+
  have "?n - 1 \<le> f64 ?c"
  proof -
    have "?n - 1 \<le> ?n * ((1 - 1 / 2 ^ 53) ^ 2 * (1 - 1 / 2 ^ 53))" using n(2) by (simp add: power2_eq_square)
    also have "\<dots> \<le> ?c * (1 - 1 / 2 ^ 53)" using c(1) by (subst mult.assoc [symmetric]) (intro mult_right_mono; simp)
    finally show ?thesis using e(1) by linarith
  qed
  moreover have "f64 ?c < ?n + 1"
  proof -
    have "?c * (1 + 1 / 2 ^ 53) \<le> ?n * ((1 + 1 / 2 ^ 53) ^ 2 * (1 + 1 / 2 ^ 53))" using c(2) by (subst mult.assoc [symmetric]) (intro mult_right_mono; simp)
    also have "\<dots> < ?n + 1" using n(2) by (simp add: power2_eq_square)
    finally show ?thesis using e(2) by linarith
  qed
  ultimately have "of_int (1000000 * int (milliCores key) - 1) \<le> f64 ?c" "f64 ?c < of_int (1000000 * int (milliCores key)) + 1"
    by simp_all
  then have "1000000 * int (milliCores key) - 1 \<le> floor (f64 ?c)" "floor (f64 ?c) \<le> 1000000 * int (milliCores key)"
    by (simp_all only: le_floor_iff floor_le_iff)
  moreover have "0 \<le> f64 ?c" using \<open>0 \<le> ?c\<close> by (rule f64_nonneg)
  ultimately show ?thesis by (auto simp: nanoCores_def trunc_def)
qed

lemma containerMemBytes_value:
  "sint (containerMemBytes key) = (16 + int (unat (hash32 key mod 240))) * 1048576"
proof -
  obtain k where k: "unat (hash32 key mod 240) = k" and "k < 240" using hash_mod(2) [of key] by blast
  then have "(16 + int k) * 1048576 < 2 ^ 63" "- (2 ^ 63) \<le> (16 + int k) * 1048576" by simp_all
  moreover have "containerMemBytes key = word_of_int ((16 + int k) * 1048576)"
    unfolding containerMemBytes_def k by (simp add: algebra_simps)
  ultimately show ?thesis unfolding k using sint_word_of_int_64 by metis
qed


lemma containerMemBytes_range:
  "1048576 dvd sint (containerMemBytes key)" "16 * 1048576 \<le> sint (containerMemBytes key)"
  "sint (containerMemBytes key) \<le> 255 * 1048576"
proof -
  obtain k where k: "unat (hash32 key mod 240) = k" and "k < 240" using hash_mod(2) [of key] by blast
  then show "1048576 dvd sint (containerMemBytes key)" "16 * 1048576 \<le> sint (containerMemBytes key)"
      "sint (containerMemBytes key) \<le> 255 * 1048576"
    unfolding containerMemBytes_value k by simp_all
qed

lemma cpuSeconds_le: "\<bar>cpuSeconds now p c\<bar> \<le> pow2 29"
proof -
  let ?d = "time_sub now (podStartOrNow now p)" and ?k = "usage_key p c"
  note c = containerCPUCores_range [of ?k]
  have pos: "f64 (x * containerCPUCores ?k) \<le> pow2 29" if "x \<le> pow2 34" "0 \<le> x" for x
  proof (rule f64_le_pow2)
    have "x * containerCPUCores ?k \<le> pow2 34 * (25 / 1000)" using that c by (intro mult_mono) simp_all
    also have "\<dots> \<le> pow2 29" by (simp add: pow2_def)
    finally show "x * containerCPUCores ?k \<le> pow2 29" .
  qed
  show ?thesis
  proof (cases "0 \<le> ?d")
    case True
    have s: "0 \<le> Seconds ?d" "Seconds ?d \<le> pow2 34"
      using True time_sub_range [of now "podStartOrNow now p"] by (simp_all add: Seconds_nonneg Seconds_le)
    have "0 \<le> cpuSeconds now p c" unfolding cpuSeconds_def using s(1) c(1) by (intro f64_nonneg mult_nonneg_nonneg) simp_all
    then show ?thesis using pos [OF s(2,1)] by (simp add: cpuSeconds_def)
  next
    case False
    have s: "0 \<le> Seconds (- ?d)" "Seconds (- ?d) \<le> pow2 34"
      using False time_sub_range [of now "podStartOrNow now p"] by (simp_all add: Seconds_nonneg Seconds_le)
    have "f64 (Seconds (- ?d) * containerCPUCores ?k) = - cpuSeconds now p c"
      by (simp add: cpuSeconds_def Seconds_minus f64_minus)
    moreover have "0 \<le> f64 (Seconds (- ?d) * containerCPUCores ?k)" using s(1) c(1) by (intro f64_nonneg mult_nonneg_nonneg) simp_all
    ultimately show ?thesis using pos [OF s(2,1)] by simp
  qed
qed

lemma coreNanoSeconds_range: "\<bar>coreNanoSeconds now p c\<bar> < 2 ^ 62"
proof -
  let ?x = "cpuSeconds now p c * 1000000000"
  have "\<bar>?x\<bar> \<le> pow2 29 * 1000000000" using cpuSeconds_le [of now p c] by (simp add: abs_mult)
  also have "\<dots> \<le> pow2 59" by (simp add: pow2_def)
  finally have x: "?x \<le> pow2 59" "- ?x \<le> pow2 59" by linarith+
  have "f64 ?x \<le> pow2 59" "- f64 ?x \<le> pow2 59"
    using f64_le_pow2 [OF x(1)] f64_le_pow2 [OF x(2)] by (simp_all add: f64_minus)
  then have "f64 ?x \<le> of_int (2 ^ 59)" "of_int (- (2 ^ 59)) \<le> f64 ?x" by (simp_all add: pow2_def)
  then have "floor (f64 ?x) \<le> 2 ^ 59" "- (2 ^ 59) \<le> floor (f64 ?x)" "ceiling (f64 ?x) \<le> 2 ^ 59" "- (2 ^ 59) \<le> ceiling (f64 ?x)"
    using floor_mono ceiling_mono by (metis floor_of_int ceiling_of_int)+
  then have "coreNanoSeconds now p c \<le> 2 ^ 59 \<and> - (2 ^ 59) \<le> coreNanoSeconds now p c"
    unfolding coreNanoSeconds_def trunc_def by presburger
  then show ?thesis by (auto simp: abs_less_iff)
qed

text \<open>A pod whose start is on record: the same at every scrape.\<close>

definition started :: "Pod \<Rightarrow> bool" where
  "started p \<longleftrightarrow> (\<exists>t. pst_startTime (pod_status p) = Some t \<and> t \<noteq> 0) \<or> m_creationTimestamp (pod_meta p) \<noteq> 0"

lemma started_start: "started p \<Longrightarrow> podStartOrNow now p = podStartOrNow now' p"
  by (auto simp: started_def podStartOrNow_def split: option.splits)

lemma cpuSeconds_mono:
  assumes "started p" and "now \<le> now'"
  shows "cpuSeconds now p c \<le> cpuSeconds now' p c"
proof -
  let ?t = "podStartOrNow now p"
  have "Seconds (time_sub now ?t) \<le> Seconds (time_sub now' ?t)"
    using assms(2) time_sub_range by (intro Seconds_mono time_sub_mono) auto
  moreover have "0 \<le> containerCPUCores (usage_key p c)"
    by (rule order_trans [OF _ containerCPUCores_range(1)]) simp
  ultimately show ?thesis
    unfolding cpuSeconds_def started_start [OF assms(1), of now' now]
    by (intro f64_mono mult_right_mono)
qed

lemma fold_sum_no_wrap:
  assumes "\<And>x. x \<in> set xs \<Longrightarrow> f x = word_of_int (v x) \<and> 0 \<le> v x \<and> v x \<le> m"
    and "0 \<le> a"
  shows "fold (\<lambda>x acc. acc + f x) xs (word_of_int a :: int64) = word_of_int (a + (\<Sum>x\<leftarrow>xs. v x))
    \<and> 0 \<le> a + (\<Sum>x\<leftarrow>xs. v x) \<and> a + (\<Sum>x\<leftarrow>xs. v x) \<le> a + int (length xs) * m"
  using assms
proof (induction xs arbitrary: a)
  case (Cons x xs)
  have v: "f x = word_of_int (v x)" "0 \<le> v x" "v x \<le> m" using Cons.prems(1) by auto
  then show ?case using Cons.IH [of "a + v x"] Cons.prems by (simp add: algebra_simps add_mono)
qed simp

section \<open>Properties\<close>

text \<open>
  C27 The fabricated numbers stay in their bounds for every container and every clock: memory is a whole
  number of MiB from 16 to 255, the CPU rate is the intended 5 to 24 millicores or, where the
  floating-point product falls just short of it, one nanocore less, and the cumulative counter fits
  an int64 with room to spare however far the start of the pod lies from now.
\<close>

theorem usage_bounds:
  "1048576 dvd sint (containerMemBytes key) \<and> 16 * 1048576 \<le> sint (containerMemBytes key)
   \<and> sint (containerMemBytes key) \<le> 255 * 1048576
   \<and> nanoCores key \<in> {1000000 * int (milliCores key) - 1, 1000000 * int (milliCores key)}
   \<and> 5 \<le> milliCores key \<and> milliCores key \<le> 24
   \<and> \<bar>coreNanoSeconds now p c\<bar> < 2 ^ 62"
  using containerMemBytes_range nanoCores_value milliCores_range coreNanoSeconds_range by blast


text \<open>
  The memory of the node is exactly its own share and the sum over the containers, without overflow,
  for up to \<open>2 ^ 34\<close> containers; both endpoints report this number.
\<close>

theorem node_memory_exact:
  assumes "length (pod_containers_of pods) \<le> 2 ^ 34"
  shows "sint (nodeMem pods) = 1500 * 1048576 + (\<Sum>(p, c)\<leftarrow>pod_containers_of pods. sint (containerMemBytes (usage_key p c)))"
proof -
  let ?v = "\<lambda>pc. sint (containerMemBytes (usage_key (fst pc) (snd pc)))" and ?cs = "pod_containers_of pods"
  have "containerMemBytes (usage_key (fst pc) (snd pc)) = word_of_int (?v pc) \<and> 0 \<le> ?v pc \<and> ?v pc \<le> 255 * 1048576" for pc
    using containerMemBytes_range(2,3) [of "usage_key (fst pc) (snd pc)"] by simp
  note total = fold_sum_no_wrap [of ?cs "\<lambda>pc. containerMemBytes (usage_key (fst pc) (snd pc))" ?v "255 * 1048576" 0, OF this]
  have "int (length ?cs) * (255 * 1048576) \<le> 2 ^ 34 * (255 * 1048576)" using assms by (intro mult_right_mono) simp_all
  then have "sum_list (map ?v ?cs) + 1500 * 1048576 < 2 ^ 63" "- (2 ^ 63) \<le> sum_list (map ?v ?cs) + 1500 * 1048576"
    using total by simp_all
  then have "sint (word_of_int (sum_list (map ?v ?cs) + 1500 * 1048576) :: int64) = sum_list (map ?v ?cs) + 1500 * 1048576"
    by (intro sint_word_of_int_64)
  moreover have "nodeMem pods = word_of_int (sum_list (map ?v ?cs) + 1500 * 1048576)"
    unfolding nodeMem_def case_prod_unfold using total by simp
  ultimately show ?thesis by (simp add: case_prod_unfold)
qed

text \<open>Two containers of one pod.\<close>

definition ex_running :: Pod where
  "ex_running = \<lparr>pod_meta = new_meta ''web-0'' ''shop'' [],
     pod_spec = empty_podspec\<lparr>ps_nodeName := ''node-1'', ps_containers := [plain_container ''web'' ''nginx'', plain_container ''log'' ''fluentd'']\<rparr>,
     pod_status = empty_podstatus\<lparr>pst_startTime := Some unix_epoch\<rparr>\<rparr>"


theorem node_memory_exact_witness:
  "sint (nodeMem [ex_running]) = 1500 * 1048576
     + (sint (containerMemBytes ''shop/web-0/web'') + sint (containerMemBytes ''shop/web-0/log''))"
  using node_memory_exact [of "[ex_running]"]
  by (simp add: pod_containers_of_def ex_running_def usage_key_def plain_container_def empty_podspec_def new_meta_def)

end
