(* ===== verification/Go_Flags.thy ===== *)
theory Go_Flags
  imports Go_Strings
begin

text \<open>
  Go's package \<^verbatim>\<open>flag\<close>, as far as the two programs use it: flags of four types with defaults, parsed
  from the command line in order. A value is kept as the text it was set to; the readers at the end
  interpret it.
\<close>

section \<open>Values\<close>

definition ParseBool :: "string \<Rightarrow> bool option" where
  "ParseBool s =
     (if s \<in> set [''1'', ''t'', ''T'', ''true'', ''TRUE'', ''True''] then Some True
      else if s \<in> set [''0'', ''f'', ''F'', ''false'', ''FALSE'', ''False''] then Some False
      else None)"

definition digit_value :: "char \<Rightarrow> nat option" where
  "digit_value c =
     (let n = (of_char c :: nat) in
      if 48 \<le> n \<and> n \<le> 57 then Some (n - 48)
      else if 97 \<le> n \<and> n \<le> 122 then Some (n - 87)
      else if 65 \<le> n \<and> n \<le> 90 then Some (n - 55)
      else None)"

fun parse_digits :: "nat \<Rightarrow> nat \<Rightarrow> string \<Rightarrow> nat option" where
  "parse_digits base acc [] = Some acc"
| "parse_digits base acc (c # cs) =
     (if c = CHR ''_'' then parse_digits base acc cs
      else case digit_value c of
        None \<Rightarrow> None
      | Some d \<Rightarrow> if d < base then parse_digits base (acc * base + d) cs else None)"

text \<open>Underscores may stand between digits or after the base prefix only; \<open>saw\<close> is what came last.\<close>

fun underscores_ok :: "bool \<Rightarrow> char \<Rightarrow> string \<Rightarrow> bool" where
  "underscores_ok hex saw [] = (saw \<noteq> CHR ''_'')"
| "underscores_ok hex saw (c # cs) =
     (case digit_value c of
        Some d \<Rightarrow>
          if d < (if hex then 16 else 10) then underscores_ok hex CHR ''0'' cs
          else saw \<noteq> CHR ''_'' \<and> underscores_ok hex CHR ''!'' cs
      | None \<Rightarrow>
          if c = CHR ''_'' then saw = CHR ''0'' \<and> underscores_ok hex CHR ''_'' cs
          else saw \<noteq> CHR ''_'' \<and> underscores_ok hex CHR ''!'' cs)"

text \<open>\<^verbatim>\<open>strconv.ParseUint\<close> with base 0: the prefix of the text chooses the base.\<close>

definition parse_unsigned :: "string \<Rightarrow> nat option" where
  "parse_unsigned s =
     (case s of
        [] \<Rightarrow> None
      | c # cs \<Rightarrow>
          (let pre = (if cs = [] then CHR ''0'' else hd cs);
               based = (c = CHR ''0'' \<and> length s \<ge> 3 \<and> pre \<in> set ''bBoOxX'');
               hex = (based \<and> pre \<in> set ''xX'');
               base = (if \<not> based then (if c = CHR ''0'' then 8 else 10)
                       else if pre \<in> set ''bB'' then 2 else if pre \<in> set ''oO'' then 8 else 16);
               digits = (if based then drop 2 s else if c = CHR ''0'' then cs else s) in
           if CHR ''_'' \<in> set s \<and> \<not> (if based then underscores_ok hex CHR ''0'' (drop 2 s) else underscores_ok False CHR ''^'' s)
           then None else parse_digits base 0 digits))"

definition ParseInt :: "string \<Rightarrow> int option" where
  "ParseInt s =
     (case s of
        [] \<Rightarrow> None
      | c # cs \<Rightarrow>
          (let neg = (c = CHR ''-''); rest = (if c = CHR ''-'' \<or> c = CHR ''+'' then cs else s) in
           case parse_unsigned rest of
             None \<Rightarrow> None
           | Some n \<Rightarrow>
               if neg then (if n \<le> 2 ^ 63 then Some (- int n) else None)
               else (if n < 2 ^ 63 then Some (int n) else None)))"

section \<open>Parsing the command line\<close>

datatype flag_kind = StringFlag | BoolFlag | IntFlag | DurationFlag

definition settable :: "(string \<Rightarrow> bool) \<Rightarrow> flag_kind \<Rightarrow> string \<Rightarrow> bool" where
  "settable duration k v =
     (case k of
        StringFlag \<Rightarrow> True
      | BoolFlag \<Rightarrow> ParseBool v \<noteq> None
      | IntFlag \<Rightarrow> ParseInt v \<noteq> None
      | DurationFlag \<Rightarrow> duration v)"

text \<open>
  The name and the value of one argument, or \<open>None\<close> where the syntax is bad. \<open>flag_name\<close> has the
  dashes removed; the value is what follows the first \<^verbatim>\<open>=\<close> that is not the first character.
\<close>

definition flag_name :: "string \<Rightarrow> string" where
  "flag_name s = (if length s \<ge> 2 \<and> s ! 1 = CHR ''-'' then drop 2 s else drop 1 s)"

definition flag_split :: "string \<Rightarrow> (string \<times> string option) option" where
  "flag_split s =
     (let n = flag_name s in
      if n = '''' \<or> hd n = CHR ''-'' \<or> hd n = CHR ''='' then None
      else case Cut n CHR ''='' of (k, v, found) \<Rightarrow> Some (k, if found then Some v else None))"

text \<open>
  \<open>kinds\<close> are the flags defined. Parsing stops at the first argument that is no flag and at
  \<^verbatim>\<open>--\<close>. The error is the exit code: 0 for a request for help, 2 otherwise.
\<close>

fun parse_flags :: "(string \<Rightarrow> bool) \<Rightarrow> (string, flag_kind) gomap \<Rightarrow> string list \<Rightarrow> smap \<Rightarrow> nat + smap" where
  "parse_flags duration kinds [] vals = Inr vals"
| "parse_flags duration kinds (s # args) vals =
     (if length s < 2 \<or> hd s \<noteq> CHR ''-'' \<or> s = ''--'' then Inr vals
      else case flag_split s of
        None \<Rightarrow> Inl 2
      | Some (k, v) \<Rightarrow>
          (case gm_get kinds k of
             None \<Rightarrow> Inl (if k = ''help'' \<or> k = ''h'' then 0 else 2)
           | Some kind \<Rightarrow>
               (case (v, kind) of
                  (Some x, _) \<Rightarrow>
                    if settable duration kind x then parse_flags duration kinds args (gm_set k x vals) else Inl 2
                | (None, BoolFlag) \<Rightarrow> parse_flags duration kinds args (gm_set k ''true'' vals)
                | (None, _) \<Rightarrow>
                    (case args of
                       [] \<Rightarrow> Inl 2
                     | x # rest \<Rightarrow>
                         if settable duration kind x then parse_flags duration kinds rest (gm_set k x vals) else Inl 2))))"

definition int_flag :: "smap \<Rightarrow> string \<Rightarrow> int" where
  "int_flag vals k = (case ParseInt (sm_get vals k) of Some n \<Rightarrow> n | None \<Rightarrow> 0)"

definition bool_flag :: "smap \<Rightarrow> string \<Rightarrow> bool" where
  "bool_flag vals k = (ParseBool (sm_get vals k) = Some True)"

section \<open>Facts\<close>

lemma digit_value_digit: "d < 10 \<Longrightarrow> digit_value (char_of (48 + d)) = Some d"
  by (simp add: digit_value_def)

lemma digit_not_sign: "d < 10 \<Longrightarrow> char_of (48 + d :: nat) \<notin> {CHR ''_'', CHR ''-'', CHR ''+'', CHR ''=''}"
  by (auto simp: char_of_eq_iff take_bit_eq_mod)

lemma parse_digits_append:
  "parse_digits b acc (xs @ ys) = (case parse_digits b acc xs of None \<Rightarrow> None | Some a \<Rightarrow> parse_digits b a ys)"
  by (induction xs arbitrary: acc) (auto split: option.splits)

lemma parse_nat_digits: "\<exists>k. parse_digits 10 acc (nat_digits n) = Some (acc * 10 ^ k + n)"
proof (induction n arbitrary: acc rule: nat_digits.induct)
  case (1 n)
  show ?case
  proof (cases "n < 10")
    case True
    then show ?thesis
      using digit_value_digit [OF True] digit_not_sign [OF True] by (subst nat_digits.simps) (auto intro: exI [of _ 1])
  next
    case False
    obtain k where k: "parse_digits 10 acc (nat_digits (n div 10)) = Some (acc * 10 ^ k + n div 10)"
      using "1.IH" [OF False, of acc] by blast
    have d: "n mod 10 < 10" by simp
    have "parse_digits 10 acc (nat_digits n) = Some ((acc * 10 ^ k + n div 10) * 10 + n mod 10)"
      using False k digit_value_digit [OF d] digit_not_sign [OF d]
      by (subst nat_digits.simps) (simp add: parse_digits_append)
    moreover have "(acc * 10 ^ k + n div 10) * 10 + n mod 10 = acc * 10 ^ Suc k + n"
      by (simp add: algebra_simps)
    ultimately show ?thesis by metis
  qed
qed

lemma nat_digits_head:
  "\<exists>d ds. nat_digits n = char_of (48 + d :: nat) # ds \<and> d < 10 \<and> (d = 0 \<longrightarrow> n = 0 \<and> ds = [])"
proof (induction n rule: nat_digits.induct)
  case (1 n)
  show ?case
  proof (cases "n < 10")
    case True
    then show ?thesis by (subst nat_digits.simps) (auto intro!: exI [of _ n])
  next
    case False
    with "1.IH" obtain d ds where "nat_digits (n div 10) = char_of (48 + d :: nat) # ds" "d < 10" "d = 0 \<longrightarrow> n div 10 = 0"
      by blast
    with False show ?thesis by (subst nat_digits.simps) (auto intro!: exI [of _ d])
  qed
qed

lemma nat_digits_no_underscore: "CHR ''_'' \<notin> set (nat_digits n)"
proof (induction n rule: nat_digits.induct)
  case (1 n)
  show ?case using 1 digit_not_sign [of n] digit_not_sign [of "n mod 10"]
    by (subst nat_digits.simps) auto
qed

lemma parse_unsigned_nat_digits: "parse_unsigned (nat_digits n) = Some n"
proof -
  obtain d ds where h: "nat_digits n = char_of (48 + d :: nat) # ds" "d < 10" "d = 0 \<longrightarrow> n = 0 \<and> ds = []"
    using nat_digits_head by blast
  show ?thesis
  proof (cases "d = 0")
    case True
    moreover have "char_of (48 :: nat) = CHR ''0''" by (simp add: char_of_eq_iff)
    ultimately show ?thesis using h by (simp add: parse_unsigned_def Let_def)
  next
    case False
    then have "char_of (48 + d :: nat) \<noteq> CHR ''0''" using h(2) by (auto simp: char_of_eq_iff take_bit_eq_mod)
    then have "parse_unsigned (nat_digits n) = parse_digits 10 0 (nat_digits n)"
      using h(1) nat_digits_no_underscore [of n] by (auto simp: parse_unsigned_def Let_def)
    then show ?thesis using parse_nat_digits [of 0 n] by auto
  qed
qed

lemma ParseInt_Itoa [simp]:
  assumes "- (2 ^ 63) \<le> n" and "n < 2 ^ 63"
  shows "ParseInt (Itoa n) = Some n"
proof (cases "n < 0")
  case True
  with assms(1) have "nat (- n) \<le> 2 ^ 63" by simp
  with True show ?thesis by (simp add: Itoa_def ParseInt_def parse_unsigned_nat_digits)
next
  case False
  obtain d ds where h: "nat_digits (nat n) = char_of (48 + d :: nat) # ds" "d < 10" using nat_digits_head by blast
  have "nat n < 2 ^ 63" using assms(2) False by simp
  with False h digit_not_sign [OF h(2)] parse_unsigned_nat_digits [of "nat n"] show ?thesis
    by (auto simp: Itoa_def ParseInt_def Let_def)
qed

text \<open>An argument \<^verbatim>\<open>--name=value\<close> sets the flag to the value.\<close>

lemma flag_split_value:
  assumes "name \<noteq> ''''" and "hd name \<noteq> CHR ''-''" and "CHR ''='' \<notin> set name"
  shows "flag_split (''--'' @ name @ CHR ''='' # v) = Some (name, Some v)"
  using assms Cut_append [OF assms(3), of v] by (cases name) (auto simp: flag_split_def flag_name_def)

lemma parse_flags_value:
  assumes "gm_get kinds name = Some kind" and "settable duration kind v"
    and "name \<noteq> ''''" and "hd name \<noteq> CHR ''-''" and "CHR ''='' \<notin> set name"
  shows "parse_flags duration kinds ((''--'' @ name @ CHR ''='' # v) # args) vals = parse_flags duration kinds args (gm_set name v vals)"
  using assms flag_split_value [OF assms(3-5), of v] by simp

text \<open>A command line of such arguments sets the flags one after the other.\<close>

definition flag_args :: "(string \<times> string) list \<Rightarrow> string list" where
  "flag_args kvs = map (\<lambda>(k, v). ''--'' @ k @ CHR ''='' # v) kvs"

definition accepts :: "(string \<Rightarrow> bool) \<Rightarrow> (string, flag_kind) gomap \<Rightarrow> string \<times> string \<Rightarrow> bool" where
  "accepts duration kinds kv \<longleftrightarrow>
     (case gm_get kinds (fst kv) of None \<Rightarrow> False | Some kind \<Rightarrow> settable duration kind (snd kv))
     \<and> fst kv \<noteq> '''' \<and> hd (fst kv) \<noteq> CHR ''-'' \<and> CHR ''='' \<notin> set (fst kv)"

lemma parse_flag_args:
  "list_all (accepts duration kinds) kvs \<Longrightarrow>
   parse_flags duration kinds (flag_args kvs) vals = Inr (fold (\<lambda>(k, v). gm_set k v) kvs vals)"
proof (induction kvs arbitrary: vals)
  case (Cons kv kvs)
  obtain k v where kv: "kv = (k, v)" by fastforce
  with Cons.prems obtain kind where "gm_get kinds k = Some kind" "settable duration kind v"
    and name: "k \<noteq> ''''" "hd k \<noteq> CHR ''-''" "CHR ''='' \<notin> set k"
    by (auto simp: accepts_def split: option.splits)
  note step = parse_flags_value [OF this, of "flag_args kvs" vals]
  have "flag_args (kv # kvs) = (''--'' @ k @ CHR ''='' # v) # flag_args kvs" using kv by (simp add: flag_args_def)
  with step Cons kv show ?case by (simp del: parse_flags.simps)
qed (simp add: flag_args_def)

end
