(* ===== verification/File_System.thy ===== *)
theory File_System
  imports Go_Time
begin

text \<open>
  What the sources use of Go's package \<^verbatim>\<open>os\<close>: a tree of directories, files and symbolic links, with
  the calls that change it. A path is the list of its components below the root. Any call may fail
  for reasons of its own, and a file write that fails may have written a part of the file.
\<close>

type_synonym path = "string list"

datatype node = Dir nat | File string nat | Link path

type_synonym fs = "(path, node) gomap"

definition node_at :: "fs \<Rightarrow> path \<Rightarrow> node option" where
  "node_at fs p = (if p = [] then Some (Dir 493) else gm_get fs p)"

text \<open>
  Resolution of a path from the directory \<open>cur\<close>. A link restarts it at the link's directory with
  the target in front; the number of links is bounded, as the kernel bounds it.
\<close>

fun walk :: "nat \<Rightarrow> fs \<Rightarrow> path \<Rightarrow> path \<Rightarrow> path option" where
  "walk n fs cur [] = Some cur"
| "walk n fs cur (c # cs) =
     (case node_at fs (cur @ [c]) of
        None \<Rightarrow> None
      | Some (Link t) \<Rightarrow> (case n of 0 \<Rightarrow> None | Suc m \<Rightarrow> walk m fs cur (t @ cs))
      | Some _ \<Rightarrow> walk n fs (cur @ [c]) cs)"

definition maxLinks :: nat where
  "maxLinks = 40"

text \<open>The real place of a directory entry, its last component not followed.\<close>

definition entry :: "fs \<Rightarrow> path \<Rightarrow> path option" where
  "entry fs p =
     (if p = [] then None
      else case walk maxLinks fs [] (butlast p) of
        None \<Rightarrow> None
      | Some d \<Rightarrow> (case node_at fs d of Some (Dir _) \<Rightarrow> Some (d @ [last p]) | _ \<Rightarrow> None))"

text \<open>The place an open for writing reaches: links in the last position are followed.\<close>

primrec follow :: "nat \<Rightarrow> fs \<Rightarrow> path \<Rightarrow> path option" where
  "follow 0 fs p =
     (case entry fs p of None \<Rightarrow> None | Some q \<Rightarrow> (case node_at fs q of Some (Link _) \<Rightarrow> None | _ \<Rightarrow> Some q))"
| "follow (Suc n) fs p =
     (case entry fs p of
        None \<Rightarrow> None
      | Some q \<Rightarrow> (case node_at fs q of Some (Link t) \<Rightarrow> follow n fs (butlast q @ t) | _ \<Rightarrow> Some q))"

definition Lstat :: "fs \<Rightarrow> path \<Rightarrow> node option" where
  "Lstat fs p = (case entry fs p of None \<Rightarrow> None | Some q \<Rightarrow> node_at fs q)"

definition ReadFile :: "fs \<Rightarrow> path \<Rightarrow> string option" where
  "ReadFile fs p =
     (case walk maxLinks fs [] p of
        None \<Rightarrow> None
      | Some q \<Rightarrow> (case node_at fs q of Some (File c _) \<Rightarrow> Some c | _ \<Rightarrow> None))"

section \<open>Calls that change the tree\<close>

datatype os_call =
    MkdirAll path nat
  | WriteFile path string nat
  | Remove path
  | Symlink path path
  | Rename path path
  | Chmod path nat

text \<open>
  \<open>os_fault\<close> decides that a call fails: with the error, and for a write the number of bytes that
  are in the file all the same, if it was opened at all.
\<close>

record os_env =
  os_umask :: nat
  os_fault :: "os_call \<Rightarrow> fs \<Rightarrow> (go_error \<times> nat option) option"

definition masked :: "nat \<Rightarrow> nat \<Rightarrow> nat" where
  "masked um m = m - and m um"

definition not_exist :: go_error where "not_exist = errorf ''no such file or directory''"
definition file_exists :: go_error where "file_exists = errorf ''file exists''"
definition is_directory :: go_error where "is_directory = errorf ''is a directory''"

fun mkdir_all :: "nat \<Rightarrow> fs \<Rightarrow> path \<Rightarrow> path \<Rightarrow> go_error + fs" where
  "mkdir_all m fs cur [] = Inr fs"
| "mkdir_all m fs cur (c # cs) =
     (case node_at fs (cur @ [c]) of
        None \<Rightarrow> mkdir_all m (gm_set (cur @ [c]) (Dir m) fs) (cur @ [c]) cs
      | Some (Link t) \<Rightarrow>
          (case walk maxLinks fs cur [c] of
             Some q \<Rightarrow> (case node_at fs q of Some (Dir _) \<Rightarrow> mkdir_all m fs q cs | _ \<Rightarrow> Inl file_exists)
           | None \<Rightarrow> Inl file_exists)
      | Some (Dir _) \<Rightarrow> mkdir_all m fs (cur @ [c]) cs
      | Some (File _ _) \<Rightarrow> Inl file_exists)"

definition write_file :: "nat \<Rightarrow> fs \<Rightarrow> path \<Rightarrow> string \<Rightarrow> go_error + fs" where
  "write_file m fs p c =
     (case follow maxLinks fs p of
        None \<Rightarrow> Inl not_exist
      | Some q \<Rightarrow>
          (case node_at fs q of
             Some (Dir _) \<Rightarrow> Inl is_directory
           | Some (File _ m') \<Rightarrow> Inr (gm_set q (File c m') fs)
           | _ \<Rightarrow> Inr (gm_set q (File c m) fs)))"

definition is_empty_dir :: "fs \<Rightarrow> path \<Rightarrow> bool" where
  "is_empty_dir fs q \<longleftrightarrow> (\<forall>k \<in> set (map fst fs). k \<noteq> [] \<longrightarrow> butlast k \<noteq> q)"

definition remove :: "fs \<Rightarrow> path \<Rightarrow> go_error + fs" where
  "remove fs p =
     (case entry fs p of
        None \<Rightarrow> Inl not_exist
      | Some q \<Rightarrow>
          (case node_at fs q of
             None \<Rightarrow> Inl not_exist
           | Some (Dir _) \<Rightarrow> if is_empty_dir fs q then Inr (gm_del q fs) else Inl (errorf ''directory not empty'')
           | Some _ \<Rightarrow> Inr (gm_del q fs)))"

definition symlink :: "fs \<Rightarrow> path \<Rightarrow> path \<Rightarrow> go_error + fs" where
  "symlink fs t p =
     (case entry fs p of
        None \<Rightarrow> Inl not_exist
      | Some q \<Rightarrow> (case node_at fs q of None \<Rightarrow> Inr (gm_set q (Link t) fs) | Some _ \<Rightarrow> Inl file_exists))"

text \<open>The sources rename links only, so moving a directory with its contents is left out.\<close>

definition rename_link :: "fs \<Rightarrow> path \<Rightarrow> path \<Rightarrow> go_error + fs" where
  "rename_link fs p p' =
     (case (entry fs p, entry fs p') of
        (Some q, Some q') \<Rightarrow>
          (case (node_at fs q, node_at fs q') of
             (None, _) \<Rightarrow> Inl not_exist
           | (Some (Dir _), _) \<Rightarrow> Inl is_directory
           | (_, Some (Dir _)) \<Rightarrow> Inl file_exists
           | (Some n, _) \<Rightarrow> Inr (gm_set q' n (gm_del q fs)))
      | _ \<Rightarrow> Inl not_exist)"

definition chmod :: "fs \<Rightarrow> path \<Rightarrow> nat \<Rightarrow> go_error + fs" where
  "chmod fs p m =
     (case walk maxLinks fs [] p of
        None \<Rightarrow> Inl not_exist
      | Some q \<Rightarrow>
          (case node_at fs q of
             Some (Dir _) \<Rightarrow> Inr (if q = [] then fs else gm_set q (Dir m) fs)
           | Some (File c _) \<Rightarrow> Inr (gm_set q (File c m) fs)
           | _ \<Rightarrow> Inl not_exist))"

fun apply_call :: "nat \<Rightarrow> os_call \<Rightarrow> fs \<Rightarrow> go_error + fs" where
  "apply_call um (MkdirAll p m) fs = mkdir_all (masked um m) fs [] p"
| "apply_call um (WriteFile p c m) fs = write_file (masked um m) fs p c"
| "apply_call um (Remove p) fs = remove fs p"
| "apply_call um (Symlink t p) fs = symlink fs t p"
| "apply_call um (Rename p p') fs = rename_link fs p p'"
| "apply_call um (Chmod p m) fs = chmod fs p m"

fun partial_effect :: "nat \<Rightarrow> os_call \<Rightarrow> nat option \<Rightarrow> fs \<Rightarrow> fs" where
  "partial_effect um (WriteFile p c m) (Some k) fs =
     (case write_file (masked um m) fs p (take k c) of Inl _ \<Rightarrow> fs | Inr fs' \<Rightarrow> fs')"
| "partial_effect um _ _ fs = fs"

definition os_do :: "os_env \<Rightarrow> os_call \<Rightarrow> (fs, unit) call" where
  "os_do os op fs =
     (case os_fault os op fs of
        Some (e, k) \<Rightarrow> (Inl e, partial_effect (os_umask os) op k fs)
      | None \<Rightarrow> (case apply_call (os_umask os) op fs of Inl e \<Rightarrow> (Inl e, fs) | Inr fs' \<Rightarrow> (Inr (), fs')))"

section \<open>Directories whose path has no links\<close>

definition is_dir :: "fs \<Rightarrow> path \<Rightarrow> bool" where
  "is_dir fs p \<longleftrightarrow> (\<exists>m. node_at fs p = Some (Dir m))"

definition real_dir :: "fs \<Rightarrow> path \<Rightarrow> bool" where
  "real_dir fs d \<longleftrightarrow> (\<forall>p. prefix p d \<longrightarrow> is_dir fs p)"

lemma node_at_Nil [simp]: "node_at fs [] = Some (Dir 493)"
  by (simp add: node_at_def)

lemma node_at_snoc [simp]: "node_at fs (p @ [c]) = gm_get fs (p @ [c])"
  by (simp add: node_at_def)

lemma walk_dirs:
  "(\<And>p. prefix p ds \<Longrightarrow> is_dir fs (cur @ p)) \<Longrightarrow> walk n fs cur (ds @ rest) = walk n fs (cur @ ds) rest"
proof (induction ds arbitrary: cur)
  case (Cons c ds)
  have "is_dir fs (cur @ [c])" using Cons.prems [of "[c]"] by simp
  moreover have "walk n fs (cur @ [c]) (ds @ rest) = walk n fs ((cur @ [c]) @ ds) rest"
    using Cons.prems [of "c # p" for p] by (intro Cons.IH) simp
  ultimately show ?case by (auto simp: is_dir_def)
qed simp

lemma walk_real: "real_dir fs d \<Longrightarrow> walk n fs [] (d @ rest) = walk n fs d rest"
  using walk_dirs [of d fs "[]" n rest] by (simp add: real_dir_def)

lemma real_dir_is_dir: "real_dir fs d \<Longrightarrow> is_dir fs d"
  by (simp add: real_dir_def)

lemma entry_real: "real_dir fs d \<Longrightarrow> entry fs (d @ [n]) = Some (d @ [n])"
  using walk_real [of fs d maxLinks "[]"] real_dir_is_dir [of fs d] by (auto simp: entry_def is_dir_def)

lemma real_dir_cong: "real_dir fs d \<Longrightarrow> (\<And>p. prefix p d \<Longrightarrow> p \<noteq> [] \<Longrightarrow> gm_get fs' p = gm_get fs p) \<Longrightarrow> real_dir fs' d"
  by (auto simp: real_dir_def is_dir_def node_at_def split: if_splits)

lemma real_dir_snoc: "real_dir fs (d @ [c]) \<longleftrightarrow> real_dir fs d \<and> is_dir fs (d @ [c])"
  by (auto simp: real_dir_def prefix_snoc)

text \<open>A child of a directory is no prefix of it.\<close>

lemma not_prefix_child [simp]: "\<not> prefix (d @ c # cs) d"
  using prefix_length_le by fastforce

text \<open>What each call does to an entry of a real directory; a failed call leaves the tree as it was.\<close>

lemma os_do_Inl:
  assumes "os_do os op fs = (Inl e, fs')" and "\<And>p c m. op \<noteq> WriteFile p c m"
  shows "fs' = fs"
proof -
  have "partial_effect um op k fs = fs" for um k using assms(2) by (cases op) auto
  with assms(1) show ?thesis by (auto simp: os_do_def split: option.splits sum.splits)
qed

lemma os_do_Inr: "os_do os op fs = (Inr x, fs') \<Longrightarrow> apply_call (os_umask os) op fs = Inr fs'"
  by (auto simp: os_do_def split: option.splits sum.splits)

lemma Symlink_effect:
  assumes "real_dir fs d" and "os_do os (Symlink t (d @ [n])) fs = (r, fs')"
  shows "case r of Inl _ \<Rightarrow> fs' = fs | Inr _ \<Rightarrow> fs' = gm_set (d @ [n]) (Link t) fs"
proof (cases r)
  case (Inr x)
  from os_do_Inr [OF assms(2) [unfolded Inr]] assms(1) Inr show ?thesis
    by (auto simp: symlink_def entry_real split: option.splits)
qed (use assms os_do_Inl in auto)

lemma Remove_effect:
  assumes "real_dir fs d" and "os_do os (Remove (d @ [n])) fs = (r, fs')"
  shows "fs' = fs \<or> fs' = gm_del (d @ [n]) fs"
proof (cases r)
  case (Inr x)
  from os_do_Inr [OF assms(2) [unfolded Inr]] assms(1) Inr show ?thesis
    by (auto simp: remove_def entry_real split: option.splits node.splits if_splits)
qed (use assms os_do_Inl in auto)

lemma Rename_effect:
  assumes "real_dir fs d" and "os_do os (Rename (d @ [a]) (d @ [b])) fs = (r, fs')"
  shows "case r of Inl _ \<Rightarrow> fs' = fs
    | Inr _ \<Rightarrow> \<exists>nd. gm_get fs (d @ [a]) = Some nd \<and> fs' = gm_set (d @ [b]) nd (gm_del (d @ [a]) fs)"
proof (cases r)
  case (Inr x)
  from os_do_Inr [OF assms(2) [unfolded Inr]] assms(1) Inr show ?thesis
    by (auto simp: rename_link_def entry_real split: option.splits node.splits)
qed (use assms os_do_Inl in auto)

lemma Chmod_effect:
  assumes "real_dir fs d" and "os_do os (Chmod d m) fs = (r, fs')"
  shows "case r of Inl _ \<Rightarrow> fs' = fs | Inr _ \<Rightarrow> fs' = (if d = [] then fs else gm_set d (Dir m) fs)"
proof (cases r)
  case (Inr x)
  from os_do_Inr [OF assms(2) [unfolded Inr]] Inr walk_real [OF assms(1), of maxLinks "[]"] real_dir_is_dir [OF assms(1)]
  show ?thesis by (auto simp: chmod_def is_dir_def)
qed (use assms os_do_Inl in auto)

lemma mkdir_all_real:
  "(\<And>p. prefix p ds \<Longrightarrow> is_dir fs (cur @ p)) \<Longrightarrow> mkdir_all m fs cur (ds @ rest) = mkdir_all m fs (cur @ ds) rest"
proof (induction ds arbitrary: cur)
  case (Cons c ds)
  have "is_dir fs (cur @ [c])" using Cons.prems [of "[c]"] by simp
  moreover have "mkdir_all m fs (cur @ [c]) (ds @ rest) = mkdir_all m fs ((cur @ [c]) @ ds) rest"
    using Cons.prems [of "c # p" for p] by (intro Cons.IH) simp
  ultimately show ?case by (auto simp: is_dir_def)
qed simp

lemma MkdirAll_effect:
  assumes "real_dir fs d" and "gm_get fs (d @ [n]) = None" and "os_do os (MkdirAll (d @ [n]) m) fs = (r, fs')"
  shows "case r of Inl _ \<Rightarrow> fs' = fs | Inr _ \<Rightarrow> fs' = gm_set (d @ [n]) (Dir (masked (os_umask os) m)) fs"
proof (cases r)
  case (Inr x)
  have "mkdir_all (masked (os_umask os) m) fs [] (d @ [n]) = Inr (gm_set (d @ [n]) (Dir (masked (os_umask os) m)) fs)"
    using assms(1,2) mkdir_all_real [of d fs "[]" _ "[n]"] by (simp add: real_dir_def)
  with os_do_Inr [OF assms(3) [unfolded Inr]] Inr show ?thesis by auto
qed (use assms os_do_Inl in auto)

lemma WriteFile_effect:
  assumes "real_dir fs d" and "gm_get fs (d @ [n]) = None" and "os_do os (WriteFile (d @ [n]) c m) fs = (r, fs')"
  shows "case r of
      Inl _ \<Rightarrow> fs' = fs \<or> (\<exists>k. fs' = gm_set (d @ [n]) (File (take k c) (masked (os_umask os) m)) fs)
    | Inr _ \<Rightarrow> fs' = gm_set (d @ [n]) (File c (masked (os_umask os) m)) fs"
proof -
  have "follow maxLinks fs (d @ [n]) = Some (d @ [n])"
    using assms(1,2) by (simp add: maxLinks_def numeral_eq_Suc entry_real)
  then have "write_file (masked (os_umask os) m) fs (d @ [n]) c' = Inr (gm_set (d @ [n]) (File c' (masked (os_umask os) m)) fs)" for c'
    using assms(2) by (simp add: write_file_def)
  moreover have "partial_effect um (WriteFile p c m) k fs = (case k of None \<Rightarrow> fs | Some k \<Rightarrow>
      (case write_file (masked um m) fs p (take k c) of Inl _ \<Rightarrow> fs | Inr fs' \<Rightarrow> fs'))" for um p k
    by (cases k) auto
  ultimately show ?thesis using assms(3)
    by (auto simp: os_do_def split: option.splits)
qed

end
