(* ===== verification/Service_Account.thy ===== *)
theory Service_Account
  imports File_System Kubelet_Shim
begin

text \<open>
  \<^verbatim>\<open>src/internal/kubeletshim/kubeletshim.go\<close>, \<^verbatim>\<open>New\<close> and the files under the ServiceAccount path:
  the layout of kubelet's atomic writer (a dated directory, the link \<^verbatim>\<open>..data\<close> to it, a link per
  file), written so that readers through \<^verbatim>\<open>..data\<close> see the old files or the new ones.
\<close>

section \<open>The layout\<close>

definition dataDir_of :: "int \<Rightarrow> string" where
  "dataDir_of t =
     (let secs = t div second;
          (y, m, d) = civil_date (secs div 86400);
          r = secs mod 86400 in
      ''..'' @ pad_digits 4 y @ ''_'' @ pad_digits 2 m @ ''_'' @ pad_digits 2 d @ ''_''
      @ pad_digits 2 (r div 3600) @ ''_'' @ pad_digits 2 (r mod 3600 div 60) @ ''_'' @ pad_digits 2 (r mod 60)
      @ ''.'' @ pad_digits 9 (t mod second))"

abbreviation "data_link \<equiv> ''..data''"
abbreviation "data_tmp \<equiv> ''..data.tmp''"

definition ignore_error :: "(fs, unit) call \<Rightarrow> (fs, unit) call" where
  "ignore_error m = try_call m (\<lambda>_. ok ())"

definition write_leaf :: "os_env \<Rightarrow> path \<Rightarrow> string \<Rightarrow> (fs, unit) call" where
  "write_leaf os dir name =
     and_then (ignore_error (os_do os (Remove (dir @ [name])))) (\<lambda>_.
       os_do os (Symlink [data_link, name] (dir @ [name])))"

text \<open>The files come in the order Go happens to range over the map. The mode is 01777.\<close>

definition WriteServiceAccountLayout :: "os_env \<Rightarrow> int \<Rightarrow> path \<Rightarrow> (string \<times> string) list \<Rightarrow> (fs, unit) call" where
  "WriteServiceAccountLayout os now dir files =
     (let dataDir = dataDir_of now; full = dir @ [dataDir]; tmp = dir @ [data_tmp] in
      and_then (os_do os (MkdirAll full 493)) (\<lambda>_.
      and_then (each files (\<lambda>(name, content). os_do os (WriteFile (full @ [name]) content 420))) (\<lambda>_.
      and_then (ignore_error (os_do os (Remove tmp))) (\<lambda>_.
      and_then (os_do os (Symlink [dataDir] tmp)) (\<lambda>_.
      and_then (os_do os (Rename tmp (dir @ [data_link]))) (\<lambda>_.
      and_then (each files (\<lambda>(name, _). write_leaf os dir name)) (\<lambda>_.
        os_do os (Chmod dir 1023))))))))"

definition path_of :: "string \<Rightarrow> path" where
  "path_of s = filter (\<lambda>c. c \<noteq> '''') (Split s CHR ''/'')"

definition writeServiceAccountFiles :: "os_env \<Rightarrow> int \<Rightarrow> ShimConfig \<Rightarrow> (fs, unit) call" where
  "writeServiceAccountFiles os now cfg fs =
     (let dir = path_of (cfg_serviceAccountDir cfg) in
      if Lstat fs (dir @ [data_link]) \<noteq> None then (Inr (), fs)
      else
        (case (if cfg_caBundlePath cfg \<noteq> '''' then ReadFile fs (path_of (cfg_caBundlePath cfg)) else Some '''') of
           None \<Rightarrow> (Inl not_exist, fs)
         | Some ca \<Rightarrow>
             WriteServiceAccountLayout os now dir
               [(''token'', cfg_serviceAccountToken cfg), (''namespace'', cfg_namespace cfg), (''ca.crt'', ca)] fs))"

text \<open>\<open>clients\<close> stands for building the two API clients from the REST configuration.\<close>

definition New :: "(fs, unit) call \<Rightarrow> (fs, unit) call \<Rightarrow> os_env \<Rightarrow> int \<Rightarrow> ShimConfig \<Rightarrow> (fs, Shim) call" where
  "New client crdClient os now cfg =
     and_then (on_error (wrap_error ''building inner apiserver client'') client) (\<lambda>_.
     and_then (on_error (wrap_error ''building inner apiserver CRD client'') crdClient) (\<lambda>_.
     and_then (if cfg_serviceAccountDir cfg \<noteq> ''''
               then on_error (wrap_error ''writing serviceaccount files'') (writeServiceAccountFiles os now cfg)
               else ok ()) (\<lambda>_.
       ok \<lparr>sh_cfg = cfg, sh_logLines = [], sh_installedCRDs = [], sh_objectUIDs = [], sh_seededPrev = [], sh_seededCur = None\<rparr>)))"

section \<open>Facts\<close>

text \<open>What a reader sees below \<^verbatim>\<open>..data\<close>.\<close>

definition sees :: "fs \<Rightarrow> path \<Rightarrow> string \<Rightarrow> string option" where
  "sees fs dir name = ReadFile fs (dir @ [data_link, name])"

text \<open>A tree in which \<^verbatim>\<open>dir\<close> is ready to be written: a real directory that holds no layout or a complete one.\<close>

definition layout_ready :: "fs \<Rightarrow> path \<Rightarrow> string \<Rightarrow> string list \<Rightarrow> bool" where
  "layout_ready fs dir dataDir names \<longleftrightarrow>
     real_dir fs dir
     \<and> (\<forall>k \<in> set (map fst fs). \<not> prefix (dir @ [dataDir]) k)
     \<and> distinct names \<and> data_link \<notin> set names \<and> dataDir \<notin> set names \<and> data_tmp \<notin> set names
     \<and> dataDir \<noteq> data_link \<and> dataDir \<noteq> data_tmp
     \<and> (case gm_get fs (dir @ [data_link]) of
          None \<Rightarrow> True
        | Some (Link [old]) \<Rightarrow>
            old \<noteq> data_tmp \<and> old \<notin> set names \<and> is_dir fs (dir @ [old])
            \<and> (\<forall>name t. gm_get fs (dir @ [old, name]) \<noteq> Some (Link t))
        | _ \<Rightarrow> False)"

lemma layout_readyD:
  assumes "layout_ready fs dir dataDir names"
  shows "real_dir fs dir" and "prefix (dir @ [dataDir]) k \<Longrightarrow> gm_get fs k = None" and "distinct names"
    and "data_link \<notin> set names" and "dataDir \<notin> set names" and "dataDir \<noteq> data_link" and "dataDir \<noteq> data_tmp"
proof -
  show "prefix (dir @ [dataDir]) k \<Longrightarrow> gm_get fs k = None"
    using assms gm_get_None_iff [of fs k] by (auto simp: layout_ready_def)
qed (use assms in \<open>auto simp: layout_ready_def\<close>)

text \<open>Reading through the link, where it points to a real directory without links.\<close>

lemma sees_linked:
  assumes "real_dir fs dir" and "gm_get fs (dir @ [data_link]) = Some (Link [d])" and "is_dir fs (dir @ [d])"
    and "\<And>t. gm_get fs (dir @ [d, name]) \<noteq> Some (Link t)"
  shows "sees fs dir name = (case gm_get fs (dir @ [d, name]) of Some (File c _) \<Rightarrow> Some c | _ \<Rightarrow> None)"
proof -
  obtain m where d: "gm_get fs (dir @ [d]) = Some (Dir m)" using assms(3) by (auto simp: is_dir_def)
  have n: "node_at fs (dir @ [d, name]) = gm_get fs (dir @ [d, name])" by (simp add: node_at_def)
  have "walk maxLinks fs [] (dir @ [data_link, name]) = walk 39 fs (dir @ [d]) [name]"
    using assms(2) d by (simp add: walk_real [OF assms(1)] maxLinks_def numeral_eq_Suc)
  with n assms(4) show ?thesis
    by (auto simp: sees_def ReadFile_def split: option.splits node.splits)
qed

lemma sees_nothing:
  assumes "real_dir fs dir" and "gm_get fs (dir @ [data_link]) = None"
  shows "sees fs dir name = None"
  using assms by (simp add: sees_def ReadFile_def walk_real)

text \<open>Until the link is swapped, only the new directory and the temporary link have changed.\<close>

definition untouched :: "path \<Rightarrow> string \<Rightarrow> fs \<Rightarrow> fs \<Rightarrow> bool" where
  "untouched dir dataDir fs0 fs \<longleftrightarrow>
     (\<forall>k. \<not> prefix (dir @ [dataDir]) k \<longrightarrow> k \<noteq> dir @ [data_tmp] \<longrightarrow> gm_get fs k = gm_get fs0 k)"

lemma untouched_refl: "untouched dir dataDir fs fs"
  by (simp add: untouched_def)

lemma untouched_real:
  assumes "layout_ready fs0 dir dataDir names" and "untouched dir dataDir fs0 fs"
  shows "real_dir fs dir"
proof (rule real_dir_cong [OF layout_readyD(1) [OF assms(1)]])
  fix p assume "prefix p dir"
  then have "\<not> prefix (dir @ [dataDir]) p" "p \<noteq> dir @ [data_tmp]"
    using prefix_length_le [of p dir] prefix_length_le [of "dir @ [dataDir]" p] by auto
  with assms(2) show "gm_get fs p = gm_get fs0 p" by (simp add: untouched_def)
qed

lemma untouched_change:
  assumes "untouched dir dataDir fs0 fs" and "prefix (dir @ [dataDir]) k \<or> k = dir @ [data_tmp]"
  shows "untouched dir dataDir fs0 (gm_set k v fs)" and "untouched dir dataDir fs0 (gm_del k fs)"
  using assms by (auto simp: untouched_def gm.get_set gm.get_del)

lemma untouched_sees:
  assumes ready: "layout_ready fs0 dir dataDir names" and u: "untouched dir dataDir fs0 fs"
  shows "sees fs dir name = sees fs0 dir name"
proof -
  note real = layout_readyD(1) [OF ready] untouched_real [OF ready u]
  have "\<not> prefix (dir @ [dataDir]) (dir @ [data_link])" using layout_readyD(6) [OF ready] by simp
  then have l: "gm_get fs (dir @ [data_link]) = gm_get fs0 (dir @ [data_link])" using u by (simp add: untouched_def)
  consider "gm_get fs0 (dir @ [data_link]) = None"
    | old where "gm_get fs0 (dir @ [data_link]) = Some (Link [old])" "is_dir fs0 (dir @ [old])" "old \<noteq> data_tmp"
        "\<And>n t. gm_get fs0 (dir @ [old, n]) \<noteq> Some (Link t)"
    using ready by (auto simp: layout_ready_def split: option.splits node.splits list.splits)
  then show ?thesis
  proof cases
    case 1
    with l show ?thesis by (simp add: sees_nothing [OF real(1)] sees_nothing [OF real(2)])
  next
    case 2
    have "old \<noteq> dataDir"
      using 2(2) layout_readyD(2) [OF ready, of "dir @ [dataDir]"] by (auto simp: is_dir_def)
    then have same: "gm_get fs (dir @ old # ns) = gm_get fs0 (dir @ old # ns)" for ns
      using u 2(3) by (auto simp: untouched_def)
    have "is_dir fs (dir @ [old])" using 2(2) same [of "[]"] by (simp add: is_dir_def)
    with 2 l same show ?thesis
      by (simp add: sees_linked [OF real(1)] sees_linked [OF real(2)])
  qed
qed

text \<open>The new directory after some of the files.\<close>

definition new_data :: "path \<Rightarrow> string \<Rightarrow> nat \<Rightarrow> (string \<times> string) list \<Rightarrow> fs \<Rightarrow> bool" where
  "new_data dir dataDir mode files fs \<longleftrightarrow>
     is_dir fs (dir @ [dataDir])
     \<and> (\<forall>name. gm_get fs (dir @ [dataDir, name]) = map_option (\<lambda>c. File c mode) (map_of files name))"

lemma write_files:
  assumes "layout_ready fs0 dir dataDir names"
    and "untouched dir dataDir fs0 fs" and "new_data dir dataDir (masked (os_umask os) 420) written fs"
    and "distinct (map fst (written @ files))"
    and "each files (\<lambda>(name, content). os_do os (WriteFile ((dir @ [dataDir]) @ [name]) content 420)) fs = (r, fs')"
  shows "untouched dir dataDir fs0 fs' \<and> (\<forall>x. r = Inr x \<longrightarrow> new_data dir dataDir (masked (os_umask os) 420) (written @ files) fs')"
  using assms(2-)
proof (induction files arbitrary: fs written)
  case (Cons nc files)
  obtain n c where nc: "nc = (n, c)" by fastforce
  obtain r1 fs1 where w: "os_do os (WriteFile ((dir @ [dataDir]) @ [n]) c 420) fs = (r1, fs1)" by fastforce
  have real: "real_dir fs (dir @ [dataDir])"
    using untouched_real [OF assms(1) Cons.prems(1)] Cons.prems(2) by (simp add: real_dir_snoc new_data_def)
  have unwritten: "map_of written n = None" using Cons.prems(3) nc by (auto simp: map_of_eq_None_iff)
  then have fresh: "gm_get fs ((dir @ [dataDir]) @ [n]) = None"
    using Cons.prems(2) by (simp add: new_data_def)
  note effect = WriteFile_effect [OF real fresh w]
  have u1: "untouched dir dataDir fs0 fs1"
    using effect untouched_change(1) [OF Cons.prems(1), of "(dir @ [dataDir]) @ [n]"] Cons.prems(1)
    by (auto split: sum.splits)
  show ?case
  proof (cases r1)
    case (Inl e)
    with Cons.prems(4) w nc u1 show ?thesis by auto
  next
    case (Inr x)
    with effect have fs1: "fs1 = gm_set ((dir @ [dataDir]) @ [n]) (File c (masked (os_umask os) 420)) fs" by simp
    have "new_data dir dataDir (masked (os_umask os) 420) (written @ [(n, c)]) fs1"
      using Cons.prems(2) unwritten
      by (auto simp: new_data_def fs1 gm.get_set is_dir_def node_at_def map_add_def split: option.splits)
    moreover have "each files (\<lambda>(name, content). os_do os (WriteFile ((dir @ [dataDir]) @ [name]) content 420)) fs1 = (r, fs')"
      using Cons.prems(4) w nc Inr by simp
    ultimately show ?thesis
      using Cons.IH [of fs1 "written @ [(n, c)]"] u1 Cons.prems(3) nc by simp
  qed
qed simp

text \<open>After the swap: the link leads to the new directory, which is complete.\<close>

definition published :: "path \<Rightarrow> string \<Rightarrow> nat \<Rightarrow> (string \<times> string) list \<Rightarrow> fs \<Rightarrow> bool" where
  "published dir dataDir mode files fs \<longleftrightarrow>
     real_dir fs dir \<and> gm_get fs (dir @ [data_link]) = Some (Link [dataDir]) \<and> new_data dir dataDir mode files fs"

lemma published_sees:
  assumes "published dir dataDir mode files fs"
  shows "sees fs dir name = map_of files name"
proof -
  have "sees fs dir name = (case gm_get fs (dir @ [dataDir, name]) of Some (File c _) \<Rightarrow> Some c | _ \<Rightarrow> None)"
    using assms by (intro sees_linked) (auto simp: published_def new_data_def)
  then show ?thesis using assms by (auto simp: published_def new_data_def split: option.splits)
qed

lemma published_change:
  assumes "published dir dataDir mode files fs" and "n \<noteq> data_link" and "n \<noteq> dataDir"
  shows "published dir dataDir mode files (gm_set (dir @ [n]) v fs)" and "published dir dataDir mode files (gm_del (dir @ [n]) fs)"
proof -
  have "real_dir (gm_set (dir @ [n]) v fs) dir" "real_dir (gm_del (dir @ [n]) fs) dir"
    using assms(1) by (auto simp: published_def gm.get_set gm.get_del intro!: real_dir_cong [of fs dir])
  with assms show "published dir dataDir mode files (gm_set (dir @ [n]) v fs)" "published dir dataDir mode files (gm_del (dir @ [n]) fs)"
    by (auto simp: published_def new_data_def gm.get_set gm.get_del is_dir_def node_at_def)
qed

lemma published_leaf:
  assumes "published dir dataDir mode files fs" and "n \<noteq> data_link" and "n \<noteq> dataDir"
    and "write_leaf os dir n fs = (r, fs')"
  shows "published dir dataDir mode files fs'"
    and "gm_get fs' k = (if k = dir @ [n] then gm_get fs' k else gm_get fs k)"
    and "r = Inr x \<Longrightarrow> gm_get fs' (dir @ [n]) = Some (Link [data_link, n])"
proof -
  obtain r1 fs1 where rm: "os_do os (Remove (dir @ [n])) fs = (r1, fs1)" by fastforce
  have p: "published dir dataDir mode files fs1" and k: "k \<noteq> dir @ [n] \<Longrightarrow> gm_get fs1 k = gm_get fs k"
    using Remove_effect [OF _ rm] assms(1) published_change [OF assms(1-3)] by (auto simp: published_def gm.get_del)
  have "os_do os (Symlink [data_link, n] (dir @ [n])) fs1 = (r, fs')"
    using assms(4) rm by (simp add: write_leaf_def ignore_error_def and_then_run)
  note effect = Symlink_effect [OF _ this]
  show "published dir dataDir mode files fs'"
    using effect p published_change(1) [OF p assms(2,3)] by (auto simp: published_def split: sum.splits)
  show "gm_get fs' k = (if k = dir @ [n] then gm_get fs' k else gm_get fs k)"
    using effect p k by (auto simp: published_def gm.get_set split: sum.splits)
  show "gm_get fs' (dir @ [n]) = Some (Link [data_link, n])" if "r = Inr x"
    using effect p that by (auto simp: published_def gm.get_set)
qed

lemma write_leaves:
  assumes "published dir dataDir mode files fs" and "data_link \<notin> set names" and "dataDir \<notin> set names" and "distinct names"
    and "each names (write_leaf os dir) fs = (r, fs')"
  shows "published dir dataDir mode files fs'
    \<and> (\<forall>k. k \<notin> (\<lambda>n. dir @ [n]) ` set names \<longrightarrow> gm_get fs' k = gm_get fs k)
    \<and> (\<forall>x. r = Inr x \<longrightarrow> (\<forall>n \<in> set names. gm_get fs' (dir @ [n]) = Some (Link [data_link, n])))"
  using assms
proof (induction names arbitrary: fs)
  case (Cons n names)
  obtain r1 fs1 where w: "write_leaf os dir n fs = (r1, fs1)" by fastforce
  have n: "n \<noteq> data_link" "n \<noteq> dataDir" using Cons.prems(2,3) by auto
  note leaf = published_leaf [OF Cons.prems(1) n w]
  have rest: "gm_get fs1 k = gm_get fs k" if "k \<noteq> dir @ [n]" for k using leaf(2) [of k] that by simp
  show ?case
  proof (cases r1)
    case (Inl e)
    with Cons.prems(5) w leaf(1) rest show ?thesis by auto
  next
    case (Inr x)
    with Cons.prems(5) w have e: "each names (write_leaf os dir) fs1 = (r, fs')" by simp
    have "gm_get fs1 (dir @ [n]) = Some (Link [data_link, n])" using leaf(3) Inr by simp
    moreover have "gm_get fs' (dir @ [n]) = gm_get fs1 (dir @ [n])"
      using Cons.IH [OF leaf(1) _ _ _ e] Cons.prems(2-4) by auto
    ultimately show ?thesis
      using Cons.IH [OF leaf(1) _ _ _ e] Cons.prems(2-4) rest by auto
  qed
qed simp

lemma each_fst: "each xs (\<lambda>(n, _). f n) = each (map fst xs) f"
  by (induction xs) (auto simp: fun_eq_iff and_then_run split: prod.splits sum.splits)

text \<open>The first half of the layout, up to and including the swap.\<close>

definition swap_in :: "os_env \<Rightarrow> string \<Rightarrow> path \<Rightarrow> (string \<times> string) list \<Rightarrow> (fs, unit) call" where
  "swap_in os dataDir dir files =
     and_then (os_do os (MkdirAll (dir @ [dataDir]) 493)) (\<lambda>_.
     and_then (each files (\<lambda>(name, content). os_do os (WriteFile ((dir @ [dataDir]) @ [name]) content 420))) (\<lambda>_.
     and_then (ignore_error (os_do os (Remove (dir @ [data_tmp])))) (\<lambda>_.
     and_then (os_do os (Symlink [dataDir] (dir @ [data_tmp]))) (\<lambda>_.
       os_do os (Rename (dir @ [data_tmp]) (dir @ [data_link]))))))"

lemma layout_halves:
  "WriteServiceAccountLayout os now dir files =
     and_then (swap_in os (dataDir_of now) dir files) (\<lambda>_.
     and_then (each (map fst files) (write_leaf os dir)) (\<lambda>_. os_do os (Chmod dir 1023)))"
  unfolding WriteServiceAccountLayout_def Let_def swap_in_def and_then_assoc
  by (simp add: each_fst [of files "write_leaf os dir", symmetric])

lemma new_data_change:
  assumes "new_data dir dataDir mode files fs" and "n \<noteq> dataDir"
  shows "new_data dir dataDir mode files (gm_set (dir @ [n]) v fs)" and "new_data dir dataDir mode files (gm_del (dir @ [n]) fs)"
  using assms by (auto simp: new_data_def is_dir_def gm.get_set gm.get_del)

lemma swap_link:
  assumes ready: "layout_ready fs0 dir dataDir names" and u: "untouched dir dataDir fs0 fs"
    and nd: "new_data dir dataDir mode files fs"
    and run: "and_then (ignore_error (os_do os (Remove (dir @ [data_tmp])))) (\<lambda>_.
      and_then (os_do os (Symlink [dataDir] (dir @ [data_tmp]))) (\<lambda>_.
        os_do os (Rename (dir @ [data_tmp]) (dir @ [data_link])))) fs = (r, fs')"
  shows "case r of Inl _ \<Rightarrow> untouched dir dataDir fs0 fs' | Inr _ \<Rightarrow> published dir dataDir mode files fs'"
proof -
  note d = layout_readyD [OF ready]
  have tmp: "data_tmp \<noteq> dataDir" using d(7) by simp
  obtain r1 fs1 where rm: "os_do os (Remove (dir @ [data_tmp])) fs = (r1, fs1)" by fastforce
  have u1: "untouched dir dataDir fs0 fs1" and n1: "new_data dir dataDir mode files fs1"
    using Remove_effect [OF untouched_real [OF ready u] rm] u nd untouched_change(2) [OF u, of "dir @ [data_tmp]"]
      new_data_change(2) [OF nd tmp] by auto
  obtain r2 fs2 where sy: "os_do os (Symlink [dataDir] (dir @ [data_tmp])) fs1 = (r2, fs2)" by fastforce
  note link = Symlink_effect [OF untouched_real [OF ready u1] sy]
  have u2: "untouched dir dataDir fs0 fs2" and n2: "new_data dir dataDir mode files fs2"
    using link u1 n1 untouched_change(1) [OF u1, of "dir @ [data_tmp]"] new_data_change(1) [OF n1 tmp] by (auto split: sum.splits)
  note real2 = untouched_real [OF ready u2]
  show ?thesis
  proof (cases r2)
    case (Inl e)
    with run rm sy u2 show ?thesis by (auto simp: ignore_error_def and_then_run)
  next
    case (Inr x)
    with run rm sy have rn: "os_do os (Rename (dir @ [data_tmp]) (dir @ [data_link])) fs2 = (r, fs')"
      by (simp add: ignore_error_def and_then_run)
    have t: "gm_get fs2 (dir @ [data_tmp]) = Some (Link [dataDir])" using link Inr by (simp add: gm.get_set)
    show ?thesis
    proof (cases r)
      case (Inl e)
      with Rename_effect [OF real2 rn] u2 show ?thesis by simp
    next
      case (Inr y)
      with Rename_effect [OF real2 rn] t
      have fs': "fs' = gm_set (dir @ [data_link]) (Link [dataDir]) (gm_del (dir @ [data_tmp]) fs2)" by simp
      have "real_dir fs' dir"
        using real2 by (rule real_dir_cong) (auto simp: fs' gm.get_set gm.get_del)
      moreover have "new_data dir dataDir mode files fs'"
        unfolding fs' using d(6) by (intro new_data_change(1) new_data_change(2) [OF n2 tmp]) simp
      ultimately show ?thesis using Inr by (simp add: published_def fs' gm.get_set)
    qed
  qed
qed

lemma swap_in_outcome:
  assumes ready: "layout_ready fs0 dir dataDir (map fst files)" and run: "swap_in os dataDir dir files fs0 = (r, fs')"
  shows "case r of
      Inl _ \<Rightarrow> untouched dir dataDir fs0 fs'
    | Inr _ \<Rightarrow> published dir dataDir (masked (os_umask os) 420) files fs'"
proof -
  let ?mode = "masked (os_umask os) 420"
  note d = layout_readyD [OF ready]
  obtain r1 fs1 where mk: "os_do os (MkdirAll (dir @ [dataDir]) 493) fs0 = (r1, fs1)" by fastforce
  have u1: "untouched dir dataDir fs0 fs1" and "r1 = Inr x \<Longrightarrow> new_data dir dataDir ?mode [] fs1" for x
    using MkdirAll_effect [OF d(1) d(2) mk] untouched_change(1) [OF untouched_refl, of dir dataDir "dir @ [dataDir]"]
      untouched_refl d(2) by (auto simp: new_data_def is_dir_def gm.get_set split: sum.splits)
  show ?thesis
  proof (cases r1)
    case (Inl e)
    with run mk u1 show ?thesis by (auto simp: swap_in_def)
  next
    case (Inr x)
    obtain r2 fs2 where wr: "each files (\<lambda>(name, content). os_do os (WriteFile ((dir @ [dataDir]) @ [name]) content 420)) fs1 = (r2, fs2)"
      by fastforce
    have u2: "untouched dir dataDir fs0 fs2" and n2: "r2 = Inr y \<Longrightarrow> new_data dir dataDir ?mode files fs2" for y
      using write_files [OF ready u1 \<open>r1 = Inr x \<Longrightarrow> new_data dir dataDir ?mode [] fs1\<close> [OF Inr] _ wr] d(3) by auto
    show ?thesis
    proof (cases r2)
      case (Inl e)
      with run mk wr Inr u2 u1 \<open>r1 = Inr x\<close> show ?thesis by (auto simp: swap_in_def)
    next
      case (Inr y)
      with run mk wr \<open>r1 = Inr x\<close> show ?thesis
        by (intro swap_link [OF ready u2 n2 [OF Inr], of os]) (simp add: swap_in_def)
    qed
  qed
qed

lemma published_chmod:
  assumes "published dir dataDir mode files fs" and "os_do os (Chmod dir m) fs = (r, fs')"
  shows "published dir dataDir mode files fs'" and "gm_get fs' (dir @ [n]) = gm_get fs (dir @ [n])"
    and "r = Inr x \<Longrightarrow> dir \<noteq> [] \<Longrightarrow> node_at fs' dir = Some (Dir m)"
proof -
  have real: "real_dir fs dir" using assms(1) by (simp add: published_def)
  note effect = Chmod_effect [OF real assms(2)]
  have "real_dir (gm_set dir (Dir m) fs) dir"
    using real by (auto simp: real_dir_def is_dir_def node_at_def gm.get_set)
  with effect assms(1) show "published dir dataDir mode files fs'"
    by (auto simp: published_def new_data_def is_dir_def gm.get_set split: sum.splits if_splits)
  show "gm_get fs' (dir @ [n]) = gm_get fs (dir @ [n])"
    using effect by (auto simp: gm.get_set split: sum.splits if_splits)
  show "node_at fs' dir = Some (Dir m)" if "r = Inr x" "dir \<noteq> []"
    using effect that by (simp add: node_at_def gm.get_set)
qed

text \<open>The two ways the writing can end.\<close>

lemma layout_outcome:
  assumes ready: "layout_ready fs dir (dataDir_of now) (map fst files)"
    and run: "WriteServiceAccountLayout os now dir files fs = (r, fs')"
  shows "untouched dir (dataDir_of now) fs fs' \<and> (\<forall>x. r \<noteq> Inr x)
    \<or> published dir (dataDir_of now) (masked (os_umask os) 420) files fs'
      \<and> (\<forall>x. r = Inr x \<longrightarrow> (\<forall>n \<in> fst ` set files. gm_get fs' (dir @ [n]) = Some (Link [data_link, n]))
          \<and> (dir \<noteq> [] \<longrightarrow> node_at fs' dir = Some (Dir 1023)))"
proof -
  note d = layout_readyD [OF ready]
  obtain r1 fs1 where sw: "swap_in os (dataDir_of now) dir files fs = (r1, fs1)" by fastforce
  show ?thesis
  proof (cases r1)
    case (Inl e)
    with run sw swap_in_outcome [OF ready sw] show ?thesis by (auto simp: layout_halves)
  next
    case (Inr x)
    with swap_in_outcome [OF ready sw] have p1: "published dir (dataDir_of now) (masked (os_umask os) 420) files fs1" by simp
    obtain r2 fs2 where lv: "each (map fst files) (write_leaf os dir) fs1 = (r2, fs2)" by fastforce
    note leaves = write_leaves [OF p1 d(4,5,3) lv]
    show ?thesis
    proof (cases r2)
      case (Inl e)
      with run sw lv \<open>r1 = Inr x\<close> leaves show ?thesis by (auto simp: layout_halves)
    next
      case (Inr y)
      with run sw lv \<open>r1 = Inr x\<close> have ch: "os_do os (Chmod dir 1023) fs2 = (r, fs')" by (simp add: layout_halves)
      note chmoded = published_chmod [OF conjunct1 [OF leaves] ch]
      show ?thesis using chmoded leaves Inr by auto
    qed
  qed
qed

text \<open>Reading a file of a layout that was written completely.\<close>

lemma layout_success:
  assumes "layout_ready fs dir (dataDir_of now) (map fst files)" and "dir \<noteq> []"
    and "WriteServiceAccountLayout os now dir files fs = (Inr (), fs')" and "(name, content) \<in> set files"
  shows "ReadFile fs' (dir @ [name]) = Some content \<and> Lstat fs' (dir @ [name]) = Some (Link [data_link, name])
    \<and> Lstat fs' (dir @ [data_link]) = Some (Link [dataDir_of now]) \<and> node_at fs' dir = Some (Dir 1023)"
proof -
  have p: "published dir (dataDir_of now) (masked (os_umask os) 420) files fs'"
    and leaf: "gm_get fs' (dir @ [name]) = Some (Link [data_link, name])" and m: "node_at fs' dir = Some (Dir 1023)"
    using layout_outcome [OF assms(1,3)] assms(2,4) by (auto simp: image_iff)
  have real: "real_dir fs' dir" and link: "gm_get fs' (dir @ [data_link]) = Some (Link [dataDir_of now])"
    and full: "is_dir fs' (dir @ [dataDir_of now])"
    and stored: "gm_get fs' (dir @ [dataDir_of now, name]) = map_option (\<lambda>c. File c (masked (os_umask os) 420)) (map_of files name)"
    using p by (auto simp: published_def new_data_def)
  have c: "map_of files name = Some content" using assms(4) layout_readyD(3) [OF assms(1)] by simp
  have n: "node_at fs' (dir @ [dataDir_of now, name]) = gm_get fs' (dir @ [dataDir_of now, name])" by (simp add: node_at_def)
  have "walk maxLinks fs' [] (dir @ [name]) = walk 38 fs' (dir @ [dataDir_of now]) [name]"
    using leaf link full by (auto simp: walk_real [OF real] maxLinks_def numeral_eq_Suc is_dir_def)
  then have "walk maxLinks fs' [] (dir @ [name]) = Some (dir @ [dataDir_of now, name])"
    using stored c n by simp
  then have "ReadFile fs' (dir @ [name]) = Some content" using stored c n by (simp add: ReadFile_def)
  then show ?thesis using leaf link m by (simp add: Lstat_def entry_real [OF real])
qed

section \<open>Properties\<close>

text \<open>
  C8 The swap of the ServiceAccount files is atomic: whichever call to the file system fails, and
  however much of a file a failed write left behind, a reader going through \<^verbatim>\<open>..data\<close> afterwards sees
  either exactly what it saw before, for every name, or exactly the new set of files; the latter
  whenever success is reported.
\<close>

theorem layout_atomic:
  assumes "layout_ready fs dir (dataDir_of now) (map fst files)"
    and "WriteServiceAccountLayout os now dir files fs = (r, fs')"
  shows "(sees fs' dir = sees fs dir \<and> r \<noteq> Inr ()) \<or> sees fs' dir = map_of files"
proof -
  consider "untouched dir (dataDir_of now) fs fs'" "r \<noteq> Inr ()"
    | "published dir (dataDir_of now) (masked (os_umask os) 420) files fs'"
    using layout_outcome [OF assms] by auto
  then show ?thesis
    by cases (auto simp: untouched_sees [OF assms(1)] published_sees fun_eq_iff)
qed

text \<open>
  After a successful write the directory looks like a mounted ServiceAccount: every file reads,
  through its two links, as the contents given for it, and the directory itself has mode 01777.
\<close>

theorem layout_complete:
  assumes "layout_ready fs dir (dataDir_of now) (map fst files)" and "dir \<noteq> []"
    and "WriteServiceAccountLayout os now dir files fs = (Inr (), fs')" and "(name, content) \<in> set files"
  shows "ReadFile fs' (dir @ [name]) = Some content \<and> Lstat fs' (dir @ [name]) = Some (Link [data_link, name])
    \<and> Lstat fs' (dir @ [data_link]) = Some (Link [dataDir_of now]) \<and> node_at fs' dir = Some (Dir 1023)"
  by (rule layout_success [OF assms])

text \<open>A directory with an older layout, rewritten on a disk that is full when the second file is written.\<close>

definition ex_dir :: path where
  "ex_dir = [''sa'']"

definition ex_fs :: fs where
  "ex_fs = [([''sa''], Dir 511), ([''sa'', ''..old''], Dir 493), ([''sa'', ''..old'', ''token''], File ''t0'' 420),
     ([''sa'', ''..data''], Link [''..old'']), ([''sa'', ''token''], Link [''..data'', ''token''])]"

definition ex_files :: "(string \<times> string) list" where
  "ex_files = [(''token'', ''t1''), (''namespace'', ''app'')]"

definition ex_os :: "bool \<Rightarrow> os_env" where
  "ex_os full = \<lparr>os_umask = 18,
     os_fault = (\<lambda>op _. case op of WriteFile p c m \<Rightarrow> if full \<and> c = ''app'' then Some (errorf ''no space left on device'', Some 1) else None
                         | _ \<Rightarrow> None)\<rparr>"

lemma ex_dataDir: "dataDir_of unix_epoch = ''..1970_01_01_00_00_00.000000000''"
  by code_simp

lemma ex_layout_ready: "layout_ready ex_fs ex_dir (dataDir_of unix_epoch) (map fst ex_files)"
  unfolding ex_dataDir layout_ready_def real_dir_def is_dir_def node_at_def ex_fs_def ex_dir_def ex_files_def gm_get_def
  by (auto simp: prefix_Cons)

theorem layout_atomic_witness:
  "sees (snd (WriteServiceAccountLayout (ex_os True) unix_epoch ex_dir ex_files ex_fs)) ex_dir ''token'' = Some ''t0''
   \<or> sees (snd (WriteServiceAccountLayout (ex_os True) unix_epoch ex_dir ex_files ex_fs)) ex_dir = map_of ex_files"
proof -
  obtain r fs' where run: "WriteServiceAccountLayout (ex_os True) unix_epoch ex_dir ex_files ex_fs = (r, fs')" by fastforce
  have "sees ex_fs ex_dir ''token'' = Some ''t0''"
    by (simp add: sees_def ReadFile_def ex_fs_def ex_dir_def maxLinks_def numeral_eq_Suc node_at_def gm_get_def)
  with layout_atomic [OF ex_layout_ready run] run show ?thesis by auto
qed

theorem layout_complete_witness:
  "ReadFile (snd (WriteServiceAccountLayout (ex_os False) unix_epoch ex_dir ex_files ex_fs)) [''sa'', ''token''] = Some ''t1''"
proof -
  have run: "fst (WriteServiceAccountLayout (ex_os False) unix_epoch ex_dir ex_files ex_fs) = Inr ()"
    unfolding WriteServiceAccountLayout_def ex_dataDir Let_def by code_simp
  obtain fs' where run': "WriteServiceAccountLayout (ex_os False) unix_epoch ex_dir ex_files ex_fs = (Inr (), fs')"
    using run by (metis prod.collapse)
  with layout_complete [OF ex_layout_ready _ run', of "''token''" "''t1''"] show ?thesis
    by (simp add: ex_dir_def ex_files_def)
qed

end
