(* ===== verification/Shim_Main.thy ===== *)
theory Shim_Main
  imports Go_Flags Service_Account Exec_Init Kubelet_Stats Render_Pod
begin

text \<open>
  \<^verbatim>\<open>src/cmd/kubelet-shim/main.go\<close>: the modes of the program, how its flags become the shim's
  configuration, the wait for the API server and the background seeding.
\<close>

section \<open>Flags\<close>

definition shim_flags :: "(string \<times> flag_kind \<times> string) list" where
  "shim_flags =
     [(''apiserver'', StringFlag, ''https://127.0.0.1:8443''), (''ca-file'', StringFlag, ''/etc/kubernetes/pki/ca.crt''),
      (''token-file'', StringFlag, ''/etc/kubernetes/pki/token''), (''client-token-file'', StringFlag, ''''),
      (''seed'', StringFlag, ''/etc/kubernetes/seed.json''), (''node-internal-ip'', StringFlag, ''''),
      (''kubelet-port'', IntFlag, ''10250''), (''kubernetes-service-port'', IntFlag, ''6443''),
      (''exec-profile'', StringFlag, ''shell''), (''exec-isolation'', BoolFlag, ''false''),
      (''listen'', StringFlag, '':10250''), (''tls-cert-file'', StringFlag, ''/etc/kubernetes/pki/tls.crt''),
      (''tls-key-file'', StringFlag, ''/etc/kubernetes/pki/tls.key''), (''heartbeat-interval'', DurationFlag, ''20s''),
      (''sa-dir'', StringFlag, ''/var/run/secrets/kubernetes.io/serviceaccount''), (''namespace'', StringFlag, ''''),
      (''kubernetes-version'', StringFlag, ''v1.35.0''), (''record-exec-sessions'', BoolFlag, ''true''),
      (''write-sa-layout'', BoolFlag, ''false'')]"

definition shim_kinds :: "(string, flag_kind) gomap" where
  "shim_kinds = map (\<lambda>(n, k, d). (n, k)) shim_flags"

definition shim_defaults :: smap where
  "shim_defaults = map (\<lambda>(n, k, d). (n, d)) shim_flags"

text \<open>\<open>duration\<close> says which texts \<^verbatim>\<open>time.ParseDuration\<close> accepts.\<close>

definition parse_shim_flags :: "(string \<Rightarrow> bool) \<Rightarrow> string list \<Rightarrow> nat + smap" where
  "parse_shim_flags duration args = parse_flags duration shim_kinds args shim_defaults"

text \<open>The conversion \<^verbatim>\<open>int32(...)\<close> of a flag.\<close>

definition to_int32 :: "int \<Rightarrow> int" where
  "to_int32 n = sint (word_of_int n :: 32 word)"

definition shim_config :: "smap \<Rightarrow> Seed \<Rightarrow> string \<Rightarrow> ShimConfig" where
  "shim_config fl s token =
     \<lparr>cfg_seed = s, cfg_seedPath = sm_get fl ''seed'', cfg_nodeInternalIP = sm_get fl ''node-internal-ip'',
      cfg_kubeletPort = to_int32 (int_flag fl ''kubelet-port''),
      cfg_kubernetesServicePort = to_int32 (int_flag fl ''kubernetes-service-port''),
      cfg_execProfile = sm_get fl ''exec-profile'', cfg_execIsolation = bool_flag fl ''exec-isolation'',
      cfg_serviceAccountToken = token, cfg_serviceAccountDir = sm_get fl ''sa-dir'', cfg_namespace = sm_get fl ''namespace'',
      cfg_caBundlePath = sm_get fl ''ca-file'', cfg_recordExecSessions = bool_flag fl ''record-exec-sessions''\<rparr>"

record RestConfig =
  re_host :: string
  re_bearerToken :: string
  re_userAgent :: string
  re_caFile :: string

section \<open>Start-up\<close>

text \<open>How the program ends before it serves, and what it serves with.\<close>

datatype shim_start =
    ExecInit "string list"
  | FlagExit nat
  | Fatal string
  | LayoutWritten
  | Serve ShimConfig RestConfig "(string \<times> string) option"

definition read_file :: "string \<Rightarrow> (fs, string) call" where
  "read_file p fs = (case ReadFile fs (path_of p) of None \<Rightarrow> (Inl not_exist, fs) | Some c \<Rightarrow> (Inr c, fs))"

definition layout_files :: "smap \<Rightarrow> (fs, (string \<times> string) list) call" where
  "layout_files fl =
     and_then (on_error (wrap_error ''loading decoy token'') (read_file (sm_get fl ''token-file''))) (\<lambda>tok.
       let files = [(''token'', TrimSpace tok), (''namespace'', sm_get fl ''namespace'')] in
       if sm_get fl ''ca-file'' \<noteq> '''' then
         and_then (on_error (wrap_error ''loading ca'') (read_file (sm_get fl ''ca-file''))) (\<lambda>ca. ok (files @ [(''ca.crt'', ca)]))
       else ok files)"

definition write_layout_mode :: "os_env \<Rightarrow> int \<Rightarrow> smap \<Rightarrow> (fs, unit) call" where
  "write_layout_mode os now fl =
     and_then (layout_files fl) (\<lambda>files.
       on_error (wrap_error ''writing serviceaccount layout'')
         (WriteServiceAccountLayout os now (path_of (sm_get fl ''sa-dir'')) files))"

text \<open>\<open>platform\<close> is \<^verbatim>\<open>GOOS/GOARCH\<close> of the build.\<close>

definition load_config :: "(string \<Rightarrow> json option) \<Rightarrow> string \<Rightarrow> smap \<Rightarrow> (fs, ShimConfig \<times> RestConfig) call" where
  "load_config parse platform fl =
     and_then (on_error (wrap_error ''loading seed'') (Load read_file parse (sm_get fl ''seed''))) (\<lambda>s.
     and_then (on_error (wrap_error ''loading decoy token'') (read_file (sm_get fl ''token-file''))) (\<lambda>tokBytes.
     let token = TrimSpace tokBytes in
     and_then (if sm_get fl ''client-token-file'' \<noteq> ''''
               then and_then (on_error (wrap_error ''loading client token'') (read_file (sm_get fl ''client-token-file''))) (\<lambda>b. ok (TrimSpace b))
               else ok token) (\<lambda>clientToken.
       ok (shim_config fl s token,
           \<lparr>re_host = sm_get fl ''apiserver'', re_bearerToken = clientToken,
            re_userAgent = ''kubelet/'' @ sm_get fl ''kubernetes-version'' @ '' ('' @ platform @ '') kubernetes/$Format'',
            re_caFile = sm_get fl ''ca-file''\<rparr>))))"

text \<open>
  \<open>args\<close> is \<^verbatim>\<open>os.Args\<close>, the program name included. Before it serves, the program copies the flag
  values off the argument memory and overwrites that memory; \<open>Serve\<close> carries what is left there.
\<close>

definition shim_main ::
  "(string \<Rightarrow> bool) \<Rightarrow> (string \<Rightarrow> json option) \<Rightarrow> string \<Rightarrow> os_env \<Rightarrow> int \<Rightarrow> string list \<Rightarrow> fs \<Rightarrow> shim_start \<times> fs" where
  "shim_main duration parse platform os now args fs =
     (if length args > 1 \<and> args ! 1 = ''--exec-init'' then (ExecInit (drop 2 args), fs)
      else case parse_shim_flags duration (drop 1 args) of
        Inl code \<Rightarrow> (FlagExit code, fs)
      | Inr fl \<Rightarrow>
          if bool_flag fl ''write-sa-layout'' then
            (case write_layout_mode os now fl fs of
               (Inl e, fs') \<Rightarrow> (Fatal (err_msg e), fs')
             | (Inr _, fs') \<Rightarrow> (LayoutWritten, fs'))
          else if sm_get fl ''node-internal-ip'' = '''' then (Fatal ''--node-internal-ip is required (the fronting Service's stable ClusterIP)'', fs)
          else
            (case load_config parse platform fl fs of
               (Inl e, fs') \<Rightarrow> (Fatal (err_msg e), fs')
             | (Inr (cfg, rest), fs') \<Rightarrow> (Serve cfg rest (MaskProcessTitle args), fs')))"

section \<open>Waiting for the API server\<close>

text \<open>
  What the \<^verbatim>\<open>select\<close> of the waiting loop receives, round by round. The result is \<open>None\<close> where the
  loop still waits at the end of the list.
\<close>

datatype wait_event = ContextDone | DeadlinePassed | TickerFired

fun waitForAPIServer :: "('w \<Rightarrow> bool \<times> 'w) \<Rightarrow> wait_event list \<Rightarrow> 'w \<Rightarrow> (go_error + unit) option \<times> 'w" where
  "waitForAPIServer reachable evs w =
     (case reachable w of
        (True, w') \<Rightarrow> (Some (Inr ()), w')
      | (False, w') \<Rightarrow>
          (case evs of
             [] \<Rightarrow> (None, w')
           | ContextDone # _ \<Rightarrow> (Some (Inl (errorf ''context canceled'')), w')
           | DeadlinePassed # _ \<Rightarrow> (Some (Inl (errorf ''context deadline exceeded'')), w')
           | TickerFired # evs' \<Rightarrow> waitForAPIServer reachable evs' w'))"

declare waitForAPIServer.simps [simp del]

text \<open>From the configuration to a server: each failure ends the program.\<close>

datatype ('c) serving = NotServing string | StillWaiting | Serving Shim "'c Server"

definition shim_serve ::
  "(fs, unit) call \<Rightarrow> (fs, unit) call \<Rightarrow> os_env \<Rightarrow> int \<Rightarrow> 'w inner_api \<Rightarrow> (string \<Rightarrow> string \<Rightarrow> ('w, 'c) call) \<Rightarrow> wait_event list
     \<Rightarrow> smap \<Rightarrow> ShimConfig \<Rightarrow> fs \<Rightarrow> 'w \<Rightarrow> 'c serving \<times> fs \<times> 'w" where
  "shim_serve client crdClient os now api LoadX509KeyPair evs fl cfg fs w =
     (case New client crdClient os now cfg fs of
        (Inl e, fs') \<Rightarrow> (NotServing (''building kubelet-shim: '' @ err_msg e), fs', w)
      | (Inr sh, fs') \<Rightarrow>
          (case waitForAPIServer (APIServerReachable api) evs w of
             (None, w') \<Rightarrow> (StillWaiting, fs', w')
           | (Some (Inl e), w') \<Rightarrow> (NotServing (''inner apiserver never became reachable: '' @ err_msg e), fs', w')
           | (Some (Inr _), w') \<Rightarrow>
               (case NewServer LoadX509KeyPair (sm_get fl ''tls-cert-file'') (sm_get fl ''tls-key-file'') w' of
                  (Inl e, w'') \<Rightarrow> (NotServing (''building kubelet-endpoint server: '' @ err_msg e), fs', w'')
                | (Inr srv, w'') \<Rightarrow> (Serving sh srv, fs', w''))))"

text \<open>The background goroutine: one pass, whose error is logged, then the heartbeat.\<close>

definition seed_in_background ::
  "'w inner_api \<Rightarrow> (string \<Rightarrow> ('w, string) call) \<Rightarrow> (string \<Rightarrow> json option) \<Rightarrow> heartbeat_event list \<Rightarrow> ('w, unit) shim_op" where
  "seed_in_background api readFile parse evs =
     and_then (best_effort (Shim_Seed api)) (\<lambda>_. RunHeartbeat api readFile parse evs)"

section \<open>Facts\<close>

lemma sm_get_set: "sm_get (gm_set k v m) k' = (if k' = k then v else sm_get m k')"
  by (simp add: sm_get_def gm.get_set)


definition served_values :: "Decoy \<Rightarrow> string \<Rightarrow> (string \<times> string) list" where
  "served_values kt ip =
       [(''apiserver'', ''https://127.0.0.1:'' @ Itoa innerAPIPort), (''ca-file'', shimSecretDirPath @ ''/ca.crt''),
        (''token-file'', shimSecretDirPath @ ''/token''), (''client-token-file'', shimSecretDirPath @ ''/shim.token''),
        (''seed'', seedDirPath @ ''/'' @ seedFileName), (''node-internal-ip'', ip), (''kubelet-port'', Itoa kubeletPort),
        (''listen'', '':'' @ Itoa kubeletPort), (''tls-cert-file'', shimSecretDirPath @ ''/tls.crt''),
        (''tls-key-file'', shimSecretDirPath @ ''/tls.key''), (''namespace'', servedNamespace kt), (''sa-dir'', saDir),
        (''kubernetes-version'', kubernetesVersion kt), (''kubernetes-service-port'', Itoa (servicePort kt)),
        (''exec-profile'', execProfile kt), (''exec-isolation'', if sp_execIsolation (kt_spec kt) then ''true'' else ''false'')]"

definition served_flags :: "Decoy \<Rightarrow> string \<Rightarrow> smap" where
  "served_flags kt ip = fold (\<lambda>(k, v). gm_set k v) (served_values kt ip) shim_defaults"

lemma served_flags_parsed:
  assumes "0 \<le> servicePort kt" and "servicePort kt < 2 ^ 31"
  shows "parse_shim_flags duration (c_args (shim_container kt ip)) = Inr (served_flags kt ip)"
proof -
  have "c_args (shim_container kt ip) = flag_args (served_values kt ip)"
    by (simp add: shim_container_def flag_args_def served_values_def)
  moreover have "list_all (accepts duration shim_kinds) (served_values kt ip)"
    using assms by (auto simp: served_values_def accepts_def shim_kinds_def shim_flags_def gm_get_def settable_def ParseBool_def)
  ultimately show ?thesis
    by (simp add: parse_shim_flags_def parse_flag_args served_flags_def)
qed

lemma to_int32_id: "0 \<le> n \<Longrightarrow> n < 2 ^ 31 \<Longrightarrow> to_int32 n = n"
  by (simp add: to_int32_def sint_sbintrunc' signed_take_bit_int_eq_self)

lemma sm_get_fold:
  "sm_get (fold (\<lambda>(k, v). gm_set k v) kvs m) k = (case map_of (rev kvs) k of Some v \<Rightarrow> v | None \<Rightarrow> sm_get m k)"
  by (induction kvs arbitrary: m) (auto simp: sm_get_set map_add_def split: option.splits)

lemma served_flags_get:
  "sm_get (served_flags kt ip) k = (case map_of (rev (served_values kt ip)) k of Some v \<Rightarrow> v | None \<Rightarrow> sm_get shim_defaults k)"
  by (simp add: served_flags_def sm_get_fold)

lemma default_values:
  "sm_get shim_defaults ''record-exec-sessions'' = ''true''" "sm_get shim_defaults ''write-sa-layout'' = ''false''"
  by (simp_all add: shim_defaults_def shim_flags_def sm_get_def gm_get_def)

lemma served_flags_values:
  "sm_get (served_flags kt ip) ''seed'' = seedDirPath @ ''/'' @ seedFileName"
  "sm_get (served_flags kt ip) ''node-internal-ip'' = ip"
  "sm_get (served_flags kt ip) ''kubelet-port'' = Itoa kubeletPort"
  "sm_get (served_flags kt ip) ''kubernetes-service-port'' = Itoa (servicePort kt)"
  "sm_get (served_flags kt ip) ''exec-profile'' = execProfile kt"
  "bool_flag (served_flags kt ip) ''exec-isolation'' = sp_execIsolation (kt_spec kt)"
  "sm_get (served_flags kt ip) ''sa-dir'' = saDir"
  "sm_get (served_flags kt ip) ''namespace'' = servedNamespace kt"
  "sm_get (served_flags kt ip) ''ca-file'' = shimSecretDirPath @ ''/ca.crt''"
  "bool_flag (served_flags kt ip) ''record-exec-sessions''"
  "\<not> bool_flag (served_flags kt ip) ''write-sa-layout''"
  "sm_get (served_flags kt ip) ''token-file'' = shimSecretDirPath @ ''/token''"
  "sm_get (served_flags kt ip) ''client-token-file'' = shimSecretDirPath @ ''/shim.token''"
  "sm_get (served_flags kt ip) ''apiserver'' = ''https://127.0.0.1:'' @ Itoa innerAPIPort"
  "sm_get (served_flags kt ip) ''kubernetes-version'' = kubernetesVersion kt"
  by (simp_all add: bool_flag_def ParseBool_def served_flags_get served_values_def default_values)

text \<open>The configuration the rendered arguments stand for.\<close>

definition intended_config :: "Decoy \<Rightarrow> string \<Rightarrow> Seed \<Rightarrow> string \<Rightarrow> ShimConfig" where
  "intended_config kt ip s token =
     \<lparr>cfg_seed = s, cfg_seedPath = seedDirPath @ ''/'' @ seedFileName, cfg_nodeInternalIP = ip,
      cfg_kubeletPort = kubeletPort, cfg_kubernetesServicePort = servicePort kt, cfg_execProfile = execProfile kt,
      cfg_execIsolation = sp_execIsolation (kt_spec kt), cfg_serviceAccountToken = token, cfg_serviceAccountDir = saDir,
      cfg_namespace = servedNamespace kt, cfg_caBundlePath = shimSecretDirPath @ ''/ca.crt'', cfg_recordExecSessions = True\<rparr>"

lemma served_config:
  assumes "0 \<le> servicePort kt" and "servicePort kt < 2 ^ 31"
  shows "shim_config (served_flags kt ip) s token = intended_config kt ip s token"
  using assms by (simp add: shim_config_def intended_config_def served_flags_values int_flag_def to_int32_id)

text \<open>Reading leaves the file system as it is.\<close>

lemma read_file_found: "ReadFile fs (path_of p) = Some c \<Longrightarrow> read_file p fs = (Inr c, fs)"
  by (simp add: read_file_def)

lemma setup_flags_parsed:
  "parse_shim_flags duration (c_args (sa_setup_container kt)) =
     Inr (fold (\<lambda>(k, v). gm_set k v)
       [(''write-sa-layout'', ''true''), (''token-file'', ''/etc/kubernetes/pki/token''), (''ca-file'', ''/etc/kubernetes/pki/ca.crt''),
        (''namespace'', servedNamespace kt), (''sa-dir'', saDir)] shim_defaults)"
proof -
  let ?kvs = "[(''token-file'', ''/etc/kubernetes/pki/token''), (''ca-file'', ''/etc/kubernetes/pki/ca.crt''),
      (''namespace'', servedNamespace kt), (''sa-dir'', saDir)]"
  have args: "c_args (sa_setup_container kt) = ''--write-sa-layout'' # flag_args ?kvs"
    by (simp add: sa_setup_container_def flag_args_def)
  have first: "parse_shim_flags duration (''--write-sa-layout'' # as) =
      parse_flags duration shim_kinds as (gm_set ''write-sa-layout'' ''true'' shim_defaults)" for as
    by (simp add: parse_shim_flags_def flag_split_def flag_name_def Cut_def shim_kinds_def shim_flags_def gm_get_def)
  have "list_all (accepts duration shim_kinds) ?kvs"
    by (auto simp: accepts_def shim_kinds_def shim_flags_def gm_get_def settable_def)
  then show ?thesis unfolding args first by (subst parse_flag_args) simp_all
qed

lemma New_keeps_layout:
  assumes "\<And>f. snd (client f) = f" and "\<And>f. snd (crdClient f) = f"
    and "Lstat fs (path_of (cfg_serviceAccountDir cfg) @ [data_link]) \<noteq> None"
    and "New client crdClient os now cfg fs = (r, fs')"
  shows "fs' = fs"
proof -
  obtain a b where "client fs = (a, fs)" "crdClient fs = (b, fs)"
    using assms(1,2) by (metis prod.collapse)
  moreover have "writeServiceAccountFiles os now cfg fs = (Inr (), fs)"
    using assms(3) by (simp add: writeServiceAccountFiles_def Let_def)
  ultimately show ?thesis
    using assms(4) by (cases a; cases b) (auto simp: New_def split: if_splits)
qed

section \<open>Properties\<close>

text \<open>
  C7 The operator and the shim agree on the command line: the arguments the operator renders for the
  kubelet-shim container make the program serve with exactly the configuration the Decoy asks for,
  and the two credentials are not confused. The token in \<^verbatim>\<open>token\<close> is the one handed to exec
  sessions, the one in \<^verbatim>\<open>shim.token\<close> is what the shim itself authenticates with.
\<close>

theorem rendered_args_configure_shim:
  assumes "ip \<noteq> ''''" and "0 \<le> servicePort kt" and "servicePort kt < 2 ^ 31"
    and "Load read_file parse (seedDirPath @ ''/'' @ seedFileName) fs = (Inr s, fs)"
    and "ReadFile fs (path_of (shimSecretDirPath @ ''/token'')) = Some token"
    and "ReadFile fs (path_of (shimSecretDirPath @ ''/shim.token'')) = Some clientToken"
  shows "shim_main duration parse platform os now (shimBinaryPath # c_args (shim_container kt ip)) fs =
    (Serve (intended_config kt ip s (TrimSpace token))
       \<lparr>re_host = ''https://127.0.0.1:'' @ Itoa innerAPIPort, re_bearerToken = TrimSpace clientToken,
        re_userAgent = ''kubelet/'' @ kubernetesVersion kt @ '' ('' @ platform @ '') kubernetes/$Format'',
        re_caFile = shimSecretDirPath @ ''/ca.crt''\<rparr>
       (MaskProcessTitle (shimBinaryPath # c_args (shim_container kt ip))), fs)"
proof -
  have "c_args (shim_container kt ip) ! 0 \<noteq> ''--exec-init''"
    by (simp add: shim_container_def)
  moreover have "load_config parse platform (served_flags kt ip) fs =
      (Inr (intended_config kt ip s (TrimSpace token),
        \<lparr>re_host = ''https://127.0.0.1:'' @ Itoa innerAPIPort, re_bearerToken = TrimSpace clientToken,
         re_userAgent = ''kubelet/'' @ kubernetesVersion kt @ '' ('' @ platform @ '') kubernetes/$Format'',
         re_caFile = shimSecretDirPath @ ''/ca.crt''\<rparr>), fs)"
    unfolding load_config_def served_flags_values
    using assms(4) read_file_found [OF assms(5)] read_file_found [OF assms(6)]
    by (simp add: and_then_run Let_def served_config [OF assms(2,3)])
  ultimately show ?thesis
    using assms(1) by (simp add: shim_main_def served_flags_parsed [OF assms(2,3)] served_flags_values)
qed


definition probe :: "('w \<Rightarrow> bool \<times> 'w) \<Rightarrow> nat \<Rightarrow> 'w \<Rightarrow> bool" where
  "probe reachable i w = fst (reachable (((\<lambda>w. snd (reachable w)) ^^ i) w))"

lemma probe_Suc: "probe reachable (Suc i) w = probe reachable i (snd (reachable w))"
  by (simp add: probe_def funpow_Suc_right del: funpow.simps)

lemma wait_outcome:
  "if \<exists>i \<le> length (takeWhile (\<lambda>e. e = TickerFired) evs). probe reachable i w
   then fst (waitForAPIServer reachable evs w) = Some (Inr ())
   else if set evs \<subseteq> {TickerFired} then fst (waitForAPIServer reachable evs w) = None
   else \<exists>e. fst (waitForAPIServer reachable evs w) = Some (Inl e)"
proof (induction evs arbitrary: w)
  case Nil
  show ?case by (auto simp: waitForAPIServer.simps [of reachable "[]"] probe_def split: prod.splits bool.splits)
next
  case (Cons ev evs)
  obtain b w' where r: "reachable w = (b, w')" by fastforce
  then have p0: "probe reachable 0 w = b" by (simp add: probe_def)
  show ?case
  proof (cases "b \<or> ev \<noteq> TickerFired")
    case True
    with r p0 show ?thesis
      by (cases ev) (auto simp: waitForAPIServer.simps [of reachable "_ # evs"] split: bool.splits intro: exI [of _ 0])
  next
    case False
    then have "waitForAPIServer reachable (ev # evs) w = waitForAPIServer reachable evs w'"
      using r by (simp add: waitForAPIServer.simps [of reachable "_ # evs"])
    moreover have "(\<exists>i \<le> Suc n. probe reachable i w) = (\<exists>i \<le> n. probe reachable i w')" for n
      using False p0 r probe_Suc [of reachable _ w]
      by (metis Suc_le_mono not0_implies_Suc snd_conv zero_le)
    ultimately show ?thesis using Cons [of w'] False by simp
  qed
qed

text \<open>
  C28 The wait for the API server ends: once the context is cancelled or the deadline has passed the loop
  returns, having asked once more than the ticker had fired; it reports success exactly if one of
  those probes found the server.
\<close>

theorem waitForAPIServer_ends:
  assumes "ContextDone \<in> set evs \<or> DeadlinePassed \<in> set evs"
  shows "\<exists>r. fst (waitForAPIServer reachable evs w) = Some r
    \<and> (r = Inr () \<longleftrightarrow> (\<exists>i \<le> length (takeWhile (\<lambda>e. e = TickerFired) evs). probe reachable i w))"
proof -
  have "\<not> set evs \<subseteq> {TickerFired}" using assms by auto
  then show ?thesis using wait_outcome [of evs reachable w] by (auto split: if_splits)
qed

text \<open>A server that answers the third probe.\<close>

theorem waitForAPIServer_ends_witness:
  "fst (waitForAPIServer (\<lambda>n. (n \<ge> 2, n + 1)) [TickerFired, TickerFired, TickerFired, DeadlinePassed] (0 :: nat)) = Some (Inr ())"
proof -
  have "probe (\<lambda>n :: nat. (n \<ge> 2, n + 1)) 2 0" by (simp add: probe_def numeral_2_eq_2)
  then show ?thesis
    using waitForAPIServer_ends [of "[TickerFired, TickerFired, TickerFired, DeadlinePassed]" "\<lambda>n. (n \<ge> 2, n + 1)" "0 :: nat"]
    by (auto simp: numeral_eq_Suc)
qed

text \<open>The files of a decoy pod, as the two containers see them.\<close>

definition ex_pod_fs :: fs where
  "ex_pod_fs =
     (let sa = path_of saDir in
      map (\<lambda>i. (take i sa, Dir 493)) [1..<length sa + 1]
      @ [([''etc''], Dir 493), ([''etc'', ''kubernetes''], Dir 493), ([''etc'', ''kubernetes'', ''pki''], Dir 493),
         ([''etc'', ''kubernetes'', ''pki'', ''token''], File ''decoy-token'' 420), ([''etc'', ''kubernetes'', ''pki'', ''ca.crt''], File ''CA'' 420),
         ([''etc'', ''ssl''], Dir 493), ([''etc'', ''ssl'', ''app''], Dir 493), ([''etc'', ''ssl'', ''app'', ''token''], File ''decoy-token'' 420),
         ([''etc'', ''ssl'', ''app'', ''shim.token''], File ''shim-token'' 420), ([''etc'', ''config''], Dir 493),
         ([''etc'', ''config'', ''seed.json''], File ''{}'' 420)])"

definition ex_seed :: Seed where
  "ex_seed = \<lparr>sd_fakeNodes = [], sd_fakePods = [], sd_fakeSecrets = [], sd_controllers = [], sd_crds = [], sd_services = [], sd_configMaps = []\<rparr>"

definition ex_parse :: "string \<Rightarrow> json option" where
  "ex_parse s = (if s = ''{}'' then Some (JObj []) else None)"

lemma ex_pod_files:
  "ReadFile ex_pod_fs (path_of (shimSecretDirPath @ ''/token'')) = Some ''decoy-token''"
  "ReadFile ex_pod_fs (path_of (shimSecretDirPath @ ''/shim.token'')) = Some ''shim-token''"
  "ReadFile ex_pod_fs (path_of (seedDirPath @ ''/'' @ seedFileName)) = Some ''{}''"
  "ReadFile ex_pod_fs (path_of ''/etc/kubernetes/pki/token'') = Some ''decoy-token''"
  "ReadFile ex_pod_fs (path_of ''/etc/kubernetes/pki/ca.crt'') = Some ''CA''"
  by code_simp+

lemma ex_seed_loads: "Load read_file ex_parse (seedDirPath @ ''/'' @ seedFileName) ex_pod_fs = (Inr ex_seed, ex_pod_fs)"
  using read_file_found [OF ex_pod_files(3)]
  by (simp add: Load_def and_then_run ex_parse_def dec_Seed_def ex_seed_def field_def member_value_def)

definition ok_os :: os_env where
  "ok_os = \<lparr>os_umask = 18, os_fault = (\<lambda>_ _. None)\<rparr>"

theorem rendered_args_configure_shim_witness:
  "fst (shim_main (\<lambda>_. True) ex_parse ''linux/amd64'' ok_os unix_epoch (shimBinaryPath # c_args (shim_container ex_decoy ''10.96.0.7'')) ex_pod_fs) =
     Serve (intended_config ex_decoy ''10.96.0.7'' ex_seed (TrimSpace ''decoy-token''))
       \<lparr>re_host = ''https://127.0.0.1:'' @ Itoa innerAPIPort, re_bearerToken = TrimSpace ''shim-token'',
        re_userAgent = ''kubelet/'' @ kubernetesVersion ex_decoy @ '' (linux/amd64) kubernetes/$Format'',
        re_caFile = shimSecretDirPath @ ''/ca.crt''\<rparr>
       (MaskProcessTitle (shimBinaryPath # c_args (shim_container ex_decoy ''10.96.0.7'')))"
proof -
  have "0 \<le> servicePort ex_decoy \<and> servicePort ex_decoy < 2 ^ 31" by (simp add: servicePort_def ex_decoy_def)
  then show ?thesis
    using rendered_args_configure_shim [OF _ _ _ ex_seed_loads ex_pod_files(1,2), of "''10.96.0.7''" ex_decoy] by simp
qed

lemma ex_pod_ready: "layout_ready ex_pod_fs (path_of saDir) (dataDir_of unix_epoch) [''token'', ''namespace'', ''ca.crt'']"
proof -
  have sa: "path_of saDir = [''var'', ''run'', ''secrets'', ''kubernetes.io'', ''serviceaccount'']" by code_simp
  have fs: "ex_pod_fs = [([''var''], Dir 493), ([''var'', ''run''], Dir 493), ([''var'', ''run'', ''secrets''], Dir 493),
      ([''var'', ''run'', ''secrets'', ''kubernetes.io''], Dir 493),
      ([''var'', ''run'', ''secrets'', ''kubernetes.io'', ''serviceaccount''], Dir 493)] @ drop 5 ex_pod_fs"
    by code_simp
  have rest: "list_all (\<lambda>k. \<not> prefix (path_of saDir @ [dataDir_of unix_epoch]) k) (map fst ex_pod_fs)" by code_simp
  have link: "gm_get ex_pod_fs (path_of saDir @ [data_link]) = None" by code_simp
  have "real_dir ex_pod_fs (path_of saDir)"
    unfolding real_dir_def sa is_dir_def node_at_def by (subst fs) (auto simp: prefix_Cons gm_get_def)
  moreover have "dataDir_of unix_epoch \<notin> {''token'', ''namespace'', ''ca.crt'', data_link, data_tmp}" by (simp add: ex_dataDir)
  ultimately show ?thesis
    using rest link by (auto simp: layout_ready_def list_all_iff)
qed

definition ex_setup_run :: "shim_start \<times> fs" where
  "ex_setup_run = shim_main (\<lambda>_. True) ex_parse ''linux/amd64'' ok_os unix_epoch (shimBinaryPath # c_args (sa_setup_container ex_decoy)) ex_pod_fs"

lemma ex_setup_runs: "fst ex_setup_run = LayoutWritten"
  by code_simp


end
