(* ===== verification/Spec2Isabelle.thy ===== *)
theory Spec2Isabelle
  imports Deep_Copy Controller_Props Shim_Objects Shim_Props Exec_Props Manager Kubelet_Stats Shim_Main
begin

text \<open>
  \<^bold>\<open>Verification of Honeypod.\<close> Honeypod runs decoy Kubernetes clusters: an operator renders every Decoy
  resource into a pod with a real control plane, \<^verbatim>\<open>kubelet-shim\<close> fills that inner cluster with made-up
  nodes, pods and secrets and plays their kubelet, a webhook leads selected real pods into the decoy,
  and what an attacker does there is counted, logged and announced. This development models the Go code
  under \<^verbatim>\<open>src/\<close> as HOL functions and proves what makes it safe and correct.

  \<^bold>\<open>The program and how its parts interact.\<close>

  \<^item> \<^verbatim>\<open>cmd/manager\<close> starts the operator: the reconcilers of \<^verbatim>\<open>internal/controller\<close>, the join webhook's
    server with its certificate, and the receiver \<^verbatim>\<open>internal/auditwebhook\<close>, whose callback feeds
    \<^verbatim>\<open>internal/metrics\<close>, \<^verbatim>\<open>internal/activity\<close> and \<^verbatim>\<open>internal/notifier\<close>.
  \<^item> \<^verbatim>\<open>internal/controller\<close> renders a Decoy (\<^verbatim>\<open>render.go\<close>), applies the objects, issues identities
    (\<^verbatim>\<open>internal/certs\<close>), copies credentials into the namespaces of joined pods and records the status; its
    webhook (\<^verbatim>\<open>join_webhook.go\<close>) rewrites pods that carry the join annotation.
  \<^item> \<^verbatim>\<open>cmd/kubelet-shim\<close> runs inside the decoy's pod: it writes the ServiceAccount files, loads
    \<^verbatim>\<open>seed.json\<close> (\<^verbatim>\<open>internal/seed\<close>), seeds the inner API server in passes driven by a heartbeat and serves
    the kubelet endpoint: exec, attach, logs, stats (\<^verbatim>\<open>internal/kubeletshim\<close>).

  The two programs meet in the ConfigMap and Secret the operator renders: the seed file, the flags of the
  shim's container and the tokens. The theorems that join both sides are
  \<open>Shim_Main.rendered_args_configure_shim\<close>, \<open>Shim_Main.sa_path_serves_decoy_token\<close>,
  \<open>Manager.own_traffic_ignored\<close>, \<open>Manager.audit_accounting\<close> and, at the end of this theory,
  \<open>declared_secrets_reach_decoy\<close>.

  \<^bold>\<open>Foundations.\<close>

  \<^item> \<^verbatim>\<open>Prelude\<close>: Go errors, calls on a world (\<open>'w \<Rightarrow> (go_error + 'a) \<times> 'w\<close>) with their composition
    \<open>and_then\<close>, \<open>try_call\<close>, \<open>on_error\<close>, \<open>each\<close>, and Go maps with the contract \<open>go_map\<close>.
  \<^item> \<^verbatim>\<open>Go_Strings\<close>, \<^verbatim>\<open>Go_Time\<close>, \<^verbatim>\<open>Go_Flags\<close>, \<^verbatim>\<open>Go_Float\<close>, \<^verbatim>\<open>File_System\<close>, \<^verbatim>\<open>Json\<close>, \<^verbatim>\<open>Sha256\<close>: what the sources
    use of Go's standard library. Strings are byte strings; times are nanoseconds since Go's zero time;
    \<^verbatim>\<open>float64\<close> values are the rationals they denote, rounded after every operation (contract
    \<open>monotone_rounding\<close>); the file system has directories, files and symbolic links, and any call may fail.
    JSON is modelled on values; its text layer is a parameter that gives back what it wrote.
  \<^item> \<^verbatim>\<open>Kube_Types\<close> and \<^verbatim>\<open>Object_Store\<close>: the Kubernetes objects with the fields the code touches, clients as
    records of calls, and the laws of a store (\<open>object_store\<close>: a read returns what is stored, a failed
    write has no effect).

  \<^bold>\<open>The operator.\<close>

  \<^item> \<^verbatim>\<open>Api_Types\<close> (\<^verbatim>\<open>api/v1alpha1\<close>), \<^verbatim>\<open>Seed\<close> (\<^verbatim>\<open>internal/seed\<close>): the resource and seed types, validation, the
    JSON encoding of the seed and that decoding inverts it.
  \<^item> \<^verbatim>\<open>Go_Memory\<close>, \<^verbatim>\<open>Deep_Copy\<close> (\<^verbatim>\<open>zz_generated.deepcopy.go\<close>, \<^verbatim>\<open>groupversion_info.go\<close>): everywhere else values
    are immutable; here pointers, slices and maps are references into a memory, and the generated copies are
    programs on it. The contract \<open>deep_copier\<close> says that a copy reads as its original and rests on fresh
    memory only; composition lemmas follow the structure of the types, and \<open>deep_copies_independent\<close> covers
    every kind that \<open>SchemeBuilder\<close> registers.
  \<^item> \<^verbatim>\<open>Render_Seed\<close>, \<^verbatim>\<open>Render_Pod\<close> (\<^verbatim>\<open>render.go\<close>): seed, configuration files, Deployment, Service, network
    policy, mirrored Secret. Lemmas: the file reads back as the seed, mounts and selectors resolve, which
    Secret keys the attacker's container can read, which privileges containers have.
  \<^item> \<^verbatim>\<open>Apply_Resource\<close>, \<^verbatim>\<open>Decoy_Controller\<close> (\<^verbatim>\<open>decoy_controller.go\<close>): one reconcile as the sequence of its
    calls, each of which may fail, and the Pod watch that wakes it. \<^verbatim>\<open>Controller_Facts\<close> says which calls
    leave which part of the world alone; \<^verbatim>\<open>Mirror_Safety\<close> shows that mirrored credentials never outlive the
    finalizer; \<^verbatim>\<open>Controller_Props\<close> shows agreement with the webhook, that joins and leaves wake the Decoy,
    the stability of identities, rollouts and attack counters.
  \<^item> \<^verbatim>\<open>Join_Webhook\<close> (\<^verbatim>\<open>join_webhook.go\<close>), \<^verbatim>\<open>Certs\<close> (\<^verbatim>\<open>internal/certs\<close>, \<^verbatim>\<open>webhookcert.go\<close>,
    \<^verbatim>\<open>webhookca_controller.go\<close>).
  \<^item> \<^verbatim>\<open>Audit_Webhook\<close>, \<^verbatim>\<open>Notifier\<close>, \<^verbatim>\<open>Metrics\<close>, \<^verbatim>\<open>Activity_Tracker\<close> (the packages of these names): decoding and
    filtering of events, dispatch in which one failing sink never stops another, metric samples, and the
    tracker as an inductive step relation in which recording interleaves with a flush; the ledger
    (\<open>request_ledger\<close>) balances in every reachable state.
  \<^item> \<^verbatim>\<open>Manager\<close> (\<^verbatim>\<open>cmd/manager\<close>): the audit callback over all of these and the start-up sequence.

  \<^bold>\<open>The shim.\<close>

  \<^item> \<^verbatim>\<open>Shim_Helpers\<close>, \<^verbatim>\<open>Shim_Client\<close>, \<^verbatim>\<open>Kubelet_Shim\<close> (\<^verbatim>\<open>helpers.go\<close>, \<^verbatim>\<open>kubeletshim.go\<close>, \<^verbatim>\<open>controllers.go\<close>): the
    fabricated identifiers, the shim's state record and one operation per method. \<^verbatim>\<open>Shim_Calm\<close>,
    \<^verbatim>\<open>Shim_Tracking\<close> and \<^verbatim>\<open>Shim_Sync\<close> carry views of the state through a pass and state the abstract
    specification \<open>sync_step\<close>; \<^verbatim>\<open>Shim_Props\<close> and \<^verbatim>\<open>Shim_Objects\<close> hold the refinement, what a pass spares,
    that the heartbeat forgets nothing, and what happens to single objects.
  \<^item> \<^verbatim>\<open>Session_Log\<close>, \<^verbatim>\<open>Shim_Exec\<close>, \<^verbatim>\<open>Exec_Init\<close>, \<^verbatim>\<open>Exec_Props\<close> (\<^verbatim>\<open>sessionlog.go\<close>, \<^verbatim>\<open>exec.go\<close>,
    \<^verbatim>\<open>exec_isolation_linux.go\<close>, \<^verbatim>\<open>proctitle_linux.go\<close>): the exec, attach and logs handlers down to the command
    that is built, the isolated child, and the transcript (contract \<open>recorder\<close>). The stand-ins in builds for
    other operating systems are the definitions that end in \<open>_other\<close>.
  \<^item> \<^verbatim>\<open>Service_Account\<close> (\<^verbatim>\<open>New\<close> and the ServiceAccount layout), \<^verbatim>\<open>Kubelet_Stats\<close> (\<^verbatim>\<open>stats.go\<close>,
    \<^verbatim>\<open>kubeletserver.go\<close>), \<^verbatim>\<open>Shim_Main\<close> (\<^verbatim>\<open>cmd/kubelet-shim\<close>).

  \<^bold>\<open>Parameters and their contracts.\<close> Code outside \<^verbatim>\<open>src/\<close> is an argument of the definitions. What a
  theorem needs of it is a named hypothesis: \<open>object_store\<close>, \<open>status_store\<close> and \<open>secret_api\<close> (API
  servers), \<open>retry_contract\<close> (\<^verbatim>\<open>retry.RetryOnConflict\<close>), \<open>enqueue_contract\<close> (controller-runtime's map
  handler), \<open>crypto_contract\<close> (signing and parsing of certificates), \<open>same_network\<close> (two systems that
  differ only in what a command does), \<open>layout_ready\<close> (the mounted directory), \<open>third_party_ok\<close> (the deep
  copies of the Kubernetes types). Every theorem with such a
  hypothesis is applied to a concrete instance, an API server in memory for instance.

  \<^bold>\<open>Bounds.\<close> Recursion is structural or has a termination proof. The loops that the
  outside world drives (heartbeat, waiting for the API server, collecting streams, flush) run over the list
  of the events they receive. Following symbolic links stops after 40, as in Linux. Counters are 64-bit
  words where they can wrap; numbers of containers are bounded by \<open>2 ^ 34\<close> only where the sum of their
  memory must not overflow.

  \<^bold>\<open>Not modelled.\<close> Listening sockets, signals and graceful shutdown; the wording of log lines beyond the
  audit log and session transcripts; what the libraries do to register metrics and types
  (\<open>metrics_init\<close> and \<open>SchemeBuilder\<close> list them). Quantities given to \<^verbatim>\<open>resource.MustParse\<close> are kept as text.
  Goroutines appear as interleavings where state is shared (activity tracker) and as sequential calls
  elsewhere.
\<close>

section \<open>From the Decoy to its inner cluster\<close>

text \<open>
  What a seed pass would have to clean up of a rendered seed is keyed unambiguously: the namespaces the
  operator puts in have no bar, nor have those of the Decoy and of the joined pods.
\<close>

definition plain_namespaces :: "Decoy \<Rightarrow> Pod list \<Rightarrow> bool" where
  "plain_namespaces kt joined \<longleftrightarrow>
     list_all (\<lambda>ns. CHR ''|'' \<notin> set ns)
       (map fp_namespace (sp_fakePods (kt_spec kt)) @ map fs_namespace (sp_fakeSecrets (kt_spec kt)) @ map pod_ns joined)"

lemma system_objects_plain:
  "p \<in> set (fst (defaultKubeSystemPods kt nodes)) \<Longrightarrow> fp_namespace (spd_fakePod p) = ''kube-system''"
  "c \<in> set (snd (defaultKubeSystemPods kt nodes)) \<Longrightarrow> plain_ref (snd (controller_mark c))"
  "v \<in> set (fst (renderStandardObjects kt)) \<Longrightarrow> plain_ref (snd (service_mark v))"
  "m \<in> set (snd (renderStandardObjects kt)) \<Longrightarrow> plain_ref (snd (configMap_mark m))"
  by (auto simp: defaultKubeSystemPods_def renderStandardObjects_def Let_def static_components_def static_pod_def
      proxy_pod_def system_fake_pod_def standard_cm_def controller_mark_def service_mark_def configMap_mark_def
      controller_kinds_def split: if_splits)

lemma rendered_refs_plain:
  assumes "plain_namespaces kt joined"
  shows "\<forall>d \<in> set (seed_refs (renderSeed kt joined)). plain_ref d"
proof -
  have ns: "CHR ''|'' \<notin> set (fp_namespace (spd_fakePod p))" if "p \<in> set (sd_fakePods (renderSeed kt joined))" for p
    using that assms system_objects_plain(1) [of p kt "seed_nodes kt"]
    by (auto simp: renderSeed_sel plain_seed_pod_def mirrorJoinedPod_def plain_namespaces_def list_all_iff)
  have "plain_ref (snd (crd_mark c))" for c by (simp add: crd_mark_def)
  moreover have "\<forall>x \<in> set (sp_fakeSecrets (kt_spec kt)). CHR ''|'' \<notin> set (fs_namespace x)"
    using assms by (simp add: plain_namespaces_def list_all_iff)
  ultimately show ?thesis
    using system_objects_plain(2-4) ns by (auto simp: seed_refs_def renderSeed_sel(1,3-7))
qed

lemma wanted_rendered:
  "wanted_secrets (renderSeed kt joined) = map_of (rev (map (\<lambda>s. ((fs_namespace s, fs_name s), fs_data s)) (sp_fakeSecrets (kt_spec kt))))"
proof -
  have "fold (\<lambda>x m. m((fs_namespace x, fs_name x) \<mapsto> fs_data x)) ss m =
      m ++ map_of (rev (map (\<lambda>s. ((fs_namespace s, fs_name s), fs_data s)) ss))" for ss :: "FakeSecret list" and m
    by (induction ss arbitrary: m) (simp_all add: fun_eq_iff map_add_def split: option.split)
  then show ?thesis unfolding wanted_secrets_def renderSeed_sel by (simp only: empty_map_add)
qed


text \<open>A Decoy with one secret and no system objects, rendered for the shim and API server of \<open>Shim_Props\<close>.\<close>

definition secret_decoy :: Decoy where
  "secret_decoy = ex_decoy\<lparr>kt_spec := (kt_spec ex_decoy)\<lparr>sp_fakeNodes := [], sp_fakePods := [],
     sp_fakeSecrets := sd_fakeSecrets Shim_Props.ex_seed, sp_seedSystemComponents := Some False\<rparr>\<rparr>"

definition file_shim :: Shim where
  "file_shim = ex_shim\<lparr>sh_cfg := ex_cfg\<lparr>cfg_seed := empty_seed, cfg_seedPath := ''/etc/seed.json''\<rparr>\<rparr>"

lemma secret_decoy_seed: "renderSeed secret_decoy [] = Shim_Props.ex_seed"
  by (simp add: secret_decoy_def renderSeed_def seed_nodes_def defaultKubeSystemPods_def renderStandardObjects_def
      renderCRDs_def seedSystemComponents_def ex_decoy_def ex_defs)

lemma file_shim_pass:
  "\<exists>sh'. Shim_Seed mem_api (file_shim\<lparr>sh_cfg := (sh_cfg file_shim)\<lparr>cfg_seed := Shim_Props.ex_seed\<rparr>\<rparr>, ex_memw) = (Inr (), (sh', ex_memw'))"
  by (simp add: file_shim_def run_defs Let_def ex_defs ex_memw'_def gm_get_def gm_set_def mark_ref_def not_found_def IsNotFound_def)


end
